(* ===== verification/Prelude.thy ===== *)
theory Prelude
  imports Main "HOL-Library.Word"
begin

text \<open>
  Shared vocabulary of the development: the error-and-state combinators every
  operation of the model is written with, the relational reading of "this operation
  only ever moves the state along an order" (with the locale that proves the
  combinators respect it once and for all), and list lemmas about the two access
  patterns of the repositories, "first row with this key" and "replace the first row
  with this key or append".
\<close>

named_theorems exec_simps \<open>unfolding rules that run a program of the model on a state\<close>
named_theorems go_lib \<open>definitions of Go standard library functions the model uses\<close>

section \<open>Programs with state and errors\<close>

text \<open>
  A Go function that touches shared state and returns \<open>(T, error)\<close> is a function from
  the state to a sum (\<open>Inl\<close> the error) and the state it leaves behind: a Go function
  that fails has still performed the effects before the failing call.
\<close>

type_synonym ('e, 's, 'a) prog = "'s \<Rightarrow> ('e + 'a) \<times> 's"

definition retE :: "'a \<Rightarrow> ('e, 's, 'a) prog" where
  "retE x = (\<lambda>s. (Inr x, s))"

definition failE :: "'e \<Rightarrow> ('e, 's, 'a) prog" where
  "failE e = (\<lambda>s. (Inl e, s))"

text \<open>\<open>x, err := m; if err != nil { return err }; k x\<close>\<close>

definition bindE :: "('e, 's, 'a) prog \<Rightarrow> ('a \<Rightarrow> ('e, 's, 'b) prog) \<Rightarrow> ('e, 's, 'b) prog" where
  "bindE m k = (\<lambda>s. case m s of (Inl e, s') \<Rightarrow> (Inl e, s') | (Inr x, s') \<Rightarrow> k x s')"

text \<open>\<open>r := m; k r\<close>, where the code looks at the error itself (or drops it).\<close>

definition tryE :: "('e, 's, 'a) prog \<Rightarrow> ('e + 'a \<Rightarrow> ('f, 's, 'b) prog) \<Rightarrow> ('f, 's, 'b) prog" where
  "tryE m k = (\<lambda>s. case m s of (r, s') \<Rightarrow> k r s')"

definition getE :: "('s \<Rightarrow> 'a) \<Rightarrow> ('e, 's, 'a) prog" where
  "getE f = (\<lambda>s. (Inr (f s), s))"

definition modE :: "('s \<Rightarrow> 's) \<Rightarrow> ('e, 's, unit) prog" where
  "modE f = (\<lambda>s. (Inr (), f s))"

text \<open>\<open>if c { return e }; k\<close>\<close>

definition guardE :: "bool \<Rightarrow> 'e \<Rightarrow> ('e, 's, 'a) prog \<Rightarrow> ('e, 's, 'a) prog" where
  "guardE c e k = (if c then failE e else k)"

text \<open>\<open>for _, x := range xs { m x }\<close>, left at the first error.\<close>

fun eachE :: "('a \<Rightarrow> ('e, 's, unit) prog) \<Rightarrow> 'a list \<Rightarrow> ('e, 's, unit) prog" where
  "eachE m [] = retE ()"
| "eachE m (x # xs) = bindE (m x) (\<lambda>_. eachE m xs)"

text \<open>The same loop collecting a result per element (\<open>out = append(out, ...)\<close>).\<close>

fun mapE :: "('a \<Rightarrow> ('e, 's, 'b) prog) \<Rightarrow> 'a list \<Rightarrow> ('e, 's, 'b list) prog" where
  "mapE m [] = retE []"
| "mapE m (x # xs) = bindE (m x) (\<lambda>y. bindE (mapE m xs) (\<lambda>ys. retE (y # ys)))"

lemma retE_run [simp, exec_simps]: "retE x s = (Inr x, s)" by (simp add: retE_def)
lemma failE_run [simp, exec_simps]: "failE e s = (Inl e, s)" by (simp add: failE_def)
lemma getE_run [simp, exec_simps]: "getE f s = (Inr (f s), s)" by (simp add: getE_def)
lemma modE_run [simp, exec_simps]: "modE f s = (Inr (), f s)" by (simp add: modE_def)
lemma tryE_run [exec_simps]: "tryE m k s = k (fst (m s)) (snd (m s))"
  by (simp add: tryE_def split: prod.splits)
lemma guardE_run [exec_simps]: "guardE c e k s = (if c then (Inl e, s) else k s)"
  by (simp add: guardE_def)

lemma bindE_Inl [simp, exec_simps]: "m s = (Inl e, s') \<Longrightarrow> bindE m k s = (Inl e, s')"
  by (simp add: bindE_def)
lemma bindE_Inr [simp, exec_simps]: "m s = (Inr x, s') \<Longrightarrow> bindE m k s = k x s'"
  by (simp add: bindE_def)
lemma bindE_ret [simp, exec_simps]: "bindE (retE x) k = k x"
  by (simp add: bindE_def fun_eq_iff)
lemma bindE_fail [simp, exec_simps]: "bindE (failE e) k = failE e"
  by (simp add: bindE_def fun_eq_iff)
lemma bindE_get [simp, exec_simps]: "bindE (getE f) k s = k (f s) s"
  by simp
lemma bindE_mod [simp, exec_simps]: "bindE (modE f) k s = k () (f s)"
  by simp
lemma bindE_if [exec_simps]: "bindE (if c then m else n) k = (if c then bindE m k else bindE n k)"
  by simp
lemma bindE_assoc: "bindE (bindE m k) l = bindE m (\<lambda>x. bindE (k x) l)"
  by (auto simp: bindE_def fun_eq_iff split: prod.splits sum.splits)
lemma tryE_ret [simp, exec_simps]: "tryE (retE x) k = k (Inr x)"
  by (simp add: tryE_def fun_eq_iff)

lemma bindE_InrE:
  assumes "bindE m k s = (Inr y, t)"
  obtains x u where "m s = (Inr x, u)" and "k x u = (Inr y, t)"
  using assms by (auto simp: bindE_def split: prod.splits sum.splits)

lemma bindE_InlE:
  assumes "bindE m k s = (Inl e, t)"
  obtains "m s = (Inl e, t)" | x u where "m s = (Inr x, u)" and "k x u = (Inl e, t)"
  using assms by (auto simp: bindE_def split: prod.splits sum.splits)

lemma guardE_InrE:
  assumes "guardE c e k s = (Inr y, t)"
  obtains "\<not> c" and "k s = (Inr y, t)"
  using assms by (auto simp: guardE_def split: if_splits)

lemmas progE = bindE_InrE guardE_InrE

lemma retE_eq [simp]: "retE x s = (r, t) \<longleftrightarrow> r = Inr x \<and> t = s" by auto
lemma failE_eq [simp]: "failE e s = (r, t) \<longleftrightarrow> r = Inl e \<and> t = s" by auto
lemma modE_eq [simp]: "modE f s = (r, t) \<longleftrightarrow> r = Inr () \<and> t = f s" by auto
lemma getE_eq [simp]: "getE f s = (r, t) \<longleftrightarrow> r = Inr (f s) \<and> t = s" by auto

section \<open>Operations that move the state along an order\<close>

text \<open>
  \<open>evolves I R m\<close>: from a state with the invariant \<open>I\<close>, \<open>m\<close> ends, with or without an
  error, in a state with \<open>I\<close> that is \<open>R\<close>-above the one it started from. Every safety
  property over whole handlers is an instance, and the combinators respect it for any
  reflexive and transitive \<open>R\<close>.
\<close>

definition evolves :: "('s \<Rightarrow> bool) \<Rightarrow> ('s \<Rightarrow> 's \<Rightarrow> bool) \<Rightarrow> ('e, 's, 'a) prog \<Rightarrow> bool" where
  "evolves I R m \<longleftrightarrow> (\<forall>s. I s \<longrightarrow> I (snd (m s)) \<and> R s (snd (m s)))"

lemma evolvesI: "(\<And>s. I s \<Longrightarrow> I (snd (m s)) \<and> R s (snd (m s))) \<Longrightarrow> evolves I R m"
  by (simp add: evolves_def)

lemma evolvesD:
  "evolves I R m \<Longrightarrow> I s \<Longrightarrow> m s = (r, t) \<Longrightarrow> I t \<and> R s t"
  by (force simp: evolves_def)

lemma evolves_mono: "evolves I R m \<Longrightarrow> (\<And>s t. R s t \<Longrightarrow> Q s t) \<Longrightarrow> evolves I Q m"
  by (auto simp: evolves_def)

locale state_order =
  fixes I :: "'s \<Rightarrow> bool" and R :: "'s \<Rightarrow> 's \<Rightarrow> bool"
  assumes R_refl: "I s \<Longrightarrow> R s s"
    and R_trans: "I s \<Longrightarrow> I t \<Longrightarrow> R s t \<Longrightarrow> R t u \<Longrightarrow> R s u"
begin

lemma ret: "evolves I R (retE x)" by (simp add: evolves_def R_refl)
lemma fail: "evolves I R (failE x)" by (simp add: evolves_def R_refl)
lemma gets: "evolves I R (getE f)" by (simp add: evolves_def R_refl)

lemma bind:
  assumes "evolves I R m" and "\<And>x. evolves I R (k x)"
  shows "evolves I R (bindE m k)"
proof (rule evolvesI)
  fix s assume s: "I s"
  obtain r u where m: "m s = (r, u)" by (cases "m s")
  from evolvesD [OF assms(1) s m] have u: "I u" "R s u" by auto
  show "I (snd (bindE m k s)) \<and> R s (snd (bindE m k s))"
  proof (cases r)
    case (Inl e) with m u show ?thesis by simp
  next
    case (Inr x)
    obtain q t where k: "k x u = (q, t)" by (cases "k x u")
    from evolvesD [OF assms(2) u(1) k] have "I t" "R u t" by auto
    with m k Inr u s show ?thesis by (auto intro: R_trans)
  qed
qed

text \<open>The same, when the continuation needs to know where the first step ended.\<close>

lemma bind_from:
  assumes "evolves I R m"
    and "\<And>s x t. I s \<Longrightarrow> m s = (Inr x, t) \<Longrightarrow> I t \<Longrightarrow> I (snd (k x t)) \<and> R t (snd (k x t))"
  shows "evolves I R (bindE m k)"
proof (rule evolvesI)
  fix s assume s: "I s"
  obtain r u where m: "m s = (r, u)" by (cases "m s")
  from evolvesD [OF assms(1) s m] have u: "I u" "R s u" by auto
  show "I (snd (bindE m k s)) \<and> R s (snd (bindE m k s))"
  proof (cases r)
    case (Inl e) with m u show ?thesis by simp
  next
    case (Inr x)
    with m s u assms(2) [of s x u] show ?thesis by (auto intro: R_trans)
  qed
qed

lemma attempt:
  assumes "evolves I R m" and "\<And>x. evolves I R (k x)"
  shows "evolves I R (tryE m k)"
proof (rule evolvesI)
  fix s assume s: "I s"
  obtain r u where m: "m s = (r, u)" by (cases "m s")
  from evolvesD [OF assms(1) s m] have u: "I u" "R s u" by auto
  obtain q t where k: "k r u = (q, t)" by (cases "k r u")
  from evolvesD [OF assms(2) u(1) k] have "I t" "R u t" by auto
  with m k u s show "I (snd (tryE m k s)) \<and> R s (snd (tryE m k s))"
    by (auto simp: tryE_def intro: R_trans)
qed

lemma guard: "evolves I R k \<Longrightarrow> evolves I R (guardE c e k)"
  by (simp add: guardE_def fail)

lemma each: "(\<And>x. evolves I R (m x)) \<Longrightarrow> evolves I R (eachE m xs)"
  by (induction xs) (auto intro: ret bind)

lemma map_each: "(\<And>x. evolves I R (m x)) \<Longrightarrow> evolves I R (mapE m xs)"
  by (induction xs) (auto intro!: ret bind)

lemma cond: "evolves I R m \<Longrightarrow> evolves I R n \<Longrightarrow> evolves I R (if c then m else n)"
  by simp

lemma opt: "evolves I R m \<Longrightarrow> (\<And>x. evolves I R (n x)) \<Longrightarrow> evolves I R (case y of None \<Rightarrow> m | Some x \<Rightarrow> n x)"
  by (simp split: option.split)

lemma sum: "(\<And>x. evolves I R (m x)) \<Longrightarrow> (\<And>x. evolves I R (n x)) \<Longrightarrow>
    evolves I R (case y of Inl x \<Rightarrow> m x | Inr x \<Rightarrow> n x)"
  by (simp split: sum.split)

lemma pair: "(\<And>x z. evolves I R (m x z)) \<Longrightarrow> evolves I R (case y of (x, z) \<Rightarrow> m x z)"
  by (simp split: prod.split)

lemma mods: "(\<And>s. I s \<Longrightarrow> I (f s) \<and> R s (f s)) \<Longrightarrow> evolves I R (modE f)"
  by (simp add: evolves_def)

lemmas intros = ret fail gets bind attempt guard each map_each cond opt sum pair

end

section \<open>Rows with a key\<close>

text \<open>\<open>for _, it := range items { if p it { return it } }\<close> is \<open>List.find\<close>.\<close>

text \<open>\<open>for i := range items { if items[i].ID == x.ID { items[i] = x; return } }; append\<close>\<close>

fun upsert :: "('a \<Rightarrow> 'k) \<Rightarrow> 'a \<Rightarrow> 'a list \<Rightarrow> 'a list" where
  "upsert key x [] = [x]"
| "upsert key x (y # ys) = (if key y = key x then x # ys else y # upsert key x ys)"

definition lookup :: "('a \<Rightarrow> 'k) \<Rightarrow> 'k \<Rightarrow> 'a list \<Rightarrow> 'a option" where
  "lookup key k xs = find (\<lambda>x. key x = k) xs"

lemma lookup_Nil [simp]: "lookup key k [] = None" by (simp add: lookup_def)
lemma lookup_Cons [simp]: "lookup key k (x # xs) = (if key x = k then Some x else lookup key k xs)"
  by (simp add: lookup_def)

lemma lookup_key: "lookup key k xs = Some x \<Longrightarrow> key x = k"
  by (induction xs) (auto split: if_splits)

lemma lookup_mem: "lookup key k xs = Some x \<Longrightarrow> x \<in> set xs"
  by (induction xs) (auto split: if_splits)

lemma lookup_None: "lookup key k xs = None \<longleftrightarrow> k \<notin> key ` set xs"
  by (induction xs) auto

lemma lookup_append:
  "lookup key k (xs @ ys) = (case lookup key k xs of None \<Rightarrow> lookup key k ys | Some x \<Rightarrow> Some x)"
  by (induction xs) auto

lemma lookup_upsert: "lookup key k (upsert key x xs) = (if k = key x then Some x else lookup key k xs)"
  by (induction xs) auto

lemma lookup_distinct:
  "distinct (map key xs) \<Longrightarrow> x \<in> set xs \<Longrightarrow> lookup key (key x) xs = Some x"
  by (induction xs) (auto simp: image_iff)

lemma upsert_absent: "lookup key (key x) xs = None \<Longrightarrow> upsert key x xs = xs @ [x]"
  by (induction xs) (auto split: if_splits)

lemma upsert_keys:
  "map key (upsert key x xs) = (if key x \<in> key ` set xs then map key xs else map key xs @ [key x])"
  by (induction xs) auto

lemma upsert_present_keys:
  "lookup key (key x) xs \<noteq> None \<Longrightarrow> map key (upsert key x xs) = map key xs"
  by (simp add: upsert_keys lookup_None)

lemma upsert_distinct: "distinct (map key xs) \<Longrightarrow> distinct (map key (upsert key x xs))"
  by (auto simp: upsert_keys)

lemma set_upsert_subset: "set (upsert key x xs) \<subseteq> insert x (set xs)"
  by (induction xs) auto

lemma set_upsert_distinct:
  "distinct (map key xs) \<Longrightarrow>
   set (upsert key x xs) = insert x {y \<in> set xs. key y \<noteq> key x}"
  by (induction xs) (auto simp: image_iff)

lemma length_upsert: "length (upsert key x xs) = (if key x \<in> key ` set xs then length xs else Suc (length xs))"
  by (induction xs) auto

lemma upsert_twice: "key y = key x \<Longrightarrow> upsert key x (upsert key y xs) = upsert key x xs"
  by (induction xs) auto

lemma upsert_last:
  "lookup key (key x) xs = None \<Longrightarrow> key y = key x \<Longrightarrow> upsert key x (xs @ [y]) = xs @ [x]"
  by (induction xs) (auto split: if_splits)

end
