(* ===== verification/Model.thy ===== *)
theory Model
  imports GoLib
begin

text \<open>
  \<^verbatim>\<open>internal/model\<close> and \<^verbatim>\<open>internal/response\<close>: the domain types with the source's fields
  and constructors, the small methods on them, and the error values; the zero \<open>time.Time\<close> is 0. A Go string type
  with declared constants is a datatype with one constructor per constant and one
  (\<open>\<dots>Raw\<close>) for any other string a stored document may hold. Times are integers
  (nanoseconds), \<open>*time.Time\<close> is an option, a \<open>map[string]any\<close> that may be \<open>nil\<close> is
  an optional association list.
\<close>

type_synonym time = int

datatype jval = JNull | JBool bool | JNum string | JStr string
  | JArr "jval list" | JObj "(string \<times> jval) list"

type_synonym jobj = "(string \<times> jval) list"

section \<open>Errors (\<^verbatim>\<open>internal/response\<close>)\<close>

datatype code = CodeOK | CodeInvalidArgument | CodeUnauthorized | CodeForbidden | CodeNotFound
  | CodePluginNotFound | CodePluginDisabled | CodePluginStateInvalid | CodeManifestInvalid
  | CodeExecutionNotFound | CodeExecutionStateInvalid | CodeIdempotencyConflict | CodeQueueFull
  | CodePluginRuntimeError | CodePluginTimeout | CodePluginInvalidOutput | CodeStorageError
  | CodeInternalError

text \<open>An \<open>error\<close> is an \<open>*AppError\<close> or any other error value, known by its text.\<close>

datatype go_error = AppError code string string | PlainError string

fun error_text :: "go_error \<Rightarrow> string" where
  "error_text (AppError c m d) = m"
| "error_text (PlainError m) = m"

definition NewAppError :: "code \<Rightarrow> string \<Rightarrow> go_error" where
  "NewAppError c m = AppError c m []"

definition NewDetailedError :: "code \<Rightarrow> string \<Rightarrow> string \<Rightarrow> go_error" where
  "NewDetailedError c m d = AppError c m d"

fun IsAppError :: "go_error \<Rightarrow> code option" where
  "IsAppError (AppError c m d) = Some c"
| "IsAppError (PlainError m) = None"

definition HTTPStatusFromError :: "go_error \<Rightarrow> nat" where
  "HTTPStatusFromError err =
     (case IsAppError err of
        None \<Rightarrow> 500
      | Some c \<Rightarrow>
          (if c \<in> {CodeInvalidArgument, CodeManifestInvalid, CodeExecutionStateInvalid, CodePluginStateInvalid} then 400
           else if c = CodeIdempotencyConflict then 409
           else if c = CodeUnauthorized then 401
           else if c = CodeForbidden then 403
           else if c \<in> {CodeNotFound, CodePluginNotFound, CodeExecutionNotFound} then 404
           else if c = CodeQueueFull then 503
           else 500))"

section \<open>Scopes and users\<close>

record ResourceScope =
  sc_TenantID :: string
  sc_ProjectID :: string

definition DefaultTenantID :: string where "DefaultTenantID = ''tenant_default''"
definition DefaultProjectID :: string where "DefaultProjectID = ''project_default''"

definition NewDefaultScope :: ResourceScope where
  "NewDefaultScope = \<lparr>sc_TenantID = DefaultTenantID, sc_ProjectID = DefaultProjectID\<rparr>"

definition IsZero :: "ResourceScope \<Rightarrow> bool" where
  "IsZero s \<longleftrightarrow> sc_TenantID s = [] \<or> sc_ProjectID s = []"

definition Normalize :: "ResourceScope \<Rightarrow> ResourceScope" where
  "Normalize s =
     (let s = (if sc_TenantID s = [] then s\<lparr>sc_TenantID := DefaultTenantID\<rparr> else s)
      in if sc_ProjectID s = [] then s\<lparr>sc_ProjectID := DefaultProjectID\<rparr> else s)"

definition SameScope :: "ResourceScope \<Rightarrow> ResourceScope \<Rightarrow> bool" where
  "SameScope a b \<longleftrightarrow>
     (let a = Normalize a; b = Normalize b
      in sc_TenantID a = sc_TenantID b \<and> sc_ProjectID a = sc_ProjectID b)"

definition mk_scope :: "string \<Rightarrow> string \<Rightarrow> ResourceScope" where
  "mk_scope t p = \<lparr>sc_TenantID = t, sc_ProjectID = p\<rparr>"

lemma mk_scope_sel [simp]: "mk_scope (sc_TenantID s) (sc_ProjectID s) = s"
  by (simp add: mk_scope_def)

lemma Normalize_not_zero: "\<not> IsZero (Normalize s)"
  by (simp add: IsZero_def Normalize_def Let_def DefaultTenantID_def DefaultProjectID_def)

lemma Normalize_idem [simp]: "Normalize (Normalize s) = Normalize s"
  by (simp add: Normalize_def Let_def DefaultTenantID_def DefaultProjectID_def)

lemma Normalize_id: "\<not> IsZero s \<Longrightarrow> Normalize s = s"
  by (simp add: IsZero_def Normalize_def)

lemma SameScope_iff: "SameScope a b \<longleftrightarrow> Normalize a = Normalize b"
  by (auto simp: SameScope_def Let_def intro: ResourceScope.equality)

lemma SameScope_refl [simp]: "SameScope a a" by (simp add: SameScope_iff)
lemma SameScope_sym: "SameScope a b \<Longrightarrow> SameScope b a" by (simp add: SameScope_iff)
lemma SameScope_trans: "SameScope a b \<Longrightarrow> SameScope b c \<Longrightarrow> SameScope a c"
  by (simp add: SameScope_iff)
lemma SameScope_Normalize [simp]:
  "SameScope (Normalize a) b = SameScope a b" "SameScope a (Normalize b) = SameScope a b"
  by (simp_all add: SameScope_iff)

datatype Role = RoleUser | RoleAdmin | RoleSuperAdmin | RoleRaw string

record User =
  us_TenantID :: string
  us_ProjectID :: string
  us_ID :: string
  us_Username :: string
  us_Role :: Role
  us_TokenHash :: string
  us_PasswordHash :: string
  us_CreatedAt :: time
  us_UpdatedAt :: time

record CurrentUser =
  cu_TenantID :: string
  cu_ProjectID :: string
  cu_ID :: string
  cu_Username :: string
  cu_Role :: Role

definition IsValidRole :: "Role \<Rightarrow> bool" where
  "IsValidRole r \<longleftrightarrow> r = RoleUser \<or> r = RoleAdmin \<or> r = RoleSuperAdmin"
definition IsAdminRole :: "Role \<Rightarrow> bool" where
  "IsAdminRole r \<longleftrightarrow> r = RoleAdmin \<or> r = RoleSuperAdmin"
definition IsSuperAdminRole :: "Role \<Rightarrow> bool" where
  "IsSuperAdminRole r \<longleftrightarrow> r = RoleSuperAdmin"

definition CurrentUser_Scope :: "CurrentUser \<Rightarrow> ResourceScope" where
  "CurrentUser_Scope u = Normalize (mk_scope (cu_TenantID u) (cu_ProjectID u))"

section \<open>Plugins\<close>

datatype PluginStatus = PluginStatusDiscovered | PluginStatusLoaded | PluginStatusEnabled
  | PluginStatusDisabled | PluginStatusError | PluginStatusRemoved | PluginStatusRaw string

definition IsValidPluginStatus :: "PluginStatus \<Rightarrow> bool" where
  "IsValidPluginStatus s \<longleftrightarrow> s \<in> {PluginStatusDiscovered, PluginStatusLoaded, PluginStatusEnabled,
     PluginStatusDisabled, PluginStatusError, PluginStatusRemoved}"

definition IsExecutablePluginStatus :: "PluginStatus \<Rightarrow> bool" where
  "IsExecutablePluginStatus s \<longleftrightarrow> s = PluginStatusEnabled"

record Plugin =
  pl_TenantID :: string
  pl_ProjectID :: string
  pl_ID :: string
  pl_Name :: string
  pl_Version :: string
  pl_Description :: string
  pl_EntryType :: string
  pl_Command :: string
  pl_Args :: "string list"
  pl_Image :: string
  pl_Env :: "(string \<times> string) list"
  pl_SecretRefs :: "(string \<times> string) list"
  pl_WorkDir :: string
  pl_TimeoutSeconds :: int
  pl_MemoryLimit :: string
  pl_CPULimit :: string
  pl_PIDsLimit :: int
  pl_Status :: PluginStatus
  pl_ErrorMessage :: string
  pl_APIVersion :: string
  pl_Protocol :: string
  pl_Capabilities :: "string list"
  pl_NetworkPolicy :: string
  pl_Checksum :: string
  pl_ChecksumVerified :: bool
  pl_CreatedAt :: time
  pl_UpdatedAt :: time

definition PluginIdentity :: "Plugin \<Rightarrow> string" where
  "PluginIdentity p = pl_Name p @ ''@'' @ pl_Version p"

definition Plugin_Scope :: "Plugin \<Rightarrow> ResourceScope" where
  "Plugin_Scope p = Normalize (mk_scope (pl_TenantID p) (pl_ProjectID p))"

record PluginRegistryRecord =
  rg_ID :: string
  rg_PluginID :: string
  rg_Name :: string
  rg_Version :: string
  rg_SourcePath :: string
  rg_ManifestHash :: string
  rg_LastSeenAt :: time
  rg_SyncedAt :: time

definition RegistryKey :: "PluginRegistryRecord \<Rightarrow> string" where
  "RegistryKey r = rg_Name r @ ''@'' @ rg_Version r"

record RegistrySyncResult =
  sy_Created :: int
  sy_Updated :: int
  sy_Removed :: int
  sy_Errors :: "string list"

section \<open>Executions\<close>

datatype ExecutionStatus = ExecutionStatusPending | ExecutionStatusQueued | ExecutionStatusRunning
  | ExecutionStatusSuccess | ExecutionStatusPartialSuccess | ExecutionStatusFailed
  | ExecutionStatusTimeout | ExecutionStatusCanceled | ExecutionStatusRaw string

fun ExecutionStatus_text :: "ExecutionStatus \<Rightarrow> string" where
  "ExecutionStatus_text ExecutionStatusPending = ''Pending''"
| "ExecutionStatus_text ExecutionStatusQueued = ''Queued''"
| "ExecutionStatus_text ExecutionStatusRunning = ''Running''"
| "ExecutionStatus_text ExecutionStatusSuccess = ''Success''"
| "ExecutionStatus_text ExecutionStatusPartialSuccess = ''PartialSuccess''"
| "ExecutionStatus_text ExecutionStatusFailed = ''Failed''"
| "ExecutionStatus_text ExecutionStatusTimeout = ''Timeout''"
| "ExecutionStatus_text ExecutionStatusCanceled = ''Canceled''"
| "ExecutionStatus_text (ExecutionStatusRaw s) = s"

definition IsValidExecutionStatus :: "ExecutionStatus \<Rightarrow> bool" where
  "IsValidExecutionStatus s \<longleftrightarrow> s \<in> {ExecutionStatusPending, ExecutionStatusQueued,
     ExecutionStatusRunning, ExecutionStatusSuccess, ExecutionStatusPartialSuccess,
     ExecutionStatusFailed, ExecutionStatusTimeout, ExecutionStatusCanceled}"

definition IsFinalExecutionStatus :: "ExecutionStatus \<Rightarrow> bool" where
  "IsFinalExecutionStatus s \<longleftrightarrow> s \<in> {ExecutionStatusSuccess, ExecutionStatusPartialSuccess,
     ExecutionStatusFailed, ExecutionStatusTimeout, ExecutionStatusCanceled}"

record Execution =
  ex_TenantID :: string
  ex_ProjectID :: string
  ex_ID :: string
  ex_UserID :: string
  ex_PluginIDs :: "string list"
  ex_InputJSON :: "jobj option"
  ex_InputHash :: string
  ex_PluginIDsHash :: string
  ex_IdempotencyKey :: string
  ex_Status :: ExecutionStatus
  ex_ErrorMessage :: string
  ex_CreatedAt :: time
  ex_QueuedAt :: "time option"
  ex_StartedAt :: "time option"
  ex_FinishedAt :: "time option"

definition HasPlugins :: "Execution \<Rightarrow> bool" where "HasPlugins e \<longleftrightarrow> length (ex_PluginIDs e) > 0"
definition HasInput :: "Execution \<Rightarrow> bool" where "HasInput e \<longleftrightarrow> ex_InputJSON e \<noteq> None"

definition Execution_Scope :: "Execution \<Rightarrow> ResourceScope" where
  "Execution_Scope e = Normalize (mk_scope (ex_TenantID e) (ex_ProjectID e))"

datatype ExecutionAttemptStatus = ExecutionAttemptRunning | ExecutionAttemptSuccess
  | ExecutionAttemptFailed | ExecutionAttemptCanceled | ExecutionAttemptRaw string

record ExecutionAttempt =
  at_TenantID :: string
  at_ProjectID :: string
  at_ID :: string
  at_ExecutionID :: string
  at_AttemptNo :: int
  at_WorkerID :: string
  at_LeaseID :: string
  at_HeartbeatAt :: "time option"
  at_LeaseUntil :: "time option"
  at_Status :: ExecutionAttemptStatus
  at_ErrorMessage :: string
  at_StartedAt :: time
  at_FinishedAt :: "time option"

datatype ExecutionEventType = ExecutionEventCreated | ExecutionEventQueued | ExecutionEventStarted
  | ExecutionEventPluginStarted | ExecutionEventPluginFinished | ExecutionEventFinished
  | ExecutionEventCanceled | ExecutionEventRecovered | ExecutionEventFailed | ExecutionEventRaw string

fun ExecutionEventType_text :: "ExecutionEventType \<Rightarrow> string" where
  "ExecutionEventType_text ExecutionEventCreated = ''ExecutionCreated''"
| "ExecutionEventType_text ExecutionEventQueued = ''ExecutionQueued''"
| "ExecutionEventType_text ExecutionEventStarted = ''ExecutionStarted''"
| "ExecutionEventType_text ExecutionEventPluginStarted = ''PluginStarted''"
| "ExecutionEventType_text ExecutionEventPluginFinished = ''PluginFinished''"
| "ExecutionEventType_text ExecutionEventFinished = ''ExecutionFinished''"
| "ExecutionEventType_text ExecutionEventCanceled = ''ExecutionCanceled''"
| "ExecutionEventType_text ExecutionEventRecovered = ''ExecutionRecovered''"
| "ExecutionEventType_text ExecutionEventFailed = ''ExecutionFailed''"
| "ExecutionEventType_text (ExecutionEventRaw s) = s"

record ExecutionEvent =
  ev_TenantID :: string
  ev_ProjectID :: string
  ev_ID :: string
  ev_ExecutionID :: string
  ev_PluginID :: string
  ev_Type :: ExecutionEventType
  ev_Status :: string
  ev_Message :: string
  ev_Detail :: "jobj option"
  ev_RequestID :: string
  ev_CreatedAt :: time

definition ExecutionEvent_Scope :: "ExecutionEvent \<Rightarrow> ResourceScope" where
  "ExecutionEvent_Scope e = Normalize (mk_scope (ev_TenantID e) (ev_ProjectID e))"

section \<open>Results\<close>

datatype PluginResultStatus = PluginResultSuccess | PluginResultFailed | PluginResultTimeout
  | PluginResultInvalidOutput | PluginResultRuntimeError | PluginResultCanceled | PluginResultRaw string

fun PluginResultStatus_text :: "PluginResultStatus \<Rightarrow> string" where
  "PluginResultStatus_text PluginResultSuccess = ''Success''"
| "PluginResultStatus_text PluginResultFailed = ''Failed''"
| "PluginResultStatus_text PluginResultTimeout = ''Timeout''"
| "PluginResultStatus_text PluginResultInvalidOutput = ''InvalidOutput''"
| "PluginResultStatus_text PluginResultRuntimeError = ''RuntimeError''"
| "PluginResultStatus_text PluginResultCanceled = ''Canceled''"
| "PluginResultStatus_text (PluginResultRaw s) = s"

record ExecutionResult =
  rs_TenantID :: string
  rs_ProjectID :: string
  rs_ID :: string
  rs_ExecutionID :: string
  rs_PluginID :: string
  rs_PluginName :: string
  rs_Status :: PluginResultStatus
  rs_OutputJSON :: "jobj option"
  rs_ErrorMessage :: string
  rs_StdoutPreview :: string
  rs_StderrPreview :: string
  rs_ExitCode :: int
  rs_DurationMS :: int
  rs_StartedAt :: time
  rs_FinishedAt :: time

record ExecutionSummary =
  sm_ProjectID :: string
  sm_ID :: string
  sm_ExecutionID :: string
  sm_Status :: ExecutionStatus
  sm_Total :: int
  sm_Success :: int
  sm_Failed :: int
  sm_Timeout :: int
  sm_DurationMS :: int

definition IsPluginResultSuccess :: "PluginResultStatus \<Rightarrow> bool" where
  "IsPluginResultSuccess s \<longleftrightarrow> s = PluginResultSuccess"

section \<open>Audit\<close>

datatype AuditAction = AuditPluginLoaded | AuditPluginStatusChanged | AuditExecutionCreated
  | AuditExecutionQueued | AuditExecutionStarted | AuditExecutionFinished | AuditExecutionCanceled
  | AuditRuntimeError

datatype AuditResourceType = AuditResourcePlugin | AuditResourceExecution | AuditResourceSystem

datatype AuditDecision = AuditDecisionNone | AuditDecisionAllow | AuditDecisionDeny | AuditDecisionError

record AuditLog =
  al_TenantID :: string
  al_ProjectID :: string
  al_ID :: string
  al_ActorID :: string
  al_ActorType :: string
  al_UserID :: string
  al_Action :: AuditAction
  al_ResourceType :: AuditResourceType
  al_ResourceID :: string
  al_Decision :: AuditDecision
  al_Reason :: string
  al_RequestID :: string
  al_TraceID :: string
  al_PluginDigest :: string
  al_InputHash :: string
  al_ResultHash :: string
  al_Message :: string
  al_DetailJSON :: "jobj option"
  al_CreatedAt :: time

section \<open>Webhooks\<close>

datatype WebhookStatus = WebhookStatusEnabled | WebhookStatusDisabled | WebhookStatusRaw string

datatype WebhookDeliveryStatus = WebhookDeliveryPending | WebhookDeliveryDelivered
  | WebhookDeliveryFailed | WebhookDeliveryDLQ

record WebhookEndpoint =
  we_TenantID :: string
  we_ProjectID :: string
  we_ID :: string
  we_Name :: string
  we_URL :: string
  we_Secret :: string
  we_Events :: "string list"
  we_Status :: WebhookStatus
  we_CreatedBy :: string
  we_CreatedAt :: time
  we_UpdatedAt :: time

record WebhookDelivery =
  wd_TenantID :: string
  wd_ProjectID :: string
  wd_ID :: string
  wd_WebhookID :: string
  wd_EventID :: string
  wd_EventType :: string
  wd_TargetURL :: string
  wd_Status :: WebhookDeliveryStatus
  wd_AttemptNo :: int
  wd_MaxAttempts :: int
  wd_NextRetryAt :: "time option"
  wd_StatusCode :: int
  wd_Error :: string
  wd_PayloadJSON :: "jobj option"
  wd_CreatedAt :: time
  wd_DeliveredAt :: "time option"

definition IsEnabled :: "WebhookEndpoint \<Rightarrow> bool" where
  "IsEnabled w \<longleftrightarrow> we_Status w = WebhookStatusEnabled"

definition Matches :: "WebhookEndpoint \<Rightarrow> string \<Rightarrow> bool" where
  "Matches w eventType \<longleftrightarrow>
     (if length (we_Events w) = 0 then True
      else list_ex (\<lambda>e. e = ''*'' \<or> e = eventType) (we_Events w))"

section \<open>The durable queue (\<^verbatim>\<open>internal/queue/durable.go\<close> and its table)\<close>

text \<open>A row of the table \<^verbatim>\<open>task_queue\<close>; a nullable column is an option.\<close>

datatype QueueStatus = QueueReady | QueueLeased | QueueAcked | QueueDLQ

record QueueRow =
  qr_TenantID :: string
  qr_ProjectID :: string
  qr_TaskID :: string
  qr_Status :: QueueStatus
  qr_AttemptNo :: int
  qr_AvailableAt :: time
  qr_LeaseID :: string
  qr_LeaseUntil :: "time option"
  qr_WorkerID :: string
  qr_HeartbeatAt :: "time option"
  qr_LastError :: "string option"
  qr_CreatedAt :: time

record TaskRef =
  tr_TenantID :: string
  tr_ProjectID :: string
  tr_TaskID :: string
  tr_LeaseID :: string
  tr_AttemptNo :: int
  tr_VisibleAt :: time
  tr_LeaseUntil :: time
  tr_EnqueuedAt :: time

record EnqueueOptions =
  eo_TenantID :: string
  eo_ProjectID :: string
  eo_TaskID :: string
  eo_IdempotencyKey :: string
  eo_AvailableAt :: time

record LeaseOptions =
  lo_WorkerID :: string
  lo_MaxItems :: int
  lo_LeaseDuration :: int
  lo_VisibilityTimeout :: int

record NackOptions =
  no_Retryable :: bool
  no_Backoff :: int
  no_Reason :: string
  no_DLQ :: bool
  no_MaxAttempts :: int
  no_NextVisible :: time

section \<open>Policy (\<^verbatim>\<open>internal/model/policy.go\<close>)\<close>

datatype PolicyDecision = PolicyDecisionAllow | PolicyDecisionDeny | PolicyDecisionRaw string

record PolicySubject =
  sj_TenantID :: string
  sj_ProjectID :: string
  sj_ActorID :: string
  sj_Role :: Role

record PolicyResource =
  pr_TenantID :: string
  pr_ProjectID :: string
  pr_Type :: string
  pr_ID :: string

record PolicyEvaluation =
  pe_Decision :: PolicyDecision
  pe_Reason :: string
  pe_PolicyID :: string

section \<open>Pagination\<close>

record PageQuery =
  pq_Page :: int
  pq_PageSize :: int

definition NormalizePageQuery :: "PageQuery \<Rightarrow> PageQuery" where
  "NormalizePageQuery q =
     (let q = (if pq_Page q \<le> 0 then q\<lparr>pq_Page := 1\<rparr> else q)
      in if pq_PageSize q \<le> 0 \<or> pq_PageSize q > 100 then q\<lparr>pq_PageSize := 20\<rparr> else q)"

lemma NormalizePageQuery_bounds:
  "pq_Page (NormalizePageQuery q) \<ge> 1"
  "1 \<le> pq_PageSize (NormalizePageQuery q)" "pq_PageSize (NormalizePageQuery q) \<le> 100"
  by (auto simp: NormalizePageQuery_def Let_def)

lemma NormalizePageQuery_idem: "NormalizePageQuery (NormalizePageQuery q) = NormalizePageQuery q"
  by (simp add: NormalizePageQuery_def Let_def)

end
