(* ===== verification/World.thy ===== *)
theory World
  imports Model
begin

text \<open>
  The state of a local-mode process and its environment. \<open>env\<close> holds what the code
  obtains from outside itself: the readings of the clock, the random part of fresh
  identifiers, I/O failures of the document files, files and directories, the digests, the
  JSON text of a value, addresses, the child processes, the answers of HTTP servers, and the database's own choices. The world holds the document collections of
  \<^verbatim>\<open>storage.JSONStore\<close> (one list per file; \<^verbatim>\<open>Load\<close> and \<^verbatim>\<open>Save\<close> may fail), the metrics
  counters, the event bus and the in-memory queue. With Postgres as the metadata store the
  collections stand for the tables of the same content, and \<open>task_queue\<close> is the queue table.
\<close>

section \<open>Environment\<close>

record cmd_outcome =
  co_Stdout :: "string list"        \<comment> \<open>the chunks the child writes\<close>
  co_Stderr :: "string list"
  co_ExitCode :: "int option"       \<comment> \<open>\<open>None\<close>: no \<open>ProcessState\<close>\<close>
  co_Deadline :: bool               \<comment> \<open>\<open>ctx.Err() == DeadlineExceeded\<close>\<close>
  co_Err :: "go_error option"

record command =
  cm_Path :: string
  cm_Args :: "string list"
  cm_Dir :: string
  cm_Stdin :: string
  cm_Timeout :: int                 \<comment> \<open>seconds\<close>

record http_request =
  hr_URL :: string
  hr_Headers :: "(string \<times> string) list"
  hr_Body :: string

text \<open>\<open>net/url\<close>'s reading of an address: scheme, host with port, host.\<close>

record url =
  ur_Scheme :: string
  ur_Host :: string
  ur_Hostname :: string

record env =
  clock :: "nat \<Rightarrow> time"            \<comment> \<open>the n-th \<open>time.Now().UTC()\<close>\<close>
  id_text :: "nat \<Rightarrow> string"        \<comment> \<open>time stamp and random bytes of the n-th \<open>newID\<close>\<close>
  io_fault :: "nat \<Rightarrow> go_error option"  \<comment> \<open>of the n-th document access or database statement\<close>
  sha256_hex :: "string \<Rightarrow> string"
  json_text :: "jval \<Rightarrow> go_error + string"   \<comment> \<open>\<open>json.Marshal\<close>\<close>
  json_encode :: "jval \<Rightarrow> go_error + string"  \<comment> \<open>\<open>Encoder.Encode\<close> without HTML escaping\<close>
  json_parse :: "string \<Rightarrow> jval option"
  json_error :: "string \<Rightarrow> string"         \<comment> \<open>the text of a failed \<open>json.Unmarshal\<close>\<close>
  run_cmd :: "nat \<Rightarrow> command \<Rightarrow> cmd_outcome"
  stat :: "string \<Rightarrow> go_error + bool"      \<comment> \<open>\<open>os.Stat\<close>, and whether it is a directory\<close>
  work_dir :: "string option"             \<comment> \<open>\<open>os.Getwd\<close>\<close>
  read_file :: "string \<Rightarrow> go_error + string"
  read_dir :: "string \<Rightarrow> go_error + (string \<times> bool) list"  \<comment> \<open>names, and whether each is a directory\<close>
  http_new :: "string \<Rightarrow> go_error option"      \<comment> \<open>\<open>http.NewRequestWithContext\<close>\<close>
  http_do :: "nat \<Rightarrow> http_request \<Rightarrow> go_error + int"   \<comment> \<open>the status code of the answer\<close>
  rfc3339 :: "time \<Rightarrow> string"            \<comment> \<open>the JSON text of a time\<close>
  hmac_hex :: "string \<Rightarrow> string \<Rightarrow> string"
  url_parse :: "string \<Rightarrow> url option"
  parse_ip6 :: "string \<Rightarrow> nat list option"   \<comment> \<open>\<open>net.ParseIP\<close> of a text with a colon\<close>
  rand_hex :: "nat \<Rightarrow> string option"          \<comment> \<open>32 random bytes in hex\<close>
  ed25519_verify :: "string \<Rightarrow> string \<Rightarrow> string \<Rightarrow> bool"  \<comment> \<open>key, message, signature\<close>
  pg_error :: "string \<Rightarrow> go_error"          \<comment> \<open>the database's error for a violated constraint\<close>
  pg_uuid :: "nat \<Rightarrow> string"               \<comment> \<open>\<open>gen_random_uuid()\<close>\<close>
  row_locked :: "nat \<Rightarrow> QueueRow \<Rightarrow> bool"    \<comment> \<open>rows another transaction holds during a statement\<close>
  float_int64 :: "int \<Rightarrow> int"              \<comment> \<open>\<open>int64(x)\<close> of a float out of range\<close>

section \<open>Metrics (\<^verbatim>\<open>internal/observability\<close>)\<close>

datatype metric = HTTPRequestsTotal string | HTTPStatusTotal string | TaskSubmittedTotal
  | TaskRecoveredTotal | TaskCompletedTotal string | QueueFullTotal | QueueLeaseTotal | QueueAckTotal
  | QueueNackTotal | QueueReclaimedTotal | WorkerHeartbeatTotal | WorkerHandlerErrorTotal
  | IdempotencyHitsTotal | IdempotencyConflictTotal | PluginStartedTotal string
  | PluginCompletedTotal string | SandboxDenialsTotal | WebhookRetryTotal | WebhookRetryErrorTotal

section \<open>World\<close>

record world =
  w_env :: env
  now_ix :: nat
  id_ix :: nat
  io_ix :: nat
  cmd_log :: "command list"           \<comment> \<open>the child processes started so far\<close>
  http_log :: "http_request list"     \<comment> \<open>the requests sent so far\<close>
  metrics :: "metric \<Rightarrow> int"
  users :: "User list"
  plugins :: "Plugin list"
  plugin_registry :: "PluginRegistryRecord list"
  executions :: "Execution list"
  execution_results :: "ExecutionResult list"
  execution_events :: "ExecutionEvent list"
  execution_attempts :: "ExecutionAttempt list"
  audit_logs :: "AuditLog list"
  webhooks :: "WebhookEndpoint list"
  webhook_deliveries :: "WebhookDelivery list"
  subscribers :: "string \<Rightarrow> nat option list"
  bus_calls :: "(nat \<times> ExecutionEvent) list"
  queue_ch :: "string list"
  queue_size :: nat
  task_queue :: "QueueRow list"

type_synonym 'a prog_w = "(go_error, world, 'a) prog"

definition time_now :: "time prog_w" where
  "time_now = (\<lambda>w. (Inr (clock (w_env w) (now_ix w)), w\<lparr>now_ix := Suc (now_ix w)\<rparr>))"

definition newID :: "string \<Rightarrow> string prog_w" where
  "newID pre = (\<lambda>w. (Inr (pre @ ''_'' @ id_text (w_env w) (id_ix w)), w\<lparr>id_ix := Suc (id_ix w)\<rparr>))"

text \<open>The counters are \<open>expvar.Int\<close>s: 64 bits, wrapping.\<close>

definition add_metric :: "metric \<Rightarrow> int \<Rightarrow> unit prog_w" where
  "add_metric m n = modE (\<lambda>w. w\<lparr>metrics := (metrics w)(m := wrap64 (metrics w m + n))\<rparr>)"

definition IncTaskSubmitted :: "unit prog_w" where "IncTaskSubmitted = add_metric TaskSubmittedTotal 1"
definition IncTaskRecovered :: "unit prog_w" where "IncTaskRecovered = add_metric TaskRecoveredTotal 1"
definition IncQueueFull :: "unit prog_w" where "IncQueueFull = add_metric QueueFullTotal 1"
definition IncIdempotencyHit :: "unit prog_w" where "IncIdempotencyHit = add_metric IdempotencyHitsTotal 1"
definition IncIdempotencyConflict :: "unit prog_w" where
  "IncIdempotencyConflict = add_metric IdempotencyConflictTotal 1"
definition IncSandboxDenial :: "unit prog_w" where "IncSandboxDenial = add_metric SandboxDenialsTotal 1"
definition IncTaskCompleted :: "ExecutionStatus \<Rightarrow> unit prog_w" where
  "IncTaskCompleted s = add_metric (TaskCompletedTotal (ExecutionStatus_text s)) 1"
definition IncPluginStarted :: "string \<Rightarrow> unit prog_w" where
  "IncPluginStarted name = add_metric (PluginStartedTotal name) 1"
definition IncPluginCompleted :: "PluginResultStatus \<Rightarrow> unit prog_w" where
  "IncPluginCompleted s = add_metric (PluginCompletedTotal (PluginResultStatus_text s)) 1"
definition IncWebhookRetry :: "int \<Rightarrow> unit prog_w" where
  "IncWebhookRetry n = add_metric WebhookRetryTotal n"
definition IncWebhookRetryError :: "unit prog_w" where
  "IncWebhookRetryError = add_metric WebhookRetryErrorTotal 1"

lemmas inc_defs = IncTaskSubmitted_def IncTaskRecovered_def IncQueueFull_def IncIdempotencyHit_def
  IncIdempotencyConflict_def IncSandboxDenial_def IncTaskCompleted_def IncPluginStarted_def
  IncPluginCompleted_def IncWebhookRetry_def IncWebhookRetryError_def

section \<open>Documents (\<^verbatim>\<open>internal/storage/json_store.go\<close>)\<close>

text \<open>
  \<^verbatim>\<open>Load\<close> reads and decodes one file; a missing or empty file is the empty list.
  \<^verbatim>\<open>Save\<close> encodes, writes a temporary file and renames it over the old one, so a
  failing \<^verbatim>\<open>Save\<close> leaves the collection as it was.
\<close>

definition disk :: "'a prog_w \<Rightarrow> 'a prog_w" where
  "disk m = (\<lambda>w. case io_fault (w_env w) (io_ix w) of
       Some e \<Rightarrow> (Inl e, w\<lparr>io_ix := Suc (io_ix w)\<rparr>)
     | None \<Rightarrow> m (w\<lparr>io_ix := Suc (io_ix w)\<rparr>))"

definition Load :: "(world \<Rightarrow> 'a list) \<Rightarrow> 'a list prog_w" where
  "Load file = disk (getE file)"

definition Save :: "(('a list \<Rightarrow> 'a list) \<Rightarrow> world \<Rightarrow> world) \<Rightarrow> 'a list \<Rightarrow> unit prog_w" where
  "Save file items = disk (modE (file (\<lambda>_. items)))"

text \<open>A run of the environment without disk failures.\<close>

definition disk_ok :: "world \<Rightarrow> bool" where
  "disk_ok w \<longleftrightarrow> (\<forall>n. io_fault (w_env w) n = None)"

lemma time_now_run [exec_simps]:
  "time_now w = (Inr (clock (w_env w) (now_ix w)), w\<lparr>now_ix := Suc (now_ix w)\<rparr>)"
  by (simp add: time_now_def)
lemma newID_run [exec_simps]:
  "newID pre w = (Inr (pre @ ''_'' @ id_text (w_env w) (id_ix w)), w\<lparr>id_ix := Suc (id_ix w)\<rparr>)"
  by (simp add: newID_def)
lemma add_metric_run [exec_simps]:
  "add_metric m n w = (Inr (), w\<lparr>metrics := (metrics w)(m := wrap64 (metrics w m + n))\<rparr>)"
  by (simp add: add_metric_def)

lemma disk_ok_run: "disk_ok w \<Longrightarrow> disk m w = m (w\<lparr>io_ix := Suc (io_ix w)\<rparr>)"
  by (simp add: disk_def disk_ok_def)

lemma Load_ok [exec_simps]: "disk_ok w \<Longrightarrow> Load file w = (Inr (file (w\<lparr>io_ix := Suc (io_ix w)\<rparr>)), w\<lparr>io_ix := Suc (io_ix w)\<rparr>)"
  by (simp add: Load_def disk_ok_run)

lemma Save_ok [exec_simps]: "disk_ok w \<Longrightarrow> Save file xs w = (Inr (), file (\<lambda>_. xs) (w\<lparr>io_ix := Suc (io_ix w)\<rparr>))"
  by (simp add: Save_def disk_ok_run)

lemma Load_InrD: "Load file w = (Inr xs, w') \<Longrightarrow> xs = file w' \<and> w' = w\<lparr>io_ix := Suc (io_ix w)\<rparr>"
  by (auto simp: Load_def disk_def split: option.splits)

lemma Save_InrD: "Save file xs w = (Inr u, w') \<Longrightarrow> w' = file (\<lambda>_. xs) (w\<lparr>io_ix := Suc (io_ix w)\<rparr>)"
  by (auto simp: Save_def disk_def split: option.splits)

lemma Load_snd [simp]: "snd (Load file w) = w\<lparr>io_ix := Suc (io_ix w)\<rparr>"
  by (simp add: Load_def disk_def split: option.split)

lemma Save_cases:
  "snd (Save file xs w) = w\<lparr>io_ix := Suc (io_ix w)\<rparr> \<or>
   snd (Save file xs w) = file (\<lambda>_. xs) (w\<lparr>io_ix := Suc (io_ix w)\<rparr>)"
  by (simp add: Save_def disk_def split: option.split)

section \<open>Queue (\<^verbatim>\<open>internal/worker/queue.go\<close>)\<close>

text \<open>
  The buffered channel of execution identifiers. \<^verbatim>\<open>Submit\<close> is a \<^verbatim>\<open>select\<close> with a default:
  the send is ready when the buffer has room, the second case when the context is done;
  when both are ready the runtime picks one (\<open>pick\<close>).
\<close>

datatype ctx = CtxLive | CtxDone go_error bool

definition Submit :: "ctx \<Rightarrow> string \<Rightarrow> unit prog_w" where
  "Submit c executionID = (\<lambda>w.
     let room = length (queue_ch w) < queue_size w;
         sent = (Inr (), w\<lparr>queue_ch := queue_ch w @ [executionID]\<rparr>)
     in case c of
          CtxLive \<Rightarrow> if room then sent else (Inl (PlainError ''queue full''), w)
        | CtxDone e pick \<Rightarrow> if room \<and> pick then sent else (Inl e, w))"

text \<open>\<open><-q.Consume()\<close>: the oldest identifier, if there is one.\<close>

definition Consume :: "world \<Rightarrow> (string \<times> world) option" where
  "Consume w = (case queue_ch w of [] \<Rightarrow> None | x # xs \<Rightarrow> Some (x, w\<lparr>queue_ch := xs\<rparr>))"

definition queue_len :: "world \<Rightarrow> nat" where "queue_len w = length (queue_ch w)"

lemma Submit_cases:
  "snd (Submit c i w) = w \<or> (snd (Submit c i w) = w\<lparr>queue_ch := queue_ch w @ [i]\<rparr> \<and>
     length (queue_ch w) < queue_size w \<and> fst (Submit c i w) = Inr ())"
  by (simp add: Submit_def Let_def split: ctx.split)

lemma Submit_live [exec_simps]: "Submit CtxLive i w =
    (if length (queue_ch w) < queue_size w then (Inr (), w\<lparr>queue_ch := queue_ch w @ [i]\<rparr>)
     else (Inl (PlainError ''queue full''), w))"
  by (simp add: Submit_def)

text \<open>The buffer never holds more than the capacity it was made with, and is first in, first out.\<close>

lemma Submit_capacity:
  "length (queue_ch w) \<le> queue_size w \<Longrightarrow> length (queue_ch (snd (Submit c i w))) \<le> queue_size (snd (Submit c i w))"
  using Submit_cases [of c i w] by auto

lemma Consume_capacity:
  "Consume w = Some (i, w') \<Longrightarrow> length (queue_ch w) \<le> queue_size w \<Longrightarrow>
   length (queue_ch w') \<le> queue_size w'"
  by (auto simp: Consume_def split: list.splits)

end
