(* ===== verification/Repos.thy ===== *)
theory Repos
  imports World
begin

text \<open>
  \<^verbatim>\<open>internal/repository\<close> over \<^verbatim>\<open>JSONStore\<close>: every operation loads a whole collection,
  and an update rewrites it. The interface the services rely on is the locale
  \<open>keyed_store\<close> (what \<^verbatim>\<open>GetByID\<close> returns after \<^verbatim>\<open>Update\<close>, and that a failing call leaves
  the rows alone); the repositories of plugins, executions, attempts, webhook endpoints
  and deliveries are interpretations of it.
\<close>

section \<open>The shape of the repository operations\<close>

definition repo_append :: "(world \<Rightarrow> 'a list) \<Rightarrow> (('a list \<Rightarrow> 'a list) \<Rightarrow> world \<Rightarrow> world) \<Rightarrow> 'a list \<Rightarrow> unit prog_w" where
  "repo_append file upd xs = bindE (Load file) (\<lambda>items. Save upd (items @ xs))"

definition repo_update :: "(world \<Rightarrow> 'a list) \<Rightarrow> (('a list \<Rightarrow> 'a list) \<Rightarrow> world \<Rightarrow> world) \<Rightarrow> ('a \<Rightarrow> string) \<Rightarrow> 'a \<Rightarrow> unit prog_w" where
  "repo_update file upd key x = bindE (Load file) (\<lambda>items. Save upd (upsert key x items))"

definition repo_find :: "(world \<Rightarrow> 'a list) \<Rightarrow> ('a \<Rightarrow> bool) \<Rightarrow> 'a option prog_w" where
  "repo_find file p = bindE (Load file) (\<lambda>items. retE (find p items))"

definition repo_filter :: "(world \<Rightarrow> 'a list) \<Rightarrow> ('a \<Rightarrow> bool) \<Rightarrow> 'a list prog_w" where
  "repo_filter file p = bindE (Load file) (\<lambda>items. retE (filter p items))"

definition repo_retain :: "(world \<Rightarrow> 'a list) \<Rightarrow> (('a list \<Rightarrow> 'a list) \<Rightarrow> world \<Rightarrow> world) \<Rightarrow> ('a \<Rightarrow> bool) \<Rightarrow> unit prog_w" where
  "repo_retain file upd p = bindE (Load file) (\<lambda>items. Save upd (filter p items))"

lemmas repo_defs = repo_append_def repo_update_def repo_find_def repo_filter_def repo_retain_def

section \<open>Users\<close>

definition Auth_CreateUser :: "User \<Rightarrow> unit prog_w" where
  "Auth_CreateUser u = repo_append users users_update [u]"
definition Auth_GetUserByID :: "string \<Rightarrow> User option prog_w" where
  "Auth_GetUserByID i = repo_find users (\<lambda>u. us_ID u = i)"
definition Auth_GetUserByTokenHash :: "string \<Rightarrow> User option prog_w" where
  "Auth_GetUserByTokenHash h = repo_find users (\<lambda>u. us_TokenHash u = h)"
definition Auth_GetUserByUsername :: "string \<Rightarrow> User option prog_w" where
  "Auth_GetUserByUsername n = repo_find users (\<lambda>u. us_Username u = n)"
definition Auth_ListUsers :: "User list prog_w" where
  "Auth_ListUsers = Load users"

section \<open>Plugins and the registry\<close>

definition scoped_plugin :: "Plugin \<Rightarrow> Plugin" where
  "scoped_plugin p = (let s = Normalize (mk_scope (pl_TenantID p) (pl_ProjectID p))
     in p\<lparr>pl_TenantID := sc_TenantID s, pl_ProjectID := sc_ProjectID s\<rparr>)"

definition Plugin_Create :: "Plugin \<Rightarrow> unit prog_w" where
  "Plugin_Create p = repo_append plugins plugins_update [scoped_plugin p]"
definition Plugin_Update :: "Plugin \<Rightarrow> unit prog_w" where
  "Plugin_Update p = repo_update plugins plugins_update pl_ID (scoped_plugin p)"
definition Plugin_GetByID :: "string \<Rightarrow> Plugin option prog_w" where
  "Plugin_GetByID i = repo_find plugins (\<lambda>p. pl_ID p = i)"
definition Plugin_GetByNameVersion :: "string \<Rightarrow> string \<Rightarrow> Plugin option prog_w" where
  "Plugin_GetByNameVersion n v = repo_find plugins (\<lambda>p. pl_Name p = n \<and> pl_Version p = v)"
definition Plugin_List :: "Plugin list prog_w" where
  "Plugin_List = Load plugins"
definition Plugin_UpdateStatus :: "string \<Rightarrow> PluginStatus \<Rightarrow> unit prog_w" where
  "Plugin_UpdateStatus i s = bindE (Plugin_GetByID i) (\<lambda>r. case r of
      None \<Rightarrow> retE () | Some p \<Rightarrow> Plugin_Update (p\<lparr>pl_Status := s\<rparr>))"
definition Plugin_UpdateError :: "string \<Rightarrow> string \<Rightarrow> unit prog_w" where
  "Plugin_UpdateError i msg = bindE (Plugin_GetByID i) (\<lambda>r. case r of
      None \<Rightarrow> retE ()
    | Some p \<Rightarrow> Plugin_Update (p\<lparr>pl_ErrorMessage := msg, pl_Status := PluginStatusError\<rparr>))"
definition Plugin_MarkRemoved :: "string \<Rightarrow> unit prog_w" where
  "Plugin_MarkRemoved i = Plugin_UpdateStatus i PluginStatusRemoved"

definition Registry_Upsert :: "PluginRegistryRecord \<Rightarrow> unit prog_w" where
  "Registry_Upsert r = repo_update plugin_registry plugin_registry_update rg_PluginID r"
definition Registry_GetByPluginID :: "string \<Rightarrow> PluginRegistryRecord option prog_w" where
  "Registry_GetByPluginID i = repo_find plugin_registry (\<lambda>r. rg_PluginID r = i)"
definition Registry_List :: "PluginRegistryRecord list prog_w" where
  "Registry_List = Load plugin_registry"

section \<open>Executions\<close>

definition same_idempotency :: "Execution \<Rightarrow> Execution \<Rightarrow> bool" where
  "same_idempotency it e \<longleftrightarrow> SameScope (Execution_Scope it) (Execution_Scope e) \<and>
     ex_UserID it = ex_UserID e \<and> ex_IdempotencyKey it = ex_IdempotencyKey e"

definition Execution_CreateWithIdempotency :: "Execution \<Rightarrow> (Execution \<times> bool) prog_w" where
  "Execution_CreateWithIdempotency e = bindE (Load executions) (\<lambda>items.
     case (if ex_IdempotencyKey e \<noteq> [] then find (\<lambda>it. same_idempotency it e) items else None) of
       Some it \<Rightarrow> retE (it, False)
     | None \<Rightarrow> bindE (Save executions_update (items @ [e])) (\<lambda>_. retE (e, True)))"
definition Execution_Create :: "Execution \<Rightarrow> unit prog_w" where
  "Execution_Create e = bindE (Execution_CreateWithIdempotency e) (\<lambda>_. retE ())"
definition Execution_Update :: "Execution \<Rightarrow> unit prog_w" where
  "Execution_Update e = repo_update executions executions_update ex_ID e"
definition Execution_GetByID :: "string \<Rightarrow> Execution option prog_w" where
  "Execution_GetByID i = repo_find executions (\<lambda>e. ex_ID e = i)"
definition Execution_ListByUserID :: "string \<Rightarrow> Execution list prog_w" where
  "Execution_ListByUserID u = repo_filter executions (\<lambda>e. ex_UserID e = u)"
definition Execution_ListAll :: "Execution list prog_w" where
  "Execution_ListAll = Load executions"

definition stamp_status :: "ExecutionStatus \<Rightarrow> string \<Rightarrow> time \<Rightarrow> Execution \<Rightarrow> Execution" where
  "stamp_status status errMsg now e =
     (let e = e\<lparr>ex_Status := status, ex_ErrorMessage := errMsg\<rparr>;
          e = (if status = ExecutionStatusQueued then e\<lparr>ex_QueuedAt := Some now\<rparr> else e);
          e = (if status = ExecutionStatusRunning then e\<lparr>ex_StartedAt := Some now\<rparr> else e)
      in if IsFinalExecutionStatus status then e\<lparr>ex_FinishedAt := Some now\<rparr> else e)"

definition Execution_UpdateStatus :: "string \<Rightarrow> ExecutionStatus \<Rightarrow> string \<Rightarrow> unit prog_w" where
  "Execution_UpdateStatus i status errMsg = bindE (Execution_GetByID i) (\<lambda>r. case r of
      None \<Rightarrow> retE ()
    | Some e \<Rightarrow> bindE time_now (\<lambda>now. Execution_Update (stamp_status status errMsg now e)))"
definition Execution_FindByIdempotencyKey :: "string \<Rightarrow> string \<Rightarrow> Execution option prog_w" where
  "Execution_FindByIdempotencyKey u k =
     repo_find executions (\<lambda>e. ex_UserID e = u \<and> ex_IdempotencyKey e = k \<and> k \<noteq> [])"
definition Execution_ListByStatuses :: "ExecutionStatus list \<Rightarrow> Execution list prog_w" where
  "Execution_ListByStatuses ss = repo_filter executions (\<lambda>e. ex_Status e \<in> set ss)"
definition Execution_ListByScope :: "ResourceScope \<Rightarrow> Execution list prog_w" where
  "Execution_ListByScope s = repo_filter executions (\<lambda>e. SameScope (Normalize s) (Execution_Scope e))"

section \<open>Results, audit, events, attempts\<close>

definition Result_Create :: "ExecutionResult \<Rightarrow> unit prog_w" where
  "Result_Create r = repo_append execution_results execution_results_update [r]"
definition Result_BatchCreate :: "ExecutionResult list \<Rightarrow> unit prog_w" where
  "Result_BatchCreate rs = repo_append execution_results execution_results_update rs"
definition Result_GetByExecutionID :: "string \<Rightarrow> ExecutionResult list prog_w" where
  "Result_GetByExecutionID i = repo_filter execution_results (\<lambda>r. rs_ExecutionID r = i)"
definition Result_DeleteByExecutionID :: "string \<Rightarrow> unit prog_w" where
  "Result_DeleteByExecutionID i =
     repo_retain execution_results execution_results_update (\<lambda>r. rs_ExecutionID r \<noteq> i)"

definition Audit_Create :: "AuditLog \<Rightarrow> unit prog_w" where
  "Audit_Create l = repo_append audit_logs audit_logs_update [l]"
definition Audit_List :: "AuditLog list prog_w" where
  "Audit_List = Load audit_logs"
definition Audit_ListByResource :: "AuditResourceType \<Rightarrow> string \<Rightarrow> AuditLog list prog_w" where
  "Audit_ListByResource t i = repo_filter audit_logs (\<lambda>l. al_ResourceType l = t \<and> al_ResourceID l = i)"
definition Audit_ListByRequestID :: "string \<Rightarrow> AuditLog list prog_w" where
  "Audit_ListByRequestID q = repo_filter audit_logs (\<lambda>l. al_RequestID l = q)"

definition Event_Create :: "ExecutionEvent \<Rightarrow> unit prog_w" where
  "Event_Create e = repo_append execution_events execution_events_update [e]"
definition Event_ListByExecutionID :: "string \<Rightarrow> ExecutionEvent list prog_w" where
  "Event_ListByExecutionID i = repo_filter execution_events (\<lambda>e. ev_ExecutionID e = i)"

definition Attempt_Create :: "ExecutionAttempt \<Rightarrow> unit prog_w" where
  "Attempt_Create a = repo_append execution_attempts execution_attempts_update [a]"
definition Attempt_Update :: "ExecutionAttempt \<Rightarrow> unit prog_w" where
  "Attempt_Update a = repo_update execution_attempts execution_attempts_update at_ID a"
definition Attempt_ListByExecutionID :: "string \<Rightarrow> ExecutionAttempt list prog_w" where
  "Attempt_ListByExecutionID i = repo_filter execution_attempts (\<lambda>a. at_ExecutionID a = i)"
definition Attempt_NextAttemptNo :: "string \<Rightarrow> int prog_w" where
  "Attempt_NextAttemptNo i = bindE (Attempt_ListByExecutionID i) (\<lambda>items.
     retE (foldl (\<lambda>m a. if at_AttemptNo a > m then at_AttemptNo a else m) 0 items + 1))"

section \<open>Webhooks\<close>

definition Webhook_CreateEndpoint :: "WebhookEndpoint \<Rightarrow> unit prog_w" where
  "Webhook_CreateEndpoint e = repo_append webhooks webhooks_update [e]"
definition Webhook_UpdateEndpoint :: "WebhookEndpoint \<Rightarrow> unit prog_w" where
  "Webhook_UpdateEndpoint e = repo_update webhooks webhooks_update we_ID e"
definition Webhook_GetEndpointByID :: "string \<Rightarrow> WebhookEndpoint option prog_w" where
  "Webhook_GetEndpointByID i = repo_find webhooks (\<lambda>e. we_ID e = i)"
definition Webhook_ListEndpoints :: "WebhookEndpoint list prog_w" where
  "Webhook_ListEndpoints = Load webhooks"
definition Webhook_ListEnabledEndpoints :: "WebhookEndpoint list prog_w" where
  "Webhook_ListEnabledEndpoints = repo_filter webhooks (\<lambda>e. we_Status e = WebhookStatusEnabled)"
definition Webhook_DeleteEndpoint :: "string \<Rightarrow> unit prog_w" where
  "Webhook_DeleteEndpoint i = repo_retain webhooks webhooks_update (\<lambda>e. we_ID e \<noteq> i)"
definition Webhook_CreateDelivery :: "WebhookDelivery \<Rightarrow> unit prog_w" where
  "Webhook_CreateDelivery d = repo_append webhook_deliveries webhook_deliveries_update [d]"
definition Webhook_UpdateDelivery :: "WebhookDelivery \<Rightarrow> unit prog_w" where
  "Webhook_UpdateDelivery d = repo_update webhook_deliveries webhook_deliveries_update wd_ID d"
definition Webhook_ListDeliveries :: "string \<Rightarrow> WebhookDelivery list prog_w" where
  "Webhook_ListDeliveries i = repo_filter webhook_deliveries (\<lambda>d. i = [] \<or> wd_WebhookID d = i)"

section \<open>What a repository operation does to the world\<close>

abbreviation io_skip :: "nat \<Rightarrow> world \<Rightarrow> world" where
  "io_skip k w \<equiv> w\<lparr>io_ix := io_ix w + k\<rparr>"

lemma write_eq:
  "bindE (Load file) (\<lambda>items. Save upd (f items)) w =
     (case io_fault (w_env w) (io_ix w) of Some e \<Rightarrow> (Inl e, io_skip 1 w)
      | None \<Rightarrow> (case io_fault (w_env w) (Suc (io_ix w)) of Some e \<Rightarrow> (Inl e, io_skip 2 w)
         | None \<Rightarrow> (Inr (), upd (\<lambda>_. f (file (io_skip 1 w))) (io_skip 2 w))))"
  by (simp add: bindE_def Load_def Save_def disk_def numeral_2_eq_2 split: option.split)

lemma read_eq:
  "bindE (Load file) (\<lambda>items. retE (f items)) w =
     (case io_fault (w_env w) (io_ix w) of Some e \<Rightarrow> (Inl e, io_skip 1 w)
      | None \<Rightarrow> (Inr (f (file (io_skip 1 w))), io_skip 1 w))"
  by (simp add: bindE_def Load_def disk_def split: option.split)

lemma write_cases:
  assumes "bindE (Load file) (\<lambda>items. Save upd (f items)) w = (r, t)"
  obtains e n where "r = Inl e" and "t = w\<lparr>io_ix := n\<rparr>"
  | "r = Inr ()" and "t = upd (\<lambda>_. f (file (io_skip 1 w))) (io_skip 2 w)"
proof (cases "io_fault (w_env w) (io_ix w)")
  case (Some e)
  with assms have "r = Inl e" and "t = w\<lparr>io_ix := io_ix w + 1\<rparr>" by (simp_all add: write_eq)
  then show ?thesis by (rule that(1))
next
  case n1: None
  show ?thesis
  proof (cases "io_fault (w_env w) (Suc (io_ix w))")
    case (Some e)
    with assms n1 have "r = Inl e" and "t = w\<lparr>io_ix := io_ix w + 2\<rparr>" by (simp_all add: write_eq)
    then show ?thesis by (rule that(1))
  next
    case None
    with assms n1 show ?thesis by (intro that(2)) (auto simp: write_eq)
  qed
qed

lemma read_cases:
  assumes "bindE (Load file) (\<lambda>items. retE (f items)) w = (r, t)"
  obtains e where "r = Inl e" and "t = io_skip 1 w"
  | "r = Inr (f (file (io_skip 1 w)))" and "t = io_skip 1 w"
proof (cases "io_fault (w_env w) (io_ix w)")
  case (Some e)
  with assms have "r = Inl e" and "t = io_skip 1 w" by (simp_all add: read_eq)
  then show ?thesis by (rule that(1))
next
  case None
  with assms show ?thesis by (intro that(2)) (auto simp: read_eq)
qed

lemma repo_append_cases:
  assumes "repo_append file upd xs w = (r, t)"
  obtains (Fail) e n where "r = Inl e" and "t = w\<lparr>io_ix := n\<rparr>"
  | (Done) "r = Inr ()" and "t = upd (\<lambda>_. file (io_skip 1 w) @ xs) (io_skip 2 w)"
  using assms unfolding repo_append_def by (rule write_cases)

lemma repo_update_cases:
  assumes "repo_update file upd key x w = (r, t)"
  obtains (Fail) e n where "r = Inl e" and "t = w\<lparr>io_ix := n\<rparr>"
  | (Done) "r = Inr ()" and "t = upd (\<lambda>_. upsert key x (file (io_skip 1 w))) (io_skip 2 w)"
  using assms unfolding repo_update_def by (rule write_cases)

lemma repo_retain_cases:
  assumes "repo_retain file upd p w = (r, t)"
  obtains (Fail) e n where "r = Inl e" and "t = w\<lparr>io_ix := n\<rparr>"
  | (Done) "r = Inr ()" and "t = upd (\<lambda>_. filter p (file (io_skip 1 w))) (io_skip 2 w)"
  using assms unfolding repo_retain_def by (rule write_cases)

lemma repo_find_cases:
  assumes "repo_find file p w = (r, t)"
  obtains (Fail) e where "r = Inl e" and "t = io_skip 1 w"
  | (Done) "r = Inr (find p (file (io_skip 1 w)))" and "t = io_skip 1 w"
  using assms unfolding repo_find_def by (rule read_cases)

lemma repo_filter_cases:
  assumes "repo_filter file p w = (r, t)"
  obtains (Fail) e where "r = Inl e" and "t = io_skip 1 w"
  | (Done) "r = Inr (filter p (file (io_skip 1 w)))" and "t = io_skip 1 w"
  using assms unfolding repo_filter_def by (rule read_cases)

lemma repo_append_ok [exec_simps]:
  "disk_ok w \<Longrightarrow> repo_append file upd xs w = (Inr (), upd (\<lambda>_. file (io_skip 1 w) @ xs) (io_skip 2 w))"
  by (simp add: repo_append_def bindE_def Load_def Save_def disk_def disk_ok_def numeral_2_eq_2)

lemma repo_update_ok [exec_simps]:
  "disk_ok w \<Longrightarrow> repo_update file upd key x w =
     (Inr (), upd (\<lambda>_. upsert key x (file (io_skip 1 w))) (io_skip 2 w))"
  by (simp add: repo_update_def bindE_def Load_def Save_def disk_def disk_ok_def numeral_2_eq_2)

lemma repo_find_ok [exec_simps]:
  "disk_ok w \<Longrightarrow> repo_find file p w = (Inr (find p (file (io_skip 1 w))), io_skip 1 w)"
  by (simp add: repo_find_def bindE_def Load_def disk_def disk_ok_def)

lemma repo_filter_ok [exec_simps]:
  "disk_ok w \<Longrightarrow> repo_filter file p w = (Inr (filter p (file (io_skip 1 w))), io_skip 1 w)"
  by (simp add: repo_filter_def bindE_def Load_def disk_def disk_ok_def)

section \<open>The interface of a keyed repository\<close>

text \<open>
  What a service may assume of \<^verbatim>\<open>GetByID\<close> and \<^verbatim>\<open>Update\<close>: reading returns the current row
  and changes none; writing replaces exactly the row with the written key; a failing call
  changes no row; where the store is \<open>live\<close> (no I/O failure ahead) neither fails. What a
  write stores is the row as the provider normalises it (\<open>norm\<close>).
\<close>

locale keyed_store =
  fixes get :: "string \<Rightarrow> ('e, 's, 'v option) prog"
    and put :: "'v \<Rightarrow> ('e, 's, unit) prog"
    and key :: "'v \<Rightarrow> string"
    and norm :: "'v \<Rightarrow> 'v"
    and rows :: "'s \<Rightarrow> string \<Rightarrow> 'v option"
    and live :: "'s \<Rightarrow> bool"
  assumes get_rows: "get k s = (r, t) \<Longrightarrow> rows t = rows s \<and> (\<forall>y. r = Inr y \<longrightarrow> y = rows s k)"
    and put_rows: "put x s = (q, t) \<Longrightarrow>
          rows t = (case q of Inr u \<Rightarrow> (rows s)(key x \<mapsto> norm x) | Inl e \<Rightarrow> rows s)"
    and norm_key: "key (norm x) = key x"
    and get_live: "live s \<Longrightarrow> \<exists>t. get k s = (Inr (rows s k), t) \<and> live t"
    and put_live: "live s \<Longrightarrow> \<exists>t. put x s = (Inr (), t) \<and> live t"
    and rows_key: "rows s k = Some x \<Longrightarrow> key x = k"
begin

lemma get_after_put:
  assumes "put x s = (Inr u, t)" and "get k t = (Inr y, v)"
  shows "y = (if k = key x then Some (norm x) else rows s k)"
  using put_rows [OF assms(1)] get_rows [OF assms(2)] by auto

text \<open>Read, change, write back: the program \<open>modify\<close> of the services, for any change that keeps the key.\<close>

lemma modify_rows:
  assumes "bindE (get k) (\<lambda>r. case r of None \<Rightarrow> retE () | Some x \<Rightarrow> put (f x)) s = (r, t)"
    and keep: "\<And>x. key (f x) = key x"
  shows "rows t = (case r of Inr u \<Rightarrow> (rows s)(k := map_option (\<lambda>x. norm (f x)) (rows s k)) | Inl e \<Rightarrow> rows s)"
proof -
  obtain r1 s1 where g: "get k s = (r1, s1)" by (cases "get k s")
  note gr = get_rows [OF g]
  show ?thesis
  proof (cases r1)
    case (Inl e)
    with assms(1) g gr show ?thesis by auto
  next
    case (Inr x)
    with gr have x: "x = rows s k" "rows s1 = rows s" by auto
    show ?thesis
    proof (cases x)
      case None
      with assms(1) g Inr x show ?thesis by (auto simp: fun_eq_iff)
    next
      case (Some y)
      with assms(1) g Inr have p: "put (f y) s1 = (r, t)" by simp
      have k: "key (f y) = k" using keep rows_key x Some by metis
      have y: "rows s k = Some y" using x Some by simp
      show ?thesis
        using put_rows [OF p] by (auto simp: k y x(2) split: sum.splits)
    qed
  qed
qed

lemma modify_live:
  assumes "live s"
  shows "\<exists>t. bindE (get k) (\<lambda>r. case r of None \<Rightarrow> retE () | Some x \<Rightarrow> put (f x)) s = (Inr (), t) \<and> live t"
proof -
  from get_live [OF assms] obtain s1 where g: "get k s = (Inr (rows s k), s1)" "live s1" by blast
  with put_live [OF g(2)] show ?thesis by (cases "rows s k") auto
qed

end

abbreviation json_rows :: "(world \<Rightarrow> 'v list) \<Rightarrow> ('v \<Rightarrow> string) \<Rightarrow> world \<Rightarrow> string \<Rightarrow> 'v option" where
  "json_rows file key w k \<equiv> lookup key k (file w)"

text \<open>
  One proof for all JSON repositories: a collection that the I/O counter does not change and
  whose update function stores what it is given.
\<close>

lemma json_keyed_store:
  assumes io: "\<And>w n. file (w\<lparr>io_ix := n\<rparr>) = file w"
    and upd: "\<And>xs w. file (upd (\<lambda>_. xs) w) = xs"
    and envs: "\<And>xs w. w_env (upd (\<lambda>_. xs) w) = w_env w"
    and norm: "\<And>x. key (norm x) = key x"
  shows "keyed_store (\<lambda>k. repo_find file (\<lambda>x. key x = k)) (\<lambda>x. repo_update file upd key (norm x))
           key norm (json_rows file key) disk_ok"
proof
  fix k s r t
  assume "repo_find file (\<lambda>x. key x = k) s = (r, t)"
  then show "json_rows file key t = json_rows file key s \<and> (\<forall>x. r = Inr x \<longrightarrow> x = json_rows file key s k)"
    by (cases rule: repo_find_cases) (auto simp: io lookup_def fun_eq_iff)
next
  fix x s r t
  assume "repo_update file upd key (norm x) s = (r, t)"
  then show "json_rows file key t =
      (case r of Inr u \<Rightarrow> (json_rows file key s)(key x \<mapsto> norm x) | Inl e \<Rightarrow> json_rows file key s)"
    by (cases rule: repo_update_cases) (auto simp: io upd norm lookup_upsert fun_eq_iff)
next
  fix k s
  assume "disk_ok s"
  then show "\<exists>t. repo_find file (\<lambda>x. key x = k) s = (Inr (json_rows file key s k), t) \<and> disk_ok t"
    by (simp add: repo_find_ok io lookup_def disk_ok_def)
next
  fix x s
  assume "disk_ok s"
  then show "\<exists>t. repo_update file upd key (norm x) s = (Inr (), t) \<and> disk_ok t"
    by (simp add: repo_update_ok disk_ok_def envs)
qed (auto simp: norm dest: lookup_key)

interpretation exec_store: keyed_store Execution_GetByID Execution_Update ex_ID "\<lambda>e. e"
  "json_rows executions ex_ID" disk_ok
  unfolding Execution_GetByID_def [abs_def] Execution_Update_def [abs_def]
  by (rule json_keyed_store) simp_all

interpretation plugin_store: keyed_store Plugin_GetByID Plugin_Update pl_ID scoped_plugin
  "json_rows plugins pl_ID" disk_ok
  unfolding Plugin_GetByID_def [abs_def] Plugin_Update_def [abs_def]
  by (rule json_keyed_store) (simp_all add: scoped_plugin_def Let_def)

interpretation endpoint_store: keyed_store Webhook_GetEndpointByID Webhook_UpdateEndpoint we_ID "\<lambda>e. e"
  "json_rows webhooks we_ID" disk_ok
  unfolding Webhook_GetEndpointByID_def [abs_def] Webhook_UpdateEndpoint_def [abs_def]
  by (rule json_keyed_store) simp_all

interpretation registry_store: keyed_store Registry_GetByPluginID Registry_Upsert rg_PluginID "\<lambda>r. r"
  "json_rows plugin_registry rg_PluginID" disk_ok
  unfolding Registry_GetByPluginID_def [abs_def] Registry_Upsert_def [abs_def]
  by (rule json_keyed_store) simp_all

end
