(* ===== verification/Observe.thy ===== *)
theory Observe
  imports Repos
begin

text \<open>
  What a running task leaves behind: the event bus (\<^verbatim>\<open>internal/event/bus.go\<close>), the event,
  audit and attempt services (\<^verbatim>\<open>internal/service/execution_event.go\<close>, \<^verbatim>\<open>audit.go\<close>,
  \<^verbatim>\<open>execution_attempt.go\<close>). A subscriber is a number; \<^verbatim>\<open>Publish\<close> appends the calls it makes,
  in order, to \<open>bus_calls\<close>.
\<close>

section \<open>Event bus\<close>

definition Bus_Subscribe :: "string \<Rightarrow> nat \<Rightarrow> world \<Rightarrow> (string \<times> nat) \<times> world" where
  "Bus_Subscribe executionID fn w =
     (let items = subscribers w executionID @ [Some fn]
      in ((executionID, length items - 1), w\<lparr>subscribers := (subscribers w)(executionID := items)\<rparr>))"

definition Bus_Unsubscribe :: "string \<times> nat \<Rightarrow> world \<Rightarrow> world" where
  "Bus_Unsubscribe h w = (case h of (executionID, idx) \<Rightarrow>
     let items = subscribers w executionID
     in if idx < length items
        then w\<lparr>subscribers := (subscribers w)(executionID := items[idx := None])\<rparr> else w)"

definition bus_targets :: "world \<Rightarrow> ExecutionEvent \<Rightarrow> nat list" where
  "bus_targets w e = List.map_filter id (subscribers w (ev_ExecutionID e))
     @ List.map_filter id (subscribers w ''*'')"

definition Bus_Publish :: "ExecutionEvent \<Rightarrow> unit prog_w" where
  "Bus_Publish e = modE (\<lambda>w. w\<lparr>bus_calls := bus_calls w @ map (\<lambda>fn. (fn, e)) (bus_targets w e)\<rparr>)"

section \<open>Execution events\<close>

definition Event_Record :: "string \<Rightarrow> string \<Rightarrow> ExecutionEventType \<Rightarrow> string \<Rightarrow> string \<Rightarrow> string \<Rightarrow> jobj option \<Rightarrow> unit prog_w" where
  "Event_Record executionID pluginID eventType status message requestID detail =
     (if executionID = [] then retE ()
      else bindE (newID ''evt'') (\<lambda>i. bindE time_now (\<lambda>now.
        let e = \<lparr>ev_TenantID = DefaultTenantID, ev_ProjectID = DefaultProjectID, ev_ID = i,
              ev_ExecutionID = executionID, ev_PluginID = pluginID, ev_Type = eventType,
              ev_Status = status, ev_Message = message, ev_Detail = detail,
              ev_RequestID = requestID, ev_CreatedAt = now\<rparr>
        in tryE (Event_Create e) (\<lambda>_. Bus_Publish e))))"

section \<open>Audit\<close>

definition detail_string :: "jobj \<Rightarrow> string \<Rightarrow> string option" where
  "detail_string d k = (case map_of d k of Some (JStr v) \<Rightarrow> if v \<noteq> [] then Some v else None | _ \<Rightarrow> None)"

definition audit_details :: "jobj option \<Rightarrow> AuditLog \<Rightarrow> AuditLog" where
  "audit_details detail log = (case detail of None \<Rightarrow> log | Some d \<Rightarrow>
     let log = (case detail_string d ''plugin_digest'' of Some v \<Rightarrow> log\<lparr>al_PluginDigest := v\<rparr> | None \<Rightarrow> log);
         log = (case detail_string d ''input_hash'' of Some v \<Rightarrow> log\<lparr>al_InputHash := v\<rparr> | None \<Rightarrow> log)
     in (case detail_string d ''result_hash'' of Some v \<Rightarrow> log\<lparr>al_ResultHash := v\<rparr> | None \<Rightarrow> log))"

definition Audit_RecordScoped :: "ResourceScope \<Rightarrow> string \<Rightarrow> AuditAction \<Rightarrow> AuditResourceType \<Rightarrow> string
    \<Rightarrow> string \<Rightarrow> string \<Rightarrow> AuditDecision \<Rightarrow> string \<Rightarrow> string \<Rightarrow> jobj option \<Rightarrow> unit prog_w" where
  "Audit_RecordScoped scope actorID action resourceType resourceID requestID traceID decision reason message detail =
     (let scope = Normalize scope;
          decision = (if decision = AuditDecisionNone then AuditDecisionAllow else decision)
      in bindE (newID ''audit'') (\<lambda>i. bindE time_now (\<lambda>now.
           Audit_Create (audit_details detail
             \<lparr>al_TenantID = sc_TenantID scope, al_ProjectID = sc_ProjectID scope, al_ID = i,
              al_ActorID = actorID, al_ActorType = ''user'', al_UserID = actorID, al_Action = action,
              al_ResourceType = resourceType, al_ResourceID = resourceID, al_Decision = decision,
              al_Reason = reason, al_RequestID = requestID, al_TraceID = traceID,
              al_PluginDigest = [], al_InputHash = [], al_ResultHash = [], al_Message = message,
              al_DetailJSON = detail, al_CreatedAt = now\<rparr>))))"

definition Audit_Record :: "string \<Rightarrow> AuditAction \<Rightarrow> AuditResourceType \<Rightarrow> string \<Rightarrow> string \<Rightarrow> string \<Rightarrow> jobj option \<Rightarrow> unit prog_w" where
  "Audit_Record userID action resourceType resourceID requestID message detail =
     Audit_RecordScoped NewDefaultScope userID action resourceType resourceID requestID []
       AuditDecisionAllow [] message detail"

section \<open>Attempts\<close>

definition second :: time where "second = 1000000000"

definition StartAttempt :: "string \<Rightarrow> string \<Rightarrow> ExecutionAttempt prog_w" where
  "StartAttempt executionID workerID =
     bindE (Attempt_NextAttemptNo executionID) (\<lambda>attemptNo.
     bindE time_now (\<lambda>now.
     bindE (newID ''attempt'') (\<lambda>i. bindE (newID ''lease'') (\<lambda>l.
       let attempt = \<lparr>at_TenantID = DefaultTenantID, at_ProjectID = DefaultProjectID, at_ID = i,
             at_ExecutionID = executionID, at_AttemptNo = attemptNo, at_WorkerID = workerID,
             at_LeaseID = l, at_HeartbeatAt = Some now, at_LeaseUntil = Some (now + 30 * second),
             at_Status = ExecutionAttemptRunning, at_ErrorMessage = [], at_StartedAt = now,
             at_FinishedAt = None\<rparr>
       in bindE (Attempt_Create attempt) (\<lambda>_. retE attempt)))))"

definition Attempt_Heartbeat :: "ExecutionAttempt \<Rightarrow> time \<Rightarrow> ExecutionAttempt prog_w" where
  "Attempt_Heartbeat attempt extendBy = bindE time_now (\<lambda>now.
     let attempt = attempt\<lparr>at_HeartbeatAt := Some now, at_LeaseUntil := Some (now + extendBy)\<rparr>
     in bindE (Attempt_Update attempt) (\<lambda>_. retE attempt))"

definition FinishAttempt :: "ExecutionAttempt \<Rightarrow> ExecutionAttemptStatus \<Rightarrow> string \<Rightarrow> unit prog_w" where
  "FinishAttempt attempt status errMsg = bindE time_now (\<lambda>now.
     Attempt_Update (attempt\<lparr>at_Status := status, at_ErrorMessage := errMsg, at_FinishedAt := Some now\<rparr>))"

section \<open>Operations that only observe\<close>

text \<open>
  \<open>observes w w'\<close>: the tasks, their results, the plugins, the users, the queue, the subscribers
  and the environment are untouched, no child process is started, identifiers are only consumed, and the event and audit logs
  have at most grown at the end.
\<close>

definition observes :: "world \<Rightarrow> world \<Rightarrow> bool" where
  "observes w w' \<longleftrightarrow> executions w' = executions w \<and> execution_results w' = execution_results w \<and>
     cmd_log w' = cmd_log w \<and> plugins w' = plugins w \<and> users w' = users w \<and>
     queue_ch w' = queue_ch w \<and> queue_size w' = queue_size w \<and> subscribers w' = subscribers w \<and>
     w_env w' = w_env w \<and> id_ix w \<le> id_ix w' \<and>
     prefix (execution_events w) (execution_events w') \<and> prefix (audit_logs w) (audit_logs w')"

abbreviation always :: "world \<Rightarrow> bool" where "always \<equiv> \<lambda>_. True"

interpretation obs: state_order always observes
  by unfold_locales (auto simp: observes_def intro: prefix_order.trans)

named_theorems observing \<open>operations that only observe\<close>

lemmas [observing] = obs.intros

lemma observes_time_now [observing]: "evolves always observes time_now"
  by (simp add: evolves_def time_now_def observes_def)
lemma observes_newID [observing]: "evolves always observes (newID p)"
  by (simp add: evolves_def newID_def observes_def)
lemma observes_metric [observing]: "evolves always observes (add_metric m n)"
  by (simp add: evolves_def add_metric_def observes_def)
lemma observes_Load [observing]: "evolves always observes (Load f)"
  by (simp add: evolves_def observes_def)
lemma observes_find [observing]: "evolves always observes (repo_find f p)"
  unfolding repo_find_def by (intro observing)
lemma observes_filter [observing]: "evolves always observes (repo_filter f p)"
  unfolding repo_filter_def by (intro observing)

text \<open>A write to a collection that \<open>observes\<close> does not watch, or that only appends.\<close>

lemma observes_append:
  assumes "\<And>w. observes w (upd (\<lambda>_. file (w\<lparr>io_ix := Suc (io_ix w)\<rparr>) @ xs) (w\<lparr>io_ix := Suc (Suc (io_ix w))\<rparr>))"
  shows "evolves always observes (repo_append file upd xs)"
proof (rule evolvesI)
  fix w
  obtain r t where e: "repo_append file upd xs w = (r, t)" by (cases "repo_append file upd xs w")
  then have "observes w t"
  proof (cases rule: repo_append_cases)
    case (Fail e n) then show ?thesis by (simp add: observes_def)
  next
    case Done with assms show ?thesis by (simp add: numeral_2_eq_2)
  qed
  with e show "True \<and> observes w (snd (repo_append file upd xs w))" by simp
qed

lemma observes_update:
  assumes "\<And>xs w n. observes w (upd (\<lambda>_. xs) (w\<lparr>io_ix := n\<rparr>))"
  shows "evolves always observes (repo_update file upd key x)"
proof (rule evolvesI)
  fix w
  obtain r t where e: "repo_update file upd key x w = (r, t)" by (cases "repo_update file upd key x w")
  then have "observes w t"
  proof (cases rule: repo_update_cases)
    case (Fail e n) then show ?thesis by (simp add: observes_def)
  next
    case Done with assms show ?thesis by (simp add: numeral_2_eq_2)
  qed
  with e show "True \<and> observes w (snd (repo_update file upd key x w))" by simp
qed

lemma observes_Event_Create [observing]: "evolves always observes (Event_Create e)"
  unfolding Event_Create_def by (rule observes_append) (simp add: observes_def)
lemma observes_Audit_Create [observing]: "evolves always observes (Audit_Create l)"
  unfolding Audit_Create_def by (rule observes_append) (simp add: observes_def)
lemma observes_Attempt_Create [observing]: "evolves always observes (Attempt_Create a)"
  unfolding Attempt_Create_def by (rule observes_append) (simp add: observes_def)
lemma observes_Attempt_Update [observing]: "evolves always observes (Attempt_Update a)"
  unfolding Attempt_Update_def by (rule observes_update) (simp add: observes_def)

lemma observes_Publish [observing]: "evolves always observes (Bus_Publish e)"
  unfolding Bus_Publish_def by (rule obs.mods) (simp add: observes_def)

lemma observes_Event_Record [observing]:
  "evolves always observes (Event_Record i p t s m q d)"
  unfolding Event_Record_def Let_def by (intro observing)

lemma observes_Audit [observing]:
  "evolves always observes (Audit_RecordScoped sc a act rt ri rq tr de re ms dt)"
  unfolding Audit_RecordScoped_def Let_def by (intro observing)

lemma observes_StartAttempt [observing]: "evolves always observes (StartAttempt i wk)"
  unfolding StartAttempt_def Attempt_NextAttemptNo_def Attempt_ListByExecutionID_def Let_def
  by (intro observing)

lemma observes_FinishAttempt [observing]: "evolves always observes (FinishAttempt a s m)"
  unfolding FinishAttempt_def by (intro observing)

text \<open>The same, except that child processes may have been started (running plugins).\<close>

definition ran :: "world \<Rightarrow> world \<Rightarrow> bool" where
  "ran w t \<longleftrightarrow> prefix (cmd_log w) (cmd_log t) \<and> observes w (t\<lparr>cmd_log := cmd_log w\<rparr>)"

interpretation rans: state_order always ran
  by unfold_locales (auto simp: ran_def observes_def intro: prefix_order.trans)

lemma observing_ran: "evolves always observes m \<Longrightarrow> evolves always ran m"
  by (erule evolves_mono) (simp add: ran_def observes_def)

end
