(* ===== verification/StateMachines.thy ===== *)
theory StateMachines
  imports Model
begin

text \<open>
  \<^verbatim>\<open>internal/service/execution_state.go\<close> and \<^verbatim>\<open>plugin_state.go\<close>: the two transition
  tables, and what they mean for whole histories: \<open>status_path\<close> is "reachable by legal
  transitions", final statuses are its ends, and every legal history is short.
\<close>

section \<open>Executions\<close>

definition exec_allowed :: "ExecutionStatus \<Rightarrow> ExecutionStatus list" where
  "exec_allowed from =
     (if from = ExecutionStatusPending then
        [ExecutionStatusQueued, ExecutionStatusCanceled, ExecutionStatusFailed]
      else if from = ExecutionStatusQueued then
        [ExecutionStatusRunning, ExecutionStatusCanceled, ExecutionStatusFailed]
      else if from = ExecutionStatusRunning then
        [ExecutionStatusSuccess, ExecutionStatusPartialSuccess, ExecutionStatusFailed,
         ExecutionStatusTimeout, ExecutionStatusCanceled]
      else [])"

definition Exec_CanTransit :: "ExecutionStatus \<Rightarrow> ExecutionStatus \<Rightarrow> bool" where
  "Exec_CanTransit from to = list_ex (\<lambda>s. s = to) (exec_allowed from)"

definition Exec_ValidateTransition :: "ExecutionStatus \<Rightarrow> ExecutionStatus \<Rightarrow> go_error option" where
  "Exec_ValidateTransition from to =
     (if \<not> Exec_CanTransit from to
      then Some (NewAppError CodeExecutionStateInvalid ''invalid execution state transition'')
      else None)"

definition CanCancel :: "ExecutionStatus \<Rightarrow> bool" where
  "CanCancel s \<longleftrightarrow> s = ExecutionStatusPending \<or> s = ExecutionStatusQueued \<or> s = ExecutionStatusRunning"

definition CanRun :: "ExecutionStatus \<Rightarrow> bool" where
  "CanRun s \<longleftrightarrow> s = ExecutionStatusQueued"

definition IsFinal :: "ExecutionStatus \<Rightarrow> bool" where
  "IsFinal s = IsFinalExecutionStatus s"

lemma Exec_CanTransit_iff:
  "Exec_CanTransit a b \<longleftrightarrow>
     a = ExecutionStatusPending \<and> b \<in> {ExecutionStatusQueued, ExecutionStatusCanceled, ExecutionStatusFailed} \<or>
     a = ExecutionStatusQueued \<and> b \<in> {ExecutionStatusRunning, ExecutionStatusCanceled, ExecutionStatusFailed} \<or>
     a = ExecutionStatusRunning \<and> b \<in> {ExecutionStatusSuccess, ExecutionStatusPartialSuccess,
       ExecutionStatusFailed, ExecutionStatusTimeout, ExecutionStatusCanceled}"
  by (auto simp: Exec_CanTransit_def exec_allowed_def)

lemma Exec_ValidateTransition_None [simp]:
  "Exec_ValidateTransition a b = None \<longleftrightarrow> Exec_CanTransit a b"
  by (simp add: Exec_ValidateTransition_def)

text \<open>Cancelling is legal exactly where the table has an edge to \<open>Canceled\<close>.\<close>

lemma CanCancel_iff: "CanCancel s \<longleftrightarrow> Exec_CanTransit s ExecutionStatusCanceled"
  by (auto simp: CanCancel_def Exec_CanTransit_iff)

lemma final_no_transition: "IsFinalExecutionStatus s \<Longrightarrow> \<not> Exec_CanTransit s t"
  by (auto simp: IsFinalExecutionStatus_def Exec_CanTransit_iff)

definition status_path :: "ExecutionStatus \<Rightarrow> ExecutionStatus \<Rightarrow> bool" where
  "status_path = Exec_CanTransit\<^sup>*\<^sup>*"

lemma status_path_refl [simp, intro]: "status_path s s" by (simp add: status_path_def)
lemma status_path_trans: "status_path a b \<Longrightarrow> status_path b c \<Longrightarrow> status_path a c"
  by (simp add: status_path_def)
lemma status_path_step: "Exec_CanTransit a b \<Longrightarrow> status_path a b"
  by (simp add: status_path_def r_into_rtranclp)

lemma status_path_final: "status_path a b \<Longrightarrow> IsFinalExecutionStatus a \<Longrightarrow> b = a"
  unfolding status_path_def by (erule converse_rtranclpE) (auto dest: final_no_transition)

text \<open>The number of transitions still possible: every legal step lowers it.\<close>

fun exec_rank :: "ExecutionStatus \<Rightarrow> nat" where
  "exec_rank ExecutionStatusPending = 3"
| "exec_rank ExecutionStatusQueued = 2"
| "exec_rank ExecutionStatusRunning = 1"
| "exec_rank _ = 0"

lemma exec_rank_less: "Exec_CanTransit a b \<Longrightarrow> exec_rank b < exec_rank a"
  by (auto simp: Exec_CanTransit_iff)

fun legal_history :: "ExecutionStatus \<Rightarrow> ExecutionStatus list \<Rightarrow> bool" where
  "legal_history s [] = True"
| "legal_history s (t # ts) = (Exec_CanTransit s t \<and> legal_history t ts)"

lemma legal_history_length: "legal_history s ts \<Longrightarrow> length ts \<le> exec_rank s"
proof (induction ts arbitrary: s)
  case (Cons t ts)
  then have "length ts \<le> exec_rank t" and "exec_rank t < exec_rank s"
    using exec_rank_less by auto
  then show ?case by simp
qed simp

section \<open>Plugins\<close>

definition plugin_allowed :: "PluginStatus \<Rightarrow> PluginStatus list" where
  "plugin_allowed from =
     (if from = PluginStatusDiscovered then [PluginStatusLoaded, PluginStatusError]
      else if from = PluginStatusLoaded then
        [PluginStatusEnabled, PluginStatusDisabled, PluginStatusError, PluginStatusRemoved]
      else if from = PluginStatusEnabled then [PluginStatusDisabled, PluginStatusError]
      else if from = PluginStatusDisabled then
        [PluginStatusEnabled, PluginStatusError, PluginStatusRemoved]
      else if from = PluginStatusError then [PluginStatusLoaded, PluginStatusRemoved]
      else [])"

definition Plugin_CanTransit :: "PluginStatus \<Rightarrow> PluginStatus \<Rightarrow> bool" where
  "Plugin_CanTransit from to = list_ex (\<lambda>s. s = to) (plugin_allowed from)"

definition Plugin_ValidateTransition :: "PluginStatus \<Rightarrow> PluginStatus \<Rightarrow> go_error option" where
  "Plugin_ValidateTransition from to =
     (if \<not> Plugin_CanTransit from to
      then Some (NewAppError CodePluginStateInvalid ''invalid plugin state transition'')
      else None)"

definition CanEnable :: "Plugin \<Rightarrow> bool" where
  "CanEnable p \<longleftrightarrow> pl_Status p = PluginStatusLoaded \<or> pl_Status p = PluginStatusDisabled"

definition CanDisable :: "Plugin \<Rightarrow> bool" where
  "CanDisable p \<longleftrightarrow> pl_Status p = PluginStatusEnabled"

definition CanExecute :: "Plugin \<Rightarrow> bool" where
  "CanExecute p \<longleftrightarrow> pl_Status p = PluginStatusEnabled"

lemma Plugin_CanTransit_iff:
  "Plugin_CanTransit a b \<longleftrightarrow> b \<in> set (plugin_allowed a)"
  by (auto simp: Plugin_CanTransit_def list_ex_iff)

text \<open>Enabling is possible exactly from the statuses with an edge to \<open>Enabled\<close>.\<close>

lemma CanEnable_iff: "CanEnable p \<longleftrightarrow> Plugin_CanTransit (pl_Status p) PluginStatusEnabled"
  by (auto simp: CanEnable_def Plugin_CanTransit_iff plugin_allowed_def)

text \<open>
  Disabling asks for more than the table: \<open>Loaded\<close> has an edge to \<open>Disabled\<close> that
  \<open>CanDisable\<close> does not use.
\<close>

lemma CanDisable_legal: "CanDisable p \<Longrightarrow> Plugin_CanTransit (pl_Status p) PluginStatusDisabled"
  by (auto simp: CanDisable_def Plugin_CanTransit_iff plugin_allowed_def)

lemma removed_terminal: "\<not> Plugin_CanTransit PluginStatusRemoved s"
  by (simp add: Plugin_CanTransit_iff plugin_allowed_def)

text \<open>
  From \<open>Pending\<close> a history of legal transitions has at most three steps, and a history that
  starts in a final status has none.
\<close>

theorem execution_history_bounded:
  assumes "legal_history s ts"
  shows "length ts \<le> 3 \<and> (IsFinalExecutionStatus s \<longrightarrow> ts = [])"
proof -
  have "length ts \<le> exec_rank s" using assms by (rule legal_history_length)
  moreover have "exec_rank s \<le> 3" by (cases s) simp_all
  moreover have "IsFinalExecutionStatus s \<Longrightarrow> exec_rank s = 0" by (auto simp: IsFinalExecutionStatus_def)
  ultimately show ?thesis by auto
qed

theorem execution_history_bounded_witness:
  "length [ExecutionStatusQueued, ExecutionStatusRunning, ExecutionStatusSuccess] \<le> 3"
  using execution_history_bounded [of ExecutionStatusPending
      "[ExecutionStatusQueued, ExecutionStatusRunning, ExecutionStatusSuccess]"]
  by (simp add: Exec_CanTransit_def exec_allowed_def)

end
