(* ===== verification/Plugins.thy ===== *)
theory Plugins
  imports Observe StateMachines
begin

text \<open>
  \<^verbatim>\<open>internal/service/plugin.go\<close>. The service holds a \<^verbatim>\<open>repository.PluginStore\<close>, a Go
  interface: here a record of its methods (with the clock and the identifier source of
  the process), so that the one service runs over the JSON files and over Postgres. What
  the service relies on is the locale \<open>plugin_service\<close>, an extension of the keyed store.
\<close>

record 's PluginStore =
  ps_Create :: "Plugin \<Rightarrow> (go_error, 's, unit) prog"
  ps_Update :: "Plugin \<Rightarrow> (go_error, 's, unit) prog"
  ps_GetByID :: "string \<Rightarrow> (go_error, 's, Plugin option) prog"
  ps_GetByNameVersion :: "string \<Rightarrow> string \<Rightarrow> (go_error, 's, Plugin option) prog"
  ps_List :: "(go_error, 's, Plugin list) prog"
  ps_Now :: "(go_error, 's, time) prog"
  ps_NewID :: "string \<Rightarrow> (go_error, 's, string) prog"

definition json_plugin_store :: "world PluginStore" where
  "json_plugin_store = \<lparr>ps_Create = Plugin_Create, ps_Update = Plugin_Update,
     ps_GetByID = Plugin_GetByID, ps_GetByNameVersion = Plugin_GetByNameVersion,
     ps_List = Plugin_List, ps_Now = time_now, ps_NewID = newID\<rparr>"

section \<open>Operations\<close>

definition ListPlugins :: "'s PluginStore \<Rightarrow> (go_error, 's, Plugin list) prog" where
  "ListPlugins S = ps_List S"

definition GetPlugin :: "'s PluginStore \<Rightarrow> string \<Rightarrow> (go_error, 's, Plugin) prog" where
  "GetPlugin S i = bindE (ps_GetByID S i) (\<lambda>r. case r of
      None \<Rightarrow> failE (NewAppError CodePluginNotFound ''plugin not found'')
    | Some p \<Rightarrow> retE p)"

definition EnablePlugin :: "'s PluginStore \<Rightarrow> string \<Rightarrow> (go_error, 's, Plugin) prog" where
  "EnablePlugin S i = bindE (GetPlugin S i) (\<lambda>p.
     guardE (\<not> CanEnable p) (NewAppError CodePluginStateInvalid ''plugin cannot be enabled'')
       (bindE (ps_Now S) (\<lambda>now.
          let p = p\<lparr>pl_Status := PluginStatusEnabled, pl_UpdatedAt := now\<rparr>
          in bindE (ps_Update S p) (\<lambda>_. retE p))))"

definition DisablePlugin :: "'s PluginStore \<Rightarrow> string \<Rightarrow> (go_error, 's, Plugin) prog" where
  "DisablePlugin S i = bindE (GetPlugin S i) (\<lambda>p.
     guardE (\<not> CanDisable p) (NewAppError CodePluginStateInvalid ''plugin cannot be disabled'')
       (bindE (ps_Now S) (\<lambda>now.
          let p = p\<lparr>pl_Status := PluginStatusDisabled, pl_UpdatedAt := now\<rparr>
          in bindE (ps_Update S p) (\<lambda>_. retE p))))"

definition executable_plugin :: "'s PluginStore \<Rightarrow> ResourceScope \<Rightarrow> bool \<Rightarrow> string \<Rightarrow> (go_error, 's, Plugin) prog" where
  "executable_plugin S scope checkScope i = bindE (GetPlugin S i) (\<lambda>p.
     guardE (checkScope \<and> \<not> SameScope scope (Plugin_Scope p))
       (NewAppError CodeForbidden ''plugin is outside current tenant/project scope'')
     (guardE (\<not> CanExecute p)
       (NewDetailedError CodePluginDisabled ''plugin is not executable'' (pl_Name p))
     (retE p)))"

definition ValidatePluginsExecutableInScope :: "'s PluginStore \<Rightarrow> string list \<Rightarrow> ResourceScope \<Rightarrow> (go_error, 's, Plugin list) prog" where
  "ValidatePluginsExecutableInScope S ids scope =
     (let scope = Normalize scope; checkScope = \<not> IsZero scope
      in mapE (executable_plugin S scope checkScope) ids)"

definition ValidatePluginsExecutable :: "'s PluginStore \<Rightarrow> string list \<Rightarrow> (go_error, 's, Plugin list) prog" where
  "ValidatePluginsExecutable S ids = ValidatePluginsExecutableInScope S ids (mk_scope [] [])"

definition GetExecutablePlugins :: "'s PluginStore \<Rightarrow> string list \<Rightarrow> (go_error, 's, Plugin list) prog" where
  "GetExecutablePlugins S ids = ValidatePluginsExecutable S ids"

definition GetExecutablePluginsInScope :: "'s PluginStore \<Rightarrow> string list \<Rightarrow> ResourceScope \<Rightarrow> (go_error, 's, Plugin list) prog" where
  "GetExecutablePluginsInScope S ids scope = ValidatePluginsExecutableInScope S ids scope"

definition reloaded_status :: "PluginStatus \<Rightarrow> PluginStatus" where
  "reloaded_status s =
     (if s = PluginStatusRaw [] \<or> s = PluginStatusRemoved \<or> s = PluginStatusError
      then PluginStatusLoaded else s)"

definition UpsertFromManifest :: "'s PluginStore \<Rightarrow> Plugin \<Rightarrow> (go_error, 's, unit) prog" where
  "UpsertFromManifest S p = bindE (ps_Now S) (\<lambda>now.
     bindE (ps_GetByNameVersion S (pl_Name p) (pl_Version p)) (\<lambda>r. case r of
       Some existing \<Rightarrow> ps_Update S (p\<lparr>pl_ID := pl_ID existing,
         pl_Status := reloaded_status (pl_Status existing),
         pl_CreatedAt := pl_CreatedAt existing, pl_UpdatedAt := now\<rparr>)
     | None \<Rightarrow> bindE (ps_NewID S ''plugin'') (\<lambda>i. ps_Create S (p\<lparr>pl_ID := i,
         pl_Status := PluginStatusLoaded, pl_CreatedAt := now, pl_UpdatedAt := now\<rparr>))))"

section \<open>What the service relies on, and what it then guarantees\<close>

locale plugin_service = keyed_store "ps_GetByID S" "ps_Update S" pl_ID norm rows live
  for S :: "'s PluginStore" and norm rows live +
  assumes now_rows: "ps_Now S s = (r, t) \<Longrightarrow> rows t = rows s \<and> (\<exists>n. r = Inr n)"
    and now_live: "live s \<Longrightarrow> live (snd (ps_Now S s))"
    and norm_status: "pl_Status (norm p) = pl_Status p"
begin

lemma get_plugin:
  assumes "GetPlugin S i s = (r, t)"
  shows "rows t = rows s \<and> (case r of Inr p \<Rightarrow> rows s i = Some p | Inl e \<Rightarrow> True)"
proof -
  obtain q u where g: "ps_GetByID S i s = (q, u)" by (cases "ps_GetByID S i s")
  with get_rows [OF g] assms show ?thesis
    by (cases q) (auto simp: GetPlugin_def split: option.splits)
qed

lemma get_plugin_live:
  assumes "live s"
  shows "\<exists>t. GetPlugin S i s = ((case rows s i of None \<Rightarrow> Inl (NewAppError CodePluginNotFound ''plugin not found'')
           | Some p \<Rightarrow> Inr p), t) \<and> live t"
proof -
  from get_live [OF assms, of i] obtain t where "ps_GetByID S i s = (Inr (rows s i), t)" "live t" by blast
  then show ?thesis by (auto simp: GetPlugin_def split: option.split)
qed

text \<open>A guarded change of one plugin: the shape of \<^verbatim>\<open>EnablePlugin\<close> and \<^verbatim>\<open>DisablePlugin\<close>.\<close>

lemma guarded_change:
  assumes run: "bindE (GetPlugin S i) (\<lambda>p. guardE (\<not> can p) err
       (bindE (ps_Now S) (\<lambda>now. bindE (ps_Update S (f now p)) (\<lambda>_. retE (f now p))))) s = (r, t)"
    and key: "\<And>now p. pl_ID (f now p) = pl_ID p"
  shows "case r of
      Inr q \<Rightarrow> \<exists>p now. rows s i = Some p \<and> can p \<and> q = f now p \<and> rows t = (rows s)(i \<mapsto> norm q)
    | Inl e \<Rightarrow> rows t = rows s"
proof -
  obtain r1 s1 where g: "GetPlugin S i s = (r1, s1)" by (cases "GetPlugin S i s")
  note g' = get_plugin [OF g]
  show ?thesis
  proof (cases r1)
    case (Inl e) with run g g' show ?thesis by auto
  next
    case (Inr p)
    with g' have p: "rows s i = Some p" "rows s1 = rows s" by auto
    show ?thesis
    proof (cases "can p")
      case False with run g Inr p show ?thesis by (auto simp: guardE_def)
    next
      case True
      obtain rn s2 where n: "ps_Now S s1 = (rn, s2)" by (cases "ps_Now S s1")
      with now_rows obtain now where now: "rn = Inr now" "rows s2 = rows s" using p by metis
      obtain ru s3 where u: "ps_Update S (f now p) s2 = (ru, s3)" by (cases "ps_Update S (f now p) s2")
      have k: "pl_ID (f now p) = i" using key rows_key [OF p(1)] by simp
      have "bindE (ps_Update S (f now p)) (\<lambda>_. retE (f now p)) s2 = (r, t)"
        using run g Inr True n now by (simp add: guardE_def)
      then have "r = (case ru of Inr _ \<Rightarrow> Inr (f now p) | Inl e \<Rightarrow> Inl e)" "t = s3"
        using u by (auto simp: bindE_def split: sum.splits)
      with put_rows [OF u] now(2) p k True show ?thesis by (cases ru) auto
    qed
  qed
qed

lemma enable:
  assumes "EnablePlugin S i s = (r, t)"
  shows "case r of
      Inr q \<Rightarrow> \<exists>p now. rows s i = Some p \<and> CanEnable p \<and>
        q = p\<lparr>pl_Status := PluginStatusEnabled, pl_UpdatedAt := now\<rparr> \<and> rows t = (rows s)(i \<mapsto> norm q)
    | Inl e \<Rightarrow> rows t = rows s"
  using assms unfolding EnablePlugin_def Let_def by (rule guarded_change) simp

lemma disable:
  assumes "DisablePlugin S i s = (r, t)"
  shows "case r of
      Inr q \<Rightarrow> \<exists>p now. rows s i = Some p \<and> CanDisable p \<and>
        q = p\<lparr>pl_Status := PluginStatusDisabled, pl_UpdatedAt := now\<rparr> \<and> rows t = (rows s)(i \<mapsto> norm q)
    | Inl e \<Rightarrow> rows t = rows s"
  using assms unfolding DisablePlugin_def Let_def by (rule guarded_change) simp

text \<open>Enabling and disabling move a plugin along an edge of the state machine, or not at all.\<close>

lemma enable_legal:
  assumes "EnablePlugin S i s = (r, t)" and "rows s j = Some p"
  shows "\<exists>q. rows t j = Some q \<and> (pl_Status q = pl_Status p \<or> Plugin_CanTransit (pl_Status p) (pl_Status q))"
  using enable [OF assms(1)] assms(2) by (cases r) (auto simp: CanEnable_iff norm_status)

lemma disable_legal:
  assumes "DisablePlugin S i s = (r, t)" and "rows s j = Some p"
  shows "\<exists>q. rows t j = Some q \<and> (pl_Status q = pl_Status p \<or> Plugin_CanTransit (pl_Status p) (pl_Status q))"
  using disable [OF assms(1)] assms(2) CanDisable_legal by (cases r) (force simp: norm_status)+

definition runnable :: "ResourceScope \<Rightarrow> Plugin \<Rightarrow> bool" where
  "runnable scope p \<longleftrightarrow> SameScope scope (Plugin_Scope p) \<and> CanExecute p"

lemma executable_plugin_sound:
  assumes "executable_plugin S scope c i s = (r, t)"
  shows "rows t = rows s \<and> (case r of Inr p \<Rightarrow> rows s i = Some p \<and> CanExecute p \<and>
      (c \<longrightarrow> SameScope scope (Plugin_Scope p)) | Inl e \<Rightarrow> True)"
proof -
  obtain q u where g: "GetPlugin S i s = (q, u)" by (cases "GetPlugin S i s")
  with get_plugin [OF g] assms show ?thesis
    by (cases q) (auto simp: executable_plugin_def guardE_def split: if_splits)
qed

lemma executable_plugin_live:
  assumes "live s" and "rows s i = Some p" and "CanExecute p" and "SameScope scope (Plugin_Scope p)"
  shows "\<exists>t. executable_plugin S scope c i s = (Inr p, t) \<and> live t"
proof -
  from get_plugin_live [OF assms(1), of i] assms(2) obtain t where "GetPlugin S i s = (Inr p, t)" "live t" by auto
  with assms(3,4) show ?thesis by (auto simp: executable_plugin_def guardE_def)
qed

lemma validate_sound:
  assumes "mapE (executable_plugin S scope c) ids s = (r, t)"
  shows "rows t = rows s \<and> (case r of Inr ps \<Rightarrow> map Some ps = map (rows s) ids \<and>
     (\<forall>p \<in> set ps. CanExecute p \<and> (c \<longrightarrow> SameScope scope (Plugin_Scope p))) | Inl e \<Rightarrow> True)"
  using assms
proof (induction ids arbitrary: s r t)
  case Nil then show ?case by auto
next
  case (Cons i ids)
  obtain r1 s1 where 1: "executable_plugin S scope c i s = (r1, s1)"
    by (cases "executable_plugin S scope c i s")
  note e1 = executable_plugin_sound [OF 1]
  show ?case
  proof (cases r1)
    case (Inl e) with Cons.prems 1 e1 show ?thesis by auto
  next
    case (Inr p)
    obtain r2 s2 where 2: "mapE (executable_plugin S scope c) ids s1 = (r2, s2)"
      by (cases "mapE (executable_plugin S scope c) ids s1")
    from Cons.IH [OF 2] e1 Inr Cons.prems 1 2 show ?thesis
      by (cases r2) auto
  qed
qed

lemma validate_live:
  assumes "live s" and "\<forall>i \<in> set ids. \<exists>p. rows s i = Some p \<and> CanExecute p \<and> SameScope scope (Plugin_Scope p)"
  shows "\<exists>t. mapE (executable_plugin S scope c) ids s = (Inr (map (\<lambda>i. the (rows s i)) ids), t) \<and> live t"
  using assms
proof (induction ids arbitrary: s)
  case Nil then show ?case by simp
next
  case (Cons i ids)
  from Cons.prems(2) obtain p where p: "rows s i = Some p" "CanExecute p" "SameScope scope (Plugin_Scope p)"
    by auto
  from executable_plugin_live [OF Cons.prems(1) p] obtain s1
    where 1: "executable_plugin S scope c i s = (Inr p, s1)" "live s1" by blast
  from executable_plugin_sound [OF 1(1)] have "rows s1 = rows s" by simp
  with Cons.IH [OF 1(2)] Cons.prems(2) 1(1) p(1) show ?case by auto
qed

end

interpretation json_plugins: plugin_service json_plugin_store scoped_plugin "json_rows plugins pl_ID" disk_ok
  rewrites "ps_GetByID json_plugin_store = Plugin_GetByID" and "ps_Update json_plugin_store = Plugin_Update"
proof -
  show "plugin_service json_plugin_store scoped_plugin (json_rows plugins pl_ID) disk_ok"
    unfolding plugin_service_def
    by (simp add: json_plugin_store_def plugin_store.keyed_store_axioms plugin_service_axioms_def
        time_now_def disk_ok_def scoped_plugin_def Let_def)
qed (simp_all add: json_plugin_store_def)

text \<open>
  The scope is normalised before \<^verbatim>\<open>IsZero\<close> is asked, so the check is never off: validating
  without a scope is validating in the default scope.
\<close>

lemma ValidatePluginsExecutable_default:
  "ValidatePluginsExecutable S ids = mapE (executable_plugin S NewDefaultScope True) ids"
proof -
  have "Normalize (mk_scope [] []) = NewDefaultScope"
    by (simp add: Normalize_def mk_scope_def NewDefaultScope_def Let_def)
  then show ?thesis
    using Normalize_not_zero [of "mk_scope [] []"]
    by (simp add: ValidatePluginsExecutable_def ValidatePluginsExecutableInScope_def)
qed

lemma ValidatePluginsExecutableInScope_checked:
  "ValidatePluginsExecutableInScope S ids scope = mapE (executable_plugin S (Normalize scope) True) ids"
  by (simp add: ValidatePluginsExecutableInScope_def Normalize_not_zero)

end
