(* ===== verification/Postgres.thy ===== *)
theory Postgres
  imports Plugins "HOL-Library.Product_Lexorder"
begin

text \<open>
  \<^verbatim>\<open>internal/repository/postgres.go\<close>: the repositories over Postgres. A statement is one
  atomic step on the tables: it fails on its own (\<open>io_fault\<close>), or it violates a constraint of
  the schema \<^verbatim>\<open>migrations/postgres/001_enterprise_metadata.sql\<close> and changes nothing, or it
  takes effect. A \<^verbatim>\<open>jsonb\<close> column holds the value it was given; a \<^verbatim>\<open>json.Marshal\<close> error is
  dropped by the code and stores \<^verbatim>\<open>NULL\<close>. Rows are kept in insertion order, which is the
  order of a query that asks for none.
\<close>

section \<open>Statements\<close>

definition statement :: "(world \<Rightarrow> go_error option) \<Rightarrow> (world \<Rightarrow> world) \<Rightarrow> unit prog_w" where
  "statement check upd = disk (\<lambda>w. case check w of Some e \<Rightarrow> (Inl e, w) | None \<Rightarrow> (Inr (), upd w))"

definition query :: "(world \<Rightarrow> 'a) \<Rightarrow> 'a prog_w" where
  "query f = disk (getE f)"

text \<open>The first violated constraint of a list.\<close>

definition violation :: "env \<Rightarrow> (bool \<times> string) list \<Rightarrow> go_error option" where
  "violation v cs = map_option (\<lambda>c. pg_error v (snd c)) (find fst cs)"

definition set_where :: "('a \<Rightarrow> bool) \<Rightarrow> ('a \<Rightarrow> 'a) \<Rightarrow> 'a list \<Rightarrow> 'a list" where
  "set_where p f rows = map (\<lambda>r. if p r then f r else r) rows"

text \<open>\<open>INSERT ... ON CONFLICT (key) DO UPDATE SET ...\<close>: \<open>f\<close> merges the new row into the old.\<close>

definition insert_or :: "('a \<Rightarrow> 'k) \<Rightarrow> ('a \<Rightarrow> 'a) \<Rightarrow> 'a \<Rightarrow> 'a list \<Rightarrow> 'a list" where
  "insert_or key f x rows =
     (if key x \<in> key ` set rows then set_where (\<lambda>r. key r = key x) f rows else rows @ [x])"

definition obj_json :: "jobj option \<Rightarrow> jval" where
  "obj_json x = (case x of None \<Rightarrow> JNull | Some o1 \<Rightarrow> JObj o1)"

text \<open>\<^verbatim>\<open>pgJSON(v)\<close> gives no bytes when the value cannot be marshalled.\<close>

definition unencodable :: "env \<Rightarrow> jobj option \<Rightarrow> bool" where
  "unencodable v x = (case json_text v (obj_json x) of Inl _ \<Rightarrow> True | Inr _ \<Rightarrow> False)"

definition by_desc :: "('a \<Rightarrow> int) \<Rightarrow> 'a list \<Rightarrow> 'a list" where
  "by_desc key rows = sort_key (\<lambda>r. - key r) rows"

definition has_execution :: "world \<Rightarrow> string \<Rightarrow> bool" where
  "has_execution w i \<longleftrightarrow> i \<in> ex_ID ` set (executions w)"

section \<open>Users\<close>

definition PgAuth_CreateUser :: "User \<Rightarrow> unit prog_w" where
  "PgAuth_CreateUser u = statement
     (\<lambda>w. violation (w_env w)
        [(\<not> IsValidRole (us_Role u), ''users_role_check''),
         (us_ID u \<in> us_ID ` set (users w), ''users_pkey''),
         ((us_TenantID u, us_Username u) \<in> (\<lambda>x. (us_TenantID x, us_Username x)) ` set (users w), ''users_username_key'')])
     (users_update (\<lambda>rows. rows @ [u]))"

definition PgAuth_getUser :: "(User \<Rightarrow> bool) \<Rightarrow> User option prog_w" where
  "PgAuth_getUser p = query (\<lambda>w. find p (users w))"
definition PgAuth_GetUserByID :: "string \<Rightarrow> User option prog_w" where
  "PgAuth_GetUserByID i = PgAuth_getUser (\<lambda>u. us_ID u = i)"
definition PgAuth_GetUserByTokenHash :: "string \<Rightarrow> User option prog_w" where
  "PgAuth_GetUserByTokenHash h = PgAuth_getUser (\<lambda>u. us_TokenHash u = h)"
definition PgAuth_GetUserByUsername :: "string \<Rightarrow> User option prog_w" where
  "PgAuth_GetUserByUsername n = PgAuth_getUser (\<lambda>u. us_Username u = n)"
definition PgAuth_ListUsers :: "User list prog_w" where
  "PgAuth_ListUsers = query (\<lambda>w. by_desc us_CreatedAt (users w))"

section \<open>Plugins\<close>

text \<open>
  The columns the migration gives the table, and those every read of a plugin names
  (\<^verbatim>\<open>pluginSelectSQL\<close>). A query that names a missing column is refused.
\<close>

definition plugins_columns :: "string list" where
  "plugins_columns = [''id'', ''tenant_id'', ''project_id'', ''name'', ''version'', ''api_version'', ''runtime_type'',
     ''protocol'', ''command'', ''args_json'', ''image'', ''work_dir'', ''capabilities'', ''permissions'', ''resources'',
     ''secret_refs'', ''checksum'', ''signature'', ''provenance'', ''status'', ''error_message'', ''created_at'', ''updated_at'']"

definition pluginSelectSQL :: "string list" where
  "pluginSelectSQL = [''id'', ''tenant_id'', ''project_id'', ''name'', ''version'', ''description'', ''runtime_type'',
     ''command'', ''args_json'', ''image'', ''work_dir'', ''status'', ''error_message'', ''api_version'', ''protocol'',
     ''capabilities'', ''checksum'', ''secret_refs'', ''created_at'', ''updated_at'']"

text \<open>
  What an insert stores of a plugin. The columns \<^verbatim>\<open>permissions\<close> and \<^verbatim>\<open>resources\<close> hold the
  network policy, the variables and the limits; nothing reads them back (\<open>scanPlugin\<close>).
\<close>

definition stored_plugin :: "Plugin \<Rightarrow> Plugin" where
  "stored_plugin p = p\<lparr>pl_Description := [], pl_TimeoutSeconds := 0, pl_ChecksumVerified := False\<rparr>"

definition scanPlugin :: "Plugin \<Rightarrow> Plugin" where
  "scanPlugin p = p\<lparr>pl_Env := [], pl_TimeoutSeconds := 0, pl_MemoryLimit := [], pl_CPULimit := [], pl_PIDsLimit := 0,
     pl_NetworkPolicy := [], pl_ChecksumVerified := False\<rparr>"

definition plugin_key :: "Plugin \<Rightarrow> string \<times> string \<times> string \<times> string" where
  "plugin_key p = (pl_TenantID p, pl_ProjectID p, pl_Name p, pl_Version p)"

definition PgPlugin_upsert :: "Plugin \<Rightarrow> unit prog_w" where
  "PgPlugin_upsert p = statement
     (\<lambda>w. violation (w_env w) [(plugin_key p \<notin> plugin_key ` set (plugins w) \<and> pl_ID p \<in> pl_ID ` set (plugins w), ''plugins_pkey'')])
     (plugins_update (insert_or plugin_key
        (\<lambda>old. (stored_plugin p)\<lparr>pl_ID := pl_ID old, pl_CreatedAt := pl_CreatedAt old\<rparr>) (stored_plugin p)))"

definition PgPlugin_Create :: "Plugin \<Rightarrow> unit prog_w" where "PgPlugin_Create p = PgPlugin_upsert p"
definition PgPlugin_Update :: "Plugin \<Rightarrow> unit prog_w" where "PgPlugin_Update p = PgPlugin_upsert p"

definition select_plugins :: "(world \<Rightarrow> 'a) \<Rightarrow> 'a prog_w" where
  "select_plugins f = disk (\<lambda>w.
     if list_all (\<lambda>c. c \<in> set plugins_columns) pluginSelectSQL then (Inr (f w), w)
     else (Inl (pg_error (w_env w) ''undefined_column''), w))"

definition PgPlugin_get :: "(Plugin \<Rightarrow> bool) \<Rightarrow> Plugin option prog_w" where
  "PgPlugin_get p = select_plugins (\<lambda>w. map_option scanPlugin (find p (plugins w)))"
definition PgPlugin_GetByID :: "string \<Rightarrow> Plugin option prog_w" where
  "PgPlugin_GetByID i = PgPlugin_get (\<lambda>p. pl_ID p = i)"
definition PgPlugin_GetByNameVersion :: "string \<Rightarrow> string \<Rightarrow> Plugin option prog_w" where
  "PgPlugin_GetByNameVersion n v = PgPlugin_get (\<lambda>p. pl_Name p = n \<and> pl_Version p = v)"
definition PgPlugin_List :: "Plugin list prog_w" where
  "PgPlugin_List = select_plugins (\<lambda>w. map scanPlugin (sort_key plugin_key (plugins w)))"

definition PgPlugin_UpdateStatus :: "string \<Rightarrow> PluginStatus \<Rightarrow> unit prog_w" where
  "PgPlugin_UpdateStatus i s = bindE time_now (\<lambda>now. statement (\<lambda>_. None)
     (plugins_update (set_where (\<lambda>p. pl_ID p = i) (\<lambda>p. p\<lparr>pl_Status := s, pl_UpdatedAt := now\<rparr>))))"
definition PgPlugin_UpdateError :: "string \<Rightarrow> string \<Rightarrow> unit prog_w" where
  "PgPlugin_UpdateError i msg = bindE time_now (\<lambda>now. statement (\<lambda>_. None)
     (plugins_update (set_where (\<lambda>p. pl_ID p = i)
        (\<lambda>p. p\<lparr>pl_Status := PluginStatusError, pl_ErrorMessage := msg, pl_UpdatedAt := now\<rparr>))))"
definition PgPlugin_MarkRemoved :: "string \<Rightarrow> unit prog_w" where
  "PgPlugin_MarkRemoved i = PgPlugin_UpdateStatus i PluginStatusRemoved"

definition pg_plugin_store :: "world PluginStore" where
  "pg_plugin_store = \<lparr>ps_Create = PgPlugin_Create, ps_Update = PgPlugin_Update,
     ps_GetByID = PgPlugin_GetByID, ps_GetByNameVersion = PgPlugin_GetByNameVersion,
     ps_List = PgPlugin_List, ps_Now = time_now, ps_NewID = newID\<rparr>"

section \<open>The registry\<close>

definition PgRegistry_Upsert :: "PluginRegistryRecord \<Rightarrow> unit prog_w" where
  "PgRegistry_Upsert r = statement
     (\<lambda>w. violation (w_env w) [(rg_PluginID r \<notin> pl_ID ` set (plugins w), ''plugin_registry_plugin_id_fkey'')])
     (plugin_registry_update (insert_or rg_PluginID
        (\<lambda>old. old\<lparr>rg_SourcePath := rg_SourcePath r, rg_ManifestHash := rg_ManifestHash r,
                   rg_LastSeenAt := rg_LastSeenAt r, rg_SyncedAt := rg_SyncedAt r\<rparr>) (r\<lparr>rg_ID := []\<rparr>)))"
definition PgRegistry_GetByPluginID :: "string \<Rightarrow> PluginRegistryRecord option prog_w" where
  "PgRegistry_GetByPluginID i = query (\<lambda>w. find (\<lambda>r. rg_PluginID r = i) (plugin_registry w))"
definition PgRegistry_List :: "PluginRegistryRecord list prog_w" where
  "PgRegistry_List = query (\<lambda>w. sort_key (\<lambda>r. (rg_Name r, rg_Version r)) (plugin_registry w))"

section \<open>Executions\<close>

text \<open>The partial unique index, and the columns an insert leaves at their defaults.\<close>

definition pg_idem_key :: "Execution \<Rightarrow> string \<times> string \<times> string \<times> string" where
  "pg_idem_key e = (ex_TenantID e, ex_ProjectID e, ex_UserID e, ex_IdempotencyKey e)"

definition idem_conflict :: "Execution \<Rightarrow> Execution \<Rightarrow> bool" where
  "idem_conflict e it \<longleftrightarrow> ex_IdempotencyKey e \<noteq> [] \<and> pg_idem_key it = pg_idem_key e"

definition inserted_execution :: "Execution \<Rightarrow> Execution" where
  "inserted_execution e = e\<lparr>ex_ErrorMessage := [], ex_QueuedAt := None, ex_StartedAt := None, ex_FinishedAt := None\<rparr>"

definition insert_execution :: "Execution \<Rightarrow> Execution prog_w" where
  "insert_execution e = disk (\<lambda>w.
     if unencodable (w_env w) (ex_InputJSON e) then (Inl (pg_error (w_env w) ''input_json_not_null''), w)
     else case find (idem_conflict e) (executions w) of
       Some it \<Rightarrow> (Inr it, w)
     | None \<Rightarrow> if has_execution w (ex_ID e) then (Inl (pg_error (w_env w) ''executions_pkey''), w)
         else (Inr (inserted_execution e), w\<lparr>executions := executions w @ [inserted_execution e]\<rparr>))"

definition PgExecution_CreateWithIdempotency :: "Execution \<Rightarrow> (Execution \<times> bool) prog_w" where
  "PgExecution_CreateWithIdempotency e = bindE (insert_execution e) (\<lambda>out. retE (out, ex_ID out = ex_ID e))"
definition PgExecution_Create :: "Execution \<Rightarrow> unit prog_w" where
  "PgExecution_Create e = bindE (PgExecution_CreateWithIdempotency e) (\<lambda>_. retE ())"
definition PgExecution_Update :: "Execution \<Rightarrow> unit prog_w" where
  "PgExecution_Update e = statement
     (\<lambda>w. let olds = filter (\<lambda>r. ex_ID r = ex_ID e) (executions w) in violation (w_env w)
        [(olds \<noteq> [] \<and> unencodable (w_env w) (ex_InputJSON e), ''input_json_not_null''),
         (list_ex (\<lambda>r. list_ex (\<lambda>x. ex_ID x \<noteq> ex_ID e \<and> idem_conflict (r\<lparr>ex_IdempotencyKey := ex_IdempotencyKey e\<rparr>) x)
            (executions w)) olds, ''executions_idempotency_key_uidx'')])
     (executions_update (set_where (\<lambda>r. ex_ID r = ex_ID e)
        (\<lambda>r. e\<lparr>ex_TenantID := ex_TenantID r, ex_ProjectID := ex_ProjectID r, ex_UserID := ex_UserID r,
               ex_CreatedAt := ex_CreatedAt r\<rparr>)))"
definition PgExecution_get :: "(Execution \<Rightarrow> bool) \<Rightarrow> Execution option prog_w" where
  "PgExecution_get p = query (\<lambda>w. find p (executions w))"
definition PgExecution_GetByID :: "string \<Rightarrow> Execution option prog_w" where
  "PgExecution_GetByID i = PgExecution_get (\<lambda>e. ex_ID e = i)"
definition PgExecution_FindByIdempotencyKey :: "string \<Rightarrow> string \<Rightarrow> Execution option prog_w" where
  "PgExecution_FindByIdempotencyKey u k = PgExecution_get (\<lambda>e. ex_UserID e = u \<and> ex_IdempotencyKey e = k)"
definition PgExecution_list :: "(Execution \<Rightarrow> bool) \<Rightarrow> Execution list prog_w" where
  "PgExecution_list p = query (\<lambda>w. by_desc ex_CreatedAt (filter p (executions w)))"
definition PgExecution_ListByUserID :: "string \<Rightarrow> Execution list prog_w" where
  "PgExecution_ListByUserID u = PgExecution_list (\<lambda>e. ex_UserID e = u)"
definition PgExecution_ListAll :: "Execution list prog_w" where
  "PgExecution_ListAll = PgExecution_list (\<lambda>_. True)"
definition PgExecution_ListByScope :: "ResourceScope \<Rightarrow> Execution list prog_w" where
  "PgExecution_ListByScope s = (let s = Normalize s in
     PgExecution_list (\<lambda>e. ex_TenantID e = sc_TenantID s \<and> ex_ProjectID e = sc_ProjectID s))"
definition PgExecution_ListByStatuses :: "ExecutionStatus list \<Rightarrow> Execution list prog_w" where
  "PgExecution_ListByStatuses ss =
     (if ss = [] then PgExecution_ListAll else PgExecution_list (\<lambda>e. ex_Status e \<in> set ss))"
definition PgExecution_UpdateStatus :: "string \<Rightarrow> ExecutionStatus \<Rightarrow> string \<Rightarrow> unit prog_w" where
  "PgExecution_UpdateStatus i s msg = bindE time_now (\<lambda>now. statement (\<lambda>_. None)
     (executions_update (set_where (\<lambda>e. ex_ID e = i) (\<lambda>e. e\<lparr>ex_Status := s, ex_ErrorMessage := msg,
        ex_QueuedAt := (if s = ExecutionStatusQueued then Some now else ex_QueuedAt e),
        ex_StartedAt := (if s = ExecutionStatusRunning then Some now else ex_StartedAt e),
        ex_FinishedAt := (if IsFinalExecutionStatus s then Some now else ex_FinishedAt e)\<rparr>))))"

section \<open>Results, audit, events, attempts\<close>

definition result_violation :: "ExecutionResult \<Rightarrow> world \<Rightarrow> go_error option" where
  "result_violation r w = violation (w_env w) [(\<not> has_execution w (rs_ExecutionID r), ''execution_results_execution_id_fkey'')]"

text \<open>An output that cannot be marshalled is stored as \<^verbatim>\<open>NULL\<close> and read as the empty object.\<close>

definition stored_result :: "env \<Rightarrow> ExecutionResult \<Rightarrow> ExecutionResult" where
  "stored_result v r = (if unencodable v (rs_OutputJSON r) then r\<lparr>rs_OutputJSON := Some []\<rparr> else r)"

text \<open>\<^verbatim>\<open>ON CONFLICT (id) DO NOTHING\<close>: a row that is there stays, and its references are not checked.\<close>

definition PgResult_insert :: "ExecutionResult \<Rightarrow> unit prog_w" where
  "PgResult_insert r = disk (\<lambda>w.
     if rs_ID r \<in> rs_ID ` set (execution_results w) then (Inr (), w)
     else case result_violation r w of Some e \<Rightarrow> (Inl e, w)
       | None \<Rightarrow> (Inr (), w\<lparr>execution_results := execution_results w @ [stored_result (w_env w) r]\<rparr>))"
definition PgResult_BatchCreate :: "ExecutionResult list \<Rightarrow> unit prog_w" where
  "PgResult_BatchCreate rs = eachE PgResult_insert rs"
definition PgResult_Create :: "ExecutionResult \<Rightarrow> unit prog_w" where
  "PgResult_Create r = PgResult_BatchCreate [r]"
definition PgResult_GetByExecutionID :: "string \<Rightarrow> ExecutionResult list prog_w" where
  "PgResult_GetByExecutionID i = query (\<lambda>w.
     sort_key rs_StartedAt (filter (\<lambda>r. rs_ExecutionID r = i) (execution_results w)))"
definition PgResult_DeleteByExecutionID :: "string \<Rightarrow> unit prog_w" where
  "PgResult_DeleteByExecutionID i = statement (\<lambda>_. None)
     (execution_results_update (filter (\<lambda>r. rs_ExecutionID r \<noteq> i)))"

text \<open>The columns of an audit row: the kind of actor and the user alias are not among them.\<close>

definition audit_violation :: "AuditLog \<Rightarrow> world \<Rightarrow> go_error option" where
  "audit_violation a w = violation (w_env w)
     [(unencodable (w_env w) (al_DetailJSON a), ''detail_json_not_null''),
      (al_Decision a = AuditDecisionNone, ''audit_logs_decision_check''),
      (al_ID a \<in> al_ID ` set (audit_logs w), ''audit_logs_pkey'')]"

definition insertAudit_stmt :: "AuditLog \<Rightarrow> unit prog_w" where
  "insertAudit_stmt a = statement (audit_violation a)
     (audit_logs_update (\<lambda>rows. rows @ [a\<lparr>al_ActorType := [], al_UserID := []\<rparr>]))"
definition PgAudit_Create :: "AuditLog \<Rightarrow> unit prog_w" where "PgAudit_Create a = insertAudit_stmt a"
definition PgAudit_list :: "(AuditLog \<Rightarrow> bool) \<Rightarrow> AuditLog list prog_w" where
  "PgAudit_list p = query (\<lambda>w. by_desc al_CreatedAt (filter p (audit_logs w)))"
definition PgAudit_List :: "AuditLog list prog_w" where "PgAudit_List = PgAudit_list (\<lambda>_. True)"
definition PgAudit_ListByResource :: "AuditResourceType \<Rightarrow> string \<Rightarrow> AuditLog list prog_w" where
  "PgAudit_ListByResource t i = PgAudit_list (\<lambda>l. al_ResourceType l = t \<and> al_ResourceID l = i)"
definition PgAudit_ListByRequestID :: "string \<Rightarrow> AuditLog list prog_w" where
  "PgAudit_ListByRequestID q = PgAudit_list (\<lambda>l. al_RequestID l = q)"

definition event_violation :: "ExecutionEvent \<Rightarrow> world \<Rightarrow> go_error option" where
  "event_violation e w = violation (w_env w)
     [(unencodable (w_env w) (ev_Detail e), ''detail_json_not_null''),
      (ev_ID e \<in> ev_ID ` set (execution_events w), ''task_events_pkey''),
      (\<not> has_execution w (ev_ExecutionID e), ''task_events_execution_id_fkey'')]"

definition insertEvent_stmt :: "ExecutionEvent \<Rightarrow> unit prog_w" where
  "insertEvent_stmt e = statement (event_violation e) (execution_events_update (\<lambda>rows. rows @ [e]))"
definition PgEvent_Create :: "ExecutionEvent \<Rightarrow> unit prog_w" where "PgEvent_Create e = insertEvent_stmt e"
definition PgEvent_ListByExecutionID :: "string \<Rightarrow> ExecutionEvent list prog_w" where
  "PgEvent_ListByExecutionID i = query (\<lambda>w.
     sort_key ev_CreatedAt (filter (\<lambda>e. ev_ExecutionID e = i) (execution_events w)))"

definition attempt_key :: "ExecutionAttempt \<Rightarrow> string \<times> int" where
  "attempt_key a = (at_ExecutionID a, at_AttemptNo a)"

definition PgAttempt_upsert :: "ExecutionAttempt \<Rightarrow> unit prog_w" where
  "PgAttempt_upsert a = statement
     (\<lambda>w. violation (w_env w)
        [(attempt_key a \<notin> attempt_key ` set (execution_attempts w) \<and> at_ID a \<in> at_ID ` set (execution_attempts w), ''task_attempts_pkey''),
         (\<not> has_execution w (at_ExecutionID a), ''task_attempts_execution_id_fkey'')])
     (execution_attempts_update (insert_or attempt_key
        (\<lambda>old. old\<lparr>at_Status := at_Status a, at_HeartbeatAt := at_HeartbeatAt a, at_FinishedAt := at_FinishedAt a,
                   at_ErrorMessage := at_ErrorMessage a\<rparr>) a))"
definition PgAttempt_Create :: "ExecutionAttempt \<Rightarrow> unit prog_w" where "PgAttempt_Create a = PgAttempt_upsert a"
definition PgAttempt_Update :: "ExecutionAttempt \<Rightarrow> unit prog_w" where "PgAttempt_Update a = PgAttempt_upsert a"
definition PgAttempt_ListByExecutionID :: "string \<Rightarrow> ExecutionAttempt list prog_w" where
  "PgAttempt_ListByExecutionID i = query (\<lambda>w. map (\<lambda>a. a\<lparr>at_LeaseUntil := None\<rparr>)
     (sort_key at_AttemptNo (filter (\<lambda>a. at_ExecutionID a = i) (execution_attempts w))))"
definition PgAttempt_NextAttemptNo :: "string \<Rightarrow> int prog_w" where
  "PgAttempt_NextAttemptNo i = query (\<lambda>w.
     case filter (\<lambda>a. at_ExecutionID a = i) (execution_attempts w) of [] \<Rightarrow> 0 + 1
     | x # xs \<Rightarrow> fold max (map at_AttemptNo xs) (at_AttemptNo x) + 1)"

section \<open>Webhooks\<close>

text \<open>An update of an endpoint keeps its scope, its secret and its author.\<close>

definition PgWebhook_upsertEndpoint :: "WebhookEndpoint \<Rightarrow> unit prog_w" where
  "PgWebhook_upsertEndpoint e = statement
     (\<lambda>w. violation (w_env w)
        [(we_Status e \<noteq> WebhookStatusEnabled \<and> we_Status e \<noteq> WebhookStatusDisabled, ''webhook_endpoints_status_check'')])
     (webhooks_update (insert_or we_ID
        (\<lambda>old. old\<lparr>we_Name := we_Name e, we_URL := we_URL e, we_Events := we_Events e, we_Status := we_Status e,
                   we_UpdatedAt := we_UpdatedAt e\<rparr>) e))"
definition PgWebhook_CreateEndpoint :: "WebhookEndpoint \<Rightarrow> unit prog_w" where
  "PgWebhook_CreateEndpoint e = PgWebhook_upsertEndpoint e"
definition PgWebhook_UpdateEndpoint :: "WebhookEndpoint \<Rightarrow> unit prog_w" where
  "PgWebhook_UpdateEndpoint e = PgWebhook_upsertEndpoint e"
definition PgWebhook_GetEndpointByID :: "string \<Rightarrow> WebhookEndpoint option prog_w" where
  "PgWebhook_GetEndpointByID i = query (\<lambda>w. find (\<lambda>e. we_ID e = i) (webhooks w))"
definition PgWebhook_listEndpoints :: "(WebhookEndpoint \<Rightarrow> bool) \<Rightarrow> WebhookEndpoint list prog_w" where
  "PgWebhook_listEndpoints p = query (\<lambda>w. by_desc we_CreatedAt (filter p (webhooks w)))"
definition PgWebhook_ListEndpoints :: "WebhookEndpoint list prog_w" where
  "PgWebhook_ListEndpoints = PgWebhook_listEndpoints (\<lambda>_. True)"
definition PgWebhook_ListEnabledEndpoints :: "WebhookEndpoint list prog_w" where
  "PgWebhook_ListEnabledEndpoints = PgWebhook_listEndpoints (\<lambda>e. we_Status e = WebhookStatusEnabled)"
definition PgWebhook_DeleteEndpoint :: "string \<Rightarrow> unit prog_w" where
  "PgWebhook_DeleteEndpoint i = statement
     (\<lambda>w. violation (w_env w)
        [(i \<in> we_ID ` set (webhooks w) \<and> i \<in> wd_WebhookID ` set (webhook_deliveries w), ''webhook_deliveries_webhook_id_fkey'')])
     (webhooks_update (filter (\<lambda>e. we_ID e \<noteq> i)))"
definition PgWebhook_upsertDelivery :: "WebhookDelivery \<Rightarrow> unit prog_w" where
  "PgWebhook_upsertDelivery d = statement
     (\<lambda>w. violation (w_env w)
        [(unencodable (w_env w) (wd_PayloadJSON d), ''payload_json_not_null''),
         (wd_ID d \<notin> wd_ID ` set (webhook_deliveries w) \<and> wd_WebhookID d \<notin> we_ID ` set (webhooks w), ''webhook_deliveries_webhook_id_fkey'')])
     (webhook_deliveries_update (insert_or wd_ID
        (\<lambda>old. old\<lparr>wd_Status := wd_Status d, wd_AttemptNo := wd_AttemptNo d, wd_MaxAttempts := wd_MaxAttempts d,
                   wd_NextRetryAt := wd_NextRetryAt d, wd_StatusCode := wd_StatusCode d, wd_Error := wd_Error d,
                   wd_PayloadJSON := wd_PayloadJSON d, wd_DeliveredAt := wd_DeliveredAt d\<rparr>) d))"
definition PgWebhook_CreateDelivery :: "WebhookDelivery \<Rightarrow> unit prog_w" where
  "PgWebhook_CreateDelivery d = PgWebhook_upsertDelivery d"
definition PgWebhook_UpdateDelivery :: "WebhookDelivery \<Rightarrow> unit prog_w" where
  "PgWebhook_UpdateDelivery d = PgWebhook_upsertDelivery d"
definition PgWebhook_ListDeliveries :: "string \<Rightarrow> WebhookDelivery list prog_w" where
  "PgWebhook_ListDeliveries i = query (\<lambda>w.
     by_desc wd_CreatedAt (filter (\<lambda>d. i = [] \<or> wd_WebhookID d = i) (webhook_deliveries w)))"

end
