(* ===== verification/Access.thy ===== *)
theory Access
  imports Postgres
begin

text \<open>
  Who may do what: \<^verbatim>\<open>internal/service/auth.go\<close> (logging in, and the rules for viewing and
  cancelling), \<^verbatim>\<open>internal/policy/engine.go\<close> (the built-in role engine) and
  \<^verbatim>\<open>internal/policy/command_engine.go\<close> (an external policy program). A policy engine is a
  program from a request to a decision.
\<close>

section \<open>Logging in\<close>

text \<open>The interface \<^verbatim>\<open>repository.AuthStore\<close>; both stores provide it.\<close>

record AuthStore =
  as_CreateUser :: "User \<Rightarrow> unit prog_w"
  as_GetUserByID :: "string \<Rightarrow> User option prog_w"
  as_GetUserByTokenHash :: "string \<Rightarrow> User option prog_w"
  as_GetUserByUsername :: "string \<Rightarrow> User option prog_w"
  as_ListUsers :: "User list prog_w"

definition json_auth :: AuthStore where
  "json_auth = \<lparr>as_CreateUser = Auth_CreateUser, as_GetUserByID = Auth_GetUserByID,
     as_GetUserByTokenHash = Auth_GetUserByTokenHash, as_GetUserByUsername = Auth_GetUserByUsername, as_ListUsers = Auth_ListUsers\<rparr>"

definition pg_auth :: AuthStore where
  "pg_auth = \<lparr>as_CreateUser = PgAuth_CreateUser, as_GetUserByID = PgAuth_GetUserByID,
     as_GetUserByTokenHash = PgAuth_GetUserByTokenHash, as_GetUserByUsername = PgAuth_GetUserByUsername, as_ListUsers = PgAuth_ListUsers\<rparr>"

definition toCurrentUser :: "User \<Rightarrow> CurrentUser" where
  "toCurrentUser u = \<lparr>cu_TenantID = us_TenantID u, cu_ProjectID = us_ProjectID u, cu_ID = us_ID u,
     cu_Username = us_Username u, cu_Role = us_Role u\<rparr>"

definition hashSecret :: "env \<Rightarrow> string \<Rightarrow> string" where
  "hashSecret v s = sha256_hex v s"

definition ValidateToken :: "AuthStore \<Rightarrow> string \<Rightarrow> CurrentUser prog_w" where
  "ValidateToken A token = bindE (getE w_env) (\<lambda>v. bindE (as_GetUserByTokenHash A (hashSecret v token)) (\<lambda>r. case r of
      None \<Rightarrow> failE (NewAppError CodeUnauthorized ''invalid token'')
    | Some u \<Rightarrow> retE (toCurrentUser u)))"

definition Login :: "AuthStore \<Rightarrow> string \<Rightarrow> string \<Rightarrow> string \<Rightarrow> (string \<times> CurrentUser) prog_w" where
  "Login A username password token =
     (if token \<noteq> [] then bindE (getE w_env) (\<lambda>v. bindE (as_GetUserByTokenHash A (hashSecret v token)) (\<lambda>r. case r of
         None \<Rightarrow> failE (NewAppError CodeUnauthorized ''invalid token'')
       | Some u \<Rightarrow> retE (token, toCurrentUser u)))
      else bindE (getE w_env) (\<lambda>v. bindE (as_GetUserByUsername A username) (\<lambda>r. case r of
         None \<Rightarrow> failE (NewAppError CodeUnauthorized ''invalid username or password'')
       | Some u \<Rightarrow> guardE (us_PasswordHash u \<noteq> hashSecret v password)
           (NewAppError CodeUnauthorized ''invalid username or password'') (retE ([], toCurrentUser u)))))"

definition RequireAdmin :: "CurrentUser \<Rightarrow> go_error option" where
  "RequireAdmin user = (if \<not> IsAdminRole (cu_Role user) then Some (NewAppError CodeForbidden ''admin required'') else None)"

definition CanViewExecution :: "CurrentUser \<Rightarrow> Execution \<Rightarrow> bool" where
  "CanViewExecution user e \<longleftrightarrow> IsSuperAdminRole (cu_Role user) \<or>
     (IsAdminRole (cu_Role user) \<and> SameScope (CurrentUser_Scope user) (Execution_Scope e)) \<or>
     (ex_UserID e = cu_ID user \<and> SameScope (CurrentUser_Scope user) (Execution_Scope e))"

definition CanCancelExecution :: "CurrentUser \<Rightarrow> Execution \<Rightarrow> bool" where
  "CanCancelExecution user e \<longleftrightarrow> IsSuperAdminRole (cu_Role user) \<or>
     (IsAdminRole (cu_Role user) \<and> SameScope (CurrentUser_Scope user) (Execution_Scope e)) \<or>
     (ex_UserID e = cu_ID user \<and> SameScope (CurrentUser_Scope user) (Execution_Scope e))"

definition CanManagePlugin :: "CurrentUser \<Rightarrow> bool" where
  "CanManagePlugin user \<longleftrightarrow> IsAdminRole (cu_Role user)"

definition CanViewAuditLog :: "CurrentUser \<Rightarrow> bool" where
  "CanViewAuditLog user \<longleftrightarrow> IsAdminRole (cu_Role user)"

section \<open>Policy engines\<close>

record PolicyInput =
  in_Subject :: PolicySubject
  in_Action :: string
  in_Resource :: PolicyResource
  in_Context :: "jobj option"

type_synonym Engine = "PolicyInput \<Rightarrow> PolicyEvaluation prog_w"

definition AllowLocalEngine :: Engine where
  "AllowLocalEngine input = retE \<lparr>pe_Decision = PolicyDecisionAllow,
     pe_Reason = ''local allow engine; production should wire RBAC/OPA/Rego or equivalent'', pe_PolicyID = []\<rparr>"

definition allow :: "string \<Rightarrow> PolicyEvaluation" where
  "allow reason = \<lparr>pe_Decision = PolicyDecisionAllow, pe_Reason = reason, pe_PolicyID = ''builtin-rbac''\<rparr>"

definition deny_policy :: "string \<Rightarrow> PolicyEvaluation" where
  "deny_policy reason = \<lparr>pe_Decision = PolicyDecisionDeny, pe_Reason = reason, pe_PolicyID = ''builtin-rbac''\<rparr>"

definition user_actions :: "string list" where
  "user_actions = [''plugin:read'', ''execution:create'', ''execution:read'', ''execution:cancel'', ''artifact:read'']"

definition admin_actions :: "string list" where
  "admin_actions = [''plugin:read'', ''plugin:manage'', ''execution:create'', ''execution:read'', ''execution:cancel'',
     ''audit:read'', ''webhook:manage'', ''secret:use'', ''artifact:read'']"

text \<open>The table of the engine; a role that is not in it has no permission.\<close>

definition NewRBACEngine :: "Role \<Rightarrow> string list" where
  "NewRBACEngine r = (if r = RoleUser then user_actions else if r = RoleAdmin then admin_actions
     else if r = RoleSuperAdmin then [''*''] else [])"

definition RBAC_decide :: "(Role \<Rightarrow> string list) \<Rightarrow> PolicyInput \<Rightarrow> PolicyEvaluation" where
  "RBAC_decide permissions input =
     (let action = trim_space (in_Action input);
          sub = in_Subject input;
          subScope = Normalize (mk_scope (sj_TenantID sub) (sj_ProjectID sub));
          resScope = Normalize (mk_scope (pr_TenantID (in_Resource input)) (pr_ProjectID (in_Resource input)));
          allowed = permissions (sj_Role sub)
      in if action = [] then deny_policy ''missing action''
         else if sj_ActorID sub = [] then deny_policy ''missing actor''
         else if sj_Role sub \<noteq> RoleSuperAdmin \<and> \<not> SameScope subScope resScope then
           deny_policy (''scope mismatch: actor='' @ sc_TenantID subScope @ ''/'' @ sc_ProjectID subScope @
             '' resource='' @ sc_TenantID resScope @ ''/'' @ sc_ProjectID resScope)
         else if ''*'' \<in> set allowed then allow ''super admin wildcard''
         else if action \<in> set allowed then allow ''role permission matched''
         else deny_policy ''role permission denied'')"

definition RBAC_Evaluate :: "(Role \<Rightarrow> string list) \<Rightarrow> Engine" where
  "RBAC_Evaluate permissions input = retE (RBAC_decide permissions input)"

section \<open>The external engine\<close>

record CommandEngine =
  ce_Command :: string
  ce_Args :: "string list"
  ce_Timeout :: int

definition NewCommandEngine :: "string \<Rightarrow> string list \<Rightarrow> CommandEngine" where
  "NewCommandEngine command args = \<lparr>ce_Command = command, ce_Args = args, ce_Timeout = 2 * second\<rparr>"

definition Role_text :: "Role \<Rightarrow> string" where
  "Role_text r = (case r of RoleUser \<Rightarrow> ''user'' | RoleAdmin \<Rightarrow> ''admin'' | RoleSuperAdmin \<Rightarrow> ''super_admin'' | RoleRaw s \<Rightarrow> s)"

definition input_json :: "PolicyInput \<Rightarrow> jval" where
  "input_json i = JObj ([(''subject'', JObj [(''tenant_id'', JStr (sj_TenantID (in_Subject i))), (''project_id'', JStr (sj_ProjectID (in_Subject i))),
       (''actor_id'', JStr (sj_ActorID (in_Subject i))), (''role'', JStr (Role_text (sj_Role (in_Subject i))))]),
     (''action'', JStr (in_Action i)),
     (''resource'', JObj [(''tenant_id'', JStr (pr_TenantID (in_Resource i))), (''project_id'', JStr (pr_ProjectID (in_Resource i))),
       (''type'', JStr (pr_Type (in_Resource i))), (''id'', JStr (pr_ID (in_Resource i)))])]
     @ (case in_Context i of None \<Rightarrow> [] | Some c \<Rightarrow> if c = [] then [] else [(''context'', JObj c)]))"

definition decision_of :: "string \<Rightarrow> PolicyDecision" where
  "decision_of s = (if s = ''allow'' then PolicyDecisionAllow else if s = ''deny'' then PolicyDecisionDeny else PolicyDecisionRaw s)"

text \<open>\<^verbatim>\<open>json.Unmarshal\<close> into the struct: keys match without regard to case, the last one wins.\<close>

definition decode_evaluation_field :: "PolicyEvaluation option \<Rightarrow> string \<times> jval \<Rightarrow> PolicyEvaluation option" where
  "decode_evaluation_field r kv = (case (r, kv) of
       (None, _) \<Rightarrow> None
     | (Some e, (k, x)) \<Rightarrow> (let k = to_lower k in
         if k \<notin> {''decision'', ''reason'', ''policy_id''} then Some e
         else case x of JNull \<Rightarrow> Some e
           | JStr s \<Rightarrow> Some (if k = ''decision'' then e\<lparr>pe_Decision := decision_of s\<rparr>
               else if k = ''reason'' then e\<lparr>pe_Reason := s\<rparr> else e\<lparr>pe_PolicyID := s\<rparr>)
           | _ \<Rightarrow> None))"

definition decode_evaluation :: "jval \<Rightarrow> PolicyEvaluation option" where
  "decode_evaluation x = (let zero = \<lparr>pe_Decision = PolicyDecisionRaw [], pe_Reason = [], pe_PolicyID = []\<rparr> in
     case x of JNull \<Rightarrow> Some zero | JObj o1 \<Rightarrow> foldl decode_evaluation_field (Some zero) o1 | _ \<Rightarrow> None)"

text \<open>The limit of a child is kept in whole seconds.\<close>

definition policy_command :: "CommandEngine \<Rightarrow> string \<Rightarrow> command" where
  "policy_command e payload = \<lparr>cm_Path = ce_Command e, cm_Args = ce_Args e, cm_Dir = [], cm_Stdin = payload,
     cm_Timeout = (if ce_Timeout e \<le> 0 then 2 else go_div (ce_Timeout e) second)\<rparr>"

definition read_evaluation :: "env \<Rightarrow> cmd_outcome \<Rightarrow> go_error + PolicyEvaluation" where
  "read_evaluation v out = (case co_Err out of
       Some err \<Rightarrow> Inl (if co_Deadline out then PlainError ''context deadline exceeded''
         else PlainError (''policy command failed: '' @ error_text err @ '': '' @ concat (co_Stderr out)))
     | None \<Rightarrow> (case Option.bind (json_parse v (concat (co_Stdout out))) decode_evaluation of
         None \<Rightarrow> Inl (PlainError (''policy command returned invalid JSON: '' @ json_error v (concat (co_Stdout out))))
       | Some d \<Rightarrow> if pe_Decision d = PolicyDecisionRaw [] then Inl (PlainError ''policy command omitted decision'')
           else Inr (if pe_PolicyID d = [] then d\<lparr>pe_PolicyID := ''command-policy''\<rparr> else d)))"

definition CommandEngine_Evaluate :: "CommandEngine \<Rightarrow> Engine" where
  "CommandEngine_Evaluate e input =
     guardE (ce_Command e = []) (PlainError ''policy command is required'')
     (bindE (getE w_env) (\<lambda>v. case json_text v (input_json input) of
        Inl err \<Rightarrow> failE err
      | Inr payload \<Rightarrow> (\<lambda>w. let c = policy_command e payload; out = run_cmd v (length (cmd_log w)) c
          in (read_evaluation v out, w\<lparr>cmd_log := cmd_log w @ [c]\<rparr>))))"

section \<open>What the rules give\<close>

lemma star_not_action [simp]: "''*'' \<notin> set user_actions" "''*'' \<notin> set admin_actions"
  by (simp_all add: user_actions_def admin_actions_def)

text \<open>
  The role engine allows a request exactly when it names an action and an actor, the actor is
  a super administrator or in the resource's scope, and the role has the action; a role the table
  does not know is allowed nothing, and only a super administrator reaches another scope.
\<close>

theorem RBAC_allows_iff:
  "pe_Decision (RBAC_decide NewRBACEngine i) = PolicyDecisionAllow \<longleftrightarrow>
     trim_space (in_Action i) \<noteq> [] \<and> sj_ActorID (in_Subject i) \<noteq> [] \<and>
     (sj_Role (in_Subject i) = RoleSuperAdmin \<or>
      SameScope (mk_scope (sj_TenantID (in_Subject i)) (sj_ProjectID (in_Subject i)))
        (mk_scope (pr_TenantID (in_Resource i)) (pr_ProjectID (in_Resource i))) \<and>
      (sj_Role (in_Subject i) = RoleUser \<and> trim_space (in_Action i) \<in> set user_actions \<or>
       sj_Role (in_Subject i) = RoleAdmin \<and> trim_space (in_Action i) \<in> set admin_actions))"
  by (auto simp: RBAC_decide_def Let_def allow_def deny_policy_def NewRBACEngine_def)

lemma CanCancel_is_CanView: "CanCancelExecution u e \<longleftrightarrow> CanViewExecution u e"
  by (simp add: CanCancelExecution_def CanViewExecution_def)

text \<open>
  Whoever logs in is a stored user: with a token, the one whose token digest matches, and the
  token is handed back; otherwise the one of that name, and only if the password's digest is the
  stored one. Every failure is an error of the store or \<^verbatim>\<open>Unauthorized\<close>, and nothing is changed.
\<close>

theorem Login_sound:
  assumes "Login json_auth name pw token w = (Inr (tok, cu), t)"
  shows "\<exists>u \<in> set (users w). cu = toCurrentUser u \<and> tok = token \<and> users t = users w \<and>
    (token \<noteq> [] \<longrightarrow> us_TokenHash u = hashSecret (w_env w) token) \<and>
    (token = [] \<longrightarrow> us_Username u = name \<and> us_PasswordHash u = hashSecret (w_env w) pw)"
proof -
  have found: "x \<in> set (users w) \<and> p x \<and> users s = users w" if "repo_find users p w = (Inr (Some x), s)" for p x s
    using that by (cases rule: repo_find_cases) (auto simp: find_Some_iff2 in_set_conv_nth)
  show ?thesis
    using assms found
    by (fastforce simp: Login_def json_auth_def Auth_GetUserByTokenHash_def Auth_GetUserByUsername_def guardE_run bindE_def
        split: if_splits prod.splits sum.splits option.splits)
qed

end
