(* ===== verification/Metadata.thy ===== *)
theory Metadata
  imports Postgres
begin

text \<open>
  \<^verbatim>\<open>internal/storage/postgres/metadata_store.go\<close>: the transactions that change a task together
  with its events, its audit trail and its queue row. A transaction is one atomic step: its
  statements run in order, and when one of them, the start or the commit fails, every table is
  as it was. \<^verbatim>\<open>now()\<close> is the time the transaction began.
\<close>

section \<open>Transactions\<close>

definition rollback :: "world \<Rightarrow> world \<Rightarrow> world" where
  "rollback w t = t\<lparr>users := users w, plugins := plugins w, plugin_registry := plugin_registry w,
     executions := executions w, execution_results := execution_results w, execution_events := execution_events w,
     execution_attempts := execution_attempts w, audit_logs := audit_logs w, webhooks := webhooks w,
     webhook_deliveries := webhook_deliveries w, task_queue := task_queue w\<rparr>"

definition finish_tx :: "world \<Rightarrow> (go_error + 'a) \<times> world \<Rightarrow> (go_error + 'a) \<times> world" where
  "finish_tx w rt = (case rt of
     (Inl e, t) \<Rightarrow> (Inl e, rollback w t)
   | (Inr x, t) \<Rightarrow> (case disk (retE x) t of
        (Inl e, u) \<Rightarrow> (Inl e, rollback w u)
      | (Inr y, u) \<Rightarrow> (Inr y, u)))"

definition WithTx :: "(time \<Rightarrow> 'a prog_w) \<Rightarrow> 'a prog_w" where
  "WithTx fn = bindE (disk (retE ())) (\<lambda>_. bindE time_now (\<lambda>now w. finish_tx w (fn now w)))"

section \<open>The store\<close>

definition jsonb :: "jobj option \<Rightarrow> unit prog_w" where
  "jsonb x = (\<lambda>w. case json_text (w_env w) (obj_json x) of Inl e \<Rightarrow> (Inl e, w) | Inr _ \<Rightarrow> (Inr (), w))"

definition insertEvent :: "ExecutionEvent \<Rightarrow> unit prog_w" where
  "insertEvent e = bindE (jsonb (ev_Detail e)) (\<lambda>_. insertEvent_stmt e)"

definition insertAudit :: "AuditLog \<Rightarrow> unit prog_w" where
  "insertAudit a = bindE (jsonb (al_DetailJSON a)) (\<lambda>_. insertAudit_stmt a)"

text \<open>The columns the insertion hands back of a task that was there before.\<close>

definition returned_execution :: "Execution \<Rightarrow> Execution" where
  "returned_execution e = e\<lparr>ex_PluginIDs := [], ex_InputJSON := None, ex_ErrorMessage := [], ex_QueuedAt := None,
     ex_StartedAt := None, ex_FinishedAt := None\<rparr>"

definition CreateExecutionWithEvent :: "Execution \<Rightarrow> ExecutionEvent list \<Rightarrow> AuditLog \<Rightarrow> (Execution \<times> bool) prog_w" where
  "CreateExecutionWithEvent e evs audit = bindE (jsonb (ex_InputJSON e)) (\<lambda>_.
     bindE (insert_execution e) (\<lambda>existing.
       if ex_ID existing = ex_ID e
       then bindE (eachE insertEvent evs) (\<lambda>_. bindE (insertAudit audit) (\<lambda>_. retE (e, True)))
       else retE (returned_execution existing, False)))"

definition row_key :: "QueueRow \<Rightarrow> string \<times> string \<times> string" where
  "row_key r = (qr_TenantID r, qr_ProjectID r, qr_TaskID r)"

definition ready_row :: "string \<Rightarrow> string \<Rightarrow> string \<Rightarrow> time \<Rightarrow> time \<Rightarrow> QueueRow" where
  "ready_row tenant project task availableAt now =
     \<lparr>qr_TenantID = tenant, qr_ProjectID = project, qr_TaskID = task, qr_Status = QueueReady, qr_AttemptNo = 0,
      qr_AvailableAt = availableAt, qr_LeaseID = [], qr_LeaseUntil = None, qr_WorkerID = [], qr_HeartbeatAt = None,
      qr_LastError = None, qr_CreatedAt = now\<rparr>"

text \<open>\<^verbatim>\<open>INSERT INTO task_queue ... ON CONFLICT (tenant_id, project_id, task_id) DO NOTHING\<close>\<close>

definition insert_queue_row :: "QueueRow \<Rightarrow> unit prog_w" where
  "insert_queue_row r = disk (\<lambda>w.
     if row_key r \<in> row_key ` set (task_queue w) then (Inr (), w)
     else if \<not> has_execution w (qr_TaskID r) then (Inl (pg_error (w_env w) ''task_queue_task_id_fkey''), w)
     else (Inr (), w\<lparr>task_queue := task_queue w @ [r]\<rparr>))"

definition CreateExecutionAndEnqueue :: "Execution \<Rightarrow> ExecutionEvent list \<Rightarrow> AuditLog \<Rightarrow> time \<Rightarrow> (Execution \<times> bool) prog_w" where
  "CreateExecutionAndEnqueue e evs audit availableAt = WithTx (\<lambda>now.
     bindE (CreateExecutionWithEvent e evs audit) (\<lambda>(out, created).
       if \<not> created then retE (out, created)
       else bindE (if availableAt = 0 then time_now else retE availableAt) (\<lambda>at.
         bindE (insert_queue_row (ready_row (ex_TenantID e) (ex_ProjectID e) (ex_ID e) at now)) (\<lambda>_.
           retE (out, created)))))"

definition ErrNoRows :: go_error where
  "ErrNoRows = PlainError ''sql: no rows in result set''"

text \<open>\<^verbatim>\<open>UPDATE executions SET status=$3 WHERE id=$1 AND status=$2\<close>; no row is an error.\<close>

definition move_execution :: "string \<Rightarrow> ExecutionStatus \<Rightarrow> ExecutionStatus \<Rightarrow> unit prog_w" where
  "move_execution i from to = disk (\<lambda>w.
     let hit = (\<lambda>e. ex_ID e = i \<and> ex_Status e = from)
     in if list_ex hit (executions w)
        then (Inr (), w\<lparr>executions := set_where hit (\<lambda>e. e\<lparr>ex_Status := to\<rparr>) (executions w)\<rparr>)
        else (Inl ErrNoRows, w))"

definition TransitionExecutionWithEvent :: "string \<Rightarrow> ExecutionStatus \<Rightarrow> ExecutionStatus \<Rightarrow> ExecutionEvent \<Rightarrow> AuditLog
    \<Rightarrow> unit prog_w" where
  "TransitionExecutionWithEvent i from to ev audit = WithTx (\<lambda>_.
     bindE (move_execution i from to) (\<lambda>_. bindE (insertEvent ev) (\<lambda>_. insertAudit audit)))"

definition insert_attempt :: "ExecutionAttempt \<Rightarrow> unit prog_w" where
  "insert_attempt a = statement
     (\<lambda>w. violation (w_env w)
        [(at_ID a \<in> at_ID ` set (execution_attempts w), ''task_attempts_pkey''),
         (attempt_key a \<in> attempt_key ` set (execution_attempts w), ''task_attempts_execution_id_attempt_no_key''),
         (\<not> has_execution w (at_ExecutionID a), ''task_attempts_execution_id_fkey'')])
     (execution_attempts_update (\<lambda>rows. rows @ [a]))"

definition AppendAttempt :: "ExecutionAttempt \<Rightarrow> ExecutionEvent \<Rightarrow> unit prog_w" where
  "AppendAttempt a ev = WithTx (\<lambda>_. bindE (insert_attempt a) (\<lambda>_. insertEvent ev))"

definition insert_result :: "ExecutionResult \<Rightarrow> unit prog_w" where
  "insert_result r = bindE (jsonb (rs_OutputJSON r)) (\<lambda>_. statement
     (\<lambda>w. violation (w_env w)
        [(rs_ID r \<in> rs_ID ` set (execution_results w), ''execution_results_pkey''),
         (\<not> has_execution w (rs_ExecutionID r), ''execution_results_execution_id_fkey'')])
     (execution_results_update (\<lambda>rows. rows @ [r])))"

definition finish_execution :: "string \<Rightarrow> ExecutionStatus \<Rightarrow> time \<Rightarrow> unit prog_w" where
  "finish_execution i final now = statement (\<lambda>_. None)
     (executions_update (set_where (\<lambda>e. ex_ID e = i) (\<lambda>e. e\<lparr>ex_Status := final, ex_FinishedAt := Some now\<rparr>)))"

definition AppendResultAndFinalize :: "string \<Rightarrow> ExecutionResult list \<Rightarrow> ExecutionStatus \<Rightarrow> ExecutionEvent \<Rightarrow> AuditLog
    \<Rightarrow> unit prog_w" where
  "AppendResultAndFinalize i results final ev audit = WithTx (\<lambda>now.
     bindE (eachE insert_result results) (\<lambda>_.
     bindE (finish_execution i final now) (\<lambda>_.
     bindE (insertEvent ev) (\<lambda>_. insertAudit audit))))"

section \<open>A transaction happens as a whole or not at all\<close>

definition same_tables :: "world \<Rightarrow> world \<Rightarrow> bool" where
  "same_tables w t \<longleftrightarrow> rollback w t = t"

lemma same_tables_iff: "same_tables w t \<longleftrightarrow>
    users t = users w \<and> plugins t = plugins w \<and> plugin_registry t = plugin_registry w \<and>
    executions t = executions w \<and> execution_results t = execution_results w \<and>
    execution_events t = execution_events w \<and> execution_attempts t = execution_attempts w \<and>
    audit_logs t = audit_logs w \<and> webhooks t = webhooks w \<and> webhook_deliveries t = webhook_deliveries w \<and>
    task_queue t = task_queue w"
  by (cases t) (auto simp: same_tables_def rollback_def)

lemma same_tables_refl [simp]: "same_tables w w" by (simp add: same_tables_iff)

lemma same_tables_rollback [simp]: "same_tables w (rollback w t)"
  by (simp add: same_tables_iff) (simp add: rollback_def)

lemma rollback_other [simp]:
  "w_env (rollback w t) = w_env t" "now_ix (rollback w t) = now_ix t" "id_ix (rollback w t) = id_ix t"
  "io_ix (rollback w t) = io_ix t" "cmd_log (rollback w t) = cmd_log t" "metrics (rollback w t) = metrics t"
  by (simp_all add: rollback_def)

lemma disk_ret: "disk (retE x) w = (case io_fault (w_env w) (io_ix w) of Some e \<Rightarrow> (Inl e, w\<lparr>io_ix := Suc (io_ix w)\<rparr>)
     | None \<Rightarrow> (Inr x, w\<lparr>io_ix := Suc (io_ix w)\<rparr>))"
  by (simp add: disk_def split: option.split)

lemma WithTx_error:
  assumes "WithTx fn w = (Inl e, t)"
  shows "same_tables w t"
proof (cases "io_fault (w_env w) (io_ix w)")
  case (Some x) with assms show ?thesis by (auto simp: WithTx_def bindE_def disk_ret same_tables_iff)
next
  case None
  let ?w = "w\<lparr>io_ix := Suc (io_ix w), now_ix := Suc (now_ix w)\<rparr>"
  have "finish_tx ?w (fn (clock (w_env w) (now_ix w)) ?w) = (Inl e, t)"
    using assms None by (simp add: WithTx_def bindE_def disk_ret time_now_run)
  then have "same_tables ?w t" by (auto simp: finish_tx_def split: prod.splits sum.splits)
  then show ?thesis by (simp add: same_tables_iff)
qed

lemma WithTx_done:
  assumes "WithTx fn w = (Inr x, t)"
  obtains u where "fn (clock (w_env w) (now_ix w)) (w\<lparr>io_ix := Suc (io_ix w), now_ix := Suc (now_ix w)\<rparr>) = (Inr x, u)"
    and "t = u\<lparr>io_ix := Suc (io_ix u)\<rparr>"
proof (cases "io_fault (w_env w) (io_ix w)")
  case (Some y) with assms show ?thesis by (auto simp: WithTx_def bindE_def disk_ret)
next
  case None
  let ?w = "w\<lparr>io_ix := Suc (io_ix w), now_ix := Suc (now_ix w)\<rparr>"
  have "finish_tx ?w (fn (clock (w_env w) (now_ix w)) ?w) = (Inr x, t)"
    using assms None by (simp add: WithTx_def bindE_def disk_ret time_now_run)
  with that show ?thesis
    by (auto simp: finish_tx_def disk_ret split: prod.splits sum.splits option.splits)
qed

lemma WithTx_ok:
  assumes "disk_ok w"
  shows "WithTx fn w = finish_tx (w\<lparr>io_ix := Suc (io_ix w), now_ix := Suc (now_ix w)\<rparr>)
     (fn (clock (w_env w) (now_ix w)) (w\<lparr>io_ix := Suc (io_ix w), now_ix := Suc (now_ix w)\<rparr>))"
  using assms by (simp add: WithTx_def bindE_def disk_ret time_now_run disk_ok_def)

end
