(* ===== verification/PgQueue.thy ===== *)
theory PgQueue
  imports Metadata
begin

text \<open>
  \<^verbatim>\<open>internal/queue/postgres.go\<close>: the durable queue as a table. A worker takes rows under a
  lease, an identifier drawn for each row it takes; the lease is what later calls name. One
  statement is one step; rows another transaction has locked at that moment are skipped.
  A row is identified by its unique key instead of its serial number, and a duration is given
  to the database in whole seconds.
\<close>

section \<open>Operations\<close>

definition Enqueue :: "EnqueueOptions \<Rightarrow> unit prog_w" where
  "Enqueue opts = bindE time_now (\<lambda>now. insert_queue_row (ready_row (eo_TenantID opts) (eo_ProjectID opts) (eo_TaskID opts)
     (if eo_AvailableAt opts = 0 then now else eo_AvailableAt opts) now))"

definition whole_seconds :: "int \<Rightarrow> int" where
  "whole_seconds d = go_div d second * second"

definition ready_rows :: "(QueueRow \<Rightarrow> bool) \<Rightarrow> time \<Rightarrow> QueueRow list \<Rightarrow> QueueRow list" where
  "ready_rows locked now rows =
     sort_key (\<lambda>r. (qr_AvailableAt r, qr_CreatedAt r))
       (filter (\<lambda>r. qr_Status r = QueueReady \<and> qr_AvailableAt r \<le> now \<and> \<not> locked r) rows)"

text \<open>The update of the picked rows, each with its own random identifier.\<close>

definition lease_row :: "string \<Rightarrow> time \<Rightarrow> string \<Rightarrow> QueueRow \<Rightarrow> QueueRow" where
  "lease_row wid until l r = r\<lparr>qr_Status := QueueLeased, qr_WorkerID := wid, qr_LeaseID := l,
     qr_LeaseUntil := Some until, qr_AttemptNo := qr_AttemptNo r + 1\<rparr>"

fun lease_rows :: "(QueueRow \<Rightarrow> bool) \<Rightarrow> string \<Rightarrow> time \<Rightarrow> (nat \<Rightarrow> string) \<Rightarrow> nat \<Rightarrow> QueueRow list \<Rightarrow> QueueRow list" where
  "lease_rows p wid until ids k [] = []"
| "lease_rows p wid until ids k (r # rs) =
     (if p r then lease_row wid until (ids k) r # lease_rows p wid until ids (Suc k) rs
      else r # lease_rows p wid until ids k rs)"

definition task_ref :: "QueueRow \<Rightarrow> TaskRef" where
  "task_ref r = \<lparr>tr_TenantID = qr_TenantID r, tr_ProjectID = qr_ProjectID r, tr_TaskID = qr_TaskID r,
     tr_LeaseID = qr_LeaseID r, tr_AttemptNo = qr_AttemptNo r, tr_VisibleAt = qr_AvailableAt r,
     tr_LeaseUntil = (case qr_LeaseUntil r of None \<Rightarrow> 0 | Some t \<Rightarrow> t), tr_EnqueuedAt = qr_CreatedAt r\<rparr>"

definition lease_statement :: "int \<Rightarrow> string \<Rightarrow> int \<Rightarrow> time \<Rightarrow> TaskRef list prog_w" where
  "lease_statement maxItems wid duration now = disk (\<lambda>w.
     let picked = take (nat maxItems) (ready_rows (row_locked (w_env w) (io_ix w)) now (task_queue w));
         hit = (\<lambda>r. row_key r \<in> row_key ` set picked);
         rows = lease_rows hit wid (now + whole_seconds duration) (pg_uuid (w_env w)) (id_ix w) (task_queue w)
     in (Inr (map task_ref (filter hit rows)),
         w\<lparr>task_queue := rows, id_ix := id_ix w + length (filter hit (task_queue w))\<rparr>))"

definition LeaseNext :: "LeaseOptions \<Rightarrow> TaskRef list prog_w" where
  "LeaseNext opts =
     (let opts = (if lo_MaxItems opts \<le> 0 then opts\<lparr>lo_MaxItems := 1\<rparr> else opts);
          opts = (if lo_LeaseDuration opts \<le> 0 then opts\<lparr>lo_LeaseDuration := 30 * second\<rparr> else opts)
      in bindE time_now (lease_statement (lo_MaxItems opts) (lo_WorkerID opts) (lo_LeaseDuration opts)))"

definition holds_lease :: "string \<Rightarrow> string \<Rightarrow> string \<Rightarrow> QueueRow \<Rightarrow> bool" where
  "holds_lease taskID leaseID workerID r \<longleftrightarrow> qr_TaskID r = taskID \<and> qr_LeaseID r = leaseID \<and> qr_WorkerID r = workerID"

definition Heartbeat :: "string \<Rightarrow> string \<Rightarrow> string \<Rightarrow> int \<Rightarrow> unit prog_w" where
  "Heartbeat taskID leaseID workerID extendBy = bindE time_now (\<lambda>now. disk (\<lambda>w.
     let hit = (\<lambda>r. holds_lease taskID leaseID workerID r \<and> qr_Status r = QueueLeased)
     in if list_ex hit (task_queue w)
        then (Inr (), w\<lparr>task_queue := set_where hit (\<lambda>r. r\<lparr>qr_LeaseUntil := Some (now + whole_seconds extendBy),
                qr_HeartbeatAt := Some now\<rparr>) (task_queue w)\<rparr>)
        else (Inl ErrNoRows, w)))"

definition Ack :: "string \<Rightarrow> string \<Rightarrow> string \<Rightarrow> unit prog_w" where
  "Ack taskID leaseID workerID = statement (\<lambda>_. None)
     (task_queue_update (set_where (holds_lease taskID leaseID workerID) (\<lambda>r. r\<lparr>qr_Status := QueueAcked\<rparr>)))"

definition Nack :: "string \<Rightarrow> string \<Rightarrow> string \<Rightarrow> NackOptions \<Rightarrow> unit prog_w" where
  "Nack taskID leaseID workerID opts =
     (let status = (if no_DLQ opts \<or> \<not> no_Retryable opts then QueueDLQ else QueueReady)
      in bindE (if no_NextVisible opts = 0 then bindE time_now (\<lambda>now. retE (now + no_Backoff opts))
                else retE (no_NextVisible opts)) (\<lambda>next_at.
         statement (\<lambda>_. None) (task_queue_update (set_where (holds_lease taskID leaseID workerID)
           (\<lambda>r. r\<lparr>qr_Status := (if no_MaxAttempts opts > 0 \<and> qr_AttemptNo r \<ge> no_MaxAttempts opts then QueueDLQ else status),
                  qr_AvailableAt := next_at, qr_LastError := Some (no_Reason opts), qr_LeaseID := [], qr_LeaseUntil := None,
                  qr_WorkerID := []\<rparr>)))))"

definition expired_rows :: "(QueueRow \<Rightarrow> bool) \<Rightarrow> time \<Rightarrow> QueueRow list \<Rightarrow> QueueRow list" where
  "expired_rows locked now rows =
     sort_key (\<lambda>r. case qr_LeaseUntil r of None \<Rightarrow> 0 | Some t \<Rightarrow> t)
       (filter (\<lambda>r. qr_Status r = QueueLeased \<and> (case qr_LeaseUntil r of None \<Rightarrow> False | Some t \<Rightarrow> t < now) \<and> \<not> locked r) rows)"

definition ReclaimExpiredLeases :: "time \<Rightarrow> int \<Rightarrow> int prog_w" where
  "ReclaimExpiredLeases now limit =
     (let limit = (if limit \<le> 0 then 100 else limit)
      in bindE time_now (\<lambda>db_now. disk (\<lambda>w.
        let expired = take (nat limit) (expired_rows (row_locked (w_env w) (io_ix w)) now (task_queue w));
            hit = (\<lambda>r. row_key r \<in> row_key ` set expired)
        in (Inr (int (length (filter hit (task_queue w)))),
            w\<lparr>task_queue := set_where hit (\<lambda>r. r\<lparr>qr_Status := QueueReady, qr_AvailableAt := db_now, qr_LeaseID := [],
                qr_WorkerID := [], qr_LeaseUntil := None\<rparr>) (task_queue w)\<rparr>))))"

definition MoveToDLQ :: "string \<Rightarrow> string \<Rightarrow> unit prog_w" where
  "MoveToDLQ taskID reason = statement (\<lambda>_. None)
     (task_queue_update (set_where (\<lambda>r. qr_TaskID r = taskID) (\<lambda>r. r\<lparr>qr_Status := QueueDLQ, qr_LastError := Some reason\<rparr>)))"

definition Depth :: "string \<Rightarrow> string \<Rightarrow> int prog_w" where
  "Depth tenantID projectID = query (\<lambda>w. int (length (filter (\<lambda>r. qr_TenantID r = tenantID \<and>
     qr_ProjectID r = projectID \<and> (qr_Status r = QueueReady \<or> qr_Status r = QueueLeased)) (task_queue w))))"

section \<open>Leases\<close>

text \<open>
  Every lease identifier on a row was drawn earlier, no two rows carry the same one, a leased
  row has one, and a row that is ready has none.
\<close>

definition minted :: "world \<Rightarrow> string \<Rightarrow> bool" where
  "minted w l \<longleftrightarrow> (\<exists>k < id_ix w. l = pg_uuid (w_env w) k)"

definition row_ok :: "world \<Rightarrow> QueueRow \<Rightarrow> bool" where
  "row_ok w r \<longleftrightarrow> (qr_LeaseID r \<noteq> [] \<longrightarrow> minted w (qr_LeaseID r)) \<and>
     (qr_Status r = QueueLeased \<longrightarrow> qr_LeaseID r \<noteq> [] \<and> qr_LeaseUntil r \<noteq> None) \<and>
     (qr_Status r = QueueReady \<longrightarrow> qr_LeaseID r = [] \<and> qr_WorkerID r = [])"

definition leases_distinct :: "QueueRow list \<Rightarrow> bool" where
  "leases_distinct rows \<longleftrightarrow> distinct (filter (\<lambda>l. l \<noteq> []) (map qr_LeaseID rows))"

definition queue_ok :: "world \<Rightarrow> bool" where
  "queue_ok w \<longleftrightarrow> distinct (map row_key (task_queue w)) \<and> leases_distinct (task_queue w) \<and>
     (\<forall>r \<in> set (task_queue w). row_ok w r)"

definition uuids_ok :: "world \<Rightarrow> bool" where
  "uuids_ok w \<longleftrightarrow> inj (pg_uuid (w_env w)) \<and> (\<forall>n. pg_uuid (w_env w) n \<noteq> [])"

lemma uuid_eq [simp]: "uuids_ok w \<Longrightarrow> pg_uuid (w_env w) i = pg_uuid (w_env w) j \<longleftrightarrow> i = j"
  by (auto simp: uuids_ok_def inj_def)

lemma uuid_not_Nil [simp]: "uuids_ok w \<Longrightarrow> pg_uuid (w_env w) i \<noteq> []"
  by (simp add: uuids_ok_def)

definition held :: "world \<Rightarrow> string \<Rightarrow> bool" where
  "held w l \<longleftrightarrow> l \<in> qr_LeaseID ` set (task_queue w)"

text \<open>The order every step moves the queue along: a lease that was drawn and is on no row never comes back.\<close>

definition lease_order :: "world \<Rightarrow> world \<Rightarrow> bool" where
  "lease_order w t \<longleftrightarrow> w_env t = w_env w \<and> id_ix w \<le> id_ix t \<and>
     (\<forall>l. l \<noteq> [] \<longrightarrow> minted w l \<longrightarrow> \<not> held w l \<longrightarrow> \<not> held t l)"

abbreviation queue_inv :: "world \<Rightarrow> bool" where
  "queue_inv w \<equiv> queue_ok w \<and> uuids_ok w"

lemma minted_mono: "minted w l \<Longrightarrow> lease_order w t \<Longrightarrow> minted t l"
  by (auto simp: minted_def lease_order_def) (metis less_le_trans)

interpretation leases: state_order queue_inv lease_order
proof unfold_locales
  fix s t u
  show "lease_order s s" by (simp add: lease_order_def)
  assume "lease_order s t" "lease_order t u"
  then show "lease_order s u" using minted_mono [of s _ t] unfolding lease_order_def by auto
qed

text \<open>A change of rows that keeps their keys and keeps or clears their leases.\<close>

definition thins :: "world \<Rightarrow> (QueueRow \<Rightarrow> QueueRow) \<Rightarrow> bool" where
  "thins w h \<longleftrightarrow> (\<forall>r. row_key (h r) = row_key r \<and> (qr_LeaseID (h r) = qr_LeaseID r \<or> qr_LeaseID (h r) = []) \<and>
     (row_ok w r \<longrightarrow> row_ok w (h r)))"

lemma distinct_thin:
  assumes "\<And>r. qr_LeaseID (h r) = qr_LeaseID r \<or> qr_LeaseID (h r) = []"
  shows "leases_distinct rows \<Longrightarrow> leases_distinct (map h rows)"
proof (induction rows)
  case (Cons r rows)
  have sub: "l \<in> set (map qr_LeaseID (map h rows)) \<Longrightarrow> l \<noteq> [] \<Longrightarrow> l \<in> set (map qr_LeaseID rows)" for l
    using assms by force
  have new: "qr_LeaseID (h r) \<notin> set (map qr_LeaseID (map h rows))" if "qr_LeaseID (h r) \<noteq> []"
  proof -
    have "qr_LeaseID (h r) = qr_LeaseID r" using assms [of r] that by auto
    then show ?thesis using Cons.prems that sub [of "qr_LeaseID r"] by (auto simp: leases_distinct_def)
  qed
  have "leases_distinct (map h rows)" using Cons by (auto simp: leases_distinct_def split: if_splits)
  with new show ?case by (auto simp: leases_distinct_def)
qed (simp add: leases_distinct_def)

lemma minted_same: "w_env t = w_env w \<Longrightarrow> id_ix w \<le> id_ix t \<Longrightarrow> minted w l \<Longrightarrow> minted t l"
  unfolding minted_def by (metis less_le_trans)

lemma row_ok_same: "w_env t = w_env w \<Longrightarrow> id_ix w \<le> id_ix t \<Longrightarrow> row_ok w r \<Longrightarrow> row_ok t r"
  using minted_same [of t w] by (auto simp: row_ok_def)

lemma thin_step:
  assumes w: "queue_inv w" and h: "thins w h" and t: "w_env t = w_env w" "id_ix t = id_ix w" "task_queue t = map h (task_queue w)"
  shows "queue_inv t \<and> lease_order w t"
proof -
  have "map row_key (task_queue t) = map row_key (task_queue w)" using h t by (simp add: thins_def)
  with w have "distinct (map row_key (task_queue t))" by (simp add: queue_ok_def)
  moreover have "leases_distinct (task_queue t)"
    using distinct_thin [of h "task_queue w"] h w t by (auto simp: thins_def queue_ok_def)
  moreover have "\<forall>r \<in> set (task_queue t). row_ok t r"
    using w h t row_ok_same [of t w] by (auto simp: thins_def queue_ok_def)
  moreover have "held t l \<Longrightarrow> l \<noteq> [] \<Longrightarrow> held w l" for l
    using h t by (force simp: held_def thins_def)
  ultimately show ?thesis using w t by (auto simp: queue_ok_def lease_order_def uuids_ok_def)
qed

lemma queue_same:
  assumes "w_env t = w_env w" "id_ix w \<le> id_ix t" "task_queue t = task_queue w"
  shows "queue_inv w \<Longrightarrow> queue_inv t \<and> lease_order w t"
  using assms row_ok_same [of t w] by (auto simp: queue_ok_def uuids_ok_def lease_order_def held_def)

lemma leases_disk:
  assumes "\<And>w. queue_inv w \<Longrightarrow> queue_inv (snd (m w)) \<and> lease_order w (snd (m w))"
  shows "evolves queue_inv lease_order (disk m)"
proof (rule evolvesI)
  fix w :: world
  let ?w = "w\<lparr>io_ix := Suc (io_ix w)\<rparr>"
  assume w: "queue_inv w"
  have v: "queue_inv ?w \<and> lease_order w ?w" by (rule queue_same [OF _ _ _ w]) simp_all
  show "queue_inv (snd (disk m w)) \<and> lease_order w (snd (disk m w))"
  proof (cases "io_fault (w_env w) (io_ix w)")
    case None
    have "queue_inv (snd (m ?w)) \<and> lease_order ?w (snd (m ?w))" using assms v by blast
    moreover from this v have "lease_order w (snd (m ?w))" using leases.R_trans [of w ?w] w by blast
    ultimately show ?thesis using None by (simp add: disk_def)
  qed (use v in \<open>simp add: disk_def\<close>)
qed

lemma leases_now: "evolves queue_inv lease_order time_now"
  by (rule evolvesI) (rule queue_same, simp_all add: time_now_run)

lemma set_where_map: "set_where p f rows = map (\<lambda>r. if p r then f r else r) rows"
  by (simp add: set_where_def)

text \<open>A statement that changes rows one by one, or none.\<close>

lemma leases_rows:
  assumes "\<And>w. snd (m w) = w \<or> (\<exists>h. thins w h \<and> snd (m w) = w\<lparr>task_queue := map h (task_queue w)\<rparr>)"
  shows "evolves queue_inv lease_order (disk m)"
proof (rule leases_disk)
  fix w assume w: "queue_inv w"
  from assms [of w] show "queue_inv (snd (m w)) \<and> lease_order w (snd (m w))"
  proof (elim disjE exE conjE)
    assume "snd (m w) = w" with w leases.R_refl [OF w] show ?thesis by simp
  next
    fix h assume h: "thins w h" "snd (m w) = w\<lparr>task_queue := map h (task_queue w)\<rparr>"
    show ?thesis unfolding h(2) by (rule thin_step [OF w h(1)]) simp_all
  qed
qed

lemma leases_update:
  assumes "\<And>w. thins w (\<lambda>r. if p r then f r else r)"
  shows "evolves queue_inv lease_order (statement (\<lambda>_. None) (task_queue_update (set_where p f)))"
  unfolding statement_def
  by (rule leases_rows, rule disjI2, rule exI, rule conjI [OF assms]) (simp add: set_where_map)

section \<open>Taking rows\<close>

lemma lease_row_simps [simp]:
  "row_key (lease_row wid until l r) = row_key r" "qr_LeaseID (lease_row wid until l r) = l"
  "qr_Status (lease_row wid until l r) = QueueLeased" "qr_LeaseUntil (lease_row wid until l r) = Some until"
  "qr_AttemptNo (lease_row wid until l r) = qr_AttemptNo r + 1" "qr_WorkerID (lease_row wid until l r) = wid"
  by (simp_all add: lease_row_def row_key_def)

lemma lease_rows_keys [simp]: "map row_key (lease_rows p wid until ids k rows) = map row_key rows"
  by (induction rows arbitrary: k) simp_all

lemma lease_rows_leases:
  "r \<in> set (lease_rows p wid until ids k rows) \<Longrightarrow>
   r \<in> set rows \<and> \<not> p r \<or> (\<exists>j q. q \<in> set rows \<and> p q \<and> k \<le> j \<and> j < k + length (filter p rows) \<and>
     r = lease_row wid until (ids j) q)"
proof (induction rows arbitrary: k)
  case (Cons q rows)
  show ?case
  proof (cases "p q")
    case True
    with Cons.prems consider "r = lease_row wid until (ids k) q" | "r \<in> set (lease_rows p wid until ids (Suc k) rows)" by auto
    then show ?thesis
    proof cases
      case 1 with True show ?thesis by (intro disjI2 exI [of _ k] exI [of _ q]) simp
    next
      case 2
      from Cons.IH [OF this] consider "r \<in> set rows" "\<not> p r"
        | j x where "x \<in> set rows" "p x" "Suc k \<le> j" "j < Suc k + length (filter p rows)" "r = lease_row wid until (ids j) x"
        by blast
      then show ?thesis
      proof cases
        case 2 with True show ?thesis by (intro disjI2 exI [of _ j] exI [of _ x]) simp
      qed simp
    qed
  next
    case False
    with Cons.prems have "r = q \<or> r \<in> set (lease_rows p wid until ids k rows)" by auto
    with Cons.IH [of k] False show ?thesis by (elim disjE) (simp, fastforce)
  qed
qed simp

lemma lease_rows_distinct:
  assumes "leases_distinct rows" and "\<And>i j. ids i = ids j \<longleftrightarrow> i = j"
    and "\<And>r j. r \<in> set rows \<Longrightarrow> k \<le> j \<Longrightarrow> qr_LeaseID r \<noteq> ids j"
  shows "leases_distinct (lease_rows p wid until ids k rows)"
  using assms(1,3)
proof (induction rows arbitrary: k)
  case (Cons q rows)
  have tail: "leases_distinct (lease_rows p wid until ids j rows)" if "k \<le> j" for j
    using Cons that by (auto simp: leases_distinct_def split: if_splits)
  show ?case
  proof (cases "p q")
    case True
    have "ids k \<notin> set (map qr_LeaseID (lease_rows p wid until ids (Suc k) rows))"
      using Cons.prems(2) [of _ k] assms(2) by (fastforce dest!: lease_rows_leases)
    with True tail [of "Suc k"] show ?thesis by (simp add: leases_distinct_def)
  next
    case False
    have "qr_LeaseID q \<notin> set (map qr_LeaseID (lease_rows p wid until ids k rows))" if "qr_LeaseID q \<noteq> []"
      using Cons.prems that by (auto simp: leases_distinct_def dest!: lease_rows_leases)
    with False tail [of k] show ?thesis by (auto simp: leases_distinct_def)
  qed
qed (simp add: leases_distinct_def)

lemma held_not_fresh:
  assumes "queue_inv w" "r \<in> set (task_queue w)" "id_ix w \<le> j"
  shows "qr_LeaseID r \<noteq> pg_uuid (w_env w) j"
proof
  assume e: "qr_LeaseID r = pg_uuid (w_env w) j"
  with assms(1) have "qr_LeaseID r \<noteq> []" by simp
  with assms have "minted w (qr_LeaseID r)" by (auto simp: queue_ok_def row_ok_def)
  with assms e show False by (auto simp: minted_def)
qed

text \<open>What one leasing statement does: the shape all facts about \<^verbatim>\<open>LeaseNext\<close> use.\<close>

lemma lease_step:
  assumes w: "queue_inv w"
    and t: "w_env t = w_env w" "id_ix t = id_ix w + length (filter p (task_queue w))"
      "task_queue t = lease_rows p wid until (pg_uuid (w_env w)) (id_ix w) (task_queue w)"
  shows "queue_inv t \<and> lease_order w t"
proof -
  have src: "r \<in> set (task_queue w) \<and> \<not> p r \<or>
      (\<exists>j q. q \<in> set (task_queue w) \<and> id_ix w \<le> j \<and> j < id_ix t \<and> r = lease_row wid until (pg_uuid (w_env w) j) q)"
    if "r \<in> set (task_queue t)" for r
    using lease_rows_leases [OF that [unfolded t(3)]] t(2) by auto
  have "distinct (map row_key (task_queue t))" using w t(3) by (simp add: queue_ok_def)
  moreover have "leases_distinct (task_queue t)"
    unfolding t(3) using w held_not_fresh [OF w] by (intro lease_rows_distinct) (auto simp: queue_ok_def)
  moreover have "row_ok t r" if "r \<in> set (task_queue t)" for r
    using src [OF that]
  proof (elim disjE exE conjE)
    assume "r \<in> set (task_queue w)" with w t(1,2) show ?thesis by (auto simp: queue_ok_def intro: row_ok_same [of t w])
  next
    fix j q assume "j < id_ix t" "r = lease_row wid until (pg_uuid (w_env w) j) q"
    with w t(1) show ?thesis by (auto simp: row_ok_def minted_def)
  qed
  moreover have "\<not> held t l" if "l \<noteq> []" "minted w l" "\<not> held w l" for l
  proof
    assume "held t l"
    then obtain r where r: "r \<in> set (task_queue t)" "qr_LeaseID r = l" by (auto simp: held_def)
    from src [OF r(1)] show False
    proof (elim disjE exE conjE)
      fix j q assume "id_ix w \<le> j" "r = lease_row wid until (pg_uuid (w_env w) j) q"
      with r(2) that(2) w show False by (auto simp: minted_def)
    qed (use r(2) that(3) in \<open>auto simp: held_def\<close>)
  qed
  ultimately show ?thesis using w t by (auto simp: queue_ok_def uuids_ok_def lease_order_def)
qed

lemma lease_statement_order: "evolves queue_inv lease_order (lease_statement n wid d now)"
  unfolding lease_statement_def Let_def
  by (rule leases_disk, rule lease_step [where until = "now + whole_seconds d"]) simp_all

lemma LeaseNext_order: "evolves queue_inv lease_order (LeaseNext opts)"
  unfolding LeaseNext_def Let_def by (intro leases.bind leases_now lease_statement_order)

section \<open>The other operations\<close>

lemma insert_queue_row_order:
  assumes "qr_Status r = QueueReady" "qr_LeaseID r = []" "qr_WorkerID r = []"
  shows "evolves queue_inv lease_order (insert_queue_row r)"
  unfolding insert_queue_row_def
proof (rule leases_disk)
  fix w :: world
  assume w: "queue_inv w"
  have "queue_inv t \<and> lease_order w t"
    if "row_key r \<notin> row_key ` set (task_queue w)" "t = w\<lparr>task_queue := task_queue w @ [r]\<rparr>" for t
  proof -
    have "row_ok t x" if "x \<in> set (task_queue w)" for x
      using w that \<open>t = _\<close> row_ok_same [of t w x] by (auto simp: queue_ok_def)
    then show ?thesis using w that assms
      by (auto simp: queue_ok_def leases_distinct_def row_ok_def uuids_ok_def lease_order_def held_def)
  qed
  moreover have "lease_order w w" by (rule leases.R_refl [OF w])
  ultimately show "queue_inv (snd (if row_key r \<in> row_key ` set (task_queue w) then (Inr (), w)
      else if \<not> has_execution w (qr_TaskID r) then (Inl (pg_error (w_env w) ''task_queue_task_id_fkey''), w)
      else (Inr (), w\<lparr>task_queue := task_queue w @ [r]\<rparr>))) \<and>
    lease_order w (snd (if row_key r \<in> row_key ` set (task_queue w) then (Inr (), w)
      else if \<not> has_execution w (qr_TaskID r) then (Inl (pg_error (w_env w) ''task_queue_task_id_fkey''), w)
      else (Inr (), w\<lparr>task_queue := task_queue w @ [r]\<rparr>)))"
    using w by simp
qed

lemma Enqueue_order: "evolves queue_inv lease_order (Enqueue opts)"
  unfolding Enqueue_def by (intro leases.bind leases_now insert_queue_row_order) (simp_all add: ready_row_def)

lemma Heartbeat_order: "evolves queue_inv lease_order (Heartbeat task l wk d)"
proof -
  have "thins w (\<lambda>r. if holds_lease task l wk r \<and> qr_Status r = QueueLeased
      then r\<lparr>qr_LeaseUntil := Some u, qr_HeartbeatAt := Some n\<rparr> else r)" for w u n
    by (auto simp: thins_def row_ok_def row_key_def)
  then show ?thesis
    unfolding Heartbeat_def Let_def set_where_map
    by (intro leases.bind leases_now leases_rows) (simp, blast)
qed

lemma Ack_order: "evolves queue_inv lease_order (Ack task l wk)"
  unfolding Ack_def by (rule leases_update) (auto simp: thins_def row_ok_def row_key_def)

lemma Nack_order: "evolves queue_inv lease_order (Nack task l wk opts)"
  unfolding Nack_def Let_def
  by (intro leases.bind leases.cond leases.ret leases_now leases_update) (auto simp: thins_def row_ok_def row_key_def)

lemma ReclaimExpiredLeases_order: "evolves queue_inv lease_order (ReclaimExpiredLeases now limit)"
proof -
  have thin: "thins w (\<lambda>r. if p r then r\<lparr>qr_Status := QueueReady, qr_AvailableAt := n, qr_LeaseID := [],
      qr_WorkerID := [], qr_LeaseUntil := None\<rparr> else r)" for w p n
    by (auto simp: thins_def row_ok_def row_key_def)
  show ?thesis
    unfolding ReclaimExpiredLeases_def Let_def set_where_map
    by (intro leases.bind leases_now leases_rows) (rule disjI2, rule exI, rule conjI [OF thin], simp)
qed

lemma MoveToDLQ_order: "evolves queue_inv lease_order (MoveToDLQ task reason)"
  unfolding MoveToDLQ_def by (rule leases_update) (auto simp: thins_def row_ok_def row_key_def)

section \<open>Runs of the queue\<close>

text \<open>
  One call of any client, or a step of another part of the system: it draws identifiers and
  does not touch the table.
\<close>

inductive queue_step :: "world \<Rightarrow> world \<Rightarrow> bool" where
  Enqueue: "Enqueue opts w = (r, t) \<Longrightarrow> queue_step w t"
| Lease: "LeaseNext lopts w = (rl, t) \<Longrightarrow> queue_step w t"
| Heartbeat: "Heartbeat task l wk d w = (r, t) \<Longrightarrow> queue_step w t"
| Ack: "Ack task l wk w = (r, t) \<Longrightarrow> queue_step w t"
| Nack: "Nack task l wk nopts w = (r, t) \<Longrightarrow> queue_step w t"
| Reclaim: "ReclaimExpiredLeases now limit w = (ri, t) \<Longrightarrow> queue_step w t"
| Move: "MoveToDLQ task reason w = (r, t) \<Longrightarrow> queue_step w t"
| Other: "w_env t = w_env w \<Longrightarrow> id_ix w \<le> id_ix t \<Longrightarrow> task_queue t = task_queue w \<Longrightarrow> queue_step w t"

lemma queue_step_order: "queue_step w t \<Longrightarrow> queue_inv w \<Longrightarrow> queue_inv t \<and> lease_order w t"
proof (induction rule: queue_step.induct)
  case (Enqueue opts w r t) show ?case by (rule evolvesD [OF Enqueue_order Enqueue.prems Enqueue.hyps])
next
  case (Lease lopts w rl t) show ?case by (rule evolvesD [OF LeaseNext_order Lease.prems Lease.hyps])
next
  case (Heartbeat task l wk d w r t) show ?case by (rule evolvesD [OF Heartbeat_order Heartbeat.prems Heartbeat.hyps])
next
  case (Ack task l wk w r t) show ?case by (rule evolvesD [OF Ack_order Ack.prems Ack.hyps])
next
  case (Nack task l wk nopts w r t) show ?case by (rule evolvesD [OF Nack_order Nack.prems Nack.hyps])
next
  case (Reclaim now limit w ri t) show ?case
    by (rule evolvesD [OF ReclaimExpiredLeases_order Reclaim.prems Reclaim.hyps])
next
  case (Move task reason w r t) show ?case by (rule evolvesD [OF MoveToDLQ_order Move.prems Move.hyps])
next
  case (Other t w) then show ?case by (intro queue_same)
qed

lemma queue_run_order:
  assumes "queue_step\<^sup>*\<^sup>* w t" and "queue_inv w"
  shows "queue_inv t \<and> lease_order w t"
  using assms
proof (induction rule: rtranclp_induct)
  case base then show ?case using leases.R_refl by blast
next
  case (step t u)
  then have "queue_inv t \<and> lease_order w t" by blast
  moreover from this have "queue_inv u \<and> lease_order t u" using queue_step_order [OF step.hyps(2)] by blast
  ultimately show ?case using leases.R_trans step.prems by blast
qed

section \<open>What taking rows does\<close>

definition ref_key :: "TaskRef \<Rightarrow> string \<times> string \<times> string" where
  "ref_key f = (tr_TenantID f, tr_ProjectID f, tr_TaskID f)"

lemma ref_key_task_ref [simp]: "ref_key (task_ref r) = row_key r"
  by (simp add: ref_key_def task_ref_def row_key_def)

lemma task_ref_simps [simp]: "tr_LeaseID (task_ref r) = qr_LeaseID r" "tr_AttemptNo (task_ref r) = qr_AttemptNo r"
  "tr_TaskID (task_ref r) = qr_TaskID r"
  by (simp_all add: task_ref_def)

lemma filter_keys:
  assumes "map row_key xs = map row_key ys"
  shows "map row_key (filter (\<lambda>r. row_key r \<in> K) xs) = map row_key (filter (\<lambda>r. row_key r \<in> K) ys)"
proof -
  have "map row_key (filter (\<lambda>r. row_key r \<in> K) zs) = filter (\<lambda>k. k \<in> K) (map row_key zs)" for zs
    by (induction zs) simp_all
  then show ?thesis using assms by simp
qed

lemma unpicked_stay: "r \<in> set rows \<Longrightarrow> \<not> p r \<Longrightarrow> r \<in> set (lease_rows p wid until ids k rows)"
  by (induction rows arbitrary: k) auto

lemma picked_taken:
  "r \<in> set rows \<Longrightarrow> p r \<Longrightarrow> \<exists>j \<ge> k. lease_row wid until (ids j) r \<in> set (lease_rows p wid until ids k rows)"
proof (induction rows arbitrary: k)
  case (Cons q rows)
  then consider "r = q" | "r \<in> set rows" by auto
  then show ?case
  proof cases
    case 1 with Cons.prems show ?thesis by auto
  next
    case 2
    from Cons.IH [OF this Cons.prems(2), of k] Cons.IH [OF this Cons.prems(2), of "Suc k"]
    show ?thesis by (auto dest: Suc_leD)
  qed
qed simp

text \<open>The rows of a table with distinct keys whose key is among some of its rows are those rows.\<close>

lemma length_keyed:
  assumes "distinct (map row_key rows)" and "distinct (map row_key ps)" and "set ps \<subseteq> set rows"
  shows "length (filter (\<lambda>r. row_key r \<in> row_key ` set ps) rows) = length ps"
proof -
  have "set (map row_key (filter (\<lambda>r. row_key r \<in> row_key ` set ps) rows)) = set (map row_key ps)"
    using assms(3) by auto
  moreover have "distinct (map row_key (filter (\<lambda>r. row_key r \<in> row_key ` set ps) rows))"
    using assms(1) by (rule distinct_map_filter)
  ultimately have "length (map row_key (filter (\<lambda>r. row_key r \<in> row_key ` set ps) rows)) = length (map row_key ps)"
    using assms(2) distinct_card by metis
  then show ?thesis by simp
qed

lemma ready_rows_props:
  assumes "distinct (map row_key rows)"
  shows "set (ready_rows locked now rows) \<subseteq> set rows" "distinct (map row_key (ready_rows locked now rows))"
proof -
  show "set (ready_rows locked now rows) \<subseteq> set rows" by (auto simp: ready_rows_def)
  have "distinct rows" "inj_on row_key (set rows)" using assms by (simp_all add: distinct_map)
  then show "distinct (map row_key (ready_rows locked now rows))"
    by (auto simp: ready_rows_def distinct_map intro: inj_on_subset)
qed

abbreviation due_order :: "QueueRow \<Rightarrow> int \<times> int" where
  "due_order r \<equiv> (qr_AvailableAt r, qr_CreatedAt r)"

lemma sorted_take_drop:
  assumes "sorted (map f xs)" "a \<in> set (take n xs)" "b \<in> set (drop n xs)"
  shows "f a \<le> f b"
proof -
  have "sorted (map f (take n xs) @ map f (drop n xs))" using assms(1) by (simp flip: map_append)
  with assms(2,3) show ?thesis by (auto simp: sorted_append)
qed

lemma LeaseNext_eq: "LeaseNext opts = bindE time_now (lease_statement
    (if lo_MaxItems opts \<le> 0 then 1 else lo_MaxItems opts) (lo_WorkerID opts)
    (if lo_LeaseDuration opts \<le> 0 then 30 * second else lo_LeaseDuration opts))"
  by (simp add: LeaseNext_def Let_def)

lemma distinct_leases_filter:
  "leases_distinct rows \<Longrightarrow> (\<And>r. r \<in> set rows \<Longrightarrow> p r \<Longrightarrow> qr_LeaseID r \<noteq> []) \<Longrightarrow>
   distinct (map qr_LeaseID (filter p rows))"
  by (induction rows) (auto simp: leases_distinct_def split: if_splits)

text \<open>The update of picked rows, on the table alone.\<close>

lemma leased_rows:
  fixes w :: world and ps :: "QueueRow list" and wid :: string and until :: time and q :: QueueRow
  assumes w: "queue_inv w" and sub: "set ps \<subseteq> set (task_queue w)" "distinct (map row_key ps)"
  defines "hit \<equiv> \<lambda>r. row_key r \<in> row_key ` set ps"
  defines "rows \<equiv> lease_rows hit wid until (pg_uuid (w_env w)) (id_ix w) (task_queue w)"
  shows "length (filter hit rows) = length ps" "row_key ` set (filter hit rows) = row_key ` set ps"
    "distinct (map qr_LeaseID (filter hit rows))" "map row_key rows = map row_key (task_queue w)"
    "q \<in> set ps \<Longrightarrow> \<exists>l. \<not> held w l \<and> lease_row wid until l q \<in> set (filter hit rows)"
    "q \<in> set (task_queue w) \<Longrightarrow> row_key q \<notin> row_key ` set ps \<Longrightarrow> q \<in> set rows"
proof -
  have dk: "distinct (map row_key (task_queue w))" using w by (simp add: queue_ok_def)
  show keys: "map row_key rows = map row_key (task_queue w)" by (simp add: rows_def)
  then have fk: "map row_key (filter hit rows) = map row_key (filter hit (task_queue w))"
    unfolding hit_def by (rule filter_keys)
  then show "length (filter hit rows) = length ps"
    using length_keyed [OF dk sub(2,1)] map_eq_imp_length_eq [OF fk] by (simp add: hit_def)
  have "row_key ` set (filter hit (task_queue w)) = row_key ` set ps" using sub(1) by (auto simp: hit_def)
  with fk show "row_key ` set (filter hit rows) = row_key ` set ps" by (metis list.set_map)
  have "qr_LeaseID r \<noteq> []" if r: "r \<in> set rows" "hit r" for r
  proof -
    obtain j q where "r = lease_row wid until (pg_uuid (w_env w) j) q"
      using lease_rows_leases [OF r(1) [unfolded rows_def]] r(2) by blast
    with w show ?thesis by simp
  qed
  moreover have "leases_distinct rows"
    unfolding rows_def using w held_not_fresh [OF w] by (intro lease_rows_distinct) (auto simp: queue_ok_def)
  ultimately show "distinct (map qr_LeaseID (filter hit rows))" by (rule distinct_leases_filter [rotated])
  show "\<exists>l. \<not> held w l \<and> lease_row wid until l q \<in> set (filter hit rows)" if "q \<in> set ps"
  proof -
    have "hit q" "q \<in> set (task_queue w)" using that sub(1) by (auto simp: hit_def)
    with picked_taken [of q "task_queue w" hit "id_ix w" wid until "pg_uuid (w_env w)"] obtain j
      where "id_ix w \<le> j" "lease_row wid until (pg_uuid (w_env w) j) q \<in> set rows" by (auto simp: rows_def)
    moreover from this(1) have "\<not> held w (pg_uuid (w_env w) j)"
      using held_not_fresh [OF w, of _ j] by (fastforce simp: held_def)
    ultimately show ?thesis using \<open>hit q\<close>
      by (intro exI [of _ "pg_uuid (w_env w) j"]) (simp add: hit_def)
  qed
  show "q \<in> set rows" if "q \<in> set (task_queue w)" "row_key q \<notin> row_key ` set ps"
    using unpicked_stay [of q "task_queue w" hit] that by (auto simp: rows_def hit_def)
qed

text \<open>
  C16. A worker that asks for \<open>n\<close> rows gets the first \<open>n\<close> (or all) of those that are ready, due
  and not locked, in the order of their due time and age: each is leased to this worker under an
  identifier no row had before, with its attempt counted; every other row stays as it is, and a
  row that is acknowledged, dead or leased is never handed out.
\<close>

theorem LeaseNext_spec:
  assumes w: "queue_inv w" "disk_ok w" and n: "0 < lo_MaxItems opts" and run: "LeaseNext opts w = (r, t)"
  shows "let ready = ready_rows (row_locked (w_env w) (Suc (io_ix w))) (clock (w_env w) (now_ix w)) (task_queue w);
             picked = take (nat (lo_MaxItems opts)) ready
    in \<exists>refs. r = Inr refs \<and> length refs = length picked \<and> ref_key ` set refs = row_key ` set picked \<and>
         distinct (map tr_LeaseID refs) \<and>
         (\<forall>q \<in> set picked. \<exists>l until. \<not> held w l \<and> task_ref (lease_row (lo_WorkerID opts) until l q) \<in> set refs \<and>
            lease_row (lo_WorkerID opts) until l q \<in> set (task_queue t)) \<and>
         (\<forall>q \<in> set (task_queue w). row_key q \<notin> row_key ` set picked \<longrightarrow> q \<in> set (task_queue t)) \<and>
         map row_key (task_queue t) = map row_key (task_queue w) \<and>
         (\<forall>q \<in> set picked. qr_Status q = QueueReady \<and> qr_AvailableAt q \<le> clock (w_env w) (now_ix w)) \<and>
         (\<forall>q \<in> set picked. \<forall>s \<in> set (drop (nat (lo_MaxItems opts)) ready). due_order q \<le> due_order s)"
proof -
  define ready where "ready = ready_rows (row_locked (w_env w) (Suc (io_ix w))) (clock (w_env w) (now_ix w)) (task_queue w)"
  define picked where "picked = take (nat (lo_MaxItems opts)) ready"
  define hit where "hit = (\<lambda>r. row_key r \<in> row_key ` set picked)"
  define until where "until = clock (w_env w) (now_ix w)
    + whole_seconds (if lo_LeaseDuration opts \<le> 0 then 30 * second else lo_LeaseDuration opts)"
  define rows where "rows = lease_rows hit (lo_WorkerID opts) until (pg_uuid (w_env w)) (id_ix w) (task_queue w)"
  have t: "r = Inr (map task_ref (filter hit rows))" "task_queue t = rows"
    using run w(2) n
    by (auto simp: LeaseNext_eq time_now_run lease_statement_def disk_ok_def disk_def Let_def ready_def picked_def
        hit_def rows_def until_def)
  have dk: "distinct (map row_key (task_queue w))" using w by (simp add: queue_ok_def)
  have "set ready \<subseteq> set (task_queue w)" "distinct (map row_key ready)"
    unfolding ready_def by (rule ready_rows_props [OF dk])+
  then have sub: "set picked \<subseteq> set (task_queue w)" "distinct (map row_key picked)"
    unfolding picked_def by (auto simp: distinct_take simp flip: take_map dest: in_set_takeD)
  note facts = leased_rows [OF w(1) sub, where wid = "lo_WorkerID opts" and until = until, folded hit_def, folded rows_def]
  have ready: "q \<in> set picked \<Longrightarrow> qr_Status q = QueueReady \<and> qr_AvailableAt q \<le> clock (w_env w) (now_ix w)" for q
    by (auto simp: picked_def ready_def ready_rows_def dest: in_set_takeD)
  have "sorted (map due_order ready)" by (simp add: ready_def ready_rows_def)
  then have order: "q \<in> set picked \<Longrightarrow> s \<in> set (drop (nat (lo_MaxItems opts)) ready) \<Longrightarrow> due_order q \<le> due_order s" for q s
    unfolding picked_def by (rule sorted_take_drop)
  have leased: "\<exists>l until. \<not> held w l \<and> task_ref (lease_row (lo_WorkerID opts) until l q) \<in> set (map task_ref (filter hit rows)) \<and>
      lease_row (lo_WorkerID opts) until l q \<in> set rows" if "q \<in> set picked" for q
    using facts(5) [OF that] by fastforce
  show ?thesis
    unfolding Let_def ready_def [symmetric] picked_def [symmetric] t(2)
    using facts(1-4,6) leased ready order t(1) by (intro exI [of _ "map task_ref (filter hit rows)"]) (auto simp: image_image comp_def)
qed

section \<open>A lost lease\<close>

lemma same_key_same_row:
  "distinct (map row_key rows) \<Longrightarrow> x \<in> set rows \<Longrightarrow> y \<in> set rows \<Longrightarrow> row_key x = row_key y \<Longrightarrow> x = y"
  by (auto simp: distinct_map dest: inj_onD)

lemma LeaseNext_Inr:
  assumes w: "queue_inv w" and run: "LeaseNext opts w = (Inr refs, t)" and f: "f \<in> set refs"
  obtains q wid until l where "f = task_ref (lease_row wid until l q)" and "lease_row wid until l q \<in> set (task_queue t)"
    and "q \<in> set (task_queue w)" and "qr_Status q = QueueReady"
proof -
  obtain n d now where "lease_statement n (lo_WorkerID opts) d now (w\<lparr>now_ix := Suc (now_ix w)\<rparr>) = (Inr refs, t)"
    using run by (auto simp: LeaseNext_eq time_now_run)
  then obtain p k where t: "task_queue t = lease_rows p (lo_WorkerID opts) (now + whole_seconds d) (pg_uuid (w_env w)) k (task_queue w)"
      and refs: "refs = map task_ref (filter p (task_queue t))"
      and p: "\<And>q. p q \<longleftrightarrow> row_key q \<in> row_key ` set (take (nat n) (ready_rows (row_locked (w_env w) (Suc (io_ix w))) now (task_queue w)))"
    by (auto simp: lease_statement_def disk_def Let_def split: option.splits)
  from f refs obtain r where r: "f = task_ref r" "r \<in> set (task_queue t)" "p r" by auto
  from lease_rows_leases [OF r(2) [unfolded t]] r(3) obtain j q
    where q: "q \<in> set (task_queue w)" "p q" "r = lease_row (lo_WorkerID opts) (now + whole_seconds d) (pg_uuid (w_env w) j) q"
    by blast
  from q(2) p obtain x where x: "row_key q = row_key x" "x \<in> set (ready_rows (row_locked (w_env w) (Suc (io_ix w))) now (task_queue w))"
    by (auto dest: in_set_takeD)
  then have "x \<in> set (task_queue w)" "qr_Status x = QueueReady" by (auto simp: ready_rows_def)
  with x(1) q(1) w have "qr_Status q = QueueReady" using same_key_same_row [of "task_queue w" q x] by (auto simp: queue_ok_def)
  with that q r show ?thesis by blast
qed

lemma no_holder:
  "\<not> held u l \<Longrightarrow> set_where (\<lambda>r. holds_lease task l wk r \<and> p r) f (task_queue u) = task_queue u"
  "\<not> held u l \<Longrightarrow> \<not> list_ex (\<lambda>r. holds_lease task l wk r \<and> p r) (task_queue u)"
  unfolding set_where_def
  by (rule map_idI) (auto simp: held_def holds_lease_def list_ex_iff)

lemma no_holder_row: "\<not> held u l \<Longrightarrow> set_where (holds_lease task l wk) f (task_queue u) = task_queue u"
  using no_holder(1) [of u l task wk "\<lambda>_. True" f] by simp

lemma Ack_void: "\<not> held u l \<Longrightarrow> task_queue (snd (Ack task l wk u)) = task_queue u"
  by (simp add: Ack_def statement_def disk_def no_holder_row split: option.split)

lemma Nack_void: "\<not> held u l \<Longrightarrow> task_queue (snd (Nack task l wk opts u)) = task_queue u"
  by (auto simp: Nack_def Let_def time_now_run bindE_def statement_def disk_def no_holder_row split: option.split)

lemma Heartbeat_void:
  "\<not> held u l \<Longrightarrow> task_queue (snd (Heartbeat task l wk d u)) = task_queue u \<and> fst (Heartbeat task l wk d u) \<noteq> Inr ()"
  by (simp add: Heartbeat_def Let_def time_now_run bindE_def disk_def no_holder split: option.split)

text \<open>
  C14. A worker whose lease is lost can do no harm: once the identifier it was given is on no row
  (the lease expired and was reclaimed, or another worker has the task now), then whatever else
  happens it never comes back, and acknowledging, giving back or extending with it changes no row;
  a heartbeat reports the loss.
\<close>

theorem lost_lease_is_void:
  assumes w: "queue_inv w" and got: "LeaseNext opts w = (Inr refs, w1)" "f \<in> set refs"
    and lost: "queue_step\<^sup>*\<^sup>* w1 w2" "\<not> held w2 (tr_LeaseID f)" and later: "queue_step\<^sup>*\<^sup>* w2 u"
  shows "\<not> held u (tr_LeaseID f) \<and>
    task_queue (snd (Ack (tr_TaskID f) (tr_LeaseID f) wk u)) = task_queue u \<and>
    task_queue (snd (Nack (tr_TaskID f) (tr_LeaseID f) wk nopts u)) = task_queue u \<and>
    task_queue (snd (Heartbeat (tr_TaskID f) (tr_LeaseID f) wk d u)) = task_queue u \<and>
    fst (Heartbeat (tr_TaskID f) (tr_LeaseID f) wk d u) \<noteq> Inr ()"
proof -
  have w1: "queue_inv w1" using evolvesD [OF LeaseNext_order w got(1)] by simp
  obtain q wid until l where q: "f = task_ref (lease_row wid until l q)" "lease_row wid until l q \<in> set (task_queue w1)"
    using LeaseNext_Inr [OF w got] by metis
  with w1 have "row_ok w1 (lease_row wid until l q)" by (simp add: queue_ok_def)
  with q(1) have l: "tr_LeaseID f \<noteq> []" "minted w1 (tr_LeaseID f)" by (auto simp: row_ok_def)
  have w2: "queue_inv w2" "lease_order w1 w2" using queue_run_order [OF lost(1) w1] by simp_all
  have "lease_order w2 u" using queue_run_order [OF later w2(1)] by simp
  with l w2 lost(2) have "\<not> held u (tr_LeaseID f)" using minted_mono [of w1 _ w2] by (auto simp: lease_order_def)
  then show ?thesis by (simp add: Ack_void Nack_void Heartbeat_void)
qed

end
