(* ===== verification/DurablePool.thy ===== *)
theory DurablePool
  imports PgQueue
begin

text \<open>
  \<^verbatim>\<open>internal/worker/durable_pool.go\<close>: workers that lease tasks from a
  \<^verbatim>\<open>queue.DurableExecutionQueue\<close>, a Go interface and here a record of its methods. A tick of
  each of the pool's loops is one program; the heartbeats of a running handler are ticks of
  their own that interleave with it. \<open>PoolRuns\<close> puts them together as a running pool with its number
  of active handlers.
\<close>

section \<open>The interface and the pool\<close>

record DurableExecutionQueue =
  dq_Enqueue :: "EnqueueOptions \<Rightarrow> unit prog_w"
  dq_LeaseNext :: "LeaseOptions \<Rightarrow> TaskRef list prog_w"
  dq_Heartbeat :: "string \<Rightarrow> string \<Rightarrow> string \<Rightarrow> int \<Rightarrow> unit prog_w"
  dq_Ack :: "string \<Rightarrow> string \<Rightarrow> string \<Rightarrow> unit prog_w"
  dq_Nack :: "string \<Rightarrow> string \<Rightarrow> string \<Rightarrow> NackOptions \<Rightarrow> unit prog_w"
  dq_ReclaimExpiredLeases :: "time \<Rightarrow> int \<Rightarrow> int prog_w"
  dq_MoveToDLQ :: "string \<Rightarrow> string \<Rightarrow> unit prog_w"
  dq_Depth :: "string \<Rightarrow> string \<Rightarrow> int prog_w"

definition pg_queue :: DurableExecutionQueue where
  "pg_queue = \<lparr>dq_Enqueue = Enqueue, dq_LeaseNext = LeaseNext, dq_Heartbeat = Heartbeat, dq_Ack = Ack, dq_Nack = Nack,
     dq_ReclaimExpiredLeases = ReclaimExpiredLeases, dq_MoveToDLQ = MoveToDLQ, dq_Depth = Depth\<rparr>"

record DurableWorkerOptions =
  dw_WorkerID :: string
  dw_WorkerCount :: int
  dw_LeaseDuration :: int
  dw_HeartbeatInterval :: int
  dw_PollInterval :: int
  dw_ReclaimInterval :: int
  dw_MaxAttempts :: int
  dw_MaxBackoff :: int

text \<open>The pool keeps the options with their defaults filled in.\<close>

definition NewDurableWorkerPool :: "DurableWorkerOptions \<Rightarrow> DurableWorkerOptions" where
  "NewDurableWorkerPool opts =
     (let opts = (if dw_WorkerID opts = [] then opts\<lparr>dw_WorkerID := ''worker-unknown''\<rparr> else opts);
          opts = (if dw_WorkerCount opts \<le> 0 then opts\<lparr>dw_WorkerCount := 1\<rparr> else opts);
          opts = (if dw_LeaseDuration opts \<le> 0 then opts\<lparr>dw_LeaseDuration := 30 * second\<rparr> else opts);
          opts = (if dw_HeartbeatInterval opts \<le> 0 then opts\<lparr>dw_HeartbeatInterval := dw_LeaseDuration opts div 3\<rparr> else opts);
          opts = (if dw_PollInterval opts \<le> 0 then opts\<lparr>dw_PollInterval := 500000000\<rparr> else opts);
          opts = (if dw_ReclaimInterval opts \<le> 0 then opts\<lparr>dw_ReclaimInterval := dw_LeaseDuration opts\<rparr> else opts);
          opts = (if dw_MaxAttempts opts \<le> 0 then opts\<lparr>dw_MaxAttempts := 3\<rparr> else opts)
      in if dw_MaxBackoff opts \<le> 0 then opts\<lparr>dw_MaxBackoff := 60 * second\<rparr> else opts)"

text \<open>
  \<^verbatim>\<open>math.Pow(2, attempt-1)\<close> is exact; its conversion to \<^verbatim>\<open>int64\<close> is only defined in range.
\<close>

definition backoff :: "env \<Rightarrow> DurableWorkerOptions \<Rightarrow> int \<Rightarrow> int" where
  "backoff v p attempt =
     (let attempt = (if attempt \<le> 0 then 1 else attempt);
          seconds = 2 ^ nat (attempt - 1);
          d = wrap64 ((if seconds < 2 ^ 63 then seconds else float_int64 v seconds) * second)
      in if d > dw_MaxBackoff p then dw_MaxBackoff p else d)"

definition IncQueueLease :: "int \<Rightarrow> unit prog_w" where "IncQueueLease n = add_metric QueueLeaseTotal n"
definition IncQueueAck :: "unit prog_w" where "IncQueueAck = add_metric QueueAckTotal 1"
definition IncQueueNack :: "unit prog_w" where "IncQueueNack = add_metric QueueNackTotal 1"
definition IncQueueReclaimed :: "int \<Rightarrow> unit prog_w" where "IncQueueReclaimed n = add_metric QueueReclaimedTotal n"
definition IncWorkerHeartbeat :: "unit prog_w" where "IncWorkerHeartbeat = add_metric WorkerHeartbeatTotal 1"
definition IncWorkerHandlerError :: "unit prog_w" where "IncWorkerHandlerError = add_metric WorkerHandlerErrorTotal 1"

section \<open>The loops\<close>

definition give_back :: "env \<Rightarrow> DurableWorkerOptions \<Rightarrow> TaskRef \<Rightarrow> go_error \<Rightarrow> NackOptions" where
  "give_back v p ref err = \<lparr>no_Retryable = True, no_Backoff = backoff v p (tr_AttemptNo ref), no_Reason = error_text err,
     no_DLQ = False, no_MaxAttempts = dw_MaxAttempts p, no_NextVisible = 0\<rparr>"

definition handleOne :: "DurableExecutionQueue \<Rightarrow> DurableWorkerOptions \<Rightarrow> (TaskRef \<Rightarrow> unit prog_w) \<Rightarrow> TaskRef \<Rightarrow> unit prog_w" where
  "handleOne Q p h ref = tryE (h ref) (\<lambda>r. case r of
     Inr _ \<Rightarrow> tryE (dq_Ack Q (tr_TaskID ref) (tr_LeaseID ref) (dw_WorkerID p)) (\<lambda>a. case a of
         Inr _ \<Rightarrow> IncQueueAck | Inl _ \<Rightarrow> retE ())
   | Inl err \<Rightarrow> bindE IncWorkerHandlerError (\<lambda>_. bindE (getE w_env) (\<lambda>v.
       tryE (dq_Nack Q (tr_TaskID ref) (tr_LeaseID ref) (dw_WorkerID p) (give_back v p ref err)) (\<lambda>_. IncQueueNack))))"

definition leaseLoop_tick :: "DurableExecutionQueue \<Rightarrow> DurableWorkerOptions \<Rightarrow> (TaskRef \<Rightarrow> unit prog_w) \<Rightarrow> unit prog_w" where
  "leaseLoop_tick Q p h =
     tryE (dq_LeaseNext Q \<lparr>lo_WorkerID = dw_WorkerID p, lo_MaxItems = 1, lo_LeaseDuration = dw_LeaseDuration p,
                            lo_VisibilityTimeout = dw_LeaseDuration p\<rparr>) (\<lambda>r. case r of
       Inl _ \<Rightarrow> retE ()
     | Inr refs \<Rightarrow> if length refs = 0 then retE ()
         else bindE (IncQueueLease (int (length refs))) (\<lambda>_. eachE (handleOne Q p h) refs))"

definition heartbeatLoop_tick :: "DurableExecutionQueue \<Rightarrow> DurableWorkerOptions \<Rightarrow> TaskRef \<Rightarrow> unit prog_w" where
  "heartbeatLoop_tick Q p ref =
     tryE (dq_Heartbeat Q (tr_TaskID ref) (tr_LeaseID ref) (dw_WorkerID p) (dw_LeaseDuration p)) (\<lambda>r. case r of
       Inl _ \<Rightarrow> retE () | Inr _ \<Rightarrow> IncWorkerHeartbeat)"

definition reclaimLoop_tick :: "DurableExecutionQueue \<Rightarrow> unit prog_w" where
  "reclaimLoop_tick Q = bindE time_now (\<lambda>now. tryE (dq_ReclaimExpiredLeases Q now 100) (\<lambda>r. case r of
       Inl _ \<Rightarrow> retE () | Inr n \<Rightarrow> if n > 0 then IncQueueReclaimed n else retE ()))"

text \<open>Whether \<^verbatim>\<open>Start\<close> launches the loops: one that reclaims and one per worker that leases.\<close>

definition Start :: "DurableExecutionQueue option \<Rightarrow> (TaskRef \<Rightarrow> unit prog_w) option \<Rightarrow> go_error option" where
  "Start q h = (if q = None \<or> h = None then Some (PlainError ''durable worker requires queue and handler'') else None)"

section \<open>What the pool relies on\<close>

text \<open>
  The rows a queue keeps, by key, and what acknowledging and giving back do to them: exactly the
  row whose current lease is named changes; a failing call changes nothing.
\<close>

definition nacked :: "NackOptions \<Rightarrow> time \<Rightarrow> QueueRow \<Rightarrow> QueueRow" where
  "nacked opts next_at r = r\<lparr>qr_Status := (if no_MaxAttempts opts > 0 \<and> qr_AttemptNo r \<ge> no_MaxAttempts opts then QueueDLQ
       else if no_DLQ opts \<or> \<not> no_Retryable opts then QueueDLQ else QueueReady),
     qr_AvailableAt := next_at, qr_LastError := Some (no_Reason opts), qr_LeaseID := [], qr_LeaseUntil := None, qr_WorkerID := []\<rparr>"

definition change_held :: "string \<Rightarrow> string \<Rightarrow> string \<Rightarrow> (QueueRow \<Rightarrow> QueueRow) \<Rightarrow> ('k \<Rightarrow> QueueRow option) \<Rightarrow> 'k \<Rightarrow> QueueRow option" where
  "change_held task l wk f rows = (\<lambda>k. map_option (\<lambda>r. if holds_lease task l wk r then f r else r) (rows k))"

locale durable_queue =
  fixes Q :: DurableExecutionQueue and rows :: "world \<Rightarrow> 'k \<Rightarrow> QueueRow option" and live :: "world \<Rightarrow> bool"
  assumes rows_metrics: "rows (w\<lparr>metrics := m\<rparr>) = rows w" "live (w\<lparr>metrics := m\<rparr>) = live w"
    and ack_rows: "dq_Ack Q task l wk w = (r, t) \<Longrightarrow>
      rows t = (case r of Inr _ \<Rightarrow> change_held task l wk (\<lambda>r. r\<lparr>qr_Status := QueueAcked\<rparr>) (rows w) | Inl _ \<Rightarrow> rows w)"
    and nack_rows: "dq_Nack Q task l wk opts w = (r, t) \<Longrightarrow> no_NextVisible opts = 0 \<Longrightarrow>
      rows t = (case r of Inr _ \<Rightarrow> change_held task l wk (nacked opts (clock (w_env w) (now_ix w) + no_Backoff opts)) (rows w)
                | Inl _ \<Rightarrow> rows w)"
    and ack_live: "live w \<Longrightarrow> \<exists>t. dq_Ack Q task l wk w = (Inr (), t)"
    and nack_live: "live w \<Longrightarrow> \<exists>t. dq_Nack Q task l wk opts w = (Inr (), t)"
begin

text \<open>The fate of a task after its handler: done, or given back with a delay, or dead.\<close>

lemma handled:
  assumes h: "h ref w = (res, u)" and live: "live u"
  shows "\<exists>t. handleOne Q p h ref w = (Inr (), t) \<and>
    rows t = change_held (tr_TaskID ref) (tr_LeaseID ref) (dw_WorkerID p)
      (case res of Inr _ \<Rightarrow> (\<lambda>r. r\<lparr>qr_Status := QueueAcked\<rparr>)
         | Inl err \<Rightarrow> nacked (give_back (w_env u) p ref err) (clock (w_env u) (now_ix u) + backoff (w_env u) p (tr_AttemptNo ref)))
      (rows u)"
proof (cases res)
  case (Inr x)
  obtain t where t: "dq_Ack Q (tr_TaskID ref) (tr_LeaseID ref) (dw_WorkerID p) u = (Inr (), t)" using ack_live [OF live] by blast
  show ?thesis using h Inr t ack_rows [OF t]
    by (simp add: handleOne_def tryE_run IncQueueAck_def add_metric_run rows_metrics)
next
  case (Inl err)
  let ?u = "u\<lparr>metrics := (metrics u)(WorkerHandlerErrorTotal := wrap64 (metrics u WorkerHandlerErrorTotal + 1))\<rparr>"
  let ?o = "give_back (w_env u) p ref err"
  have lu: "live ?u" using live by (simp add: rows_metrics)
  obtain t where t: "dq_Nack Q (tr_TaskID ref) (tr_LeaseID ref) (dw_WorkerID p) ?o ?u = (Inr (), t)"
    using nack_live [OF lu] by blast
  have z: "no_NextVisible ?o = 0" "no_Backoff ?o = backoff (w_env u) p (tr_AttemptNo ref)" by (simp_all add: give_back_def)
  show ?thesis using h Inl t nack_rows [OF t z(1)] z(2)
    by (simp add: handleOne_def tryE_run IncQueueNack_def IncWorkerHandlerError_def add_metric_run rows_metrics bindE_def)
qed

end

text \<open>The table is such a queue.\<close>

definition table_rows :: "world \<Rightarrow> string \<times> string \<times> string \<Rightarrow> QueueRow option" where
  "table_rows w k = lookup row_key k (task_queue w)"

lemma lookup_change:
  "(\<And>r. row_key (f r) = row_key r) \<Longrightarrow>
   lookup row_key k (map (\<lambda>r. if p r then f r else r) rows) = map_option (\<lambda>r. if p r then f r else r) (lookup row_key k rows)"
  by (induction rows) auto

lemma table_change:
  assumes "task_queue t = set_where (holds_lease task l wk) f (task_queue w)" "\<And>r. row_key (f r) = row_key r"
  shows "table_rows t = change_held task l wk f (table_rows w)"
  using assms lookup_change [where f = f and p = "holds_lease task l wk"]
  by (simp add: fun_eq_iff table_rows_def change_held_def set_where_map)

lemma Nack_eq: "Nack task l wk opts =
    bindE (if no_NextVisible opts = 0 then bindE time_now (\<lambda>now. retE (now + no_Backoff opts)) else retE (no_NextVisible opts))
      (\<lambda>next_at. statement (\<lambda>_. None) (task_queue_update (set_where (holds_lease task l wk) (nacked opts next_at))))"
  unfolding Nack_def nacked_def Let_def by (rule refl)

lemma Nack_nacked:
  assumes "no_NextVisible opts = 0"
  shows "Nack task l wk opts = bindE time_now (\<lambda>now. statement (\<lambda>_. None)
    (task_queue_update (set_where (holds_lease task l wk) (nacked opts (now + no_Backoff opts)))))"
  using assms by (simp add: Nack_eq bindE_assoc)

lemma Ack_table: "Ack task l wk w = (r, t) \<Longrightarrow> task_queue t =
    (case r of Inr _ \<Rightarrow> set_where (holds_lease task l wk) (\<lambda>r. r\<lparr>qr_Status := QueueAcked\<rparr>) (task_queue w) | Inl _ \<Rightarrow> task_queue w)"
  by (auto simp: Ack_def statement_def disk_def split: option.splits)

lemma Nack_table: "Nack task l wk opts w = (r, t) \<Longrightarrow> no_NextVisible opts = 0 \<Longrightarrow> task_queue t =
    (case r of Inr _ \<Rightarrow> set_where (holds_lease task l wk) (nacked opts (clock (w_env w) (now_ix w) + no_Backoff opts)) (task_queue w)
     | Inl _ \<Rightarrow> task_queue w)"
  by (auto simp: Nack_nacked time_now_run bindE_def statement_def disk_def split: option.splits)

interpretation pg: durable_queue pg_queue table_rows disk_ok
proof unfold_locales
  fix w :: world and m
  show "table_rows (w\<lparr>metrics := m\<rparr>) = table_rows w" by (simp add: table_rows_def fun_eq_iff)
  show "disk_ok (w\<lparr>metrics := m\<rparr>) = disk_ok w" by (simp add: disk_ok_def)
next
  fix task l wk w and r :: "go_error + unit" and t
  assume "dq_Ack pg_queue task l wk w = (r, t)"
  then have "task_queue t = (case r of Inr _ \<Rightarrow> set_where (holds_lease task l wk) (\<lambda>r. r\<lparr>qr_Status := QueueAcked\<rparr>) (task_queue w)
      | Inl _ \<Rightarrow> task_queue w)" by (simp add: pg_queue_def Ack_table)
  then show "table_rows t = (case r of Inr _ \<Rightarrow> change_held task l wk (\<lambda>r. r\<lparr>qr_Status := QueueAcked\<rparr>) (table_rows w)
      | Inl _ \<Rightarrow> table_rows w)"
    by (cases r) (auto simp: row_key_def table_rows_def intro!: table_change)
next
  fix task l wk opts w and r :: "go_error + unit" and t
  assume "dq_Nack pg_queue task l wk opts w = (r, t)" "no_NextVisible opts = 0"
  then have "task_queue t = (case r of Inr _ \<Rightarrow> set_where (holds_lease task l wk)
        (nacked opts (clock (w_env w) (now_ix w) + no_Backoff opts)) (task_queue w) | Inl _ \<Rightarrow> task_queue w)"
    by (simp add: pg_queue_def Nack_table)
  then show "table_rows t = (case r of Inr _ \<Rightarrow> change_held task l wk (nacked opts (clock (w_env w) (now_ix w) + no_Backoff opts)) (table_rows w)
      | Inl _ \<Rightarrow> table_rows w)"
    by (cases r) (auto simp: row_key_def table_rows_def nacked_def intro!: table_change)
next
  fix w :: world and task l wk opts
  assume "disk_ok w"
  then show "\<exists>t. dq_Ack pg_queue task l wk w = (Inr (), t)" "\<exists>t. dq_Nack pg_queue task l wk opts w = (Inr (), t)"
    by (auto simp: pg_queue_def Ack_def Nack_def Let_def statement_def disk_def disk_ok_def time_now_run bindE_def)
qed

text \<open>
  C17. A worker settles the task it leased by what its handler returns. After success the row is
  acknowledged; after an error it is ready again after the retry delay, without a lease, or dead
  once it has used up its attempts; the rows of other leases are untouched, and if this lease was
  lost meanwhile no row changes at all.
\<close>

theorem handleOne_settles:
  assumes "h ref w = (res, u)" and "disk_ok u"
  shows "\<exists>t. handleOne pg_queue p h ref w = (Inr (), t) \<and>
    (\<forall>k. table_rows t k = (case table_rows u k of None \<Rightarrow> None | Some r \<Rightarrow> Some
       (if \<not> holds_lease (tr_TaskID ref) (tr_LeaseID ref) (dw_WorkerID p) r then r
        else case res of
          Inr _ \<Rightarrow> r\<lparr>qr_Status := QueueAcked\<rparr>
        | Inl err \<Rightarrow> r\<lparr>qr_Status := (if dw_MaxAttempts p > 0 \<and> qr_AttemptNo r \<ge> dw_MaxAttempts p then QueueDLQ else QueueReady),
            qr_AvailableAt := clock (w_env u) (now_ix u) + backoff (w_env u) p (tr_AttemptNo ref),
            qr_LastError := Some (error_text err), qr_LeaseID := [], qr_LeaseUntil := None, qr_WorkerID := []\<rparr>)))"
proof -
  obtain t where t: "handleOne pg_queue p h ref w = (Inr (), t)"
    "table_rows t = change_held (tr_TaskID ref) (tr_LeaseID ref) (dw_WorkerID p)
      (case res of Inr _ \<Rightarrow> (\<lambda>r. r\<lparr>qr_Status := QueueAcked\<rparr>)
         | Inl err \<Rightarrow> nacked (give_back (w_env u) p ref err) (clock (w_env u) (now_ix u) + backoff (w_env u) p (tr_AttemptNo ref)))
      (table_rows u)" using pg.handled [where h = h and p = p, OF assms] by blast
  show ?thesis
    by (rule exI [of _ t], rule conjI [OF t(1)], unfold t(2))
       (auto simp: change_held_def nacked_def give_back_def split: option.split sum.split)
qed

section \<open>The retry delay\<close>

text \<open>
  Up to the 34th attempt the delay before the next one is the power of two in seconds or the
  configured maximum, whichever is less.
\<close>

theorem backoff_capped:
  assumes "1 \<le> attempt" and "attempt \<le> 34"
  shows "backoff v p attempt = min (2 ^ nat (attempt - 1) * second) (dw_MaxBackoff p)"
proof -
  have "(2::int) ^ nat (attempt - 1) \<le> 2 ^ 33" using assms by (intro power_increasing) auto
  moreover from this have "wrap64 (2 ^ nat (attempt - 1) * second) = 2 ^ nat (attempt - 1) * second"
    by (intro wrap64_id) (auto simp: second_def intro: order_trans [of _ 0])
  ultimately show ?thesis using assms by (auto simp: backoff_def Let_def min_def)
qed

text \<open>
  At the 35th attempt the product of seconds and nanoseconds leaves 64 bits and the delay is
  negative: the task is due again at once, 40 years in the past.
\<close>

theorem backoff_overflow: "backoff v p 35 = min (- 1266874889709551616) (dw_MaxBackoff p)"
proof -
  have "wrap64 (2 ^ 34 * second) = - 1266874889709551616" by (simp add: wrap64_def second_def)
  then show ?thesis by (auto simp: backoff_def Let_def min_def)
qed

section \<open>How often a task is tried\<close>

text \<open>
  The steps of a pool whose workers always live to settle what they leased: nothing is reclaimed,
  and what is given back is given back with the pool's limit.
\<close>

inductive settling_step :: "int \<Rightarrow> world \<Rightarrow> world \<Rightarrow> bool" for limit :: int where
  "Enqueue opts w = (r, t) \<Longrightarrow> settling_step limit w t"
| "LeaseNext lopts w = (rl, t) \<Longrightarrow> settling_step limit w t"
| "Heartbeat task l wk d w = (r, t) \<Longrightarrow> settling_step limit w t"
| "Ack task l wk w = (r, t) \<Longrightarrow> settling_step limit w t"
| "Nack task l wk nopts w = (r, t) \<Longrightarrow> no_MaxAttempts nopts = limit \<Longrightarrow> settling_step limit w t"
| "MoveToDLQ task reason w = (r, t) \<Longrightarrow> settling_step limit w t"
| "task_queue t = task_queue w \<Longrightarrow> settling_step limit w t"

definition row_within :: "int \<Rightarrow> QueueRow \<Rightarrow> bool" where
  "row_within limit r \<longleftrightarrow> (qr_Status r = QueueReady \<longrightarrow> qr_AttemptNo r < limit) \<and> qr_AttemptNo r \<le> limit"

abbreviation attempts_within :: "int \<Rightarrow> world \<Rightarrow> bool" where
  "attempts_within limit w \<equiv> \<forall>r \<in> set (task_queue w). row_within limit r"

abbreviation well_tried :: "int \<Rightarrow> world \<Rightarrow> bool" where
  "well_tried limit w \<equiv> distinct (map row_key (task_queue w)) \<and> attempts_within limit w"

lemma within_map:
  assumes "well_tried limit w" and "task_queue t = task_queue w \<or> task_queue t = set_where p f (task_queue w)"
    and "\<And>r. row_key (f r) = row_key r" and "\<And>r. row_within limit r \<Longrightarrow> row_within limit (f r)"
  shows "well_tried limit t"
proof -
  have "map row_key (set_where p f (task_queue w)) = map row_key (task_queue w)"
    using assms(3) by (simp add: set_where_def)
  with assms(1,2) have "distinct (map row_key (task_queue t))" by auto
  moreover have "attempts_within limit t" using assms(1,2,4) by (auto simp: set_where_def)
  ultimately show ?thesis ..
qed

lemma settling_step_tried:
  assumes "settling_step limit w t" and "0 < limit" and "well_tried limit w"
  shows "well_tried limit t"
  using assms
proof (induction rule: settling_step.induct)
  case (1 opts w r t)
  from 1(1) obtain now at where "task_queue t = task_queue w \<or> (task_queue t = task_queue w @
      [ready_row (eo_TenantID opts) (eo_ProjectID opts) (eo_TaskID opts) at now] \<and>
      row_key (ready_row (eo_TenantID opts) (eo_ProjectID opts) (eo_TaskID opts) at now) \<notin> row_key ` set (task_queue w))"
    by (auto simp: Enqueue_def time_now_run bindE_def insert_queue_row_def disk_def split: option.splits if_splits)
  with 1(2,3) show ?case by (auto simp: ready_row_def row_within_def)
next
  case (2 lopts w rl t)
  obtain n d now where "lease_statement n (lo_WorkerID lopts) d now (w\<lparr>now_ix := Suc (now_ix w)\<rparr>) = (rl, t)"
    using 2(1) by (auto simp: LeaseNext_eq time_now_run)
  then consider "task_queue t = task_queue w"
    | p k until where "task_queue t = lease_rows p (lo_WorkerID lopts) until (pg_uuid (w_env w)) k (task_queue w)"
      "\<And>q. p q \<longleftrightarrow> row_key q \<in> row_key ` set (take (nat n) (ready_rows (row_locked (w_env w) (Suc (io_ix w))) now (task_queue w)))"
    by (auto simp: lease_statement_def disk_def Let_def split: option.splits)
  then show ?case
  proof cases
    case 1 with 2 show ?thesis by simp
  next
    case p: 2
    have ready: "qr_Status q = QueueReady" if q: "q \<in> set (task_queue w)" "p q" for q
    proof -
      from p(2) q(2) obtain x where x: "row_key q = row_key x" "x \<in> set (ready_rows (row_locked (w_env w) (Suc (io_ix w))) now (task_queue w))"
        by (auto dest: in_set_takeD)
      then have "x \<in> set (task_queue w)" "qr_Status x = QueueReady" by (auto simp: ready_rows_def)
      with x(1) q(1) 2(3) same_key_same_row [of "task_queue w" q x] show ?thesis by auto
    qed
    have "row_within limit r" if r: "r \<in> set (task_queue t)" for r
      using lease_rows_leases [OF r [unfolded p(1)]] ready 2(3) by (fastforce simp: row_within_def)
    with p(1) 2(3) show ?thesis by simp
  qed
next
  case (3 task l wk d w r t)
  then have "task_queue t = task_queue w \<or> task_queue t = set_where (\<lambda>r. holds_lease task l wk r \<and> qr_Status r = QueueLeased)
      (\<lambda>r. r\<lparr>qr_LeaseUntil := Some (clock (w_env w) (now_ix w) + whole_seconds d), qr_HeartbeatAt := Some (clock (w_env w) (now_ix w))\<rparr>)
      (task_queue w)"
    by (auto simp: Heartbeat_def Let_def time_now_run bindE_def disk_def split: option.splits if_splits)
  then show ?case by (rule within_map [OF 3(3)]) (auto simp: row_key_def row_within_def)
next
  case (4 task l wk w r t)
  have "task_queue t = task_queue w \<or>
      task_queue t = set_where (holds_lease task l wk) (\<lambda>r. r\<lparr>qr_Status := QueueAcked\<rparr>) (task_queue w)"
    using Ack_table [OF 4(1)] by (cases r) simp_all
  then show ?case by (rule within_map [OF 4(3)]) (auto simp: row_key_def row_within_def)
next
  case (5 task l wk nopts w r t)
  let ?n = "if no_NextVisible nopts = 0 then clock (w_env w) (now_ix w) + no_Backoff nopts else no_NextVisible nopts"
  have "task_queue t = task_queue w \<or> task_queue t = set_where (holds_lease task l wk) (nacked nopts ?n) (task_queue w)"
    using 5(1) by (auto simp: Nack_eq time_now_run bindE_def statement_def disk_def split: option.splits if_splits)
  then show ?case by (rule within_map [OF 5(4)]) (use 5(2,3) in \<open>auto simp: row_key_def row_within_def nacked_def\<close>)
next
  case (6 task reason w r t)
  then have "task_queue t = task_queue w \<or> task_queue t = set_where (\<lambda>r. qr_TaskID r = task)
      (\<lambda>r. r\<lparr>qr_Status := QueueDLQ, qr_LastError := Some reason\<rparr>) (task_queue w)"
    by (auto simp: MoveToDLQ_def statement_def disk_def split: option.splits)
  then show ?case by (rule within_map [OF 6(3)]) (auto simp: row_key_def row_within_def)
qed simp


section \<open>A worker that dies\<close>

text \<open>One round in which the worker dies after it leased, and the lease is reclaimed later.\<close>

definition crash_round :: "DurableWorkerOptions \<Rightarrow> world \<Rightarrow> world" where
  "crash_round p w = snd (reclaimLoop_tick pg_queue (snd (dq_LeaseNext pg_queue
     \<lparr>lo_WorkerID = dw_WorkerID p, lo_MaxItems = 1, lo_LeaseDuration = dw_LeaseDuration p,
      lo_VisibilityTimeout = dw_LeaseDuration p\<rparr> w)))"

definition slow_clock :: "env \<Rightarrow> int \<Rightarrow> bool" where
  "slow_clock v d \<longleftrightarrow> (\<forall>n. clock v n + whole_seconds d < clock v (Suc n)) \<and> (\<forall>n. clock v n < clock v (Suc n)) \<and>
     (\<forall>n. io_fault v n = None) \<and> (\<forall>n r. \<not> row_locked v n r)"

definition waits_alone :: "int \<Rightarrow> world \<Rightarrow> bool" where
  "waits_alone n w \<longleftrightarrow> (\<exists>r. task_queue w = [r] \<and> qr_Status r = QueueReady \<and> qr_AttemptNo r = n \<and>
     qr_AvailableAt r \<le> clock (w_env w) (now_ix w))"

lemma crash_round_step:
  assumes v: "slow_clock (w_env w) (dw_LeaseDuration p)" and d: "0 < dw_LeaseDuration p" and r: "waits_alone n w"
  shows "waits_alone (n + 1) (crash_round p w) \<and> w_env (crash_round p w) = w_env w"
proof -
  obtain r where r: "task_queue w = [r]" "qr_Status r = QueueReady" "qr_AttemptNo r = n"
    "qr_AvailableAt r \<le> clock (w_env w) (now_ix w)" using r by (auto simp: waits_alone_def)
  let ?c = "clock (w_env w)" and ?i = "now_ix w"
  let ?l = "lease_row (dw_WorkerID p) (?c ?i + whole_seconds (dw_LeaseDuration p)) (pg_uuid (w_env w) (id_ix w)) r"
  let ?w = "w\<lparr>now_ix := Suc ?i, io_ix := Suc (io_ix w), task_queue := [?l], id_ix := id_ix w + 1\<rparr>"
  have "snd (dq_LeaseNext pg_queue \<lparr>lo_WorkerID = dw_WorkerID p, lo_MaxItems = 1, lo_LeaseDuration = dw_LeaseDuration p,
      lo_VisibilityTimeout = dw_LeaseDuration p\<rparr> w) = ?w"
    using r d v by (simp add: pg_queue_def LeaseNext_eq time_now_run lease_statement_def disk_def slow_clock_def Let_def ready_rows_def)
  moreover have "?c ?i + whole_seconds (dw_LeaseDuration p) < ?c (Suc ?i)" "?c (Suc (Suc ?i)) \<le> ?c (Suc (Suc (Suc ?i)))"
    using v by (auto simp: slow_clock_def intro: less_imp_le)
  ultimately show ?thesis
    using r d v
    by (simp add: crash_round_def reclaimLoop_tick_def pg_queue_def time_now_run ReclaimExpiredLeases_def disk_def slow_clock_def
        Let_def expired_rows_def bindE_def tryE_run set_where_def waits_alone_def IncQueueReclaimed_def add_metric_run)
qed

text \<open>
  A task whose worker dies while it runs is never declared dead: after any number of such
  rounds it is ready again, whatever limit of attempts the pool was given, because reclaiming an
  expired lease does not look at the attempts.
\<close>

theorem crashing_task_never_dies:
  assumes "slow_clock (w_env w) (dw_LeaseDuration p)" and "0 < dw_LeaseDuration p" and "waits_alone a w"
  shows "waits_alone (a + int n) ((crash_round p ^^ n) w)"
proof -
  have "waits_alone (a + int n) ((crash_round p ^^ n) w) \<and> w_env ((crash_round p ^^ n) w) = w_env w"
  proof (induction n)
    case 0 show ?case using assms(3) by simp
  next
    case (Suc n)
    with crash_round_step [of "(crash_round p ^^ n) w" p "a + int n"] assms(1,2)
    show ?case by (simp add: ac_simps)
  qed
  then show ?thesis ..
qed

end
