(* ===== verification/Results.thy ===== *)
theory Results
  imports Observe
begin

text \<open>
  \<^verbatim>\<open>internal/service/result.go\<close>: storing the results of a task, its summary, and the
  status a task gets from the results of its plugins.
\<close>

definition SavePluginResult :: "ExecutionResult \<Rightarrow> unit prog_w" where
  "SavePluginResult r = Result_Create r"
definition BatchSaveResults :: "ExecutionResult list \<Rightarrow> unit prog_w" where
  "BatchSaveResults rs = Result_BatchCreate rs"
definition GetExecutionResults :: "string \<Rightarrow> ExecutionResult list prog_w" where
  "GetExecutionResults executionID = Result_GetByExecutionID executionID"

text \<open>The loops of the two functions below are folds over the results, with the counters as accumulators.\<close>

record tally =
  ta_ok :: int
  ta_failed :: int
  ta_timeout :: int
  ta_dur :: int

definition tally_step :: "tally \<Rightarrow> ExecutionResult \<Rightarrow> tally" where
  "tally_step t r =
     (let t = t\<lparr>ta_dur := wrap64 (ta_dur t + rs_DurationMS r)\<rparr>
      in if rs_Status r = PluginResultSuccess then t\<lparr>ta_ok := ta_ok t + 1\<rparr>
         else if rs_Status r = PluginResultTimeout then t\<lparr>ta_timeout := ta_timeout t + 1\<rparr>
         else t\<lparr>ta_failed := ta_failed t + 1\<rparr>)"

definition BuildExecutionSummary :: "Execution \<Rightarrow> ExecutionResult list \<Rightarrow> ExecutionSummary" where
  "BuildExecutionSummary e results =
     (let t = foldl tally_step \<lparr>ta_ok = 0, ta_failed = 0, ta_timeout = 0, ta_dur = 0\<rparr> results
      in \<lparr>sm_ProjectID = [], sm_ID = [], sm_ExecutionID = ex_ID e, sm_Status = ex_Status e,
          sm_Total = int (length results), sm_Success = ta_ok t, sm_Failed = ta_failed t,
          sm_Timeout = ta_timeout t, sm_DurationMS = ta_dur t\<rparr>)"

definition aggregate_step :: "nat \<times> nat \<Rightarrow> ExecutionResult \<Rightarrow> nat \<times> nat" where
  "aggregate_step c r = (case c of (success, timeout) \<Rightarrow>
     (if rs_Status r = PluginResultSuccess then success + 1 else success,
      if rs_Status r = PluginResultTimeout then timeout + 1 else timeout))"

definition AggregateExecutionStatus :: "ExecutionResult list \<Rightarrow> ExecutionStatus" where
  "AggregateExecutionStatus results =
     (if length results = 0 then ExecutionStatusFailed
      else case foldl aggregate_step (0, 0) results of (success, timeout) \<Rightarrow>
        if success = length results then ExecutionStatusSuccess
        else if success > 0 then ExecutionStatusPartialSuccess
        else if timeout = length results then ExecutionStatusTimeout
        else ExecutionStatusFailed)"

section \<open>Counting\<close>

definition count_status :: "PluginResultStatus \<Rightarrow> ExecutionResult list \<Rightarrow> nat" where
  "count_status s rs = length (filter (\<lambda>r. rs_Status r = s) rs)"

lemma aggregate_fold:
  "foldl aggregate_step (a, b) rs =
     (a + count_status PluginResultSuccess rs, b + count_status PluginResultTimeout rs)"
  by (induction rs arbitrary: a b) (auto simp: aggregate_step_def count_status_def)

lemma tally_fold:
  "foldl tally_step t rs = \<lparr>ta_ok = ta_ok t + int (count_status PluginResultSuccess rs),
     ta_failed = ta_failed t + (int (length rs) - int (count_status PluginResultSuccess rs)
        - int (count_status PluginResultTimeout rs)),
     ta_timeout = ta_timeout t + int (count_status PluginResultTimeout rs),
     ta_dur = foldl (\<lambda>d r. wrap64 (d + rs_DurationMS r)) (ta_dur t) rs\<rparr>"
  by (induction rs arbitrary: t) (auto simp: tally_step_def count_status_def Let_def)

lemma tally_duration:
  "foldl (\<lambda>d r. wrap64 (d + rs_DurationMS r)) (wrap64 d) rs = wrap64 (d + (\<Sum>r\<leftarrow>rs. rs_DurationMS r))"
proof (induction rs arbitrary: d)
  case (Cons r rs)
  then show ?case by (simp add: wrap64_add) (simp add: add.assoc)
qed simp

lemma count_status_all: "count_status s rs = length rs \<longleftrightarrow> (\<forall>r \<in> set rs. rs_Status r = s)"
  unfolding count_status_def
  by (metis (mono_tags, lifting) filter_id_conv filter_True length_filter_less linorder_neq_iff)

lemma count_status_pos: "0 < count_status s rs \<longleftrightarrow> (\<exists>r \<in> set rs. rs_Status r = s)"
  by (induction rs) (auto simp: count_status_def)

text \<open>
  The status of a task in words: all succeeded; some succeeded; all timed out; and failed
  otherwise, in particular for a task with no results.
\<close>

lemma AggregateExecutionStatus_cases:
  "AggregateExecutionStatus rs =
     (if rs \<noteq> [] \<and> (\<forall>r \<in> set rs. rs_Status r = PluginResultSuccess) then ExecutionStatusSuccess
      else if \<exists>r \<in> set rs. rs_Status r = PluginResultSuccess then ExecutionStatusPartialSuccess
      else if rs \<noteq> [] \<and> (\<forall>r \<in> set rs. rs_Status r = PluginResultTimeout) then ExecutionStatusTimeout
      else ExecutionStatusFailed)"
  by (simp add: AggregateExecutionStatus_def aggregate_fold count_status_all count_status_pos)

lemma AggregateExecutionStatus_final: "IsFinalExecutionStatus (AggregateExecutionStatus rs)"
  by (auto simp: AggregateExecutionStatus_def IsFinalExecutionStatus_def split: prod.splits)

end
