(* ===== verification/Execution.thy ===== *)
theory Execution
  imports Plugins Results
begin

text \<open>
  \<^verbatim>\<open>internal/service/execution.go\<close> and \<^verbatim>\<open>execution_idempotency.go\<close> over the JSON
  repositories: creating, reading, cancelling, queueing, starting and finishing a task,
  and the recovery at start-up. The optional collaborators of the service (audit, queue,
  events may be \<open>nil\<close>) are the fields of \<open>ExecutionService\<close>.

  \<open>TaskOrder\<close> proves that every operation only moves tasks along the state machine,
  \<open>ExecutionSpec\<close> what each operation does on each branch.
\<close>

section \<open>Idempotency\<close>

definition BuildInputHash :: "jobj option \<Rightarrow> string prog_w" where
  "BuildInputHash input = (\<lambda>w. case json_encode (w_env w) (case input of None \<Rightarrow> JNull | Some o1 \<Rightarrow> JObj o1) of
       Inl e \<Rightarrow> (Inl e, w) | Inr b \<Rightarrow> (Inr (sha256_hex (w_env w) (trim_space b)), w))"

definition HashStrings :: "env \<Rightarrow> string list \<Rightarrow> string" where
  "HashStrings v items =
     (let b = json_text v (if items = [] then JNull else JArr (map JStr (sort items)))
      in sha256_hex v (case b of Inl e \<Rightarrow> [] | Inr t \<Rightarrow> t))"

definition BuildPluginIDsHash :: "string list \<Rightarrow> string prog_w" where
  "BuildPluginIDsHash ids = getE (\<lambda>w. HashStrings (w_env w) ids)"

definition FindExistingExecution :: "string \<Rightarrow> string \<Rightarrow> Execution option prog_w" where
  "FindExistingExecution userID key = Execution_FindByIdempotencyKey userID key"

definition CheckConflict :: "Execution \<Rightarrow> string \<Rightarrow> string \<Rightarrow> go_error option" where
  "CheckConflict existing inputHash pluginHash =
     (if ex_InputHash existing \<noteq> inputHash \<or> ex_PluginIDsHash existing \<noteq> pluginHash
      then Some (NewAppError CodeIdempotencyConflict ''same idempotency key with different request'')
      else None)"

section \<open>The service\<close>

record ExecutionService =
  es_audit :: bool
  es_queue :: bool
  es_events :: bool

definition whenE :: "bool \<Rightarrow> ('e, 's, unit) prog \<Rightarrow> ('e, 's, unit) prog" where
  "whenE c m = (if c then m else retE ())"

definition checked :: "'e option \<Rightarrow> ('e, 's, 'a) prog \<Rightarrow> ('e, 's, 'a) prog" where
  "checked r k = (case r of Some e \<Rightarrow> failE e | None \<Rightarrow> k)"

definition GetExecutionInternal :: "string \<Rightarrow> Execution prog_w" where
  "GetExecutionInternal i = bindE (Execution_GetByID i) (\<lambda>r. case r of
      None \<Rightarrow> failE (NewAppError CodeExecutionNotFound ''execution not found'') | Some e \<Rightarrow> retE e)"

definition GetExecution :: "CurrentUser \<Rightarrow> string \<Rightarrow> Execution prog_w" where
  "GetExecution user i = bindE (Execution_GetByID i) (\<lambda>r. case r of
      None \<Rightarrow> failE (NewAppError CodeExecutionNotFound ''execution not found'')
    | Some e \<Rightarrow>
        guardE (\<not> IsSuperAdminRole (cu_Role user) \<and> \<not> SameScope (CurrentUser_Scope user) (Execution_Scope e))
          (NewAppError CodeForbidden ''cannot view execution'')
        (guardE (\<not> IsAdminRole (cu_Role user) \<and> ex_UserID e \<noteq> cu_ID user)
          (NewAppError CodeForbidden ''cannot view execution'')
        (retE e)))"

definition ListExecutions :: "CurrentUser \<Rightarrow> Execution list prog_w" where
  "ListExecutions user =
     (if IsSuperAdminRole (cu_Role user) then Execution_ListAll
      else if IsAdminRole (cu_Role user) then Execution_ListByScope (CurrentUser_Scope user)
      else Execution_ListByUserID (cu_ID user))"

definition MarkQueued :: "ExecutionService \<Rightarrow> string \<Rightarrow> string \<Rightarrow> unit prog_w" where
  "MarkQueued S i requestID = bindE (GetExecutionInternal i) (\<lambda>e.
     checked (Exec_ValidateTransition (ex_Status e) ExecutionStatusQueued)
     (bindE (Execution_UpdateStatus i ExecutionStatusQueued []) (\<lambda>_.
       whenE (es_events S) (Event_Record i [] ExecutionEventQueued
         (ExecutionStatus_text ExecutionStatusQueued) ''execution queued'' requestID None))))"

definition MarkRunning :: "ExecutionService \<Rightarrow> string \<Rightarrow> string \<Rightarrow> unit prog_w" where
  "MarkRunning S i requestID = bindE (GetExecutionInternal i) (\<lambda>e.
     checked (Exec_ValidateTransition (ex_Status e) ExecutionStatusRunning)
     (bindE (whenE (es_audit S) (Audit_RecordScoped (Execution_Scope e) (ex_UserID e)
         AuditExecutionStarted AuditResourceExecution i requestID [] AuditDecisionAllow []
         ''execution started'' (Some [(''input_hash'', JStr (ex_InputHash e))]))) (\<lambda>_.
      bindE (Execution_UpdateStatus i ExecutionStatusRunning []) (\<lambda>_.
       whenE (es_events S) (Event_Record i [] ExecutionEventStarted
         (ExecutionStatus_text ExecutionStatusRunning) ''execution started'' requestID None)))))"

definition FinishExecution :: "ExecutionService \<Rightarrow> string \<Rightarrow> ExecutionStatus \<Rightarrow> string \<Rightarrow> string \<Rightarrow> unit prog_w" where
  "FinishExecution S i status errMsg requestID = bindE (GetExecutionInternal i) (\<lambda>e.
     checked (Exec_ValidateTransition (ex_Status e) status)
     (bindE (whenE (es_audit S) (Audit_RecordScoped (Execution_Scope e) (ex_UserID e)
         AuditExecutionFinished AuditResourceExecution i requestID [] AuditDecisionAllow []
         ''execution finished''
         (Some [(''status'', JStr (ExecutionStatus_text status)), (''input_hash'', JStr (ex_InputHash e))]))) (\<lambda>_.
      bindE (Execution_UpdateStatus i status errMsg) (\<lambda>_.
      bindE (whenE (es_events S) (Event_Record i []
         (if status = ExecutionStatusFailed then ExecutionEventFailed else ExecutionEventFinished)
         (ExecutionStatus_text status) ''execution finished'' requestID
         (Some [(''error'', JStr errMsg)]))) (\<lambda>_.
      IncTaskCompleted status)))))"

definition FailExecution :: "ExecutionService \<Rightarrow> string \<Rightarrow> string \<Rightarrow> string \<Rightarrow> unit prog_w" where
  "FailExecution S i errMsg requestID = FinishExecution S i ExecutionStatusFailed errMsg requestID"

definition CancelExecution :: "ExecutionService \<Rightarrow> CurrentUser \<Rightarrow> string \<Rightarrow> string \<Rightarrow> Execution prog_w" where
  "CancelExecution S user i requestID = bindE (GetExecution user i) (\<lambda>e.
     guardE (\<not> CanCancel (ex_Status e))
       (NewAppError CodeExecutionStateInvalid ''execution cannot be canceled'')
     (bindE (Execution_UpdateStatus i ExecutionStatusCanceled ''canceled'') (\<lambda>_.
      bindE (whenE (es_audit S) (Audit_RecordScoped (Execution_Scope e) (cu_ID user)
         AuditExecutionCanceled AuditResourceExecution i requestID [] AuditDecisionAllow []
         ''execution canceled'' None)) (\<lambda>_.
      bindE (whenE (es_events S) (Event_Record i [] ExecutionEventCanceled
         (ExecutionStatus_text ExecutionStatusCanceled) ''execution canceled'' requestID None)) (\<lambda>_.
      GetExecution user i)))))"

definition EnqueueNew :: "ExecutionService \<Rightarrow> ctx \<Rightarrow> string \<Rightarrow> string \<Rightarrow> unit prog_w" where
  "EnqueueNew S c i requestID = bindE (MarkQueued S i requestID) (\<lambda>_.
     tryE (Submit c i) (\<lambda>r. case r of
       Inl err \<Rightarrow> bindE IncQueueFull (\<lambda>_.
         tryE (Execution_UpdateStatus i ExecutionStatusFailed (error_text err)) (\<lambda>_.
           failE (NewAppError CodeQueueFull ''execution queue is full'')))
     | Inr _ \<Rightarrow> IncTaskSubmitted))"

text \<open>\<^verbatim>\<open>CreateExecution\<close> in four parts: the new task, the answer to a repeated request, what
  follows the insertion of a new task, and the whole.\<close>

definition new_execution :: "CurrentUser \<Rightarrow> string list \<Rightarrow> jobj option \<Rightarrow> string \<Rightarrow> string \<Rightarrow> string
    \<Rightarrow> time \<Rightarrow> string \<Rightarrow> Execution" where
  "new_execution user pluginIDs input inputHash pluginHash idemKey now i =
     (let scope = CurrentUser_Scope user
      in \<lparr>ex_TenantID = sc_TenantID scope, ex_ProjectID = sc_ProjectID scope, ex_ID = i,
          ex_UserID = cu_ID user, ex_PluginIDs = pluginIDs, ex_InputJSON = input,
          ex_InputHash = inputHash, ex_PluginIDsHash = pluginHash, ex_IdempotencyKey = idemKey,
          ex_Status = ExecutionStatusPending, ex_ErrorMessage = [], ex_CreatedAt = now,
          ex_QueuedAt = None, ex_StartedAt = None, ex_FinishedAt = None\<rparr>)"

definition reuse_execution :: "Execution \<Rightarrow> string \<Rightarrow> string \<Rightarrow> Execution prog_w" where
  "reuse_execution existing inputHash pluginHash =
     (case CheckConflict existing inputHash pluginHash of
        Some err \<Rightarrow> bindE IncIdempotencyConflict (\<lambda>_. failE err)
      | None \<Rightarrow> bindE IncIdempotencyHit (\<lambda>_. retE existing))"

definition start_execution :: "ExecutionService \<Rightarrow> ctx \<Rightarrow> CurrentUser \<Rightarrow> Execution \<Rightarrow> string \<Rightarrow> Execution prog_w" where
  "start_execution S c user e requestID =
     bindE (whenE (es_audit S) (Audit_RecordScoped (Execution_Scope e) (cu_ID user)
       AuditExecutionCreated AuditResourceExecution (ex_ID e) requestID [] AuditDecisionAllow []
       ''execution created'' (Some [(''input_hash'', JStr (ex_InputHash e))]))) (\<lambda>_.
     bindE (whenE (es_events S) (Event_Record (ex_ID e) [] ExecutionEventCreated
       (ExecutionStatus_text (ex_Status e)) ''execution created'' requestID None)) (\<lambda>_.
     bindE (whenE (es_queue S) (EnqueueNew S c (ex_ID e) requestID)) (\<lambda>_.
     GetExecution user (ex_ID e))))"

definition CreateExecution :: "ExecutionService \<Rightarrow> ctx \<Rightarrow> CurrentUser \<Rightarrow> string list \<Rightarrow> jobj option
    \<Rightarrow> string \<Rightarrow> string \<Rightarrow> Execution prog_w" where
  "CreateExecution S c user pluginIDs input idemKey requestID =
     guardE (length pluginIDs = 0 \<or> input = None)
       (NewAppError CodeInvalidArgument ''plugin_ids and input are required'')
     (bindE (ValidatePluginsExecutable json_plugin_store pluginIDs) (\<lambda>_.
      bindE (BuildInputHash input) (\<lambda>inputHash.
      bindE (BuildPluginIDsHash pluginIDs) (\<lambda>pluginHash.
      bindE time_now (\<lambda>now.
      bindE (newID ''exec'') (\<lambda>i.
      bindE (Execution_CreateWithIdempotency
          (new_execution user pluginIDs input inputHash pluginHash idemKey now i)) (\<lambda>(e, created).
         if \<not> created then reuse_execution e inputHash pluginHash
         else start_execution S c user e requestID)))))))"

section \<open>Recovery at start-up\<close>

text \<open>
  \<^verbatim>\<open>RecoverIncompleteExecutions\<close> returns the count together with the error, so both are in
  the result. The \<^verbatim>\<open>fallthrough\<close> from \<open>Pending\<close> to \<open>Queued\<close> is \<open>recover_requeue\<close>.
\<close>

definition recover_requeue :: "ExecutionService \<Rightarrow> ctx \<Rightarrow> string \<Rightarrow> string \<Rightarrow> int
    \<Rightarrow> (int \<Rightarrow> (int \<times> go_error option) prog_w) \<Rightarrow> (int \<times> go_error option) prog_w" where
  "recover_requeue S c requestID i n k =
     (if \<not> es_queue S then k n
      else tryE (Submit c i) (\<lambda>r. case r of
        Inl e \<Rightarrow> bindE IncQueueFull (\<lambda>_.
          retE (n, Some (NewAppError CodeQueueFull ''execution queue is full during recovery'')))
      | Inr _ \<Rightarrow> bindE IncTaskRecovered (\<lambda>_.
          bindE (whenE (es_events S) (Event_Record i [] ExecutionEventRecovered
            (ExecutionStatus_text ExecutionStatusQueued) ''execution recovered and requeued'' requestID None))
          (\<lambda>_. k (n + 1)))))"

fun recover_loop :: "ExecutionService \<Rightarrow> ctx \<Rightarrow> string \<Rightarrow> Execution list \<Rightarrow> int \<Rightarrow> (int \<times> go_error option) prog_w" where
  "recover_loop S c requestID [] n = retE (n, None)"
| "recover_loop S c requestID (e # es) n =
     (if ex_Status e = ExecutionStatusPending then
        tryE (MarkQueued S (ex_ID e) requestID) (\<lambda>r. case r of
          Inl err \<Rightarrow> retE (n, Some err)
        | Inr _ \<Rightarrow> recover_requeue S c requestID (ex_ID e) n (recover_loop S c requestID es))
      else if ex_Status e = ExecutionStatusQueued then
        recover_requeue S c requestID (ex_ID e) n (recover_loop S c requestID es)
      else if ex_Status e = ExecutionStatusRunning then
        tryE (Execution_UpdateStatus (ex_ID e) ExecutionStatusFailed
          ''recovered stale running execution after process restart'') (\<lambda>_.
        bindE (IncTaskCompleted ExecutionStatusFailed) (\<lambda>_. recover_loop S c requestID es n))
      else recover_loop S c requestID es n)"

definition RecoverIncompleteExecutions :: "ExecutionService \<Rightarrow> ctx \<Rightarrow> string \<Rightarrow> (int \<times> go_error option) prog_w" where
  "RecoverIncompleteExecutions S c requestID =
     tryE (Execution_ListByStatuses [ExecutionStatusPending, ExecutionStatusQueued, ExecutionStatusRunning])
       (\<lambda>r. case r of Inl err \<Rightarrow> retE (0, Some err) | Inr items \<Rightarrow> recover_loop S c requestID items 0)"

section \<open>What the reads and the status change return\<close>

lemma stamp_ID [simp]: "ex_ID (stamp_status s m n e) = ex_ID e"
  by (simp add: stamp_status_def Let_def)
lemma stamp_Status [simp]: "ex_Status (stamp_status s m n e) = s"
  by (simp add: stamp_status_def Let_def)

lemma GetExecutionInternal_run:
  assumes "GetExecutionInternal i w = (r, t)"
  shows "t = io_skip 1 w \<and> (case r of Inr e \<Rightarrow> lookup ex_ID i (executions w) = Some e | Inl e \<Rightarrow> True)"
proof -
  obtain q u where g: "Execution_GetByID i w = (q, u)" by (cases "Execution_GetByID i w")
  then have "u = io_skip 1 w \<and> (\<forall>x. q = Inr x \<longrightarrow> x = lookup ex_ID i (executions w))"
    unfolding Execution_GetByID_def by (cases rule: repo_find_cases) (auto simp: lookup_def)
  with g assms show ?thesis by (cases q) (auto simp: GetExecutionInternal_def split: option.splits)
qed

lemma GetExecution_run:
  assumes "GetExecution u i w = (r, t)"
  shows "t = io_skip 1 w \<and> (case r of Inr e \<Rightarrow> lookup ex_ID i (executions w) = Some e | Inl e \<Rightarrow> True)"
proof -
  obtain q v where g: "Execution_GetByID i w = (q, v)" by (cases "Execution_GetByID i w")
  then have "v = io_skip 1 w \<and> (\<forall>x. q = Inr x \<longrightarrow> x = lookup ex_ID i (executions w))"
    unfolding Execution_GetByID_def by (cases rule: repo_find_cases) (auto simp: lookup_def)
  with g assms show ?thesis
    by (cases q) (auto simp: GetExecution_def guardE_def split: option.splits if_splits)
qed

lemma UpdateStatus_run:
  assumes "Execution_UpdateStatus i st m w = (r, t)"
  obtains (Same) a b where "t = w\<lparr>now_ix := a, io_ix := b\<rparr>"
      and "r = Inr () \<longrightarrow> lookup ex_ID i (executions w) = None"
  | (Done) e n a b where "r = Inr ()" and "lookup ex_ID i (executions w) = Some e"
      and "t = w\<lparr>now_ix := a, io_ix := b, executions := upsert ex_ID (stamp_status st m n e) (executions w)\<rparr>"
proof -
  obtain q u where g: "Execution_GetByID i w = (q, u)" by (cases "Execution_GetByID i w")
  then have "u = io_skip 1 w \<and> (\<forall>x. q = Inr x \<longrightarrow> x = lookup ex_ID i (executions w))"
    unfolding Execution_GetByID_def by (cases rule: repo_find_cases) (auto simp: lookup_def)
  then have u: "u = io_skip 1 w" and q: "\<And>x. q = Inr x \<Longrightarrow> x = lookup ex_ID i (executions w)"
    by auto
  show ?thesis
  proof (cases q)
    case (Inl e)
    with assms g u show ?thesis
      by (intro Same [where a = "now_ix w" and b = "io_ix w + 1"]) (auto simp: Execution_UpdateStatus_def)
  next
    case (Inr x)
    show ?thesis
    proof (cases x)
      case None
      with assms g u q Inr show ?thesis
        by (intro Same [where a = "now_ix w" and b = "io_ix w + 1"]) (auto simp: Execution_UpdateStatus_def)
    next
      case (Some e)
      let ?n = "clock (w_env w) (now_ix w)"
      let ?w = "w\<lparr>io_ix := io_ix w + 1, now_ix := Suc (now_ix w)\<rparr>"
      have "repo_update executions executions_update ex_ID (stamp_status st m ?n e) ?w = (r, t)"
        using assms g u Inr Some
        by (simp add: Execution_UpdateStatus_def time_now_def Execution_Update_def)
      then show ?thesis
      proof (cases rule: repo_update_cases)
        case (Fail f n)
        then show ?thesis by (intro Same [where a = "Suc (now_ix w)" and b = n]) simp_all
      next
        case Done
        with q [OF Inr] Some show ?thesis
          by (intro that(2) [where e = e and a = "Suc (now_ix w)" and b = "io_ix w + 3" and n = ?n]) auto
      qed
    qed
  qed
qed


lemma checked_Inr:
  "checked c k w = (Inr x, t) \<Longrightarrow> c = None \<and> k w = (Inr x, t)"
  by (auto simp: checked_def split: option.splits)

lemma Submit_failed: "Submit c i w = (Inl e, t) \<Longrightarrow> t = w"
  by (auto simp: Submit_def Let_def split: ctx.splits if_splits)

definition idem_match :: "Execution \<Rightarrow> Execution list \<Rightarrow> Execution option" where
  "idem_match e items = (if ex_IdempotencyKey e \<noteq> [] then find (\<lambda>it. same_idempotency it e) items else None)"

lemma CreateWithIdempotency_eq:
  "Execution_CreateWithIdempotency e w =
     (case io_fault (w_env w) (io_ix w) of Some x \<Rightarrow> (Inl x, io_skip 1 w)
      | None \<Rightarrow> (case idem_match e (executions w) of Some it \<Rightarrow> (Inr (it, False), io_skip 1 w)
         | None \<Rightarrow> (case io_fault (w_env w) (Suc (io_ix w)) of Some x \<Rightarrow> (Inl x, io_skip 2 w)
            | None \<Rightarrow> (Inr (e, True), (io_skip 2 w)\<lparr>executions := executions w @ [e]\<rparr>))))"
  by (simp add: Execution_CreateWithIdempotency_def idem_match_def bindE_def Load_def Save_def disk_def
      numeral_2_eq_2 split: option.split)

lemma idem_match_Some: "idem_match e items = Some it \<Longrightarrow>
    it \<in> set items \<and> ex_IdempotencyKey e \<noteq> [] \<and> same_idempotency it e"
  by (auto simp: idem_match_def find_Some_iff split: if_splits)

lemma idem_match_None: "idem_match e items = None \<longleftrightarrow>
    (ex_IdempotencyKey e \<noteq> [] \<longrightarrow> (\<forall>it \<in> set items. \<not> same_idempotency it e))"
  by (auto simp: idem_match_def find_None_iff)

lemma CreateWithIdempotency_cases:
  assumes "Execution_CreateWithIdempotency e w = (r, t)"
  obtains (Fail) x n where "r = Inl x" and "t = w\<lparr>io_ix := n\<rparr>"
  | (Hit) it where "r = Inr (it, False)" and "t = io_skip 1 w" and "idem_match e (executions w) = Some it"
  | (New) "r = Inr (e, True)" and "t = (io_skip 2 w)\<lparr>executions := executions w @ [e]\<rparr>"
      and "idem_match e (executions w) = None"
proof (cases "io_fault (w_env w) (io_ix w)")
  case (Some x)
  with assms show ?thesis by (intro Fail) (auto simp: CreateWithIdempotency_eq)
next
  case n1: None
  show ?thesis
  proof (cases "idem_match e (executions w)")
    case (Some it)
    with assms n1 show ?thesis by (intro Hit) (auto simp: CreateWithIdempotency_eq)
  next
    case n2: None
    show ?thesis
    proof (cases "io_fault (w_env w) (Suc (io_ix w))")
      case (Some x)
      with assms n1 n2 show ?thesis by (intro Fail) (auto simp: CreateWithIdempotency_eq)
    next
      case None
      with assms n1 n2 show ?thesis by (intro New) (auto simp: CreateWithIdempotency_eq)
    qed
  qed
qed

end
