(* ===== verification/TaskOrder.thy ===== *)
theory TaskOrder
  imports Execution
begin

text \<open>
  Every operation of \<open>Execution\<close> respects \<open>task_order\<close>: tasks are never removed or
  reordered, what was fixed at creation stays fixed, a status only moves along the
  transition table, and the invariant \<open>tasks_ok\<close> (distinct identifiers, at most one
  task per idempotency key, time stamps that agree with the status) is kept.
\<close>

section \<open>The order\<close>

text \<open>What a task never changes after its creation.\<close>

definition immut :: "Execution \<Rightarrow> _" where
  "immut e = (ex_TenantID e, ex_ProjectID e, ex_ID e, ex_UserID e, ex_PluginIDs e, ex_InputJSON e,
     ex_InputHash e, ex_PluginIDsHash e, ex_IdempotencyKey e, ex_CreatedAt e)"

text \<open>What may happen to one task: an ended task never changes again in any way.\<close>

definition task_step :: "Execution \<Rightarrow> Execution \<Rightarrow> bool" where
  "task_step e f \<longleftrightarrow> immut f = immut e \<and> status_path (ex_Status e) (ex_Status f) \<and>
     (IsFinalExecutionStatus (ex_Status e) \<longrightarrow> f = e)"

text \<open>
  The invariant. The time stamps record how far the task has come; two tasks never share
  scope, user and a non-empty idempotency key; identifiers are the process's own
  (\<^verbatim>\<open>newID\<close>), distinct where the random parts are.
\<close>

fun stamped :: "ExecutionStatus \<Rightarrow> bool \<Rightarrow> bool \<Rightarrow> bool \<Rightarrow> bool" where
  "stamped ExecutionStatusPending q s f = (\<not> q \<and> \<not> s \<and> \<not> f)"
| "stamped ExecutionStatusQueued q s f = (q \<and> \<not> s \<and> \<not> f)"
| "stamped ExecutionStatusRunning q s f = (q \<and> s \<and> \<not> f)"
| "stamped (ExecutionStatusRaw t) q s f = False"
| "stamped st q s f = f"

definition wf_task :: "Execution \<Rightarrow> bool" where
  "wf_task e \<longleftrightarrow> stamped (ex_Status e) (ex_QueuedAt e \<noteq> None) (ex_StartedAt e \<noteq> None) (ex_FinishedAt e \<noteq> None)"

definition idem_of :: "Execution \<Rightarrow> ResourceScope \<times> string \<times> string" where
  "idem_of e = (Execution_Scope e, ex_UserID e, ex_IdempotencyKey e)"

definition keys_unique :: "Execution list \<Rightarrow> bool" where
  "keys_unique xs \<longleftrightarrow> distinct (filter (\<lambda>(s, u, k). k \<noteq> []) (map idem_of xs))"

definition ids_minted :: "world \<Rightarrow> bool" where
  "ids_minted w \<longleftrightarrow> distinct (map ex_ID (executions w)) \<and>
     (\<forall>e \<in> set (executions w). \<exists>n < id_ix w. ex_ID e = ''exec_'' @ id_text (w_env w) n)"

definition tasks_ok :: "world \<Rightarrow> bool" where
  "tasks_ok w \<longleftrightarrow> (\<forall>e \<in> set (executions w). wf_task e) \<and> keys_unique (executions w) \<and>
     (inj (id_text (w_env w)) \<longrightarrow> ids_minted w)"

text \<open>Positionally: no task disappears or moves, new ones come at the end.\<close>

definition tasks_evolve :: "Execution list \<Rightarrow> Execution list \<Rightarrow> bool" where
  "tasks_evolve xs ys \<longleftrightarrow> (\<exists>us vs. ys = us @ vs \<and> list_all2 task_step xs us)"

definition task_order :: "world \<Rightarrow> world \<Rightarrow> bool" where
  "task_order w t \<longleftrightarrow> tasks_evolve (executions w) (executions t) \<and> w_env t = w_env w \<and>
     plugins t = plugins w \<and> users t = users w \<and> subscribers t = subscribers w \<and>
     queue_size t = queue_size w \<and> id_ix w \<le> id_ix t \<and>
     prefix (execution_events w) (execution_events t) \<and> prefix (audit_logs w) (audit_logs t) \<and>
     (tasks_ok w \<longrightarrow> tasks_ok t)"

lemma same_idempotency_iff: "same_idempotency x y \<longleftrightarrow> idem_of x = idem_of y"
  by (auto simp: same_idempotency_def idem_of_def SameScope_iff Execution_Scope_def)

lemma immut_idem: "immut f = immut e \<Longrightarrow> idem_of f = idem_of e"
  by (simp add: immut_def idem_of_def Execution_Scope_def)

lemma ids_minted_mono:
  assumes "ids_minted w" and "executions t = executions w" and "w_env t = w_env w" and "id_ix w \<le> id_ix t"
  shows "ids_minted t"
  unfolding ids_minted_def
proof
  show "distinct (map ex_ID (executions t))" using assms by (simp add: ids_minted_def)
  show "\<forall>e \<in> set (executions t). \<exists>n < id_ix t. ex_ID e = ''exec_'' @ id_text (w_env t) n"
  proof
    fix e assume "e \<in> set (executions t)"
    with assms obtain n where n: "n < id_ix w" "ex_ID e = ''exec_'' @ id_text (w_env t) n"
      by (auto simp: ids_minted_def)
    then have "n < id_ix t" using assms(4) by simp
    with n(2) show "\<exists>n < id_ix t. ex_ID e = ''exec_'' @ id_text (w_env t) n" by blast
  qed
qed

lemma ids_minted_fresh:
  assumes "ids_minted w" and "inj (id_text (w_env w))" and "f \<in> set (executions w)"
  shows "ex_ID f \<noteq> ''exec_'' @ id_text (w_env w) (id_ix w)"
proof -
  from assms obtain n where "n < id_ix w" "ex_ID f = ''exec_'' @ id_text (w_env w) n"
    by (auto simp: ids_minted_def)
  with assms(2) show ?thesis by (auto dest: injD)
qed

lemma tasks_ok_cong:
  "executions t = executions w \<Longrightarrow> w_env t = w_env w \<Longrightarrow> id_ix w \<le> id_ix t \<Longrightarrow> tasks_ok w \<Longrightarrow> tasks_ok t"
  by (auto simp: tasks_ok_def intro: ids_minted_mono)

lemma stamp_immut [simp]: "immut (stamp_status s m n e) = immut e"
  by (simp add: stamp_status_def immut_def Let_def)

lemma stamp_wf: "wf_task e \<Longrightarrow> Exec_CanTransit (ex_Status e) st \<Longrightarrow> wf_task (stamp_status st m n e)"
  by (auto simp: Exec_CanTransit_iff wf_task_def stamp_status_def IsFinalExecutionStatus_def Let_def)

lemma task_step_refl [simp]: "task_step e e" by (simp add: task_step_def)
lemma task_step_trans: "task_step d e \<Longrightarrow> task_step e f \<Longrightarrow> task_step d f"
  by (auto simp: task_step_def intro: status_path_trans)

lemma tasks_evolve_refl [simp]: "tasks_evolve xs xs"
  unfolding tasks_evolve_def by (rule exI [of _ xs]) (simp add: list_all2_refl)

lemma tasks_evolve_append: "tasks_evolve xs (xs @ ys)"
  unfolding tasks_evolve_def by (rule exI [of _ xs]) (simp add: list_all2_refl)

lemma tasks_evolve_trans:
  assumes "tasks_evolve xs ys" and "tasks_evolve ys zs"
  shows "tasks_evolve xs zs"
proof -
  from assms obtain us vs us' vs' where ys: "ys = us @ vs" and xs: "list_all2 task_step xs us"
    and zs: "zs = us' @ vs'" and us': "list_all2 task_step ys us'"
    unfolding tasks_evolve_def by blast
  from us' obtain as bs where "us' = as @ bs" and as: "list_all2 task_step us as"
    unfolding ys list_all2_append1 by blast
  then have "zs = as @ (bs @ vs')" by (simp add: zs)
  moreover have "list_all2 task_step xs as"
    using list_all2_trans [OF task_step_trans xs as] .
  ultimately show ?thesis unfolding tasks_evolve_def by blast
qed

lemma tasks_evolve_lookup:
  assumes "tasks_evolve xs ys" and "lookup ex_ID i xs = Some e"
  shows "\<exists>f. lookup ex_ID i ys = Some f \<and> task_step e f"
proof -
  from assms(1) obtain us vs where ys: "ys = us @ vs" and all: "list_all2 task_step xs us"
    by (auto simp: tasks_evolve_def)
  from all assms(2) have "\<exists>f. lookup ex_ID i us = Some f \<and> task_step e f"
    by (induction rule: list_all2_induct) (auto simp: task_step_def immut_def split: if_splits)
  then show ?thesis by (auto simp: ys lookup_append)
qed

lemma upsert_steps:
  "lookup ex_ID (ex_ID x) xs = Some e \<Longrightarrow> task_step e x \<Longrightarrow> list_all2 task_step xs (upsert ex_ID x xs)"
  by (induction xs) (auto simp: list_all2_refl split: if_splits)

lemma steps_keys: "list_all2 task_step xs ys \<Longrightarrow> map ex_ID ys = map ex_ID xs \<and> map idem_of ys = map idem_of xs"
  by (induction rule: list_all2_induct) (auto simp: task_step_def immut_def idem_of_def Execution_Scope_def)

lemma task_order_upsert:
  assumes "lookup ex_ID (ex_ID x) (executions w) = Some e" and step: "task_step e x"
    and wf: "wf_task e \<Longrightarrow> wf_task x"
    and t: "executions t = upsert ex_ID x (executions w)" "w_env t = w_env w" "id_ix t = id_ix w"
      "plugins t = plugins w" "users t = users w" "subscribers t = subscribers w"
      "queue_size t = queue_size w" "execution_events t = execution_events w" "audit_logs t = audit_logs w"
  shows "task_order w t"
proof -
  have all: "list_all2 task_step (executions w) (executions t)"
    using upsert_steps [OF assms(1) step] t(1) by simp
  then have "tasks_evolve (executions w) (executions t)"
    unfolding tasks_evolve_def by (metis append_Nil2)
  moreover have "tasks_ok t" if ok: "tasks_ok w"
  proof -
    from steps_keys [OF all] have k: "map ex_ID (executions t) = map ex_ID (executions w)"
      "map idem_of (executions t) = map idem_of (executions w)" by auto
    then have ids: "ex_ID ` set (executions t) = ex_ID ` set (executions w)" by (metis set_map)
    have "wf_task x" using ok wf lookup_mem [OF assms(1)] by (auto simp: tasks_ok_def)
    then have "\<forall>e \<in> set (executions t). wf_task e"
      using ok set_upsert_subset [of ex_ID x "executions w"] t(1) by (auto simp: tasks_ok_def)
    moreover have "keys_unique (executions t)" using ok k by (simp add: tasks_ok_def keys_unique_def)
    moreover have "ids_minted t" if "inj (id_text (w_env t))"
    proof -
      have "ids_minted w" using ok that t(2) by (simp add: tasks_ok_def)
      then have "distinct (map ex_ID (executions t))"
        and "\<forall>i \<in> ex_ID ` set (executions t). \<exists>n < id_ix t. i = ''exec_'' @ id_text (w_env t) n"
        using k(1) by (simp_all add: ids_minted_def ids t(2,3))
      then show ?thesis by (simp add: ids_minted_def)
    qed
    ultimately show ?thesis by (simp add: tasks_ok_def)
  qed
  ultimately show ?thesis by (simp add: task_order_def t)
qed

text \<open>For a step that leaves the tasks alone only the frame has to be checked.\<close>

lemma task_order_same:
  "executions t = executions w \<Longrightarrow> w_env t = w_env w \<Longrightarrow> id_ix w \<le> id_ix t \<Longrightarrow>
   plugins t = plugins w \<Longrightarrow> users t = users w \<Longrightarrow> subscribers t = subscribers w \<Longrightarrow>
   queue_size t = queue_size w \<Longrightarrow> prefix (execution_events w) (execution_events t) \<Longrightarrow>
   prefix (audit_logs w) (audit_logs t) \<Longrightarrow> task_order w t"
  using tasks_ok_cong by (simp add: task_order_def)

interpretation tasks: state_order always task_order
  by unfold_locales (auto simp: task_order_def intro: tasks_evolve_trans prefix_order.trans)

named_theorems ordering \<open>operations that respect \<open>task_order\<close>\<close>

lemma observing_order: "evolves always observes m \<Longrightarrow> evolves always task_order m"
  by (erule evolves_mono) (rule task_order_same; simp add: observes_def)

text \<open>
  \<open>order_at i e m\<close>: started where \<open>e\<close> is the stored task \<open>i\<close>, \<open>m\<close> respects the order. It is
  what remains to be shown after the read and the check of a transition.
\<close>

definition order_at :: "string \<Rightarrow> Execution \<Rightarrow> 'a prog_w \<Rightarrow> bool" where
  "order_at i e m \<longleftrightarrow> (\<forall>w. lookup ex_ID i (executions w) = Some e \<longrightarrow> task_order w (snd (m w)))"

lemma order_at_any: "evolves always task_order m \<Longrightarrow> order_at i e m"
  by (simp add: order_at_def evolves_def)

lemma order_at_observe:
  assumes "evolves always observes a" and "\<And>x. order_at i e (k x)"
  shows "order_at i e (bindE a k)"
  unfolding order_at_def
proof (intro allI impI)
  fix w :: world assume l: "lookup ex_ID i (executions w) = Some e"
  obtain r u where a: "a w = (r, u)" by (cases "a w")
  with assms(1) have o1: "observes w u" by (auto dest: evolvesD)
  have w1: "task_order w u" by (rule task_order_same) (use o1 in \<open>simp_all add: observes_def\<close>)
  have l1: "lookup ex_ID i (executions u) = Some e" using o1 l by (simp add: observes_def)
  show "task_order w (snd (bindE a k w))"
  proof (cases r)
    case (Inr x)
    with assms(2) l1 have "task_order u (snd (k x u))" by (simp add: order_at_def)
    with w1 a Inr show ?thesis using tasks.R_trans by simp
  qed (use a w1 in simp)
qed

lemma order_at_update:
  assumes "Exec_CanTransit (ex_Status e) st" and "\<And>x. evolves always task_order (k x)"
  shows "order_at i e (bindE (Execution_UpdateStatus i st m) k)"
  unfolding order_at_def
proof (intro allI impI)
  fix w :: world assume l: "lookup ex_ID i (executions w) = Some e"
  obtain r u where u: "Execution_UpdateStatus i st m w = (r, u)" by (cases "Execution_UpdateStatus i st m w")
  from u have wu: "task_order w u"
  proof (cases rule: UpdateStatus_run)
    case (Done f n a b)
    with l have f: "f = e" by simp
    have i: "ex_ID e = i" using lookup_key [OF l] .
    show ?thesis
      by (rule task_order_upsert [where x = "stamp_status st m n e" and e = e])
        (use Done f l i assms(1) stamp_wf final_no_transition in \<open>auto simp: task_step_def status_path_step\<close>)
  next
    case (Same a b)
    show ?thesis by (rule task_order_same) (simp_all add: Same)
  qed
  show "task_order w (snd (bindE (Execution_UpdateStatus i st m) k w))"
  proof (cases r)
    case (Inr x)
    from assms(2) have "task_order u (snd (k x u))" by (simp add: evolves_def)
    with wu u Inr show ?thesis using tasks.R_trans by simp
  qed (use u wu in simp)
qed

lemma order_at_update_try:
  assumes "Exec_CanTransit (ex_Status e) st" and "\<And>x. evolves always task_order (k x)"
  shows "order_at i e (tryE (Execution_UpdateStatus i st m) k)"
proof -
  have "order_at i e (bindE (Execution_UpdateStatus i st m) retE)"
    using assms(1) by (rule order_at_update) (rule tasks.ret)
  moreover have "bindE (Execution_UpdateStatus i st m) retE = Execution_UpdateStatus i st m"
    by (auto simp: bindE_def fun_eq_iff split: prod.split sum.split)
  ultimately have u: "order_at i e (Execution_UpdateStatus i st m)" by simp
  show ?thesis
    unfolding order_at_def
  proof (intro allI impI)
    fix w :: world assume "lookup ex_ID i (executions w) = Some e"
    with u have "task_order w (snd (Execution_UpdateStatus i st m w))" by (simp add: order_at_def)
    moreover have "task_order u (snd (k x u))" for x u
      using assms(2) [of x] by (simp add: evolves_def)
    ultimately show "task_order w (snd (tryE (Execution_UpdateStatus i st m) k w))"
      using tasks.R_trans by (simp add: tryE_run)
  qed
qed

lemma order_at_checked:
  "(Exec_CanTransit (ex_Status e) st \<Longrightarrow> order_at i e k) \<Longrightarrow>
   order_at i e (checked (Exec_ValidateTransition (ex_Status e) st) k)"
  by (auto simp: checked_def order_at_def Exec_ValidateTransition_def tasks.R_refl)

lemma order_read:
  assumes get: "\<And>w r t. g w = (r, t) \<Longrightarrow> t = io_skip 1 w \<and>
      (case r of Inr e \<Rightarrow> lookup ex_ID i (executions w) = Some e | Inl e \<Rightarrow> True)"
    and k: "\<And>e. order_at i e (k e)"
  shows "evolves always task_order (bindE g k)"
proof (rule evolvesI)
  fix w :: world
  obtain r t where g: "g w = (r, t)" by (cases "g w")
  from get [OF g] have t: "t = io_skip 1 w" by simp
  have wt: "task_order w t" by (rule task_order_same) (simp_all add: t)
  have "task_order w (snd (bindE g k w))"
  proof (cases r)
    case (Inr e)
    with get [OF g] have "lookup ex_ID i (executions t) = Some e" by (simp add: t)
    with k have "task_order t (snd (k e t))" by (simp add: order_at_def)
    with wt g Inr show ?thesis using tasks.R_trans by simp
  qed (use g wt in simp)
  then show "True \<and> task_order w (snd (bindE g k w))" by simp
qed

lemma order_internal:
  "(\<And>e. order_at i e (k e)) \<Longrightarrow> evolves always task_order (bindE (GetExecutionInternal i) k)"
  by (rule order_read) (erule GetExecutionInternal_run)

lemma order_get:
  "(\<And>e. order_at i e (k e)) \<Longrightarrow> evolves always task_order (bindE (GetExecution u i) k)"
  by (rule order_read) (erule GetExecution_run)

lemma whenE_observes [observing]: "evolves always observes m \<Longrightarrow> evolves always observes (whenE c m)"
  by (simp add: whenE_def obs.ret)

lemma IncTaskCompleted_observes [observing]: "evolves always observes (IncTaskCompleted s)"
  unfolding IncTaskCompleted_def by (intro observing)

lemma MarkQueued_order [ordering]: "evolves always task_order (MarkQueued S i rq)"
  unfolding MarkQueued_def
  by (rule order_internal, rule order_at_checked, rule order_at_update, assumption)
    (intro observing_order observing)

lemma MarkRunning_order [ordering]: "evolves always task_order (MarkRunning S i rq)"
  unfolding MarkRunning_def
  by (rule order_internal, rule order_at_checked, rule order_at_observe, intro observing, rule order_at_update, assumption)
    (intro observing_order observing)

lemma FinishExecution_order [ordering]: "evolves always task_order (FinishExecution S i st m rq)"
  unfolding FinishExecution_def
  by (rule order_internal, rule order_at_checked, rule order_at_observe, intro observing, rule order_at_update, assumption)
    (intro observing_order observing)

lemma FailExecution_order [ordering]: "evolves always task_order (FailExecution S i m rq)"
  unfolding FailExecution_def by (rule FinishExecution_order)

lemma GetExecution_observes [observing]: "evolves always observes (GetExecution u i)"
  unfolding GetExecution_def Execution_GetByID_def by (intro observing)

lemma order_at_guard: "(\<not> c \<Longrightarrow> order_at i e k) \<Longrightarrow> order_at i e (guardE c x k)"
  by (auto simp: guardE_def order_at_def tasks.R_refl)

lemma CancelExecution_order [ordering]: "evolves always task_order (CancelExecution S u i rq)"
  unfolding CancelExecution_def
  by (rule order_get, rule order_at_guard, rule order_at_update)
    (simp add: CanCancel_iff, intro observing_order observing)


text \<open>A successful \<^verbatim>\<open>MarkQueued\<close> leaves the task \<open>Queued\<close>.\<close>

lemma MarkQueued_done:
  assumes "MarkQueued S i rq w = (Inr u, t)"
  shows "\<exists>e n. lookup ex_ID i (executions w) = Some e \<and> Exec_CanTransit (ex_Status e) ExecutionStatusQueued
    \<and> executions t = upsert ex_ID (stamp_status ExecutionStatusQueued [] n e) (executions w)
    \<and> queue_ch t = queue_ch w \<and> queue_size t = queue_size w \<and> w_env t = w_env w"
proof -
  let ?ev = "\<lambda>_. whenE (es_events S) (Event_Record i [] ExecutionEventQueued
         (ExecutionStatus_text ExecutionStatusQueued) ''execution queued'' rq None)"
  from assms obtain e u1 where g: "GetExecutionInternal i w = (Inr e, u1)"
    and c: "checked (Exec_ValidateTransition (ex_Status e) ExecutionStatusQueued)
        (bindE (Execution_UpdateStatus i ExecutionStatusQueued []) ?ev) u1 = (Inr u, t)"
    unfolding MarkQueued_def by (elim bindE_InrE)
  from GetExecutionInternal_run [OF g] have u1: "u1 = io_skip 1 w"
    and l: "lookup ex_ID i (executions w) = Some e" by auto
  from checked_Inr [OF c] have ct: "Exec_CanTransit (ex_Status e) ExecutionStatusQueued"
    and b: "bindE (Execution_UpdateStatus i ExecutionStatusQueued []) ?ev u1 = (Inr u, t)" by auto
  from b obtain x u2 where up: "Execution_UpdateStatus i ExecutionStatusQueued [] u1 = (Inr x, u2)"
    and ev: "?ev x u2 = (Inr u, t)" by (elim bindE_InrE)
  have "evolves always observes (?ev x)" by (intro observing)
  from evolvesD [OF this _ ev] have o: "observes u2 t" by simp
  from up show ?thesis
  proof (cases rule: UpdateStatus_run)
    case Same with l u1 show ?thesis by simp
  next
    case (Done f n a b)
    with l u1 have "f = e" by simp
    with Done l ct o u1 show ?thesis by (auto simp: observes_def)
  qed
qed

lemma Submit_order [ordering]: "evolves always task_order (Submit c i)"
proof (rule evolvesI)
  fix w show "True \<and> task_order w (snd (Submit c i w))"
    using Submit_cases [of c i w] by (auto intro!: task_order_same)
qed

lemma inc_observes [observing]:
  "evolves always observes IncQueueFull" "evolves always observes IncTaskSubmitted"
  "evolves always observes IncTaskRecovered" "evolves always observes IncIdempotencyHit"
  "evolves always observes IncIdempotencyConflict"
  unfolding inc_defs by (intro observing)+

lemma EnqueueNew_order [ordering]: "evolves always task_order (EnqueueNew S c i rq)"
  unfolding EnqueueNew_def
proof (rule tasks.bind_from, rule MarkQueued_order)
  fix w x t
  assume q: "MarkQueued S i rq w = (Inr x, t)"
  let ?k = "\<lambda>r. case r of
       Inl err \<Rightarrow> bindE IncQueueFull (\<lambda>_.
         tryE (Execution_UpdateStatus i ExecutionStatusFailed (error_text err)) (\<lambda>_.
           failE (NewAppError CodeQueueFull ''execution queue is full'')))
     | Inr _ \<Rightarrow> IncTaskSubmitted"
  from MarkQueued_done [OF q] obtain e where e: "lookup ex_ID i (executions t) = Some e"
      "ex_Status e = ExecutionStatusQueued"
    by (auto simp: lookup_upsert dest: lookup_key)
  obtain r u where s: "Submit c i t = (r, u)" by (cases "Submit c i t")
  have "task_order t (snd (?k r u))"
  proof (cases r)
    case (Inl err)
    with s have u: "u = t" by (simp add: Submit_failed)
    have "order_at i e (?k r)"
      unfolding Inl sum.case
      by (rule order_at_observe, intro observing, rule order_at_update_try)
        (simp add: e Exec_CanTransit_iff, rule tasks.fail)
    with e show ?thesis by (simp add: order_at_def u)
  next
    case (Inr y)
    with s Submit_order [of c i] have "task_order t u" by (auto dest: evolvesD)
    moreover have "task_order u (snd (IncTaskSubmitted u))"
      using observing_order [OF inc_observes(2)] by (simp add: evolves_def)
    ultimately show ?thesis using tasks.R_trans by (simp add: Inr)
  qed
  then show "True \<and> task_order t (snd (tryE (Submit c i) ?k t))" by (simp add: tryE_run s)
qed

lemma observes_Find [observing]:
  "evolves always observes (Execution_GetByID i)" "evolves always observes (Plugin_GetByID i)"
  "evolves always observes (GetPlugin json_plugin_store i)"
  unfolding Execution_GetByID_def GetPlugin_def json_plugin_store_def
  by (auto simp: Plugin_GetByID_def intro!: observing)

lemma observes_Validate [observing]: "evolves always observes (ValidatePluginsExecutable json_plugin_store ids)"
  unfolding ValidatePluginsExecutable_default executable_plugin_def by (intro observing)

lemma Build_hash_observes [observing]:
  "evolves always observes (BuildInputHash inp)" "evolves always observes (BuildPluginIDsHash ids)"
  unfolding BuildInputHash_def BuildPluginIDsHash_def
  by (auto simp: evolves_def observes_def split: sum.split)

lemma task_order_new:
  assumes e: "ex_ID e = ''exec_'' @ id_text (w_env w) (id_ix w)" "wf_task e"
    and key: "ex_IdempotencyKey e \<noteq> [] \<Longrightarrow> \<forall>it \<in> set (executions w). \<not> same_idempotency it e"
  shows "task_order w (w\<lparr>id_ix := Suc (id_ix w), io_ix := n, executions := executions w @ [e]\<rparr>)" (is "task_order w ?t")
proof -
  have "tasks_ok ?t" if ok: "tasks_ok w"
  proof -
    have "keys_unique (executions w @ [e])"
    proof (cases "ex_IdempotencyKey e = []")
      case True
      with ok show ?thesis by (simp add: tasks_ok_def keys_unique_def idem_of_def)
    next
      case False
      with key have "idem_of e \<notin> idem_of ` set (executions w)" by (auto simp: same_idempotency_iff)
      with ok show ?thesis by (auto simp: tasks_ok_def keys_unique_def)
    qed
    moreover have "ids_minted ?t" if inj: "inj (id_text (w_env w))"
    proof -
      from ok inj have m: "ids_minted w" by (simp add: tasks_ok_def)
      have "ex_ID e \<noteq> ex_ID f" if "f \<in> set (executions w)" for f
        using ids_minted_fresh [OF m inj that] e(1) by metis
      moreover have "ids_minted (w\<lparr>id_ix := Suc (id_ix w)\<rparr>)"
        by (rule ids_minted_mono [OF m]) simp_all
      ultimately show ?thesis using e(1) unfolding ids_minted_def by fastforce
    qed
    ultimately show ?thesis using ok e(2) by (auto simp: tasks_ok_def)
  qed
  then show ?thesis by (simp add: task_order_def tasks_evolve_append)
qed

lemma Create_order:
  assumes e: "\<And>i. ex_ID (e i) = i" "\<And>i. wf_task (e i)" and k: "\<And>i x. evolves always task_order (k i x)"
  shows "evolves always task_order (bindE (newID ''exec'') (\<lambda>i. bindE (Execution_CreateWithIdempotency (e i)) (k i)))"
proof (rule evolvesI)
  fix w :: world
  let ?i = "''exec_'' @ id_text (w_env w) (id_ix w)"
  let ?w = "w\<lparr>id_ix := Suc (id_ix w)\<rparr>"
  obtain r t where c: "Execution_CreateWithIdempotency (e ?i) ?w = (r, t)"
    by (cases "Execution_CreateWithIdempotency (e ?i) ?w")
  from c have wt: "task_order w t"
  proof (cases rule: CreateWithIdempotency_cases)
    case (Fail x n) show ?thesis by (rule task_order_same) (simp_all add: Fail)
  next
    case (Hit it) show ?thesis by (rule task_order_same) (simp_all add: Hit)
  next
    case New
    have "task_order w (w\<lparr>id_ix := Suc (id_ix w), io_ix := io_ix w + 2, executions := executions w @ [e ?i]\<rparr>)"
      using New(3) by (intro task_order_new) (simp_all add: e idem_match_None)
    with New(2) show ?thesis by simp
  qed
  have "task_order w (snd (bindE (newID ''exec'') (\<lambda>i. bindE (Execution_CreateWithIdempotency (e i)) (k i)) w))"
  proof (cases r)
    case (Inl x) with c wt show ?thesis by (simp add: newID_run)
  next
    case (Inr x)
    from k have "task_order t (snd (k ?i x t))" by (simp add: evolves_def)
    with c wt Inr show ?thesis using tasks.R_trans by (simp add: newID_run)
  qed
  then show "True \<and> task_order w (snd (bindE (newID ''exec'')
      (\<lambda>i. bindE (Execution_CreateWithIdempotency (e i)) (k i)) w))" by simp
qed

lemma whenE_EnqueueNew_order [ordering]: "evolves always task_order (whenE c (EnqueueNew S cx i rq))"
  by (simp add: whenE_def ordering tasks.ret)

lemma start_execution_order [ordering]: "evolves always task_order (start_execution S c u e rq)"
  unfolding start_execution_def by (intro tasks.bind ordering observing_order observing)

lemma CreateExecution_order [ordering]: "evolves always task_order (CreateExecution S c u ids inp key rq)"
  unfolding CreateExecution_def reuse_execution_def
  by (intro tasks.guard Create_order tasks.bind tasks.pair tasks.cond tasks.opt tasks.fail tasks.ret ordering
      observing_order observing) (simp_all add: wf_task_def new_execution_def Let_def)

section \<open>Recovery\<close>

text \<open>
  Recovery works from a list of tasks read before the loop; it fails a task listed as
  \<open>Running\<close> without a check. That is legal because every iteration only touches its own
  task (\<open>only_task\<close>) and identifiers are distinct.
\<close>

definition only_task :: "string \<Rightarrow> world \<Rightarrow> world \<Rightarrow> bool" where
  "only_task i w t \<longleftrightarrow> (\<forall>j. j \<noteq> i \<longrightarrow> lookup ex_ID j (executions t) = lookup ex_ID j (executions w))"

interpretation only: state_order always "only_task i"
  by unfold_locales (auto simp: only_task_def)

lemma observing_only: "evolves always observes m \<Longrightarrow> evolves always (only_task i) m"
  by (erule evolves_mono) (simp add: observes_def only_task_def)

lemma UpdateStatus_only: "evolves always (only_task i) (Execution_UpdateStatus i st m)"
proof (rule evolvesI)
  fix w
  obtain r t where u: "Execution_UpdateStatus i st m w = (r, t)" by (cases "Execution_UpdateStatus i st m w")
  then have "only_task i w t"
    by (cases rule: UpdateStatus_run) (auto simp: only_task_def lookup_upsert dest: lookup_key)
  with u show "True \<and> only_task i w (snd (Execution_UpdateStatus i st m w))" by simp
qed

lemma Submit_only: "evolves always (only_task i) (Submit c j)"
proof (rule evolvesI)
  fix w show "True \<and> only_task i w (snd (Submit c j w))"
    using Submit_cases [of c j w] by (auto simp: only_task_def)
qed

lemma GetExecutionInternal_observes [observing]: "evolves always observes (GetExecutionInternal i)"
  unfolding GetExecutionInternal_def by (intro observing)

lemma MarkQueued_only: "evolves always (only_task i) (MarkQueued S i rq)"
  unfolding MarkQueued_def checked_def
  by (intro only.bind only.opt only.fail UpdateStatus_only) (intro observing_only observing)+

definition listed :: "Execution list \<Rightarrow> world \<Rightarrow> bool" where
  "listed es w \<longleftrightarrow> (\<forall>e \<in> set es. lookup ex_ID (ex_ID e) (executions w) = Some e)"

lemma listed_only: "listed es w \<Longrightarrow> only_task i w t \<Longrightarrow> i \<notin> ex_ID ` set es \<Longrightarrow> listed es t"
  by (auto simp: listed_def only_task_def)

text \<open>A step on task \<open>i\<close> that respects the order, then a continuation that does from its end.\<close>

lemma order_then:
  assumes "task_order w (snd (m w))" and "evolves always (only_task i) m"
    and "\<And>r t. m w = (r, t) \<Longrightarrow> only_task i w t \<Longrightarrow> task_order t (snd (k r t))"
  shows "task_order w (snd (tryE m k w))"
proof -
  obtain r t where m: "m w = (r, t)" by (cases "m w")
  from evolvesD [OF assms(2) _ m] have "only_task i w t" by simp
  with assms(3) m have "task_order t (snd (k r t))" by blast
  with assms(1) m show ?thesis using tasks.R_trans by (simp add: tryE_run)
qed

lemma bind_inc_run [simp]:
  "bindE IncQueueFull k w = k () (snd (IncQueueFull w))"
  "bindE IncTaskRecovered k w = k () (snd (IncTaskRecovered w))"
  "bindE (IncTaskCompleted s) k w = k () (snd (IncTaskCompleted s w))"
  by (simp_all add: inc_defs add_metric_def)

lemma requeue_order:
  assumes "\<And>t n. only_task i w t \<Longrightarrow> task_order t (snd (k n t))"
  shows "task_order w (snd (recover_requeue S c rq i n k w))"
proof (cases "es_queue S")
  case False with assms [of w n] show ?thesis by (simp add: recover_requeue_def only_task_def)
next
  case True
  let ?g = "\<lambda>r. case r of Inl e \<Rightarrow> bindE IncQueueFull (\<lambda>_.
          retE (n, Some (NewAppError CodeQueueFull ''execution queue is full during recovery'')))
      | Inr _ \<Rightarrow> bindE IncTaskRecovered (\<lambda>_.
          bindE (whenE (es_events S) (Event_Record i [] ExecutionEventRecovered
            (ExecutionStatus_text ExecutionStatusQueued) ''execution recovered and requeued'' rq None))
          (\<lambda>_. k (n + 1)))"
  have eq: "recover_requeue S c rq i n k = tryE (Submit c i) ?g"
    using True by (simp only: recover_requeue_def simp_thms if_False)
  have "task_order w (snd (Submit c i w))" using Submit_order [of c i] by (simp add: evolves_def)
  then show ?thesis
    unfolding eq
  proof (rule order_then [OF _ Submit_only])
    fix r t assume s: "Submit c i w = (r, t)" and o: "only_task i w t"
    show "task_order t (snd (?g r t))"
    proof (cases r)
      case (Inl e)
      have "evolves always task_order (bindE IncQueueFull (\<lambda>_.
          retE (n, Some (NewAppError CodeQueueFull ''execution queue is full during recovery''))))"
        by (intro observing_order observing)
      then show ?thesis by (simp add: Inl evolves_def)
    next
      case (Inr x)
      let ?e = "whenE (es_events S) (Event_Record i [] ExecutionEventRecovered
            (ExecutionStatus_text ExecutionStatusQueued) ''execution recovered and requeued'' rq None)"
      let ?m = "bindE IncTaskRecovered (\<lambda>_. ?e)"
      have ob: "evolves always observes ?m" by (intro observing)
      obtain q u where m: "?m t = (q, u)" by (cases "?m t")
      from evolvesD [OF observing_order [OF ob] _ m] have 1: "task_order t u" by simp
      from evolvesD [OF observing_only [OF ob] _ m] have "only_task i t u" by simp
      with o have "only_task i w u" using only.R_trans by blast
      with assms have 2: "task_order u (snd (k (n + 1) u))" .
      have "bindE IncTaskRecovered (\<lambda>_. bindE ?e (\<lambda>_. k (n + 1))) t = bindE ?m (\<lambda>_. k (n + 1)) t"
        by (simp add: bindE_assoc)
      with m 1 2 show ?thesis using tasks.R_trans by (cases q) (simp_all add: Inr)
    qed
  qed
qed

lemma recover_loop_order:
  assumes "listed es w" and "distinct (map ex_ID es)"
  shows "task_order w (snd (recover_loop S c rq es n w))"
  using assms
proof (induction es arbitrary: w n)
  case Nil then show ?case by (simp add: tasks.R_refl)
next
  case (Cons e es)
  let ?i = "ex_ID e"
  from Cons.prems have es: "listed es w" "distinct (map ex_ID es)" "?i \<notin> ex_ID ` set es"
    by (auto simp: listed_def)
  have IH: "task_order t (snd (recover_loop S c rq es n t))" if "only_task ?i w t" for t n
    by (rule Cons.IH [OF listed_only [OF es(1) that es(3)] es(2)])
  have rq: "task_order t (snd (recover_requeue S c rq ?i n (recover_loop S c rq es) t))"
    if "only_task ?i w t" for t
    by (rule requeue_order, rule IH, rule only.R_trans [OF _ _ that]) simp_all
  consider (P) "ex_Status e = ExecutionStatusPending" | (Q) "ex_Status e = ExecutionStatusQueued"
    | (R) "ex_Status e = ExecutionStatusRunning"
    | (F) "ex_Status e \<notin> {ExecutionStatusPending, ExecutionStatusQueued, ExecutionStatusRunning}" by blast
  then show ?case
  proof cases
    case P
    have "task_order w (snd (tryE (MarkQueued S ?i rq) (\<lambda>r. case r of
          Inl err \<Rightarrow> retE (n, Some err)
        | Inr _ \<Rightarrow> recover_requeue S c rq ?i n (recover_loop S c rq es)) w))"
    proof (rule order_then, use MarkQueued_order in \<open>simp add: evolves_def\<close>, rule MarkQueued_only)
      fix r t assume "only_task ?i w t"
      then show "task_order t (snd ((case r of Inl err \<Rightarrow> retE (n, Some err)
        | Inr _ \<Rightarrow> recover_requeue S c rq ?i n (recover_loop S c rq es)) t))"
        using rq by (cases r) (simp_all add: tasks.R_refl)
    qed
    with P show ?thesis by simp
  next
    case Q
    with rq [of w] show ?thesis by (simp add: only_task_def)
  next
    case R
    let ?m = "Execution_UpdateStatus ?i ExecutionStatusFailed
          ''recovered stale running execution after process restart''"
    have "order_at ?i e (tryE ?m retE)"
      by (rule order_at_update_try) (simp add: R Exec_CanTransit_iff, rule tasks.ret)
    moreover from Cons.prems have "lookup ex_ID ?i (executions w) = Some e" by (simp add: listed_def)
    ultimately have m: "task_order w (snd (?m w))" by (simp add: order_at_def tryE_run)
    have "task_order w (snd (tryE ?m (\<lambda>_. bindE (IncTaskCompleted ExecutionStatusFailed)
        (\<lambda>_. recover_loop S c rq es n)) w))"
    proof (rule order_then [OF m UpdateStatus_only])
      fix t assume o: "only_task ?i w t"
      let ?u = "snd (IncTaskCompleted ExecutionStatusFailed t)"
      have 1: "only_task ?i t ?u"
        using observing_only [OF IncTaskCompleted_observes] by (simp add: evolves_def)
      have 2: "task_order t ?u"
        using observing_order [OF IncTaskCompleted_observes] by (simp add: evolves_def)
      have "only_task ?i w ?u" by (rule only.R_trans [OF _ _ o 1]) simp_all
      from tasks.R_trans [OF _ _ 2 IH [OF this]]
      show "task_order t (snd (bindE (IncTaskCompleted ExecutionStatusFailed)
          (\<lambda>_. recover_loop S c rq es n) t))"
        by (simp only: bind_inc_run)
    qed
    with R show ?thesis by simp
  next
    case F with IH [of w] show ?thesis by (simp add: only_task_def)
  qed
qed

lemma RecoverIncompleteExecutions_order:
  assumes "distinct (map ex_ID (executions w))"
  shows "task_order w (snd (RecoverIncompleteExecutions S c rq w))"
proof -
  let ?ss = "[ExecutionStatusPending, ExecutionStatusQueued, ExecutionStatusRunning]"
  obtain r t where l: "Execution_ListByStatuses ?ss w = (r, t)" by (cases "Execution_ListByStatuses ?ss w")
  from l have "t = io_skip 1 w \<and> (\<forall>xs. r = Inr xs \<longrightarrow> xs = filter (\<lambda>e. ex_Status e \<in> set ?ss) (executions w))"
    unfolding Execution_ListByStatuses_def by (cases rule: repo_filter_cases) auto
  then have t: "t = io_skip 1 w"
    and xs: "\<And>xs. r = Inr xs \<Longrightarrow> xs = filter (\<lambda>e. ex_Status e \<in> set ?ss) (executions w)" by auto
  have wt: "task_order w t" by (rule task_order_same) (simp_all add: t)
  show ?thesis
  proof (cases r)
    case (Inl e) with l wt show ?thesis by (simp add: RecoverIncompleteExecutions_def tryE_run)
  next
    case (Inr es)
    from assms have "listed es t" and "distinct (map ex_ID es)"
      unfolding xs [OF Inr] listed_def t
      by (auto intro: lookup_distinct distinct_map_filter)
    from recover_loop_order [OF this] have "task_order t (snd (recover_loop S c rq es 0 t))" .
    with l wt Inr show ?thesis using tasks.R_trans by (simp add: RecoverIncompleteExecutions_def tryE_run)
  qed
qed

end
