(* ===== verification/ExecutionSpec.thy ===== *)
theory ExecutionSpec
  imports TaskOrder
begin

text \<open>
  What the operations of \<open>Execution\<close> do on each branch, on a run without disk failures:
  creation (success, full queue, repeated key, conflicting request), cancellation, and the
  status changes the worker asks for.
\<close>

section \<open>Operations that succeed and only observe\<close>

definition quiet :: "unit prog_w \<Rightarrow> bool" where
  "quiet m \<longleftrightarrow> (\<forall>w. disk_ok w \<longrightarrow> (\<exists>t. m w = (Inr (), t) \<and> observes w t))"

lemma quietD: "quiet m \<Longrightarrow> disk_ok w \<Longrightarrow> \<exists>t. m w = (Inr (), t) \<and> observes w t"
  by (simp add: quiet_def)

lemma quietI:
  assumes "evolves always observes m" and "\<And>w. disk_ok w \<Longrightarrow> fst (m w) = Inr ()"
  shows "quiet m"
  unfolding quiet_def
proof (intro allI impI)
  fix w assume "disk_ok w"
  then have "m w = (Inr (), snd (m w))" using assms(2) by (metis prod.collapse)
  moreover have "observes w (snd (m w))" using assms(1) by (simp add: evolves_def)
  ultimately show "\<exists>t. m w = (Inr (), t) \<and> observes w t" by blast
qed

lemma observes_disk_ok: "observes w t \<Longrightarrow> disk_ok t = disk_ok w"
  by (simp add: observes_def disk_ok_def)

lemma quiet_ret: "quiet (retE ())"
  by (rule quietI) (intro observing, simp)
lemma quiet_when: "quiet m \<Longrightarrow> quiet (whenE c m)"
  by (simp add: whenE_def quiet_ret)
lemma quiet_metric: "quiet (add_metric m n)"
  by (rule quietI) (intro observing, simp add: add_metric_run)
lemma quiet_event: "quiet (Event_Record i p ty st m rq d)"
  by (rule quietI, intro observing)
    (auto simp: Event_Record_def newID_run time_now_run tryE_run Let_def Bus_Publish_def)
lemma quiet_audit: "quiet (Audit_RecordScoped sc a act rt ri rq tr de re ms dt)"
  by (rule quietI, intro observing)
    (auto simp: Audit_RecordScoped_def newID_run time_now_run Let_def Audit_Create_def
      repo_append_ok disk_ok_def)

lemma quiet_bind: "quiet m \<Longrightarrow> quiet n \<Longrightarrow> quiet (bindE m (\<lambda>_. n))"
  unfolding quiet_def
proof (intro allI impI)
  fix w
  assume m: "\<forall>w. disk_ok w \<longrightarrow> (\<exists>t. m w = (Inr (), t) \<and> observes w t)"
    and n: "\<forall>w. disk_ok w \<longrightarrow> (\<exists>t. n w = (Inr (), t) \<and> observes w t)" and w: "disk_ok w"
  from m w obtain t where t: "m w = (Inr (), t)" "observes w t" by blast
  with w have "disk_ok t" by (simp add: observes_disk_ok)
  with n obtain u where u: "n t = (Inr (), u)" "observes t u" by blast
  from t u obs.R_trans have "observes w u" by blast
  with t u show "\<exists>t. bindE m (\<lambda>_. n) w = (Inr (), t) \<and> observes w t" by simp
qed

lemmas quiet_intros = quiet_when quiet_event quiet_audit quiet_bind quiet_ret

section \<open>Status changes\<close>

abbreviation set_task :: "Execution \<Rightarrow> world \<Rightarrow> world" where
  "set_task x w \<equiv> w\<lparr>executions := upsert ex_ID x (executions w)\<rparr>"

lemma observes_set_task: "observes w t \<Longrightarrow> observes (set_task x w) (set_task x t)"
  by (simp add: observes_def)

lemma GetByID_ok:
  "disk_ok w \<Longrightarrow> Execution_GetByID i w = (Inr (lookup ex_ID i (executions w)), io_skip 1 w)"
  by (simp add: Execution_GetByID_def repo_find_ok lookup_def)

lemma Internal_ok:
  "disk_ok w \<Longrightarrow> GetExecutionInternal i w = ((case lookup ex_ID i (executions w) of
      None \<Rightarrow> Inl (NewAppError CodeExecutionNotFound ''execution not found'') | Some e \<Rightarrow> Inr e), io_skip 1 w)"
  by (simp add: GetExecutionInternal_def GetByID_ok split: option.split)

lemma UpdateStatus_ok:
  assumes "disk_ok w" and "lookup ex_ID i (executions w) = Some e"
  shows "\<exists>t n. Execution_UpdateStatus i st m w = (Inr (), t) \<and> observes (set_task (stamp_status st m n e) w) t"
proof -
  let ?n = "clock (w_env w) (now_ix w)"
  from assms have "Execution_UpdateStatus i st m w =
      (Inr (), set_task (stamp_status st m ?n e) (w\<lparr>now_ix := Suc (now_ix w), io_ix := io_ix w + 3\<rparr>))"
    by (simp add: Execution_UpdateStatus_def GetByID_ok time_now_run Execution_Update_def
        repo_update_ok disk_ok_def numeral_3_eq_3 numeral_2_eq_2)
  then show ?thesis by (auto simp: observes_def)
qed

text \<open>
  The shape shared by \<^verbatim>\<open>MarkQueued\<close>, \<^verbatim>\<open>MarkRunning\<close> and \<^verbatim>\<open>FinishExecution\<close>: read, check the
  transition, report, change the status, report.
\<close>

lemma transition_ok:
  assumes w: "disk_ok w" and e: "lookup ex_ID i (executions w) = Some e"
    and ct: "Exec_CanTransit (ex_Status e) st" and a: "quiet (a e)" and k: "quiet (k e)"
  shows "\<exists>t n. bindE (GetExecutionInternal i) (\<lambda>e. checked (Exec_ValidateTransition (ex_Status e) st)
      (bindE (a e) (\<lambda>_. bindE (Execution_UpdateStatus i st m) (\<lambda>_. k e)))) w = (Inr (), t)
    \<and> observes (set_task (stamp_status st m n e) w) t"
proof -
  let ?w = "io_skip 1 w"
  have w1: "disk_ok ?w" using w by (simp add: disk_ok_def)
  from quietD [OF a w1] obtain u where u: "a e ?w = (Inr (), u)" "observes ?w u" by blast
  from u(2) e have "lookup ex_ID i (executions u) = Some e" by (simp add: observes_def)
  with UpdateStatus_ok [of u] u w1 obtain v n
    where v: "Execution_UpdateStatus i st m u = (Inr (), v)" "observes (set_task (stamp_status st m n e) u) v"
    by (metis observes_disk_ok)
  from v(2) u(2) w have "disk_ok v" by (simp add: observes_def disk_ok_def)
  from quietD [OF k this] obtain t where t: "k e v = (Inr (), t)" "observes v t" by blast
  have "observes (set_task (stamp_status st m n e) w) (set_task (stamp_status st m n e) u)"
    using u(2) by (simp add: observes_def)
  with v(2) t(2) have "observes (set_task (stamp_status st m n e) w) t"
    using obs.R_trans by blast
  with w e ct u v t show ?thesis
    by (auto simp: Internal_ok checked_def split: option.split)
qed

lemma MarkQueued_ok:
  assumes "disk_ok w" and "lookup ex_ID i (executions w) = Some e"
    and "Exec_CanTransit (ex_Status e) ExecutionStatusQueued"
  shows "\<exists>t n. MarkQueued S i rq w = (Inr (), t)
    \<and> observes (set_task (stamp_status ExecutionStatusQueued [] n e) w) t"
  using transition_ok [OF assms quiet_ret, where k = "\<lambda>e. whenE (es_events S) (Event_Record i []
        ExecutionEventQueued (ExecutionStatus_text ExecutionStatusQueued) ''execution queued'' rq None)"]
  by (simp only: MarkQueued_def bindE_ret) (simp add: quiet_intros)

lemma MarkRunning_ok:
  assumes "disk_ok w" and "lookup ex_ID i (executions w) = Some e"
    and "Exec_CanTransit (ex_Status e) ExecutionStatusRunning"
  shows "\<exists>t n. MarkRunning S i rq w = (Inr (), t)
    \<and> observes (set_task (stamp_status ExecutionStatusRunning [] n e) w) t"
  unfolding MarkRunning_def by (rule transition_ok [OF assms]) (intro quiet_intros)+

lemma FinishExecution_ok:
  assumes "disk_ok w" and "lookup ex_ID i (executions w) = Some e" and "Exec_CanTransit (ex_Status e) st"
  shows "\<exists>t n. FinishExecution S i st m rq w = (Inr (), t) \<and> observes (set_task (stamp_status st m n e) w) t"
  unfolding FinishExecution_def
  by (rule transition_ok [OF assms]) (intro quiet_intros, unfold IncTaskCompleted_def, intro quiet_intros quiet_metric)

lemma transition_refused:
  assumes "disk_ok w" and "\<nexists>e. lookup ex_ID i (executions w) = Some e \<and> Exec_CanTransit (ex_Status e) st"
  shows "\<exists>c m. bindE (GetExecutionInternal i) (\<lambda>e. checked (Exec_ValidateTransition (ex_Status e) st) (k e)) w
      = (Inl (NewAppError c m), io_skip 1 w) \<and> c \<in> {CodeExecutionNotFound, CodeExecutionStateInvalid}"
  using assms by (cases "lookup ex_ID i (executions w)")
    (auto simp: Internal_ok checked_def Exec_ValidateTransition_def)


section \<open>Creating a task\<close>

definition input_hash :: "env \<Rightarrow> jobj option \<Rightarrow> go_error + string" where
  "input_hash v inp = (case json_encode v (case inp of None \<Rightarrow> JNull | Some o1 \<Rightarrow> JObj o1) of
     Inl e \<Rightarrow> Inl e | Inr b \<Rightarrow> Inr (sha256_hex v (trim_space b)))"

lemma BuildInputHash_eq: "BuildInputHash inp w = (input_hash (w_env w) inp, w)"
  by (simp add: BuildInputHash_def input_hash_def split: sum.split)

definition runnable_plugins :: "world \<Rightarrow> string list \<Rightarrow> bool" where
  "runnable_plugins w ids \<longleftrightarrow> (\<forall>i \<in> set ids. \<exists>p. lookup pl_ID i (plugins w) = Some p \<and> CanExecute p \<and>
     SameScope NewDefaultScope (Plugin_Scope p))"

text \<open>Validating the plugins only reads files.\<close>

definition only_reads :: "world \<Rightarrow> world \<Rightarrow> bool" where
  "only_reads w t \<longleftrightarrow> (\<exists>n. t = w\<lparr>io_ix := n\<rparr>)"

interpretation reads: state_order always only_reads
proof
  show "only_reads s s" for s by (simp add: only_reads_def) (metis world.surjective world.update_convs(4))
  show "only_reads s t \<Longrightarrow> only_reads t u \<Longrightarrow> only_reads s u" for s t u by (auto simp: only_reads_def)
qed

lemma find_reads: "evolves always only_reads (repo_find f p)"
proof (rule evolvesI)
  fix w
  obtain r t where e: "repo_find f p w = (r, t)" by (cases "repo_find f p w")
  then have "only_reads w t" by (cases rule: repo_find_cases) (auto simp: only_reads_def)
  with e show "True \<and> only_reads w (snd (repo_find f p w))" by simp
qed

lemma Validate_reads: "evolves always only_reads (ValidatePluginsExecutable json_plugin_store ids)"
proof -
  have "evolves always only_reads (GetPlugin json_plugin_store i)" for i
    unfolding GetPlugin_def json_plugin_store_def PluginStore.select_convs Plugin_GetByID_def
    by (intro reads.intros find_reads)
  then show ?thesis
    unfolding ValidatePluginsExecutable_default executable_plugin_def by (intro reads.intros)
qed

text \<open>What \<^verbatim>\<open>CreateExecution\<close> does before it touches the tasks.\<close>

lemma CreateExecution_prefix:
  assumes w: "disk_ok w" and ids: "ids \<noteq> []" "runnable_plugins w ids"
    and inp: "inp \<noteq> None" "input_hash (w_env w) inp = Inr h"
  shows "\<exists>v now. observes w v \<and> disk_ok v \<and> id_ix v = Suc (id_ix w) \<and>
    CreateExecution S c u ids inp key rq w =
      bindE (Execution_CreateWithIdempotency (new_execution u ids inp h (HashStrings (w_env w) ids) key now
          (''exec_'' @ id_text (w_env w) (id_ix w))))
        (\<lambda>(e, created). if \<not> created then reuse_execution e h (HashStrings (w_env w) ids)
           else start_execution S c u e rq) v"
proof -
  from ids(2) have "\<forall>i \<in> set ids. \<exists>p. json_rows plugins pl_ID w i = Some p \<and> CanExecute p \<and>
      SameScope NewDefaultScope (Plugin_Scope p)" by (simp add: runnable_plugins_def)
  from json_plugins.validate_live [OF w this] obtain t ps
    where t: "ValidatePluginsExecutable json_plugin_store ids w = (Inr ps, t)" "disk_ok t"
    unfolding ValidatePluginsExecutable_default by blast
  have ot: "observes w t" using evolvesD [OF observes_Validate _ t(1)] by simp
  have "only_reads w t" using evolvesD [OF Validate_reads _ t(1)] by simp
  then have idx: "id_ix t = id_ix w" by (auto simp: only_reads_def)
  let ?v = "t\<lparr>now_ix := Suc (now_ix t), id_ix := Suc (id_ix t)\<rparr>"
  have e: "w_env t = w_env w" using ot by (simp add: observes_def)
  have "CreateExecution S c u ids inp key rq w =
      bindE (Execution_CreateWithIdempotency (new_execution u ids inp h (HashStrings (w_env w) ids) key
          (clock (w_env w) (now_ix t)) (''exec_'' @ id_text (w_env w) (id_ix w))))
        (\<lambda>(e, created). if \<not> created then reuse_execution e h (HashStrings (w_env w) ids)
           else start_execution S c u e rq) ?v"
    unfolding CreateExecution_def using ids(1) inp t(1)
    by (cases inp) (simp_all add: guardE_run BuildInputHash_eq BuildPluginIDsHash_def time_now_run newID_run
        e idx cong: if_cong)
  moreover have "observes w ?v" using ot by (simp add: observes_def)
  moreover have "disk_ok ?v" using t(2) by (simp add: disk_ok_def)
  ultimately show ?thesis using idx by (intro exI [of _ ?v] exI) auto
qed


lemma GetExecution_own:
  assumes "disk_ok w" and "lookup ex_ID i (executions w) = Some e"
    and "ex_UserID e = cu_ID u" and "SameScope (CurrentUser_Scope u) (Execution_Scope e)"
  shows "\<exists>t. GetExecution u i w = (Inr e, t) \<and> observes w t"
proof -
  have "observes w (io_skip 1 w)" by (simp add: observes_def)
  with assms show ?thesis by (simp add: GetExecution_def GetByID_ok guardE_run)
qed

lemma Submit_room:
  "length (queue_ch w) < queue_size w \<Longrightarrow> Submit CtxLive i w = (Inr (), w\<lparr>queue_ch := queue_ch w @ [i]\<rparr>)"
  by (simp add: Submit_live)

lemma new_execution_simps [simp]:
  "ex_ID (new_execution u ids inp h g key now i) = i"
  "ex_UserID (new_execution u ids inp h g key now i) = cu_ID u"
  "ex_PluginIDs (new_execution u ids inp h g key now i) = ids"
  "ex_InputJSON (new_execution u ids inp h g key now i) = inp"
  "ex_InputHash (new_execution u ids inp h g key now i) = h"
  "ex_PluginIDsHash (new_execution u ids inp h g key now i) = g"
  "ex_IdempotencyKey (new_execution u ids inp h g key now i) = key"
  "ex_Status (new_execution u ids inp h g key now i) = ExecutionStatusPending"
  "Execution_Scope (new_execution u ids inp h g key now i) = CurrentUser_Scope u"
  by (simp_all add: new_execution_def Let_def Execution_Scope_def CurrentUser_Scope_def)

lemma stamp_simps [simp]:
  "ex_UserID (stamp_status s m n e) = ex_UserID e"
  "Execution_Scope (stamp_status s m n e) = Execution_Scope e"
  "ex_IdempotencyKey (stamp_status s m n e) = ex_IdempotencyKey e"
  "ex_ErrorMessage (stamp_status s m n e) = m"
  "ex_PluginIDs (stamp_status s m n e) = ex_PluginIDs e"
  "ex_InputJSON (stamp_status s m n e) = ex_InputJSON e"
  "ex_InputHash (stamp_status s m n e) = ex_InputHash e"
  "ex_PluginIDsHash (stamp_status s m n e) = ex_PluginIDsHash e"
  by (simp_all add: stamp_status_def Let_def Execution_Scope_def)

text \<open>A new task with room in the queue: it is stored, queued, and returned.\<close>

lemma start_execution_ok:
  assumes w: "disk_ok w" and e: "lookup ex_ID (ex_ID e) (executions w) = Some e" "ex_Status e = ExecutionStatusPending"
    and own: "ex_UserID e = cu_ID u" "Execution_Scope e = CurrentUser_Scope u"
    and q: "es_queue S" "length (queue_ch w) < queue_size w"
  shows "\<exists>t n. start_execution S CtxLive u e rq w = (Inr (stamp_status ExecutionStatusQueued [] n e), t) \<and>
    observes (set_task (stamp_status ExecutionStatusQueued [] n e) w\<lparr>queue_ch := queue_ch w @ [ex_ID e]\<rparr>) t"
proof -
  let ?a = "whenE (es_audit S) (Audit_RecordScoped (Execution_Scope e) (cu_ID u)
       AuditExecutionCreated AuditResourceExecution (ex_ID e) rq [] AuditDecisionAllow []
       ''execution created'' (Some [(''input_hash'', JStr (ex_InputHash e))]))"
  let ?b = "whenE (es_events S) (Event_Record (ex_ID e) [] ExecutionEventCreated
       (ExecutionStatus_text (ex_Status e)) ''execution created'' rq None)"
  have "quiet (bindE ?a (\<lambda>_. ?b))" by (intro quiet_intros)
  from quietD [OF this w] obtain v where v: "bindE ?a (\<lambda>_. ?b) w = (Inr (), v)" "observes w v" by blast
  from v(2) w e have dv: "disk_ok v" and ev: "lookup ex_ID (ex_ID e) (executions v) = Some e"
    by (simp_all add: observes_def disk_ok_def)
  from MarkQueued_ok [OF dv ev, of S rq] e(2) obtain x n
    where x: "MarkQueued S (ex_ID e) rq v = (Inr (), x)"
      "observes (set_task (stamp_status ExecutionStatusQueued [] n e) v) x"
    by (auto simp: Exec_CanTransit_iff)
  let ?e = "stamp_status ExecutionStatusQueued [] n e"
  let ?y = "snd (IncTaskSubmitted (x\<lparr>queue_ch := queue_ch x @ [ex_ID e]\<rparr>))"
  have room: "length (queue_ch x) < queue_size x" using x(2) v(2) q(2) by (simp add: observes_def)
  have en: "EnqueueNew S CtxLive (ex_ID e) rq v = (Inr (), ?y)"
    using x(1) room by (simp add: EnqueueNew_def tryE_run Submit_room inc_defs add_metric_run)
  have oy: "observes (set_task ?e w\<lparr>queue_ch := queue_ch w @ [ex_ID e]\<rparr>) ?y"
    using x(2) v(2) by (auto simp: observes_def inc_defs add_metric_run intro: prefix_order.trans)
  then have "disk_ok ?y" and "lookup ex_ID (ex_ID e) (executions ?y) = Some ?e"
    using w by (simp_all add: observes_def disk_ok_def lookup_upsert)
  from GetExecution_own [OF this, of u] own obtain t where t: "GetExecution u (ex_ID e) ?y = (Inr ?e, t)"
      "observes ?y t" by auto
  have "start_execution S CtxLive u e rq w =
      bindE (bindE ?a (\<lambda>_. ?b)) (\<lambda>_. bindE (whenE (es_queue S) (EnqueueNew S CtxLive (ex_ID e) rq))
        (\<lambda>_. GetExecution u (ex_ID e))) w"
    by (simp add: start_execution_def bindE_assoc)
  also have "\<dots> = (Inr ?e, t)" using v(1) en t(1) q(1) by (simp add: whenE_def)
  finally show ?thesis using oy t(2) obs.R_trans by blast
qed

text \<open>With a full queue the task is stored as failed and the caller gets \<^verbatim>\<open>QUEUE_FULL\<close>.\<close>

lemma start_execution_full:
  assumes w: "disk_ok w" and e: "lookup ex_ID (ex_ID e) (executions w) = Some e" "ex_Status e = ExecutionStatusPending"
    and q: "es_queue S" "\<not> length (queue_ch w) < queue_size w"
  shows "\<exists>t x. start_execution S CtxLive u e rq w
      = (Inl (NewAppError CodeQueueFull ''execution queue is full''), t) \<and>
    ex_ID x = ex_ID e \<and> ex_Status x = ExecutionStatusFailed \<and> ex_ErrorMessage x = ''queue full'' \<and>
    executions t = upsert ex_ID x (executions w) \<and> queue_ch t = queue_ch w"
proof -
  let ?a = "whenE (es_audit S) (Audit_RecordScoped (Execution_Scope e) (cu_ID u)
       AuditExecutionCreated AuditResourceExecution (ex_ID e) rq [] AuditDecisionAllow []
       ''execution created'' (Some [(''input_hash'', JStr (ex_InputHash e))]))"
  let ?b = "whenE (es_events S) (Event_Record (ex_ID e) [] ExecutionEventCreated
       (ExecutionStatus_text (ex_Status e)) ''execution created'' rq None)"
  have "quiet (bindE ?a (\<lambda>_. ?b))" by (intro quiet_intros)
  from quietD [OF this w] obtain v where v: "bindE ?a (\<lambda>_. ?b) w = (Inr (), v)" "observes w v" by blast
  from v(2) w e have dv: "disk_ok v" and ev: "lookup ex_ID (ex_ID e) (executions v) = Some e"
    by (simp_all add: observes_def disk_ok_def)
  from MarkQueued_ok [OF dv ev, of S rq] e(2) obtain x n
    where x: "MarkQueued S (ex_ID e) rq v = (Inr (), x)"
      "observes (set_task (stamp_status ExecutionStatusQueued [] n e) v) x"
    by (auto simp: Exec_CanTransit_iff)
  let ?e = "stamp_status ExecutionStatusQueued [] n e"
  let ?y = "snd (IncQueueFull x)"
  have oy: "observes (set_task ?e w) ?y"
    using x(2) v(2) by (auto simp: observes_def inc_defs add_metric_run intro: prefix_order.trans)
  then have dy: "disk_ok ?y" and ey: "lookup ex_ID (ex_ID e) (executions ?y) = Some ?e"
    using w by (simp_all add: observes_def disk_ok_def lookup_upsert)
  have room: "\<not> length (queue_ch x) < queue_size x" using x(2) v(2) q(2) by (simp add: observes_def)
  from UpdateStatus_ok [OF dy ey, of ExecutionStatusFailed "''queue full''"] obtain t k
    where t: "Execution_UpdateStatus (ex_ID e) ExecutionStatusFailed ''queue full'' ?y = (Inr (), t)"
      "observes (set_task (stamp_status ExecutionStatusFailed ''queue full'' k ?e) ?y) t" by blast
  have en: "EnqueueNew S CtxLive (ex_ID e) rq v = (Inl (NewAppError CodeQueueFull ''execution queue is full''), t)"
    using x(1) room t(1) by (simp add: EnqueueNew_def tryE_run Submit_live)
  have "start_execution S CtxLive u e rq w =
      bindE (bindE ?a (\<lambda>_. ?b)) (\<lambda>_. bindE (whenE (es_queue S) (EnqueueNew S CtxLive (ex_ID e) rq))
        (\<lambda>_. GetExecution u (ex_ID e))) w"
    by (simp add: start_execution_def bindE_assoc)
  also have "\<dots> = (Inl (NewAppError CodeQueueFull ''execution queue is full''), t)"
    using v(1) en q(1) by (simp add: whenE_def)
  finally have run: "start_execution S CtxLive u e rq w = (Inl (NewAppError CodeQueueFull ''execution queue is full''), t)" .
  have "executions t = upsert ex_ID (stamp_status ExecutionStatusFailed ''queue full'' k ?e) (executions w)"
    using t(2) oy by (simp add: observes_def upsert_twice)
  moreover have "queue_ch t = queue_ch w" using t(2) oy by (simp add: observes_def)
  ultimately show ?thesis
    using run by (intro exI [of _ t] exI [of _ "stamp_status ExecutionStatusFailed ''queue full'' k ?e"]) simp
qed


lemma CreateWithIdempotency_ok:
  "disk_ok w \<Longrightarrow> Execution_CreateWithIdempotency e w =
     (case idem_match e (executions w) of Some it \<Rightarrow> (Inr (it, False), io_skip 1 w)
      | None \<Rightarrow> (Inr (e, True), (io_skip 2 w)\<lparr>executions := executions w @ [e]\<rparr>))"
  by (simp add: CreateWithIdempotency_eq disk_ok_def split: option.split)

definition request_match :: "CurrentUser \<Rightarrow> string \<Rightarrow> Execution list \<Rightarrow> Execution option" where
  "request_match u key items = (if key \<noteq> [] then
     find (\<lambda>it. idem_of it = (CurrentUser_Scope u, cu_ID u, key)) items else None)"

lemma idem_match_new:
  "idem_match (new_execution u ids inp h g key now i) items = request_match u key items"
  by (simp add: idem_match_def request_match_def same_idempotency_iff) (simp add: idem_of_def)

text \<open>The outcomes of a request whose plugins and input are in order.\<close>

lemma CreateExecution_run:
  assumes w: "disk_ok w" and ids: "ids \<noteq> []" "runnable_plugins w ids"
    and inp: "inp \<noteq> None" "input_hash (w_env w) inp = Inr h"
  obtains (Repeat) it v where "request_match u key (executions w) = Some it"
      and "observes w v"
      and "CreateExecution S c u ids inp key rq w = reuse_execution it h (HashStrings (w_env w) ids) v"
  | (New) e v where "request_match u key (executions w) = None"
      and "\<exists>now. e = new_execution u ids inp h (HashStrings (w_env w) ids) key now
          (''exec_'' @ id_text (w_env w) (id_ix w))"
      and "observes (w\<lparr>executions := executions w @ [e]\<rparr>) v"
      and "CreateExecution S c u ids inp key rq w = start_execution S c u e rq v"
proof -
  let ?g = "HashStrings (w_env w) ids"
  from CreateExecution_prefix [OF assms, of S c u key rq] obtain v now
    where v: "observes w v" "disk_ok v"
      and eq: "CreateExecution S c u ids inp key rq w =
      bindE (Execution_CreateWithIdempotency (new_execution u ids inp h ?g key now
          (''exec_'' @ id_text (w_env w) (id_ix w))))
        (\<lambda>(e, created). if \<not> created then reuse_execution e h ?g else start_execution S c u e rq) v" by blast
  let ?e = "new_execution u ids inp h ?g key now (''exec_'' @ id_text (w_env w) (id_ix w))"
  have ev: "executions v = executions w" using v(1) by (simp add: observes_def)
  show ?thesis
  proof (cases "request_match u key (executions w)")
    case (Some it)
    then have "CreateExecution S c u ids inp key rq w = reuse_execution it h ?g (io_skip 1 v)"
      by (simp add: eq CreateWithIdempotency_ok [OF v(2)] idem_match_new ev)
    moreover have "observes w (io_skip 1 v)" using v(1) by (simp add: observes_def)
    ultimately show ?thesis using Some by (intro Repeat)
  next
    case None
    let ?v = "(io_skip 2 v)\<lparr>executions := executions w @ [?e]\<rparr>"
    have "CreateExecution S c u ids inp key rq w = start_execution S c u ?e rq ?v"
      using None by (simp add: eq CreateWithIdempotency_ok [OF v(2)] idem_match_new ev)
    moreover have "observes (w\<lparr>executions := executions w @ [?e]\<rparr>) ?v" using v(1) by (simp add: observes_def)
    ultimately show ?thesis using None by (intro New) auto
  qed
qed


section \<open>What a successful creation returns\<close>

text \<open>Without any assumption on the disk: if the call succeeds at all.\<close>

lemma start_execution_returns:
  assumes "start_execution S c u e rq w = (Inr f, t)" and "lookup ex_ID (ex_ID e) (executions w) = Some e"
  shows "lookup ex_ID (ex_ID e) (executions t) = Some f \<and> task_step e f"
proof -
  from assms(1) obtain z where g: "GetExecution u (ex_ID e) z = (Inr f, t)"
    unfolding start_execution_def by (elim bindE_InrE)
  from GetExecution_run [OF g] have l: "lookup ex_ID (ex_ID e) (executions t) = Some f" by simp
  from evolvesD [OF start_execution_order _ assms(1)] have "tasks_evolve (executions w) (executions t)"
    by (simp add: task_order_def)
  from tasks_evolve_lookup [OF this assms(2)] l show ?thesis by auto
qed

lemma distinct_filter_map:
  "distinct (filter P (map f xs)) \<Longrightarrow> x \<in> set xs \<Longrightarrow> y \<in> set xs \<Longrightarrow> f x = f y \<Longrightarrow> P (f x) \<Longrightarrow> x = y"
proof (induction xs)
  case (Cons z zs)
  show ?case
  proof (cases "x = z \<or> y = z")
    case True
    with Cons.prems have "f x = f z" "P (f z)" by auto
    with Cons.prems(1) have "f x \<notin> f ` set zs" by auto
    with True Cons.prems show ?thesis by (metis image_eqI set_ConsD)
  next
    case False
    with Cons show ?thesis by (auto split: if_splits)
  qed
qed simp

lemma keys_unique_inj:
  "keys_unique xs \<Longrightarrow> x \<in> set xs \<Longrightarrow> y \<in> set xs \<Longrightarrow> idem_of x = idem_of y \<Longrightarrow> ex_IdempotencyKey x \<noteq> [] \<Longrightarrow> x = y"
  unfolding keys_unique_def by (erule distinct_filter_map) (simp_all add: idem_of_def)

lemma CreateExecution_returns:
  assumes run: "CreateExecution S c u ids inp key rq w = (Inr e, t)"
    and ok: "tasks_ok w" and inj: "inj (id_text (w_env w))"
  shows "lookup ex_ID (ex_ID e) (executions t) = Some e \<and> idem_of e = (CurrentUser_Scope u, cu_ID u, key) \<and>
    input_hash (w_env w) inp = Inr (ex_InputHash e) \<and> ex_PluginIDsHash e = HashStrings (w_env w) ids"
proof -
  from run obtain ps w1 h w2 g w3 now w4 i w5 it created w6
    where 1: "ValidatePluginsExecutable json_plugin_store ids w = (Inr ps, w1)"
      and 2: "BuildInputHash inp w1 = (Inr h, w2)" and 3: "BuildPluginIDsHash ids w2 = (Inr g, w3)"
      and 4: "time_now w3 = (Inr now, w4)" and 5: "newID ''exec'' w4 = (Inr i, w5)"
      and 6: "Execution_CreateWithIdempotency (new_execution u ids inp h g key now i) w5 = (Inr (it, created), w6)"
      and 7: "(if \<not> created then reuse_execution it h g else start_execution S c u it rq) w6 = (Inr e, t)"
    unfolding CreateExecution_def by (elim progE) (auto split: prod.splits)
  have o1: "observes w w1" using evolvesD [OF observes_Validate _ 1] by simp
  have w2: "w2 = w1" and h: "input_hash (w_env w) inp = Inr h"
    using 2 o1 by (auto simp: BuildInputHash_eq observes_def)
  have w3: "w3 = w1" and g: "g = HashStrings (w_env w) ids"
    using 3 w2 o1 by (auto simp: BuildPluginIDsHash_def observes_def)
  have i: "i = ''exec_'' @ id_text (w_env w) (id_ix w4)" and w5: "w5 = w4\<lparr>id_ix := Suc (id_ix w4)\<rparr>"
    and w4: "executions w4 = executions w" "w_env w4 = w_env w" "id_ix w \<le> id_ix w4"
    using 4 5 w3 o1 by (auto simp: newID_run time_now_run observes_def)
  let ?e = "new_execution u ids inp h g key now i"
  have minted: "ids_minted w" using ok inj by (simp add: tasks_ok_def)
  have m4: "ids_minted w4" using ids_minted_mono [OF minted] w4 by simp
  have fresh: "lookup ex_ID i (executions w) = None"
    using ids_minted_fresh [OF m4] inj w4 by (force simp: i lookup_None)
  have dist: "distinct (map ex_ID (executions w))" using minted by (simp add: ids_minted_def)
  from 6 show ?thesis
  proof (cases rule: CreateWithIdempotency_cases)
    case (Hit x)
    from idem_match_Some [OF Hit(3)] have x: "x \<in> set (executions w)" "idem_of x = (CurrentUser_Scope u, cu_ID u, key)"
      using w4 w5 by (auto simp: same_idempotency_iff) (simp add: idem_of_def)
    from 7 Hit(1) have "e = x \<and> executions t = executions w6 \<and> ex_InputHash x = h \<and> ex_PluginIDsHash x = g"
      by (auto simp: reuse_execution_def CheckConflict_def inc_defs add_metric_run bindE_def split: if_splits)
    moreover have "executions w6 = executions w" using Hit(2) w5 w4 by simp
    ultimately show ?thesis using x h g lookup_distinct [OF dist x(1)] by simp
  next
    case New
    have ex6: "executions w6 = executions w @ [?e]" using New(2) w5 w4 by simp
    from 7 New(1) have st: "start_execution S c u ?e rq w6 = (Inr e, t)" by simp
    have "lookup ex_ID (ex_ID ?e) (executions w6) = Some ?e" using fresh by (simp add: ex6 lookup_append)
    from start_execution_returns [OF st this] have l: "lookup ex_ID i (executions t) = Some e" and ts: "task_step ?e e"
      by auto
    from ts have im: "immut e = immut ?e" by (simp add: task_step_def)
    have "idem_of ?e = (CurrentUser_Scope u, cu_ID u, key)" by (simp add: idem_of_def)
    with immut_idem [OF im] l im h g show ?thesis by (auto simp: immut_def)
  qed simp
qed

section \<open>Properties of creation\<close>

definition fresh_id :: "world \<Rightarrow> bool" where
  "fresh_id w \<longleftrightarrow> lookup ex_ID (''exec_'' @ id_text (w_env w) (id_ix w)) (executions w) = None"

lemma create_accepted:
  assumes "disk_ok w" and "ids \<noteq> []" and "runnable_plugins w ids"
    and "inp \<noteq> None" and "input_hash (w_env w) inp = Inr h"
    and "request_match u key (executions w) = None" and "fresh_id w"
    and "es_queue S" and "length (queue_ch w) < queue_size w"
  shows "\<exists>e t. CreateExecution S CtxLive u ids inp key rq w = (Inr e, t) \<and>
    executions t = executions w @ [e] \<and> queue_ch t = queue_ch w @ [ex_ID e] \<and>
    ex_Status e = ExecutionStatusQueued \<and> ex_UserID e = cu_ID u \<and>
    Execution_Scope e = CurrentUser_Scope u \<and> ex_IdempotencyKey e = key \<and> ex_PluginIDs e = ids \<and>
    ex_InputJSON e = inp \<and> ex_InputHash e = h \<and> ex_PluginIDsHash e = HashStrings (w_env w) ids"
  using assms(1-5)
proof (cases rule: CreateExecution_run [where S = S and c = CtxLive and u = u and key = key and rq = rq])
  case (Repeat it v) with assms(6) show ?thesis by simp
next
  case (New e v)
  let ?i = "''exec_'' @ id_text (w_env w) (id_ix w)"
  from New(2) have i: "ex_ID e = ?i" and st: "ex_Status e = ExecutionStatusPending"
    and own: "ex_UserID e = cu_ID u" "Execution_Scope e = CurrentUser_Scope u" by auto
  have fr: "lookup ex_ID (ex_ID e) (executions w) = None" using assms(7) i by (simp add: fresh_id_def)
  have v: "disk_ok v" "executions v = executions w @ [e]" "length (queue_ch v) < queue_size v" "queue_ch v = queue_ch w"
    using New(3) assms(1,9) by (simp_all add: observes_def disk_ok_def)
  from start_execution_ok [OF v(1) _ st own assms(8) v(3), of rq] fr v(2) obtain t n
    where t: "start_execution S CtxLive u e rq v = (Inr (stamp_status ExecutionStatusQueued [] n e), t)"
      "observes (set_task (stamp_status ExecutionStatusQueued [] n e) v\<lparr>queue_ch := queue_ch v @ [ex_ID e]\<rparr>) t"
    by (auto simp: lookup_append)
  have "executions t = executions w @ [stamp_status ExecutionStatusQueued [] n e]"
    using t(2) fr by (simp add: observes_def v(2) upsert_last)
  moreover have "queue_ch t = queue_ch w @ [ex_ID e]" using t(2) v(4) by (simp add: observes_def)
  ultimately show ?thesis
    using New(2,4) t(1)
    by (intro exI [of _ "stamp_status ExecutionStatusQueued [] n e"] exI [of _ t]) auto
qed

text \<open>
  C26. A request that is in order (at least one plugin, all of them executable, an input that
  encodes), is not a repetition, and finds room in the queue, is accepted: exactly one task is
  added at the end, it is \<open>Queued\<close> and carries the caller, the plugins and the two hashes,
  its identifier is appended to the queue, and the caller gets this task.
\<close>

theorem CreateExecution_accepted:
  assumes "disk_ok w" and "ids \<noteq> []" and "runnable_plugins w ids"
    and "inp \<noteq> None" and "input_hash (w_env w) inp = Inr h"
    and "request_match u key (executions w) = None" and "fresh_id w"
    and "es_queue S" and "length (queue_ch w) < queue_size w"
  shows "\<exists>e t. CreateExecution S CtxLive u ids inp key rq w = (Inr e, t) \<and>
    executions t = executions w @ [e] \<and> queue_ch t = queue_ch w @ [ex_ID e] \<and>
    ex_Status e = ExecutionStatusQueued \<and> ex_UserID e = cu_ID u \<and>
    Execution_Scope e = CurrentUser_Scope u \<and> ex_IdempotencyKey e = key \<and> ex_PluginIDs e = ids \<and>
    ex_InputJSON e = inp \<and> ex_InputHash e = h \<and> ex_PluginIDsHash e = HashStrings (w_env w) ids"
  using assms by (rule create_accepted)

text \<open>
  With the queue full the same request is refused with \<^verbatim>\<open>QUEUE_FULL\<close>; nothing is queued,
  and the one task that was added is left \<open>Failed\<close> with the queue's error, not \<open>Queued\<close>.
\<close>

theorem CreateExecution_queue_full:
  assumes "disk_ok w" and "ids \<noteq> []" and "runnable_plugins w ids"
    and "inp \<noteq> None" and "input_hash (w_env w) inp = Inr h"
    and "request_match u key (executions w) = None" and "fresh_id w"
    and "es_queue S" and "\<not> length (queue_ch w) < queue_size w"
  shows "\<exists>e t. CreateExecution S CtxLive u ids inp key rq w
      = (Inl (NewAppError CodeQueueFull ''execution queue is full''), t) \<and>
    executions t = executions w @ [e] \<and> queue_ch t = queue_ch w \<and>
    ex_Status e = ExecutionStatusFailed \<and> ex_ErrorMessage e = ''queue full''"
  using assms(1-5)
proof (cases rule: CreateExecution_run [where S = S and c = CtxLive and u = u and key = key and rq = rq])
  case (Repeat it v) with assms(6) show ?thesis by simp
next
  case (New e v)
  from New(2) have i: "ex_ID e = ''exec_'' @ id_text (w_env w) (id_ix w)"
    and st: "ex_Status e = ExecutionStatusPending" by auto
  have fr: "lookup ex_ID (ex_ID e) (executions w) = None" using assms(7) i by (simp add: fresh_id_def)
  have v: "disk_ok v" "executions v = executions w @ [e]" "\<not> length (queue_ch v) < queue_size v" "queue_ch v = queue_ch w"
    using New(3) assms(1,9) by (simp_all add: observes_def disk_ok_def)
  from start_execution_full [OF v(1) _ st assms(8) v(3), of u rq] fr v(2) obtain t x
    where t: "start_execution S CtxLive u e rq v = (Inl (NewAppError CodeQueueFull ''execution queue is full''), t)"
      "ex_ID x = ex_ID e" "ex_Status x = ExecutionStatusFailed" "ex_ErrorMessage x = ''queue full''"
      "executions t = upsert ex_ID x (executions v)" "queue_ch t = queue_ch v"
    by (auto simp: lookup_append)
  have "executions t = executions w @ [x]" using t(2,5) fr by (simp add: v(2) upsert_last)
  with New(4) t v(4) show ?thesis by (intro exI [of _ x] exI [of _ t]) simp
qed

text \<open>
  C13. Idempotency. Let a request with a key have succeeded with a task, and let any operations
  follow (\<open>task_order\<close>). A further request of the same user with that key adds no task and
  queues nothing: if its input and its plugins (in any order) hash to those of the task the
  answer is this task in its present state, otherwise it is \<^verbatim>\<open>IDEMPOTENCY_CONFLICT\<close>.
\<close>

theorem CreateExecution_idempotent:
  assumes first: "CreateExecution S c u ids inp key rq w = (Inr e, t)" and key: "key \<noteq> []"
    and ok: "tasks_ok w" "inj (id_text (w_env w))" and later: "task_order t v"
    and v: "disk_ok v" and ids': "ids' \<noteq> []" "runnable_plugins v ids'"
    and inp': "inp' \<noteq> None" "input_hash (w_env v) inp' = Inr h'"
  shows "\<exists>f x. lookup ex_ID (ex_ID e) (executions v) = Some f \<and> task_step e f \<and>
    executions x = executions v \<and> queue_ch x = queue_ch v \<and>
    CreateExecution S' c' u ids' inp' key rq' v =
      (if h' = ex_InputHash e \<and> HashStrings (w_env v) ids' = ex_PluginIDsHash e then Inr f
       else Inl (NewAppError CodeIdempotencyConflict ''same idempotency key with different request''), x)"
proof -
  from CreateExecution_returns [OF first ok] have e: "lookup ex_ID (ex_ID e) (executions t) = Some e"
    "idem_of e = (CurrentUser_Scope u, cu_ID u, key)" by auto
  from evolvesD [OF CreateExecution_order _ first] later have wv: "task_order w v"
    using tasks.R_trans by blast
  with ok have "tasks_ok v" by (simp add: task_order_def)
  then have uniq: "keys_unique (executions v)" by (simp add: tasks_ok_def)
  from tasks_evolve_lookup [OF _ e(1), of "executions v"] later obtain f
    where f: "lookup ex_ID (ex_ID e) (executions v) = Some f" "task_step e f" by (auto simp: task_order_def)
  from f(2) e(2) have fi: "idem_of f = (CurrentUser_Scope u, cu_ID u, key)"
    using immut_idem [of f e] by (simp add: task_step_def)
  have fk: "ex_IdempotencyKey f \<noteq> []" using fi key by (simp add: idem_of_def)
  have fm: "f \<in> set (executions v)" using lookup_mem [OF f(1)] .
  have "request_match u key (executions v) = Some f"
  proof -
    from fm fi key obtain g where g: "request_match u key (executions v) = Some g"
      by (cases "request_match u key (executions v)") (auto simp: request_match_def find_None_iff)
    then have "g \<in> set (executions v)" "idem_of g = idem_of f"
      using fi by (auto simp: request_match_def find_Some_iff split: if_splits)
    with keys_unique_inj [OF uniq fm this(1)] fk g show ?thesis by simp
  qed
  from v ids' inp' show ?thesis
  proof (cases rule: CreateExecution_run [where S = S' and c = c' and u = u and key = key and rq = rq'])
    case (Repeat it x)
    with \<open>request_match u key (executions v) = Some f\<close> have it: "it = f" by simp
    from f(2) have same: "ex_InputHash f = ex_InputHash e" "ex_PluginIDsHash f = ex_PluginIDsHash e"
      by (simp_all add: task_step_def immut_def)
    let ?x = "if h' = ex_InputHash e \<and> HashStrings (w_env v) ids' = ex_PluginIDsHash e
      then snd (IncIdempotencyHit x) else snd (IncIdempotencyConflict x)"
    have "CreateExecution S' c' u ids' inp' key rq' v =
      (if h' = ex_InputHash e \<and> HashStrings (w_env v) ids' = ex_PluginIDsHash e then Inr f
       else Inl (NewAppError CodeIdempotencyConflict ''same idempotency key with different request''), ?x)"
      using Repeat(3) it same
      by (auto simp: reuse_execution_def CheckConflict_def inc_defs add_metric_run)
    moreover have "executions ?x = executions v" "queue_ch ?x = queue_ch v"
      using Repeat(2) by (simp_all add: inc_defs add_metric_run observes_def)
    ultimately show ?thesis using f by blast
  next
    case (New g x)
    with \<open>request_match u key (executions v) = Some f\<close> show ?thesis by simp
  qed
qed

section \<open>Reading and cancelling\<close>

definition may_view :: "CurrentUser \<Rightarrow> Execution \<Rightarrow> bool" where
  "may_view u e \<longleftrightarrow> IsSuperAdminRole (cu_Role u) \<or>
     SameScope (CurrentUser_Scope u) (Execution_Scope e) \<and> (IsAdminRole (cu_Role u) \<or> ex_UserID e = cu_ID u)"

lemma super_is_admin: "IsSuperAdminRole r \<Longrightarrow> IsAdminRole r"
  by (simp add: IsSuperAdminRole_def IsAdminRole_def)

lemma GetExecution_ok:
  "disk_ok w \<Longrightarrow> GetExecution u i w = ((case lookup ex_ID i (executions w) of
      None \<Rightarrow> Inl (NewAppError CodeExecutionNotFound ''execution not found'')
    | Some e \<Rightarrow> if may_view u e then Inr e else Inl (NewAppError CodeForbidden ''cannot view execution'')), io_skip 1 w)"
  by (auto simp: GetExecution_def GetByID_ok guardE_run may_view_def dest: super_is_admin split: option.split)

text \<open>
  C27. Cancelling is for those who may see the task, and for tasks that have not ended: then the
  task is \<open>Canceled\<close>, with its end time set, and nothing else changes; in every other case the
  tasks are untouched and the error says why.
\<close>

theorem CancelExecution_spec:
  assumes w: "disk_ok w" and e: "lookup ex_ID i (executions w) = Some e"
  shows "\<exists>t n. CancelExecution S u i rq w =
      (if \<not> may_view u e then Inl (NewAppError CodeForbidden ''cannot view execution'')
       else if IsFinalExecutionStatus (ex_Status e) \<or> \<not> IsValidExecutionStatus (ex_Status e)
         then Inl (NewAppError CodeExecutionStateInvalid ''execution cannot be canceled'')
       else Inr (stamp_status ExecutionStatusCanceled ''canceled'' n e), t) \<and>
    queue_ch t = queue_ch w \<and>
    executions t = (if may_view u e \<and> CanCancel (ex_Status e)
      then upsert ex_ID (stamp_status ExecutionStatusCanceled ''canceled'' n e) (executions w) else executions w)"
proof -
  have cc: "CanCancel (ex_Status e) \<longleftrightarrow> \<not> (IsFinalExecutionStatus (ex_Status e) \<or> \<not> IsValidExecutionStatus (ex_Status e))"
    by (auto simp: CanCancel_def IsFinalExecutionStatus_def IsValidExecutionStatus_def)
  show ?thesis
  proof (cases "may_view u e \<and> CanCancel (ex_Status e)")
    case False
    then show ?thesis using w e cc
      by (intro exI [of _ "io_skip 1 w"]) (auto simp: CancelExecution_def GetExecution_ok guardE_run)
  next
    case True
    let ?w = "io_skip 1 w"
    have w1: "disk_ok ?w" "lookup ex_ID i (executions ?w) = Some e" using w e by (simp_all add: disk_ok_def)
    from UpdateStatus_ok [OF w1] obtain v n
      where v: "Execution_UpdateStatus i ExecutionStatusCanceled ''canceled'' ?w = (Inr (), v)"
        "observes (set_task (stamp_status ExecutionStatusCanceled ''canceled'' n e) ?w) v" by blast
    let ?e = "stamp_status ExecutionStatusCanceled ''canceled'' n e"
    let ?a = "whenE (es_audit S) (Audit_RecordScoped (Execution_Scope e) (cu_ID u)
         AuditExecutionCanceled AuditResourceExecution i rq [] AuditDecisionAllow []
         ''execution canceled'' None)"
    let ?b = "whenE (es_events S) (Event_Record i [] ExecutionEventCanceled
         (ExecutionStatus_text ExecutionStatusCanceled) ''execution canceled'' rq None)"
    have "quiet (bindE ?a (\<lambda>_. ?b))" by (intro quiet_intros)
    moreover have "disk_ok v" using v(2) w by (simp add: observes_def disk_ok_def)
    ultimately obtain x where x: "bindE ?a (\<lambda>_. ?b) v = (Inr (), x)" "observes v x" using quietD by blast
    have i: "ex_ID e = i" using lookup_key [OF e] .
    have ox: "observes (set_task ?e w) x"
      using v(2) x(2) by (auto simp: observes_def intro: prefix_order.trans)
    then have ex: "executions x = upsert ex_ID ?e (executions w)" "queue_ch x = queue_ch w"
      and dx: "disk_ok x" using w by (simp_all add: observes_def disk_ok_def)
    have "may_view u ?e" using True by (simp add: may_view_def)
    then have g: "GetExecution u i x = (Inr ?e, io_skip 1 x)"
      by (simp add: GetExecution_ok [OF dx] ex(1) lookup_upsert i)
    have "CancelExecution S u i rq w = bindE (Execution_UpdateStatus i ExecutionStatusCanceled ''canceled'')
        (\<lambda>_. bindE (bindE ?a (\<lambda>_. ?b)) (\<lambda>_. GetExecution u i)) ?w"
      using True w e by (simp add: CancelExecution_def GetExecution_ok guardE_run bindE_assoc)
    also have "\<dots> = (Inr ?e, io_skip 1 x)" using v(1) x(1) g by simp
    finally show ?thesis using True cc ex by (intro exI [of _ "io_skip 1 x"] exI [of _ n]) simp
  qed
qed

section \<open>Recovery\<close>

definition waiting :: "Execution \<Rightarrow> bool" where
  "waiting e \<longleftrightarrow> ex_Status e = ExecutionStatusPending \<or> ex_Status e = ExecutionStatusQueued"

fun recovered_status :: "ExecutionStatus \<Rightarrow> ExecutionStatus" where
  "recovered_status ExecutionStatusPending = ExecutionStatusQueued"
| "recovered_status ExecutionStatusRunning = ExecutionStatusFailed"
| "recovered_status s = s"

text \<open>\<open>w\<close> with the statuses of the tasks \<open>es\<close> as recovery leaves them and their identifiers queued.\<close>

definition recovered :: "Execution list \<Rightarrow> world \<Rightarrow> world \<Rightarrow> bool" where
  "recovered es w t \<longleftrightarrow> w_env t = w_env w \<and> queue_size t = queue_size w \<and>
     queue_ch t = queue_ch w @ map ex_ID (filter waiting es) \<and>
     (\<forall>e \<in> set es. \<exists>f. lookup ex_ID (ex_ID e) (executions t) = Some f \<and> immut f = immut e \<and>
        ex_Status f = recovered_status (ex_Status e)) \<and>
     (\<forall>i. i \<notin> ex_ID ` set es \<longrightarrow> lookup ex_ID i (executions t) = lookup ex_ID i (executions w))"

lemma recovered_Nil: "recovered [] w w" by (simp add: recovered_def)

lemma recovered_Cons:
  assumes "recovered [e] w v" and "recovered es v t" and "ex_ID e \<notin> ex_ID ` set es"
  shows "recovered (e # es) w t"
  using assms by (simp add: recovered_def)

text \<open>One iteration: \<open>m\<close> deals with \<open>e\<close> and the loop goes on from there.\<close>

lemma requeue_ok:
  assumes "disk_ok w" and "es_queue S" and "length (queue_ch w) < queue_size w"
  shows "\<exists>v. recover_requeue S CtxLive rq i n k w = k (n + 1) v \<and>
     observes (w\<lparr>queue_ch := queue_ch w @ [i]\<rparr>) v"
proof -
  let ?e = "whenE (es_events S) (Event_Record i [] ExecutionEventRecovered
            (ExecutionStatus_text ExecutionStatusQueued) ''execution recovered and requeued'' rq None)"
  let ?w = "snd (IncTaskRecovered (w\<lparr>queue_ch := queue_ch w @ [i]\<rparr>))"
  have "quiet ?e" by (intro quiet_intros)
  moreover have "disk_ok ?w" using assms(1) by (simp add: inc_defs add_metric_run disk_ok_def)
  ultimately obtain v where v: "?e ?w = (Inr (), v)" "observes ?w v" using quietD by blast
  have "recover_requeue S CtxLive rq i n k w = k (n + 1) v"
    using assms(2,3) v(1) by (simp add: recover_requeue_def tryE_run Submit_room)
  moreover have "observes (w\<lparr>queue_ch := queue_ch w @ [i]\<rparr>) v"
    using v(2) by (simp add: observes_def inc_defs add_metric_run)
  ultimately show ?thesis by blast
qed

lemma recover_loop_ok:
  assumes "disk_ok w" and "es_queue S" and "listed es w" and "distinct (map ex_ID es)"
    and "length (queue_ch w) + length (filter waiting es) \<le> queue_size w"
  shows "\<exists>t. recover_loop S CtxLive rq es n w = (Inr (n + int (length (filter waiting es)), None), t) \<and>
     recovered es w t"
  using assms
proof (induction es arbitrary: w n)
  case Nil then show ?case using recovered_Nil by auto
next
  case (Cons e es)
  let ?i = "ex_ID e"
  have le: "lookup ex_ID ?i (executions w) = Some e" and ni: "?i \<notin> ex_ID ` set es"
    using Cons.prems by (auto simp: listed_def)
  have step: "\<exists>t. recover_loop S CtxLive rq es m v = (Inr (m + int (length (filter waiting es)), None), t) \<and>
      recovered (e # es) w t" if v: "recovered [e] w v" for m v
  proof -
    have "disk_ok v" using v Cons.prems(1) by (simp add: recovered_def disk_ok_def)
    moreover have "listed es v" using v Cons.prems(3) ni by (auto simp: listed_def recovered_def image_iff)
    moreover have "length (queue_ch v) + length (filter waiting es) \<le> queue_size v"
      using v Cons.prems(5) by (auto simp: recovered_def)
    ultimately obtain t where "recover_loop S CtxLive rq es m v = (Inr (m + int (length (filter waiting es)), None), t)"
      "recovered es v t" using Cons.IH Cons.prems(2,4) by (metis distinct.simps(2) list.simps(9))
    with recovered_Cons [OF v _ ni] show ?thesis by blast
  qed
  consider (P) "ex_Status e = ExecutionStatusPending" | (Q) "ex_Status e = ExecutionStatusQueued"
    | (R) "ex_Status e = ExecutionStatusRunning"
    | (F) "ex_Status e \<notin> {ExecutionStatusPending, ExecutionStatusQueued, ExecutionStatusRunning}" by blast
  then show ?case
  proof cases
    case P
    from MarkQueued_ok [OF Cons.prems(1) le, of S rq] P obtain v k
      where v: "MarkQueued S ?i rq w = (Inr (), v)" "observes (set_task (stamp_status ExecutionStatusQueued [] k e) w) v"
      by (auto simp: Exec_CanTransit_iff)
    have dv: "disk_ok v" and room: "length (queue_ch v) < queue_size v"
      using v(2) Cons.prems(1,5) P by (auto simp: observes_def disk_ok_def waiting_def)
    from requeue_ok [OF dv Cons.prems(2) room, of rq ?i n "recover_loop S CtxLive rq es"] obtain x
      where x: "recover_requeue S CtxLive rq ?i n (recover_loop S CtxLive rq es) v = recover_loop S CtxLive rq es (n + 1) x"
        "observes (v\<lparr>queue_ch := queue_ch v @ [?i]\<rparr>) x" by blast
    have "recovered [e] w x"
      using v(2) x(2) P by (simp add: recovered_def observes_def lookup_upsert waiting_def)
    moreover have "waiting e" using P by (simp add: waiting_def)
    ultimately show ?thesis using step [of x "n + 1"] P v(1) x(1) by (simp add: tryE_run algebra_simps)
  next
    case Q
    have room: "length (queue_ch w) < queue_size w" using Cons.prems(5) Q by (auto simp: waiting_def)
    from requeue_ok [OF Cons.prems(1,2) room, of rq ?i n "recover_loop S CtxLive rq es"] obtain x
      where x: "recover_requeue S CtxLive rq ?i n (recover_loop S CtxLive rq es) w = recover_loop S CtxLive rq es (n + 1) x"
        "observes (w\<lparr>queue_ch := queue_ch w @ [?i]\<rparr>) x" by blast
    have "recovered [e] w x" using x(2) Q le by (simp add: recovered_def observes_def waiting_def)
    moreover have "waiting e" using Q by (simp add: waiting_def)
    ultimately show ?thesis using step [of x "n + 1"] Q x(1) by (simp add: algebra_simps)
  next
    case R
    let ?msg = "''recovered stale running execution after process restart''"
    from UpdateStatus_ok [OF Cons.prems(1) le] obtain v k
      where v: "Execution_UpdateStatus ?i ExecutionStatusFailed ?msg w = (Inr (), v)"
        "observes (set_task (stamp_status ExecutionStatusFailed ?msg k e) w) v" by blast
    let ?x = "snd (IncTaskCompleted ExecutionStatusFailed v)"
    have "recovered [e] w ?x"
      using v(2) R by (simp add: recovered_def observes_def lookup_upsert waiting_def inc_defs add_metric_run)
    moreover have "\<not> waiting e" using R by (simp add: waiting_def)
    ultimately show ?thesis using step [of ?x n] R v(1) by (simp add: tryE_run)
  next
    case F
    have "recovered [e] w w" using F le by (cases "ex_Status e") (auto simp: recovered_def waiting_def)
    moreover have "\<not> waiting e" using F by (simp add: waiting_def)
    ultimately show ?thesis using step [of w n] F by simp
  qed
qed

text \<open>
  C18. After a restart no task is lost or stuck: if the queue has room for the unfinished tasks,
  recovery returns their number, queues exactly the tasks that were \<open>Pending\<close> or \<open>Queued\<close>, in
  their stored order, fails those that were \<open>Running\<close>, and leaves the finished ones alone.
\<close>

theorem RecoverIncompleteExecutions_complete:
  assumes "disk_ok w" and "es_queue S" and "distinct (map ex_ID (executions w))"
    and "length (queue_ch w) + length (filter waiting (executions w)) \<le> queue_size w"
  shows "\<exists>t. RecoverIncompleteExecutions S CtxLive rq w =
      (Inr (int (length (filter waiting (executions w))), None), t) \<and>
    queue_ch t = queue_ch w @ map ex_ID (filter waiting (executions w)) \<and>
    (\<forall>e \<in> set (executions w). \<exists>f. lookup ex_ID (ex_ID e) (executions t) = Some f \<and> immut f = immut e \<and>
       ex_Status f = recovered_status (ex_Status e))"
proof -
  let ?p = "\<lambda>e. ex_Status e \<in> {ExecutionStatusPending, ExecutionStatusQueued, ExecutionStatusRunning}"
  let ?es = "filter ?p (executions w)"
  have wt: "filter waiting ?es = filter waiting (executions w)"
    by (auto simp: waiting_def intro: filter_cong)
  let ?w = "io_skip 1 w"
  have run: "RecoverIncompleteExecutions S CtxLive rq w = recover_loop S CtxLive rq ?es 0 ?w"
    using assms(1) by (simp add: RecoverIncompleteExecutions_def Execution_ListByStatuses_def tryE_run repo_filter_ok)
  have "listed ?es ?w" using assms(3) by (auto simp: listed_def intro: lookup_distinct)
  moreover have "distinct (map ex_ID ?es)" using assms(3) by (rule distinct_map_filter)
  moreover have "disk_ok ?w" using assms(1) by (simp add: disk_ok_def)
  moreover have "length (queue_ch ?w) + length (filter waiting ?es) \<le> queue_size ?w"
    unfolding wt using assms(4) by simp
  ultimately obtain t where t: "recover_loop S CtxLive rq ?es 0 ?w = (Inr (int (length (filter waiting ?es)), None), t)"
      "recovered ?es ?w t"
    using recover_loop_ok [of ?w S ?es rq 0] assms(2) by auto
  have "\<exists>f. lookup ex_ID (ex_ID e) (executions t) = Some f \<and> immut f = immut e \<and>
       ex_Status f = recovered_status (ex_Status e)" if e: "e \<in> set (executions w)" for e
  proof (cases "?p e")
    case True with t(2) e show ?thesis by (auto simp: recovered_def)
  next
    case False
    have "ex_ID e \<notin> ex_ID ` set ?es"
    proof
      assume "ex_ID e \<in> ex_ID ` set ?es"
      then obtain f where "f \<in> set (executions w)" "?p f" "ex_ID f = ex_ID e" by auto
      with assms(3) e have "f = e" by (auto simp: distinct_map dest: inj_onD)
      with \<open>?p f\<close> False show False by simp
    qed
    with t(2) lookup_distinct [OF assms(3) e] have "lookup ex_ID (ex_ID e) (executions t) = Some e"
      by (simp add: recovered_def)
    moreover have "recovered_status (ex_Status e) = ex_Status e" using False by (cases "ex_Status e") auto
    ultimately show ?thesis by simp
  qed
  then show ?thesis using run t wt by (simp add: recovered_def)
qed

end
