(* ===== verification/Paths.thy ===== *)
theory Paths
  imports GoLib
begin

text \<open>
  \<^verbatim>\<open>path/filepath\<close> on a Unix system, by components: \<open>Clean\<close>, \<open>Join\<close>, \<open>Abs\<close> and \<open>Rel\<close>.
  These are lexical operations of the Go standard library; the facts at the end are what
  the containment checks of the program rest on.
\<close>

section \<open>Clean\<close>

definition is_abs :: "string \<Rightarrow> bool" where
  "is_abs p \<longleftrightarrow> has_prefix p ''/''"

text \<open>One component pushed on the stack of those kept so far (innermost first).\<close>

definition push_comp :: "bool \<Rightarrow> string \<Rightarrow> string list \<Rightarrow> string list" where
  "push_comp rooted c st =
     (if c = [] \<or> c = ''.'' then st
      else if c = ''..'' then
        (case st of [] \<Rightarrow> if rooted then [] else [''..'']
         | d # ds \<Rightarrow> if d = ''..'' then c # st else ds)
      else c # st)"

definition clean_comps :: "bool \<Rightarrow> string list \<Rightarrow> string list" where
  "clean_comps rooted cs = rev (fold (push_comp rooted) cs [])"

definition comps :: "string \<Rightarrow> string list" where
  "comps p = clean_comps (is_abs p) (split_on CHR ''/'' p)"

definition path_of :: "bool \<Rightarrow> string list \<Rightarrow> string" where
  "path_of rooted cs = (if rooted then ''/'' @ join_with ''/'' cs
     else if cs = [] then ''.'' else join_with ''/'' cs)"

definition Clean :: "string \<Rightarrow> string" where
  "Clean p = path_of (is_abs p) (comps p)"

section \<open>Join, Abs, Rel\<close>

definition Join :: "string list \<Rightarrow> string" where
  "Join ps = (let qs = filter (\<lambda>p. p \<noteq> []) ps in if qs = [] then [] else Clean (join_with ''/'' qs))"

definition Abs :: "string option \<Rightarrow> string \<Rightarrow> string option" where
  "Abs cwd p = (if is_abs p then Some (Clean p) else map_option (\<lambda>d. Join [d, p]) cwd)"

fun rel_comps :: "string list \<Rightarrow> string list \<Rightarrow> string list option" where
  "rel_comps (b # bs) (t # ts) =
     (if b = t then rel_comps bs ts
      else if b = ''..'' then None
      else Some (replicate (length (b # bs)) ''..'' @ t # ts))"
| "rel_comps [] ts = Some ts"
| "rel_comps (b # bs) [] = (if b = ''..'' then None else Some (replicate (length (b # bs)) ''..''))"

definition Rel :: "string \<Rightarrow> string \<Rightarrow> string option" where
  "Rel base targ = (if is_abs base \<noteq> is_abs targ then None
     else map_option (path_of False) (rel_comps (comps base) (comps targ)))"

definition Base_name :: "string \<Rightarrow> string" where
  "Base_name p = (if p = [] then ''.''
     else case filter (\<lambda>c. c \<noteq> []) (split_on CHR ''/'' p) of [] \<Rightarrow> ''/'' | cs \<Rightarrow> last cs)"

definition Dir_name :: "string \<Rightarrow> string" where
  "Dir_name p = Clean (rev (dropWhile (\<lambda>c. c \<noteq> CHR ''/'') (rev p)))"

section \<open>Components\<close>

definition plain_comp :: "string \<Rightarrow> bool" where
  "plain_comp c \<longleftrightarrow> c \<noteq> [] \<and> c \<noteq> ''.'' \<and> c \<noteq> ''..'' \<and> CHR ''/'' \<notin> set c"

lemma fold_push_rooted:
  assumes "\<forall>d \<in> set st. plain_comp d" and "\<forall>c \<in> set cs. CHR ''/'' \<notin> set c"
  shows "\<forall>d \<in> set (fold (push_comp True) cs st). plain_comp d"
  using assms
proof (induction cs arbitrary: st)
  case (Cons c cs)
  have "\<forall>d \<in> set (push_comp True c st). plain_comp d"
    using Cons.prems by (auto simp: push_comp_def plain_comp_def split: list.splits)
  with Cons show ?case by simp
qed simp

lemma comps_abs_plain: "is_abs p \<Longrightarrow> c \<in> set (comps p) \<Longrightarrow> plain_comp c"
  using fold_push_rooted [of "[]" "split_on CHR ''/'' p"] split_on_no_delim [of _ "CHR ''/''" p]
  by (auto simp: comps_def clean_comps_def)

lemma split_join:
  "cs \<noteq> [] \<Longrightarrow> \<forall>c \<in> set cs. CHR ''/'' \<notin> set c \<Longrightarrow> split_on CHR ''/'' (join_with ''/'' cs) = cs"
proof (induction cs rule: induct_list012)
  case (2 w)
  have "split_on d v = [v]" if "d \<notin> set v" for d and v :: string
    using that by (induction v) auto
  with 2 show ?case by simp
next
  case (3 w v ws)
  have "split_on d (u @ d # t) = u # split_on d t" if "d \<notin> set u" for d and u t :: string
    using that by (induction u) auto
  with 3 show ?case by simp
qed simp

lemma fold_push_plain:
  "\<forall>c \<in> set cs. plain_comp c \<Longrightarrow> fold (push_comp r) cs st = rev cs @ st"
  by (induction cs arbitrary: st) (auto simp: push_comp_def plain_comp_def)

text \<open>A cleaned absolute path has the components it was made from.\<close>

lemma comps_path_of:
  assumes "\<forall>c \<in> set cs. plain_comp c"
  shows "comps (path_of True cs) = cs"
proof (cases "cs = []")
  case True
  then show ?thesis by (simp add: comps_def path_of_def is_abs_def has_prefix_def clean_comps_def push_comp_def)
next
  case False
  have "split_on CHR ''/'' (''/'' @ join_with ''/'' cs) = [] # cs"
    using split_join [OF False] assms by (simp add: plain_comp_def)
  moreover have "push_comp True [] [] = []" by (simp add: push_comp_def)
  ultimately show ?thesis
    using assms by (simp add: comps_def path_of_def is_abs_def has_prefix_def clean_comps_def fold_push_plain)
qed

lemma is_abs_path_of: "is_abs (path_of True cs)"
  by (simp add: path_of_def is_abs_def has_prefix_def)

lemma Clean_abs: "is_abs p \<Longrightarrow> is_abs (Clean p) \<and> comps (Clean p) = comps p"
  using comps_path_of [of "comps p"] comps_abs_plain [of p] is_abs_path_of by (simp add: Clean_def)

text \<open>Relative paths that stay below: the target extends the base.\<close>

lemma rel_comps_below:
  assumes "rel_comps bs ts = Some rs" and "rs = [] \<or> hd rs \<noteq> ''..''"
  shows "ts = bs @ rs"
  using assms by (induction bs ts arbitrary: rs rule: rel_comps.induct) (auto split: if_splits)

lemma join_has_prefix:
  "rs \<noteq> [] \<Longrightarrow> has_prefix (join_with ''/'' rs) (hd rs)"
  by (induction rs rule: induct_list012) (auto simp: has_prefix_iff)

lemma has_prefix_trans: "has_prefix s p \<Longrightarrow> has_prefix p q \<Longrightarrow> has_prefix s q"
  by (auto simp: has_prefix_iff)

text \<open>A relative path whose text does not begin with two dots descends from the base.\<close>

lemma Rel_below:
  assumes "Rel base targ = Some r" and "\<not> has_prefix r ''..''"
  shows "\<exists>rs. comps targ = comps base @ rs"
proof -
  from assms(1) obtain rs where rs: "rel_comps (comps base) (comps targ) = Some rs" "r = path_of False rs"
    by (auto simp: Rel_def split: if_splits)
  have "rs = [] \<or> hd rs \<noteq> ''..''"
  proof (rule ccontr)
    assume "\<not> ?thesis"
    then have "rs \<noteq> []" "hd rs = ''..''" by auto
    with join_has_prefix have "has_prefix r ''..''" by (simp add: rs(2) path_of_def) (metis)
    with assms(2) show False ..
  qed
  from rel_comps_below [OF rs(1) this] show ?thesis by blast
qed

end
