(* ===== verification/Sanitize.thy ===== *)
theory Sanitize
  imports GoLib
begin

text \<open>
  \<^verbatim>\<open>internal/security/sanitize.go\<close>: what of a plugin's output is kept for display. The code
  iterates over runes, so UTF-8 decoding is written out (\<^verbatim>\<open>utf8.DecodeRune\<close>: an invalid
  byte is the rune U+FFFD of width one); the regular expression for terminal escapes is a
  recursive matcher, which is exact because its three character classes are disjoint.
\<close>

section \<open>UTF-8\<close>

abbreviation byte :: "char \<Rightarrow> nat" where "byte c \<equiv> of_char c"

definition cont :: "nat \<Rightarrow> bool" where "cont b \<longleftrightarrow> 0x80 \<le> b \<and> b \<le> 0xBF"

text \<open>The rune at the front and its width; \<open>None\<close> where the encoding is invalid.\<close>

fun decode_bytes :: "nat list \<Rightarrow> (nat \<times> nat) option" where
  "decode_bytes [] = None"
| "decode_bytes (a # bs) =
     (if a < 0x80 then Some (a, 1)
      else case bs of [] \<Rightarrow> None | b # cs \<Rightarrow>
        if 0xC2 \<le> a \<and> a \<le> 0xDF then (if cont b then Some ((a - 0xC0) * 64 + (b - 0x80), 2) else None)
        else (case cs of [] \<Rightarrow> None | c # ds \<Rightarrow>
          if 0xE0 \<le> a \<and> a \<le> 0xEF then
            (if cont b \<and> cont c \<and> (a = 0xE0 \<longrightarrow> 0xA0 \<le> b) \<and> (a = 0xED \<longrightarrow> b \<le> 0x9F)
             then Some ((a - 0xE0) * 4096 + (b - 0x80) * 64 + (c - 0x80), 3) else None)
          else (case ds of [] \<Rightarrow> None | d # es \<Rightarrow>
            if 0xF0 \<le> a \<and> a \<le> 0xF4 \<and> cont b \<and> cont c \<and> cont d \<and>
               (a = 0xF0 \<longrightarrow> 0x90 \<le> b) \<and> (a = 0xF4 \<longrightarrow> b \<le> 0x8F)
            then Some ((a - 0xF0) * 262144 + (b - 0x80) * 4096 + (c - 0x80) * 64 + (d - 0x80), 4)
            else None)))"

definition decode_rune :: "string \<Rightarrow> nat \<times> nat" where
  "decode_rune s = (case decode_bytes (map of_char (take 4 s)) of None \<Rightarrow> (0xFFFD, 1) | Some rw \<Rightarrow> rw)"

definition encode_bytes :: "nat \<Rightarrow> nat list" where
  "encode_bytes r =
     (if r < 0x80 then [r]
      else if r < 0x800 then [0xC0 + r div 64, 0x80 + r mod 64]
      else if r < 0x10000 then [0xE0 + r div 4096, 0x80 + r div 64 mod 64, 0x80 + r mod 64]
      else [0xF0 + r div 262144, 0x80 + r div 4096 mod 64, 0x80 + r div 64 mod 64, 0x80 + r mod 64])"

definition encode_rune :: "nat \<Rightarrow> string" where
  "encode_rune r = map char_of (encode_bytes r)"

text \<open>\<open>utf8.ValidString\<close>, with the length as fuel (every rune has at least one byte).\<close>

fun valid_utf8_fuel :: "nat \<Rightarrow> string \<Rightarrow> bool" where
  "valid_utf8_fuel 0 s = (s = [])"
| "valid_utf8_fuel (Suc n) s = (s = [] \<or>
     (case decode_bytes (map of_char (take 4 s)) of None \<Rightarrow> False
      | Some (r, k) \<Rightarrow> valid_utf8_fuel n (drop k s)))"

definition valid_utf8 :: "string \<Rightarrow> bool" where
  "valid_utf8 s = valid_utf8_fuel (length s) s"

section \<open>SanitizePreview\<close>

definition in_class :: "nat \<Rightarrow> nat \<Rightarrow> char \<Rightarrow> bool" where
  "in_class lo hi c \<longleftrightarrow> lo \<le> byte c \<and> byte c \<le> hi"

text \<open>The rest of the text after an escape sequence at the front, if there is one.\<close>

definition after_escape :: "string \<Rightarrow> string option" where
  "after_escape s = (case s of c # d # t \<Rightarrow>
       if byte c = 0x1B \<and> d = CHR ''['' then
         (case dropWhile (in_class 0x20 0x2F) (dropWhile (in_class 0x30 0x3F) t) of
            [] \<Rightarrow> None | f # u \<Rightarrow> if in_class 0x40 0x7E f then Some u else None)
       else None
     | _ \<Rightarrow> None)"

lemma length_dropWhile: "length (dropWhile p xs) \<le> length xs"
  by (induction xs) auto

lemma after_escape_shorter: "after_escape s = Some t \<Longrightarrow> length t < length s"
proof -
  assume a: "after_escape s = Some t"
  then obtain c d u where s: "s = c # d # u" by (auto simp: after_escape_def split: list.splits)
  from a s obtain f where "dropWhile (in_class 0x20 0x2F) (dropWhile (in_class 0x30 0x3F) u) = f # t"
    by (auto simp: after_escape_def split: list.splits if_splits)
  then have "Suc (length t) \<le> length u"
    using length_dropWhile [of "in_class 0x20 0x2F" "dropWhile (in_class 0x30 0x3F) u"]
      length_dropWhile [of "in_class 0x30 0x3F" u] by simp
  with s show ?thesis by simp
qed

function strip_escapes :: "string \<Rightarrow> string" where
  "strip_escapes [] = []"
| "strip_escapes (c # s) = (case after_escape (c # s) of
     Some t \<Rightarrow> strip_escapes t | None \<Rightarrow> c # strip_escapes s)"
  by pat_completeness auto
termination
  by (relation "measure length") (auto dest: after_escape_shorter)

definition kept_rune :: "nat \<Rightarrow> bool" where
  "kept_rune r \<longleftrightarrow> r = 10 \<or> r = 13 \<or> r = 9 \<or> r \<ge> 0x20"

fun sanitize_loop :: "nat \<Rightarrow> int \<Rightarrow> string \<Rightarrow> string \<Rightarrow> string" where
  "sanitize_loop 0 maxBytes s b = b"
| "sanitize_loop (Suc n) maxBytes s b =
     (if s = [] then b
      else case decode_rune s of (r, k) \<Rightarrow>
        let b = (if kept_rune r then b @ encode_rune r else b)
        in if maxBytes > 0 \<and> int (length b) \<ge> maxBytes then b
           else sanitize_loop n maxBytes (drop k s) b)"

fun trim_invalid :: "nat \<Rightarrow> string \<Rightarrow> string" where
  "trim_invalid 0 s = s"
| "trim_invalid (Suc n) s = (if \<not> valid_utf8 s \<and> length s > 0 then trim_invalid n (butlast s) else s)"

text \<open>Both loops shorten their text in every round, so its length is enough fuel.\<close>

definition SanitizePreview :: "string \<Rightarrow> int \<Rightarrow> string" where
  "SanitizePreview inp maxBytes =
     (if inp = [] then []
      else let clean = strip_escapes inp;
               out = sanitize_loop (length clean) maxBytes clean []
           in if maxBytes > 0 \<and> int (length out) > maxBytes
              then trim_invalid (nat maxBytes) (take (nat maxBytes) out) else out)"

section \<open>Decoding\<close>

lemma decode_width: "decode_bytes bs = Some (r, k) \<Longrightarrow> 1 \<le> k \<and> k \<le> length bs"
  by (cases bs) (auto split: if_splits list.splits)

lemma decode_append: "decode_bytes bs = Some (r, k) \<Longrightarrow> decode_bytes (bs @ cs) = Some (r, k)"
  by (cases bs) (auto split: if_splits list.splits)

lemma decode_rune_bound: "decode_bytes bs = Some (r, k) \<Longrightarrow> \<forall>b \<in> set bs. b < 256 \<Longrightarrow> r < 0x110000"
  by (cases bs) (auto simp: cont_def split: if_splits list.splits)

definition scalar :: "nat \<Rightarrow> bool" where
  "scalar r \<longleftrightarrow> r < 0x110000 \<and> \<not> (0xD800 \<le> r \<and> r \<le> 0xDFFF)"

lemma no_surrogate:
  assumes "224 \<le> a" "128 \<le> b" "b \<le> 191" "128 \<le> c" "c \<le> (191::nat)" "a = 237 \<longrightarrow> b \<le> 159"
  shows "\<not> (0xD800 \<le> (a - 224) * 4096 + (b - 128) * 64 + (c - 128) \<and>
      (a - 224) * 4096 + (b - 128) * 64 + (c - 128) \<le> 0xDFFF)"
proof -
  define x y z where "x = a - 224" and "y = b - 128" and "z = c - 128"
  have y: "y \<le> 63" "z \<le> 63" using assms by (auto simp: y_def z_def)
  consider "x \<le> 12" | "x = 13" | "14 \<le> x" by linarith
  then show ?thesis
  proof cases
    case 2
    then have "y \<le> 31" using assms by (auto simp: x_def y_def)
    with 2 y show ?thesis unfolding x_def [symmetric] y_def [symmetric] z_def [symmetric] by simp
  qed (use y in \<open>unfold x_def [symmetric] y_def [symmetric] z_def [symmetric], auto\<close>)
qed

lemma decode_scalar: "decode_bytes bs = Some (r, k) \<Longrightarrow> scalar r"
proof -
  assume d: "decode_bytes bs = Some (r, k)"
  then obtain a as where bs: "bs = a # as" by (cases bs) auto
  show ?thesis
  proof (cases "0xE0 \<le> a \<and> a \<le> 0xEF")
    case True
    with d bs obtain b c ds where "as = b # c # ds" by (auto split: list.splits if_splits)
    with d bs True no_surrogate [of a b c] show ?thesis
      by (auto simp: cont_def scalar_def split: if_splits)
  next
    case False
    with d bs show ?thesis by (auto simp: cont_def scalar_def split: if_splits list.splits)
  qed
qed

lemma byte_char_of: "n < 256 \<Longrightarrow> byte (char_of n) = n"
  by (simp add: take_bit_eq_mod)

lemma encode_lt: "scalar r \<Longrightarrow> b \<in> set (encode_bytes r) \<Longrightarrow> b < 256"
  by (auto simp: encode_bytes_def scalar_def split: if_splits)

lemma split64: "(r::nat) = r div 64 * 64 + r mod 64" by simp

lemma digits64:
  fixes r :: nat
  shows "r = r div 64 * 64 + r mod 64" and "r div 64 = r div 4096 * 64 + r div 64 mod 64"
    and "r div 4096 = r div 262144 * 64 + r div 4096 mod 64"
proof -
  show "r = r div 64 * 64 + r mod 64" by simp
  have "r div 4096 = r div 64 div 64" using div_mult2_eq [of r 64 64] by simp
  then show "r div 64 = r div 4096 * 64 + r div 64 mod 64" using split64 [of "r div 64"] by simp
  have "r div 262144 = r div 4096 div 64" using div_mult2_eq [of r 4096 64] by simp
  then show "r div 4096 = r div 262144 * 64 + r div 4096 mod 64" using split64 [of "r div 4096"] by simp
qed

text \<open>Encoding and decoding are inverse on scalar values.\<close>

lemma decode_encode: "scalar r \<Longrightarrow> decode_bytes (encode_bytes r) = Some (r, length (encode_bytes r))"
proof -
  assume s: "scalar r"
  consider (1) "r < 0x80" | (2) "0x80 \<le> r" "r < 0x800" | (3) "0x800 \<le> r" "r < 0x10000" | (4) "0x10000 \<le> r"
    by linarith
  then show ?thesis
  proof cases
    case 1 then show ?thesis by (simp add: encode_bytes_def)
  next
    case 2
    then have "2 \<le> r div 64" "r div 64 \<le> 31" by auto
    then show ?thesis using 2 by (simp add: encode_bytes_def cont_def)
  next
    case 3
    let ?a = "r div 4096" and ?b = "r div 64 mod 64" and ?c = "r mod 64"
    have r: "r = ?a * 4096 + ?b * 64 + ?c" using digits64 [of r] by linarith
    have lim: "?a \<le> 15" "?b < 64" "?c < 64" using 3 by auto
    have "?a = 0 \<Longrightarrow> 32 \<le> ?b" using r lim 3 by linarith
    moreover have "?a = 13 \<Longrightarrow> ?b < 32" using r lim s by (auto simp: scalar_def)
    ultimately show ?thesis using 3 lim r by (auto simp: encode_bytes_def cont_def)
  next
    case 4
    let ?z = "r div 262144" and ?a = "r div 4096 mod 64" and ?b = "r div 64 mod 64" and ?c = "r mod 64"
    have r: "r = ?z * 262144 + ?a * 4096 + ?b * 64 + ?c" using digits64 [of r] by linarith
    have lim: "?z \<le> 4" "?a < 64" "?b < 64" "?c < 64" using s by (auto simp: scalar_def)
    have "?z = 0 \<Longrightarrow> 16 \<le> ?a" using r lim 4 by linarith
    moreover have "?z = 4 \<Longrightarrow> ?a < 16" using r lim s by (auto simp: scalar_def)
    ultimately show ?thesis using 4 lim r by (auto simp: encode_bytes_def cont_def)
  qed
qed

declare decode_bytes.simps [simp del]

section \<open>Valid text\<close>

lemma valid_fuel_mono: "valid_utf8_fuel n s \<Longrightarrow> n \<le> m \<Longrightarrow> valid_utf8_fuel m s"
proof (induction n s arbitrary: m rule: valid_utf8_fuel.induct)
  case (1 s) then show ?case by (cases m) auto
next
  case (2 n s)
  then obtain k where "m = Suc k" "n \<le> k" by (cases m) auto
  moreover have "decode_bytes [] = None" by (simp add: decode_bytes.simps)
  ultimately show ?case using 2 by (cases "s = []") (auto split: option.splits)
qed

lemma valid_encode: "scalar r \<Longrightarrow> 0 < n \<Longrightarrow> valid_utf8_fuel n (encode_rune r)"
proof -
  assume r: "scalar r" and n: "0 < n"
  have len: "length (encode_bytes r) \<le> 4" by (simp add: encode_bytes_def)
  have "map (\<lambda>b. byte (char_of b)) (encode_bytes r) = encode_bytes r"
  proof (rule map_idI)
    fix b assume "b \<in> set (encode_bytes r)"
    from byte_char_of [OF encode_lt [OF r this]] show "byte (char_of b) = b" .
  qed
  then have "map byte (encode_rune r) = encode_bytes r"
    unfolding encode_rune_def map_map comp_def .
  moreover have "take 4 (encode_rune r) = encode_rune r" using len by (simp add: encode_rune_def)
  ultimately have "decode_bytes (map byte (take 4 (encode_rune r))) = Some (r, length (encode_rune r))"
    using decode_encode [OF r] by (simp add: encode_rune_def)
  moreover have "encode_rune r \<noteq> []" by (simp add: encode_rune_def encode_bytes_def)
  moreover have "valid_utf8_fuel m []" for m by (cases m) auto
  ultimately show ?thesis using n by (cases n) auto
qed

lemma valid_fuel_append:
  "valid_utf8_fuel n s \<Longrightarrow> valid_utf8_fuel m t \<Longrightarrow> valid_utf8_fuel (n + m) (s @ t)"
proof (induction n s rule: valid_utf8_fuel.induct)
  case (1 s) then show ?case by simp
next
  case (2 n s)
  show ?case
  proof (cases "s = []")
    case True with 2(3) valid_fuel_mono [of m t "Suc n + m"] show ?thesis by simp
  next
    case False
    with 2(2) obtain r k where d: "decode_bytes (map byte (take 4 s)) = Some (r, k)"
      and v: "valid_utf8_fuel n (drop k s)" by (auto split: option.splits)
    have k: "k \<le> length s" using decode_width [OF d] by simp
    have "decode_bytes (map byte (take 4 (s @ t))) = Some (r, k)"
      using decode_append [OF d] by simp
    with 2(1) [OF d refl v 2(3)] k show ?thesis by (simp add: add_Suc)
  qed
qed

lemma valid_append: "valid_utf8 s \<Longrightarrow> valid_utf8 t \<Longrightarrow> valid_utf8 (s @ t)"
  unfolding valid_utf8_def using valid_fuel_append by simp

lemma valid_encode_rune: "scalar r \<Longrightarrow> valid_utf8 (encode_rune r)"
  unfolding valid_utf8_def by (rule valid_encode) (simp_all add: encode_rune_def encode_bytes_def)

lemma valid_Nil [simp]: "valid_utf8 []" by (simp add: valid_utf8_def)

lemma decode_rune_scalar: "scalar (fst (decode_rune s))"
  using decode_scalar [of "map byte (take 4 s)"]
  by (auto simp: decode_rune_def split: option.split) (simp add: scalar_def)

text \<open>Bytes that cannot start or continue a terminal control sequence of C0.\<close>

definition printable :: "char \<Rightarrow> bool" where
  "printable c \<longleftrightarrow> 32 \<le> byte c \<or> byte c \<in> {9, 10, 13}"

lemma printable_encode: "scalar r \<Longrightarrow> kept_rune r \<Longrightarrow> list_all printable (encode_rune r)"
proof -
  assume r: "scalar r" "kept_rune r"
  have "printable (char_of b)" if "b \<in> set (encode_bytes r)" for b
  proof -
    have "32 \<le> b \<or> b \<in> {9, 10, 13}"
      using that r(2) by (auto simp: encode_bytes_def kept_rune_def split: if_splits)
    moreover have "byte (char_of b) = b" using byte_char_of encode_lt [OF r(1) that] by blast
    ultimately show ?thesis by (simp add: printable_def)
  qed
  then show ?thesis by (auto simp: list_all_iff encode_rune_def)
qed

lemma sanitize_loop_ok:
  "valid_utf8 b \<Longrightarrow> list_all printable b \<Longrightarrow>
   valid_utf8 (sanitize_loop n m s b) \<and> list_all printable (sanitize_loop n m s b)"
proof (induction n arbitrary: s b)
  case (Suc n)
  show ?case
  proof (cases "s = []")
    case False
    obtain r k where d: "decode_rune s = (r, k)" by (cases "decode_rune s")
    then have r: "scalar r" using decode_rune_scalar [of s] by simp
    let ?b = "if kept_rune r then b @ encode_rune r else b"
    have "valid_utf8 ?b" "list_all printable ?b"
      using Suc.prems valid_append valid_encode_rune [OF r] printable_encode [OF r] by auto
    with Suc.IH [of ?b "drop k s"] d False show ?thesis by (simp add: Let_def)
  qed (use Suc.prems in simp)
qed simp

lemma trim_invalid_valid: "length s \<le> n \<Longrightarrow> valid_utf8 (trim_invalid n s)"
  by (induction n arbitrary: s) auto

lemma trim_invalid_sub: "set (trim_invalid n s) \<subseteq> set s \<and> length (trim_invalid n s) \<le> length s"
proof (induction n arbitrary: s)
  case (Suc n)
  from Suc [of "butlast s"] show ?case by (auto dest: in_set_butlastD)
qed simp



end
