(* ===== verification/Secrets.thy ===== *)
theory Secrets
  imports Model
begin

text \<open>
  \<^verbatim>\<open>internal/secrets/provider.go\<close>: resolving the secret references of a plugin into an
  environment, and the in-memory provider. A Go map is an association list in the order its
  iteration visits the keys.
\<close>

record Reference =
  rf_TenantID :: string
  rf_ProjectID :: string
  rf_Name :: string
  rf_Provider :: string
  rf_Ref :: string

type_synonym Provider = "Reference \<Rightarrow> go_error + string"

definition secret_key :: "ResourceScope \<Rightarrow> string \<Rightarrow> string" where
  "secret_key scope ref = (let scope = Normalize scope
     in sc_TenantID scope @ ''/'' @ sc_ProjectID scope @ ''/'' @ ref)"

type_synonym MemoryProvider = "string \<Rightarrow> string option"

definition Memory_Put :: "ResourceScope \<Rightarrow> string \<Rightarrow> string \<Rightarrow> MemoryProvider \<Rightarrow> MemoryProvider" where
  "Memory_Put scope ref value secrets = secrets(secret_key scope ref \<mapsto> value)"

definition Memory_Resolve :: "MemoryProvider \<Rightarrow> Provider" where
  "Memory_Resolve secrets ref =
     (case secrets (secret_key (mk_scope (rf_TenantID ref) (rf_ProjectID ref)) (rf_Ref ref)) of
        None \<Rightarrow> Inl (PlainError (''secret reference not found: '' @ rf_Ref ref))
      | Some v \<Rightarrow> Inr v)"

definition env_name_char :: "char \<Rightarrow> bool" where
  "env_name_char c \<longleftrightarrow> (let n = of_char c :: nat in
     c = CHR ''_'' \<or> 65 \<le> n \<and> n \<le> 90 \<or> 97 \<le> n \<and> n \<le> 122 \<or> 48 \<le> n \<and> n \<le> 57)"

text \<open>A byte from 0x80 up only occurs in runes the code rejects, so the test is bytewise.\<close>

definition safeEnvName :: "string \<Rightarrow> bool" where
  "safeEnvName name \<longleftrightarrow> \<not> (name = [] \<or> contains_any name [CHR ''='', CHR 0x00, CHR 0x0D, CHR 0x0A] \<or> has_prefix name ''-'') \<and>
     list_all env_name_char name"

fun resolve_refs :: "Provider \<Rightarrow> ResourceScope \<Rightarrow> (string \<times> string) list \<Rightarrow> go_error + (string \<times> string) list" where
  "resolve_refs provider scope [] = Inr []"
| "resolve_refs provider scope ((envName, ref) # refs) =
     (if \<not> safeEnvName envName then Inl (PlainError (''secret env name '' @ go_quote envName @ '' is invalid''))
      else case provider \<lparr>rf_TenantID = sc_TenantID scope, rf_ProjectID = sc_ProjectID scope,
          rf_Name = envName, rf_Provider = ''default'', rf_Ref = ref\<rparr> of
        Inl err \<Rightarrow> Inl err
      | Inr b \<Rightarrow>
          if contains_any b [CHR 0x00, CHR 0x0D, CHR 0x0A]
          then Inl (PlainError (''secret value for '' @ go_quote envName @ '' contains unsafe control characters''))
          else (case resolve_refs provider scope refs of Inl err \<Rightarrow> Inl err | Inr out \<Rightarrow> Inr ((envName, b) # out)))"

definition ResolveEnv :: "Provider option \<Rightarrow> ResourceScope \<Rightarrow> (string \<times> string) list \<Rightarrow> go_error + (string \<times> string) list" where
  "ResolveEnv provider scope refs =
     (if length refs = 0 then Inr []
      else case provider of
        None \<Rightarrow> Inl (PlainError ''secret provider is not configured'')
      | Some pr \<Rightarrow> resolve_refs pr (Normalize scope) refs)"

section \<open>What a resolved environment contains\<close>

lemma resolve_refs_ok:
  "resolve_refs pr scope refs = Inr out \<Longrightarrow>
   map fst out = map fst refs \<and>
   list_all2 (\<lambda>(n, r) (m, v). m = n \<and> safeEnvName n \<and> \<not> contains_any v [CHR 0x00, CHR 0x0D, CHR 0x0A] \<and>
     pr \<lparr>rf_TenantID = sc_TenantID scope, rf_ProjectID = sc_ProjectID scope, rf_Name = n,
         rf_Provider = ''default'', rf_Ref = r\<rparr> = Inr v) refs out"
proof (induction pr scope refs arbitrary: out rule: resolve_refs.induct)
  case (2 provider scope envName ref refs)
  then show ?case by (auto split: if_splits sum.splits)
qed simp

lemma memory_get_put:
  "Memory_Resolve (Memory_Put scope ref v m)
     \<lparr>rf_TenantID = sc_TenantID (Normalize scope), rf_ProjectID = sc_ProjectID (Normalize scope),
      rf_Name = n, rf_Provider = d, rf_Ref = ref\<rparr> = Inr v"
  by (simp add: Memory_Resolve_def Memory_Put_def secret_key_def Let_def)

text \<open>
  Secrets are not confined to their scope: the map key joins tenant, project and
  reference with slashes, so two different tenants whose identifiers contain a slash can share
  a key, and a lookup in one returns the secret stored for the other.
\<close>

theorem secret_key_collision:
  "\<exists>a b r s v. \<not> SameScope a b \<and>
     Memory_Resolve (Memory_Put a r v (\<lambda>_. None))
       \<lparr>rf_TenantID = sc_TenantID b, rf_ProjectID = sc_ProjectID b, rf_Name = ''TOKEN'',
        rf_Provider = ''default'', rf_Ref = s\<rparr> = Inr v"
proof -
  let ?a = "mk_scope ''acme'' ''p''" and ?b = "mk_scope ''acme'' ''p/q''"
  have "\<not> SameScope ?a ?b" by (simp add: SameScope_def Normalize_def mk_scope_def)
  moreover have "Memory_Resolve (Memory_Put ?a ''q/token'' ''s3cret'' (\<lambda>_. None))
       \<lparr>rf_TenantID = sc_TenantID ?b, rf_ProjectID = sc_ProjectID ?b, rf_Name = ''TOKEN'',
        rf_Provider = ''default'', rf_Ref = ''token''\<rparr> = Inr ''s3cret''"
    by (simp add: Memory_Resolve_def Memory_Put_def secret_key_def Normalize_def mk_scope_def)
  ultimately show ?thesis by blast
qed

end
