(* ===== verification/Runtime.thy ===== *)
theory Runtime
  imports Observe Paths Sanitize Secrets
begin

text \<open>
  Running plugins: \<^verbatim>\<open>internal/service/runtime.go\<close>, \<^verbatim>\<open>runtime_process.go\<close> and
  \<^verbatim>\<open>runtime_container.go\<close>. A child process is a value of \<open>command\<close>; what it does is the
  environment's answer \<open>run_cmd\<close>, and \<open>cmd_log\<close> records every child started. The code for
  Windows (\<^verbatim>\<open>windowsCommandCandidates\<close>) is not modelled: on other systems
  \<^verbatim>\<open>resolveBareCommand\<close> returns its argument.
\<close>

section \<open>The bounded output buffer\<close>

record limitedBuffer =
  lb_buf :: string
  lb_limit :: int
  lb_exceeded :: bool

definition newLimitedBuffer :: "int \<Rightarrow> limitedBuffer" where
  "newLimitedBuffer limit = \<lparr>lb_buf = [], lb_limit = (if limit \<le> 0 then 65536 else limit), lb_exceeded = False\<rparr>"

definition buffer_Write :: "limitedBuffer \<Rightarrow> string \<Rightarrow> limitedBuffer" where
  "buffer_Write b p =
     (let remaining = lb_limit b - int (length (lb_buf b))
      in if remaining \<le> 0 then b\<lparr>lb_exceeded := True\<rparr>
         else if int (length p) > remaining
           then b\<lparr>lb_buf := lb_buf b @ take (nat remaining) p, lb_exceeded := True\<rparr>
         else b\<lparr>lb_buf := lb_buf b @ p\<rparr>)"

section \<open>Process runner\<close>

record ProcessRunner =
  pr_allowedCommands :: "string list"
  pr_maxTimeoutSeconds :: int
  pr_allowRelativeBinaries :: bool

definition defaultMaxPluginTimeoutSeconds :: int where "defaultMaxPluginTimeoutSeconds = 30"

definition NewProcessRunner :: "string list \<Rightarrow> ProcessRunner" where
  "NewProcessRunner allowedCommands =
     (let cmds = (if length allowedCommands = 0 then [''python3'', ''python'', ''node''] else allowedCommands)
      in \<lparr>pr_allowedCommands = filter (\<lambda>c. c \<noteq> []) (map trim_space cmds),
          pr_maxTimeoutSeconds = defaultMaxPluginTimeoutSeconds, pr_allowRelativeBinaries = True\<rparr>)"

record ProcessRunResult =
  po_Stdout :: string
  po_Stderr :: string
  po_ExitCode :: int
  po_Timeout :: bool

definition denied :: ProcessRunResult where
  "denied = \<lparr>po_Stdout = [], po_Stderr = [], po_ExitCode = -1, po_Timeout = False\<rparr>"

definition validateProcessPolicy :: "Plugin \<Rightarrow> go_error option" where
  "validateProcessPolicy p =
     (if trim_space (pl_NetworkPolicy p) \<noteq> [] \<and> trim_space (pl_NetworkPolicy p) \<noteq> ''none'' then
        Some (PlainError ''process runner cannot grant network access; use container or remote runner with explicit policy'')
      else if length (pl_Env p) > 0 then
        Some (PlainError ''process runner refuses inline environment variables; use secret references and runtime injection'')
      else None)"

definition sanitizeArgs :: "string list \<Rightarrow> go_error + string list" where
  "sanitizeArgs args = (if list_ex (\<lambda>a. contains a [CHR 0x00]) args
     then Inl (PlainError ''plugin argument contains invalid byte'') else Inr args)"

definition ensureDir :: "env \<Rightarrow> string \<Rightarrow> go_error option" where
  "ensureDir v dir = (case stat v dir of Inl err \<Rightarrow> Some err
     | Inr d \<Rightarrow> if d then None else Some (PlainError (''plugin workdir '' @ dir @ '' is not a directory'')))"

definition pathInside :: "env \<Rightarrow> string \<Rightarrow> string \<Rightarrow> bool" where
  "pathInside v root target =
     (case (Abs (work_dir v) root, Abs (work_dir v) target) of
        (Some absRoot, Some absTarget) \<Rightarrow>
          (case Rel absRoot absTarget of None \<Rightarrow> False
           | Some rel \<Rightarrow> rel = ''.'' \<or> \<not> has_prefix rel ''..'' \<and> \<not> is_abs rel)
      | _ \<Rightarrow> False)"

definition buildSafeCommand :: "env \<Rightarrow> ProcessRunner \<Rightarrow> Plugin \<Rightarrow> go_error + (string \<times> string list)" where
  "buildSafeCommand v r p =
     (let command = trim_space (pl_Command p) in
      if command = [] then Inl (PlainError ''plugin command is empty'')
      else if pl_WorkDir p = [] then Inl (PlainError ''plugin workdir is empty'')
      else case ensureDir v (pl_WorkDir p) of Some err \<Rightarrow> Inl err | None \<Rightarrow>
      if contains command [CHR 0x00] then Inl (PlainError ''plugin command contains invalid byte'')
      else if contains_any command [CHR ''/'', CHR 0x5C] then
        (if \<not> pr_allowRelativeBinaries r then Inl (PlainError ''plugin command path is not allowed'')
         else if is_abs command then Inl (PlainError ''absolute plugin command path is not allowed'')
         else let clean = Clean command in
           if has_prefix clean ''..'' then Inl (PlainError ''plugin command cannot escape plugin directory'')
           else let full = Join [pl_WorkDir p, clean] in
             if \<not> pathInside v (pl_WorkDir p) full
             then Inl (PlainError ''plugin command cannot escape plugin directory'')
             else (case sanitizeArgs (pl_Args p) of Inl err \<Rightarrow> Inl err | Inr args \<Rightarrow> Inr (full, args)))
      else if command \<notin> set (pr_allowedCommands r) then
        Inl (PlainError (''plugin command '' @ go_quote command @ '' is not allowed''))
      else (case sanitizeArgs (pl_Args p) of Inl err \<Rightarrow> Inl err | Inr args \<Rightarrow> Inr (command, args)))"

text \<open>Starting a child and collecting its output, the tail both runners share.\<close>

definition run_limited :: "command \<Rightarrow> int \<Rightarrow> (ProcessRunResult \<times> go_error option) prog_w" where
  "run_limited c maxOutputBytes = (\<lambda>w.
     let o1 = run_cmd (w_env w) (length (cmd_log w)) c;
         stdout = foldl buffer_Write (newLimitedBuffer maxOutputBytes) (co_Stdout o1);
         stderr = foldl buffer_Write (newLimitedBuffer maxOutputBytes) (co_Stderr o1);
         res = \<lparr>po_Stdout = lb_buf stdout, po_Stderr = lb_buf stderr,
                po_ExitCode = (case co_ExitCode o1 of None \<Rightarrow> 0 | Some k \<Rightarrow> k), po_Timeout = False\<rparr>;
         out = (if co_Deadline o1 then (res\<lparr>po_Timeout := True\<rparr>, None)
                else if lb_exceeded stdout \<or> lb_exceeded stderr
                  then (res, Some (PlainError ''plugin output exceeds max size''))
                else (res, co_Err o1))
     in (Inr out, w\<lparr>cmd_log := cmd_log w @ [c]\<rparr>))"

definition deny :: "go_error \<Rightarrow> (ProcessRunResult \<times> go_error option) prog_w" where
  "deny err = bindE IncSandboxDenial (\<lambda>_. retE (denied, Some err))"

definition effective_timeout :: "ProcessRunner \<Rightarrow> Plugin \<Rightarrow> int" where
  "effective_timeout r p =
     (let t = (if pl_TimeoutSeconds p \<le> 0 then 5 else pl_TimeoutSeconds p);
          m = (if pr_maxTimeoutSeconds r \<le> 0 then defaultMaxPluginTimeoutSeconds else pr_maxTimeoutSeconds r)
      in if t > m then m else t)"

definition RunProcessPlugin :: "ProcessRunner \<Rightarrow> Plugin \<Rightarrow> string \<Rightarrow> int \<Rightarrow> (ProcessRunResult \<times> go_error option) prog_w" where
  "RunProcessPlugin r p stdin maxOutputBytes =
     (case validateProcessPolicy p of Some err \<Rightarrow> deny err | None \<Rightarrow>
      let maxOutputBytes = (if maxOutputBytes \<le> 0 then 65536 else maxOutputBytes)
      in bindE (getE w_env) (\<lambda>v. case buildSafeCommand v r p of
           Inl err \<Rightarrow> deny err
         | Inr (command, args) \<Rightarrow> run_limited \<lparr>cm_Path = command, cm_Args = args, cm_Dir = pl_WorkDir p,
             cm_Stdin = stdin, cm_Timeout = wrap64 (effective_timeout r p * second)\<rparr> maxOutputBytes))"

section \<open>Container runner\<close>

record ContainerRunner =
  cr_enabled :: bool
  cr_docker :: string

definition NewContainerRunner :: "bool \<Rightarrow> ContainerRunner" where
  "NewContainerRunner enabled = \<lparr>cr_enabled = enabled, cr_docker = ''docker''\<rparr>"

definition dockerNetworkMode :: "string \<Rightarrow> string" where
  "dockerNetworkMode policy = (if policy = ''egress'' \<or> policy = ''host'' then ''bridge'' else ''none'')"

definition validateContainerImageRef :: "string \<Rightarrow> go_error option" where
  "validateContainerImageRef img =
     (if img = [] \<or> has_prefix img ''-'' \<or> contains_any img [CHR '' '', CHR 0x09, CHR 0x0D, CHR 0x0A, CHR 0x00]
      then Some (PlainError ''container image reference is unsafe'')
      else if contains img ''..''
      then Some (PlainError ''container image reference cannot contain traversal segments'') else None)"

definition safeContainerEnv :: "string \<Rightarrow> string \<Rightarrow> bool" where
  "safeContainerEnv k v \<longleftrightarrow>
     \<not> (k = [] \<or> contains_any k [CHR ''='', CHR 0x00, CHR 0x0D, CHR 0x0A] \<or> has_prefix k ''-'') \<and>
     \<not> contains_any v [CHR 0x00, CHR 0x0D, CHR 0x0A]"

fun env_args :: "(string \<times> string) list \<Rightarrow> go_error + string list" where
  "env_args [] = Inr []"
| "env_args ((k, v) # kvs) =
     (if \<not> safeContainerEnv k v then Inl (PlainError (''container env '' @ go_quote k @ '' is not safe''))
      else case env_args kvs of Inl e \<Rightarrow> Inl e | Inr as \<Rightarrow> Inr (''--env'' # (k @ ''='' @ v) # as))"

definition limit_args :: "Plugin \<Rightarrow> string list" where
  "limit_args p = (if pl_MemoryLimit p \<noteq> [] then [''--memory'', pl_MemoryLimit p] else []) @
     (if pl_CPULimit p \<noteq> [] then [''--cpus'', pl_CPULimit p] else []) @
     (if pl_PIDsLimit p > 0 then [''--pids-limit'', show_int (pl_PIDsLimit p)] else [])"

definition buildDockerArgs :: "env \<Rightarrow> Plugin \<Rightarrow> go_error + string list" where
  "buildDockerArgs v p =
     (let img = trim_space (pl_Image p) in
      if img = [] then Inl (PlainError ''container plugin image is empty'')
      else case validateContainerImageRef img of Some err \<Rightarrow> Inl err | None \<Rightarrow>
      if pl_WorkDir p = [] then Inl (PlainError ''plugin workdir is empty'')
      else case ensureDir v (pl_WorkDir p) of Some err \<Rightarrow> Inl err | None \<Rightarrow>
      (case Abs (work_dir v) (pl_WorkDir p) of None \<Rightarrow> Inl (PlainError ''getwd'') | Some absWorkDir \<Rightarrow>
      (case env_args (pl_Env p) of Inl err \<Rightarrow> Inl err | Inr envs \<Rightarrow>
      (case sanitizeArgs (pl_Args p) of Inl err \<Rightarrow> Inl err | Inr pluginArgs \<Rightarrow>
        Inr ([''run'', ''--rm'', ''-i'', ''--read-only'', ''--network'', dockerNetworkMode (pl_NetworkPolicy p),
              ''--workdir'', ''/work'', ''-v'', absWorkDir @ '':/work:ro''] @ limit_args p @ envs @ [img] @ pluginArgs)))))"

definition RunContainerPlugin :: "ContainerRunner option \<Rightarrow> Plugin \<Rightarrow> string \<Rightarrow> int \<Rightarrow> (ProcessRunResult \<times> go_error option) prog_w" where
  "RunContainerPlugin r p stdin maxOutputBytes =
     (case r of None \<Rightarrow> deny (PlainError ''container runtime is disabled'')
      | Some c \<Rightarrow>
        if \<not> cr_enabled c then deny (PlainError ''container runtime is disabled'')
        else let maxOutputBytes = (if maxOutputBytes \<le> 0 then 65536 else maxOutputBytes);
                 timeout = (if pl_TimeoutSeconds p \<le> 0 then 5 else pl_TimeoutSeconds p)
        in bindE (getE w_env) (\<lambda>v. case buildDockerArgs v p of
             Inl err \<Rightarrow> deny err
           | Inr args \<Rightarrow> run_limited \<lparr>cm_Path = cr_docker c, cm_Args = args, cm_Dir = [],
               cm_Stdin = stdin, cm_Timeout = wrap64 (timeout * second)\<rparr> maxOutputBytes))"

section \<open>What a plugin answers\<close>

record PluginOutput =
  out_Success :: bool
  out_Data :: "jobj option"
  out_Error :: string
  out_Metrics :: "jobj option"

text \<open>
  \<^verbatim>\<open>json.Unmarshal\<close> into the struct: \<open>null\<close> leaves it zero, keys match without regard to
  (ASCII) case, a later duplicate overwrites (for a map: adds to) an earlier one, unknown
  keys are ignored, and a value of the wrong type is an error.
\<close>

definition merge_map :: "jobj option \<Rightarrow> jobj \<Rightarrow> jobj option" where
  "merge_map m o1 = Some (filter (\<lambda>(k, v). k \<notin> fst ` set o1) (case m of None \<Rightarrow> [] | Some d \<Rightarrow> d) @ o1)"

definition decode_field :: "string \<times> jval \<Rightarrow> PluginOutput \<Rightarrow> PluginOutput option" where
  "decode_field kv po = (case kv of (k, v) \<Rightarrow>
     let f = to_lower k in
     if f = ''success'' then (case v of JBool b \<Rightarrow> Some (po\<lparr>out_Success := b\<rparr>) | JNull \<Rightarrow> Some po | _ \<Rightarrow> None)
     else if f = ''error'' then (case v of JStr s \<Rightarrow> Some (po\<lparr>out_Error := s\<rparr>) | JNull \<Rightarrow> Some po | _ \<Rightarrow> None)
     else if f = ''data'' then (case v of JObj o1 \<Rightarrow> Some (po\<lparr>out_Data := merge_map (out_Data po) o1\<rparr>)
       | JNull \<Rightarrow> Some (po\<lparr>out_Data := None\<rparr>) | _ \<Rightarrow> None)
     else if f = ''metrics'' then (case v of JObj o1 \<Rightarrow> Some (po\<lparr>out_Metrics := merge_map (out_Metrics po) o1\<rparr>)
       | JNull \<Rightarrow> Some (po\<lparr>out_Metrics := None\<rparr>) | _ \<Rightarrow> None)
     else Some po)"

definition decode_output :: "jval \<Rightarrow> PluginOutput option" where
  "decode_output v =
     (let zero = \<lparr>out_Success = False, out_Data = None, out_Error = [], out_Metrics = None\<rparr>
      in case v of JNull \<Rightarrow> Some zero
       | JObj o1 \<Rightarrow> foldl (\<lambda>r kv. case r of None \<Rightarrow> None | Some po \<Rightarrow> decode_field kv po) (Some zero) o1
       | _ \<Rightarrow> None)"

section \<open>Running one plugin\<close>

record RuntimeService =
  rt_runner :: ProcessRunner
  rt_container :: "ContainerRunner option"
  rt_maxOutputBytes :: int
  rt_secretProvider :: "Provider option"

definition preparePluginForRuntime :: "RuntimeService \<Rightarrow> Plugin \<Rightarrow> go_error + Plugin" where
  "preparePluginForRuntime S p =
     (if length (pl_Env p) > 0 \<and> length (pl_SecretRefs p) = 0 then
        Inl (PlainError ''inline environment variables are not allowed; use runtime.secretRefs'')
      else if length (pl_SecretRefs p) = 0 then Inr p
      else if pl_EntryType p \<noteq> ''container'' then
        Inl (PlainError ''secret injection is only enabled for container runtime in the enterprise contract'')
      else case ResolveEnv (rt_secretProvider S) (Plugin_Scope p) (pl_SecretRefs p) of
        Inl err \<Rightarrow> Inl err
      | Inr e \<Rightarrow> Inr (p\<lparr>pl_Env := e\<rparr>))"

definition plugin_stdin :: "env \<Rightarrow> Execution \<Rightarrow> Plugin \<Rightarrow> string \<Rightarrow> string" where
  "plugin_stdin v e p requestID = (case json_text v (JObj
      [(''execution_id'', JStr (ex_ID e)), (''plugin_id'', JStr (pl_ID p)), (''request_id'', JStr requestID),
       (''input'', case ex_InputJSON e of None \<Rightarrow> JNull | Some o1 \<Rightarrow> JObj o1),
       (''metadata'', JObj [(''plugin_name'', JStr (pl_Name p)), (''plugin_version'', JStr (pl_Version p))])])
     of Inl _ \<Rightarrow> [] | Inr b \<Rightarrow> b)"

text \<open>The result from what the runner returned.\<close>

definition classify :: "env \<Rightarrow> ExecutionResult \<Rightarrow> ProcessRunResult \<times> go_error option \<Rightarrow> ExecutionResult" where
  "classify v res pe = (case pe of (pout, err) \<Rightarrow>
     let res = res\<lparr>rs_ExitCode := po_ExitCode pout, rs_StdoutPreview := SanitizePreview (po_Stdout pout) 2048,
                   rs_StderrPreview := SanitizePreview (po_Stderr pout) 2048\<rparr>
     in if po_Timeout pout then res\<lparr>rs_Status := PluginResultTimeout, rs_ErrorMessage := ''plugin timeout''\<rparr>
        else (case err of
          Some x \<Rightarrow> res\<lparr>rs_Status := PluginResultRuntimeError, rs_ErrorMessage := error_text x\<rparr>
        | None \<Rightarrow>
          (case Option.bind (json_parse v (po_Stdout pout)) decode_output of
             None \<Rightarrow> res\<lparr>rs_Status := PluginResultInvalidOutput, rs_ErrorMessage := ''plugin output is not valid json''\<rparr>
           | Some po \<Rightarrow>
               if \<not> out_Success po then res\<lparr>rs_Status := PluginResultFailed,
                 rs_ErrorMessage := (if out_Error po \<noteq> [] then out_Error po else ''plugin returned failure'')\<rparr>
               else res\<lparr>rs_Status := PluginResultSuccess, rs_OutputJSON := out_Data po\<rparr>)))"

definition run_prepared :: "RuntimeService \<Rightarrow> Execution \<Rightarrow> Plugin \<Rightarrow> string \<Rightarrow> ExecutionResult \<Rightarrow> ExecutionResult prog_w" where
  "run_prepared S e p requestID res = bindE (getE w_env) (\<lambda>v.
     case preparePluginForRuntime S p of
       Inl err \<Rightarrow> retE (res\<lparr>rs_Status := PluginResultRuntimeError, rs_ErrorMessage := error_text err\<rparr>)
     | Inr q \<Rightarrow> bindE
         (if pl_EntryType q = ''container''
          then RunContainerPlugin (rt_container S) q (plugin_stdin v e p requestID) (rt_maxOutputBytes S)
          else RunProcessPlugin (rt_runner S) q (plugin_stdin v e p requestID) (rt_maxOutputBytes S))
         (\<lambda>pe. retE (classify v res pe)))"

definition RunOnePluginWithEvents :: "RuntimeService \<Rightarrow> Execution \<Rightarrow> Plugin \<Rightarrow> string \<Rightarrow> bool \<Rightarrow> ExecutionResult prog_w" where
  "RunOnePluginWithEvents S e p requestID events =
     bindE time_now (\<lambda>start. bindE (newID ''result'') (\<lambda>i.
     let res = \<lparr>rs_TenantID = [], rs_ProjectID = [], rs_ID = i, rs_ExecutionID = ex_ID e, rs_PluginID = pl_ID p,
           rs_PluginName = pl_Name p, rs_Status = PluginResultRaw [], rs_OutputJSON = None, rs_ErrorMessage = [],
           rs_StdoutPreview = [], rs_StderrPreview = [], rs_ExitCode = -1, rs_DurationMS = 0,
           rs_StartedAt = start, rs_FinishedAt = 0\<rparr>
     in bindE (IncPluginStarted (pl_Name p)) (\<lambda>_.
        bindE (if events then Event_Record (ex_ID e) (pl_ID p) ExecutionEventPluginStarted [] ''plugin started'' requestID
            (Some [(''plugin_name'', JStr (pl_Name p)), (''plugin_version'', JStr (pl_Version p))]) else retE ()) (\<lambda>_.
        bindE (run_prepared S e p requestID res) (\<lambda>res.
        bindE time_now (\<lambda>fin.
        let dur = go_div (fin - start) 1000000;
            res = res\<lparr>rs_FinishedAt := fin, rs_DurationMS := dur\<rparr>
        in bindE (IncPluginCompleted (rs_Status res)) (\<lambda>_.
           bindE (if events then Event_Record (ex_ID e) (pl_ID p) ExecutionEventPluginFinished
              (PluginResultStatus_text (rs_Status res)) ''plugin finished'' requestID
              (Some [(''duration_ms'', JNum (show_int dur)), (''error'', JStr (rs_ErrorMessage res))]) else retE ()) (\<lambda>_.
           retE res))))))))"

definition RunPlugins :: "RuntimeService \<Rightarrow> Execution \<Rightarrow> Plugin list \<Rightarrow> string \<Rightarrow> bool \<Rightarrow> ExecutionResult list prog_w" where
  "RunPlugins S e ps requestID events = mapE (\<lambda>p. RunOnePluginWithEvents S e p requestID events) ps"

end
