(* ===== verification/RuntimeSpec.thy ===== *)
theory RuntimeSpec
  imports Runtime
begin

text \<open>
  What \<open>Runtime\<close> guarantees: the output buffer keeps a bounded prefix, a process plugin can
  only start an allow-listed command or a file below its own directory, a container plugin
  only a read-only container without network unless its policy asks for one, and every plugin
  yields exactly one classified result.
\<close>

section \<open>The bounded buffer\<close>

definition buffer_of :: "int \<Rightarrow> string list \<Rightarrow> limitedBuffer" where
  "buffer_of limit chunks = foldl buffer_Write (newLimitedBuffer limit) chunks"

lemma buffer_Write_inv:
  assumes "p \<noteq> []" and "lb_limit b = int n" and "lb_buf b = take n s" and "lb_exceeded b \<longleftrightarrow> n < length s"
  shows "lb_limit (buffer_Write b p) = int n \<and> lb_buf (buffer_Write b p) = take n (s @ p) \<and>
    (lb_exceeded (buffer_Write b p) \<longleftrightarrow> n < length (s @ p))"
proof (cases "n \<le> length s")
  case True
  with assms show ?thesis by (auto simp: buffer_Write_def)
next
  case False
  with assms have "int (length p) > int n - int (length s) \<longleftrightarrow> n < length s + length p" by auto
  with False assms show ?thesis by (auto simp: buffer_Write_def Let_def nat_diff_distrib min_def)
qed

lemma buffer_of_inv:
  assumes "\<forall>p \<in> set chunks. p \<noteq> []" and "0 < limit"
  shows "lb_limit (buffer_of limit chunks) = limit \<and>
    lb_buf (buffer_of limit chunks) = take (nat limit) (concat chunks) \<and>
    (lb_exceeded (buffer_of limit chunks) \<longleftrightarrow> nat limit < length (concat chunks))"
  using assms(1)
proof (induction chunks rule: rev_induct)
  case Nil
  then show ?case using assms(2) by (simp add: buffer_of_def newLimitedBuffer_def)
next
  case (snoc p ps)
  then have "lb_limit (buffer_of limit ps) = int (nat limit)" using assms(2) by simp
  from buffer_Write_inv [OF _ this, of p "concat ps"] snoc assms(2)
  show ?case by (simp add: buffer_of_def)
qed

text \<open>
  C36. Whatever a child writes, in whatever chunks, at most the limit is kept, it is exactly the
  beginning of the output, and the overflow flag tells whether anything was dropped.
\<close>

theorem limitedBuffer_prefix:
  assumes "\<forall>p \<in> set chunks. p \<noteq> []"
  shows "let n = (if limit \<le> 0 then 65536 else nat limit); b = foldl buffer_Write (newLimitedBuffer limit) chunks
    in lb_buf b = take n (concat chunks) \<and> lb_exceeded b = (n < length (concat chunks))"
proof (cases "limit \<le> 0")
  case True
  then have "newLimitedBuffer limit = newLimitedBuffer 65536" by (simp add: newLimitedBuffer_def)
  with True buffer_of_inv [OF assms, of 65536] show ?thesis by (simp add: buffer_of_def)
next
  case False
  with buffer_of_inv [OF assms, of limit] show ?thesis by (simp add: buffer_of_def)
qed

theorem limitedBuffer_prefix_witness:
  "lb_buf (foldl buffer_Write (newLimitedBuffer 3) [''ab'', ''cd'']) = ''abc''"
  using limitedBuffer_prefix [of "[''ab'', ''cd'']" 3] by (simp add: Let_def)

section \<open>What may be started\<close>

text \<open>What both runners keep of each output stream.\<close>

definition output_limit :: "int \<Rightarrow> int" where
  "output_limit m = (if m \<le> 0 then 65536 else m)"

definition below :: "env \<Rightarrow> string \<Rightarrow> string \<Rightarrow> bool" where
  "below v root target \<longleftrightarrow> (\<exists>r t rs. Abs (work_dir v) root = Some r \<and> Abs (work_dir v) target = Some t \<and>
     comps t = comps r @ rs)"

lemma Rel_dot:
  assumes "Rel base targ = Some ''.''"
  shows "\<exists>rs. comps targ = comps base @ rs"
  using assms by (rule Rel_below) (simp add: has_prefix_def)

lemma pathInside_below: "pathInside v root target \<Longrightarrow> below v root target"
  unfolding pathInside_def below_def
  by (auto split: option.splits dest: Rel_below Rel_dot)

lemma buildSafeCommand_ok:
  assumes "buildSafeCommand v r p = Inr (c, args)"
  shows "args = pl_Args p \<and> list_all (\<lambda>a. \<not> contains a [CHR 0x00]) args \<and>
    (c = trim_space (pl_Command p) \<and> c \<in> set (pr_allowedCommands r) \<and> \<not> contains_any c [CHR ''/'', CHR 0x5C] \<or>
     below v (pl_WorkDir p) c)"
  using assms pathInside_below
  by (auto simp: buildSafeCommand_def sanitizeArgs_def Let_def list_all_iff list_ex_iff
      split: if_splits option.splits sum.splits)

lemma effective_timeout_bounds:
  "1 \<le> effective_timeout (NewProcessRunner cmds) p \<and> effective_timeout (NewProcessRunner cmds) p \<le> 30"
  by (auto simp: effective_timeout_def NewProcessRunner_def defaultMaxPluginTimeoutSeconds_def Let_def)

lemma deny_run [simp]:
  "deny err w = (Inr (denied, Some err), snd (IncSandboxDenial w))"
  by (simp add: deny_def IncSandboxDenial_def add_metric_run)

lemma IncSandboxDenial_log [simp]: "cmd_log (snd (IncSandboxDenial w)) = cmd_log w"
  by (simp add: IncSandboxDenial_def add_metric_def)

lemma run_limited_log [simp]: "cmd_log (snd (run_limited c m w)) = cmd_log w @ [c]"
  by (simp add: run_limited_def Let_def)

lemma run_limited_Inr: "\<exists>x. run_limited c m w = (Inr x, w\<lparr>cmd_log := cmd_log w @ [c]\<rparr>)"
  by (simp add: run_limited_def Let_def)

text \<open>
  C21. A process plugin starts at most one child, and only one that its sandbox rules allow: no
  network policy beyond \<^verbatim>\<open>none\<close> and no inline environment, the plugin's own arguments without
  NUL bytes, a command that is either on the runner's allow list or a file below the plugin's
  directory, that directory as working directory, and a time limit of 1 to 30 seconds.
\<close>

theorem RunProcessPlugin_confined:
  "case RunProcessPlugin (NewProcessRunner cmds) p stdin m w of (r, t) \<Rightarrow>
     cmd_log t = cmd_log w \<or>
     (\<exists>c. cmd_log t = cmd_log w @ [c] \<and>
       trim_space (pl_NetworkPolicy p) \<in> {[], ''none''} \<and> pl_Env p = [] \<and>
       cm_Args c = pl_Args p \<and> list_all (\<lambda>a. \<not> contains a [CHR 0x00]) (cm_Args c) \<and>
       (cm_Path c \<in> set (pr_allowedCommands (NewProcessRunner cmds)) \<or> below (w_env w) (pl_WorkDir p) (cm_Path c)) \<and>
       cm_Dir c = pl_WorkDir p \<and> cm_Stdin c = stdin \<and>
       second \<le> cm_Timeout c \<and> cm_Timeout c \<le> 30 * second)"
proof -
  let ?R = "NewProcessRunner cmds"
  let ?m = "if m \<le> 0 then 65536 else m"
  obtain r t where rt: "RunProcessPlugin ?R p stdin m w = (r, t)" by (cases "RunProcessPlugin ?R p stdin m w")
  show ?thesis
  proof (cases "validateProcessPolicy p")
    case (Some err)
    then have "t = snd (IncSandboxDenial w)" using rt by (simp add: RunProcessPlugin_def)
    then show ?thesis by (simp add: rt)
  next
    case None
    then have pol: "trim_space (pl_NetworkPolicy p) \<in> {[], ''none''}" "pl_Env p = []"
      by (auto simp: validateProcessPolicy_def split: if_splits)
    show ?thesis
    proof (cases "buildSafeCommand (w_env w) ?R p")
      case (Inl err)
      then have "t = snd (IncSandboxDenial w)" using rt None by (simp add: RunProcessPlugin_def Let_def output_limit_def)
      then show ?thesis by (simp add: rt)
    next
      case (Inr ca)
      obtain c args where ca: "ca = (c, args)" by (cases ca)
      let ?c = "\<lparr>cm_Path = c, cm_Args = args, cm_Dir = pl_WorkDir p, cm_Stdin = stdin,
          cm_Timeout = wrap64 (effective_timeout ?R p * second)\<rparr>"
      have "RunProcessPlugin ?R p stdin m w = run_limited ?c (output_limit m) w"
        using None Inr ca by (simp add: RunProcessPlugin_def Let_def output_limit_def)
      then have "cmd_log t = cmd_log w @ [?c]" using rt by (metis run_limited_log snd_conv)
      moreover have "wrap64 (effective_timeout ?R p * second) = effective_timeout ?R p * second"
        using effective_timeout_bounds [of cmds p] by (intro wrap64_id) (auto simp: second_def)
      ultimately show ?thesis
        using pol buildSafeCommand_ok [OF Inr [unfolded ca]] effective_timeout_bounds [of cmds p]
        by (auto simp: rt second_def)
    qed
  qed
qed

section \<open>Containers\<close>

lemma env_args_ok:
  "env_args kvs = Inr as \<Longrightarrow> as = concat (map (\<lambda>(k, v). [''--env'', k @ ''='' @ v]) kvs) \<and>
     (\<forall>(k, v) \<in> set kvs. safeContainerEnv k v)"
  by (induction kvs arbitrary: as rule: env_args.induct) (auto split: if_splits sum.splits)


section \<open>Results\<close>

lemma RunProcess_total: "\<exists>x t. RunProcessPlugin r p stdin m w = (Inr x, t) \<and>
    (cmd_log t = cmd_log w \<and> snd x \<noteq> None \<and> \<not> po_Timeout (fst x) \<or>
     (\<exists>c. cm_Stdin c = stdin \<and> (Inr x, t) = run_limited c (output_limit m) w))"
proof (cases "validateProcessPolicy p")
  case (Some err)
  then show ?thesis by (simp add: RunProcessPlugin_def denied_def)
next
  case None
  show ?thesis
  proof (cases "buildSafeCommand (w_env w) r p")
    case (Inl err)
    with None show ?thesis by (simp add: RunProcessPlugin_def denied_def)
  next
    case (Inr ca)
    obtain c args where ca: "ca = (c, args)" by (cases ca)
    let ?c = "\<lparr>cm_Path = c, cm_Args = args, cm_Dir = pl_WorkDir p, cm_Stdin = stdin,
          cm_Timeout = wrap64 (effective_timeout r p * second)\<rparr>"
    have "RunProcessPlugin r p stdin m w = run_limited ?c (output_limit m) w"
      using None Inr ca by (simp add: RunProcessPlugin_def Let_def output_limit_def)
    moreover obtain x where "run_limited ?c (output_limit m) w = (Inr x, w\<lparr>cmd_log := cmd_log w @ [?c]\<rparr>)"
      using run_limited_Inr by blast
    ultimately show ?thesis by (metis (no_types, lifting) command.select_convs(4))
  qed
qed

lemma RunContainer_total: "\<exists>x t. RunContainerPlugin r p stdin m w = (Inr x, t) \<and>
    (cmd_log t = cmd_log w \<and> snd x \<noteq> None \<and> \<not> po_Timeout (fst x) \<or>
     (\<exists>c. cm_Stdin c = stdin \<and> (Inr x, t) = run_limited c (output_limit m) w))"
proof (cases "\<exists>c. r = Some c \<and> cr_enabled c")
  case False
  then show ?thesis by (cases r) (auto simp: RunContainerPlugin_def denied_def)
next
  case True
  then obtain e where e: "r = Some e" "cr_enabled e" by blast
  show ?thesis
  proof (cases "buildDockerArgs (w_env w) p")
    case (Inl err)
    with e show ?thesis by (simp add: RunContainerPlugin_def Let_def denied_def)
  next
    case (Inr args)
    let ?c = "\<lparr>cm_Path = cr_docker e, cm_Args = args, cm_Dir = [], cm_Stdin = stdin,
        cm_Timeout = wrap64 ((if pl_TimeoutSeconds p \<le> 0 then 5 else pl_TimeoutSeconds p) * second)\<rparr>"
    have "RunContainerPlugin r p stdin m w = run_limited ?c (output_limit m) w"
      using Inr e by (simp add: RunContainerPlugin_def Let_def output_limit_def)
    moreover obtain x where "run_limited ?c (output_limit m) w = (Inr x, w\<lparr>cmd_log := cmd_log w @ [?c]\<rparr>)"
      using run_limited_Inr by blast
    ultimately show ?thesis by (metis (no_types, lifting) command.select_convs(4))
  qed
qed

text \<open>What it takes for a run to count as a success.\<close>

definition succeeded :: "env \<Rightarrow> int \<Rightarrow> nat \<Rightarrow> command \<Rightarrow> ExecutionResult \<Rightarrow> bool" where
  "succeeded v k n c res \<longleftrightarrow> (\<exists>po. let o1 = run_cmd v n c in
     \<not> co_Deadline o1 \<and> co_Err o1 = None \<and>
     \<not> lb_exceeded (foldl buffer_Write (newLimitedBuffer k) (co_Stdout o1)) \<and>
     \<not> lb_exceeded (foldl buffer_Write (newLimitedBuffer k) (co_Stderr o1)) \<and>
     Option.bind (json_parse v (lb_buf (foldl buffer_Write (newLimitedBuffer k) (co_Stdout o1)))) decode_output = Some po \<and>
     out_Success po \<and> rs_OutputJSON res = out_Data po)"

lemma classify_status:
  "rs_Status (classify v res pe) \<in> {PluginResultSuccess, PluginResultFailed, PluginResultTimeout,
     PluginResultInvalidOutput, PluginResultRuntimeError}"
  "rs_PluginID (classify v res pe) = rs_PluginID res" "rs_ExecutionID (classify v res pe) = rs_ExecutionID res"
  "rs_StdoutPreview (classify v res pe) = SanitizePreview (po_Stdout (fst pe)) 2048"
  "rs_StderrPreview (classify v res pe) = SanitizePreview (po_Stderr (fst pe)) 2048"
  by (auto simp: classify_def Let_def split: prod.splits option.splits)

lemma classify_success:
  assumes "rs_Status (classify v res pe) = PluginResultSuccess"
  shows "\<not> po_Timeout (fst pe) \<and> snd pe = None \<and>
    (\<exists>po. Option.bind (json_parse v (po_Stdout (fst pe))) decode_output = Some po \<and> out_Success po \<and>
      rs_OutputJSON (classify v res pe) = out_Data po)"
  using assms by (auto simp: classify_def Let_def split: prod.splits option.splits if_splits)

lemma run_prepared_result:
  "\<exists>q t. run_prepared S e p rq res w = (Inr q, t) \<and> rs_PluginID q = rs_PluginID res \<and> rs_ExecutionID q = rs_ExecutionID res \<and>
    rs_Status q \<in> {PluginResultSuccess, PluginResultFailed, PluginResultTimeout,
     PluginResultInvalidOutput, PluginResultRuntimeError} \<and>
    (rs_Status q = PluginResultSuccess \<longrightarrow>
       (\<exists>c. cmd_log t = cmd_log w @ [c] \<and> cm_Stdin c = plugin_stdin (w_env w) e p rq \<and>
          succeeded (w_env w) (output_limit (rt_maxOutputBytes S)) (length (cmd_log w)) c q))"
proof (cases "preparePluginForRuntime S p")
  case (Inl err)
  then show ?thesis by (simp add: run_prepared_def)
next
  case (Inr q)
  let ?m = "if pl_EntryType q = ''container''
          then RunContainerPlugin (rt_container S) q (plugin_stdin (w_env w) e p rq) (rt_maxOutputBytes S)
          else RunProcessPlugin (rt_runner S) q (plugin_stdin (w_env w) e p rq) (rt_maxOutputBytes S)"
  have "\<exists>x t. ?m w = (Inr x, t) \<and> (cmd_log t = cmd_log w \<and> snd x \<noteq> None \<and> \<not> po_Timeout (fst x) \<or>
      (\<exists>c. cm_Stdin c = plugin_stdin (w_env w) e p rq \<and> (Inr x, t) = run_limited c (output_limit (rt_maxOutputBytes S)) w))"
  proof (cases "pl_EntryType q = ''container''")
    case True
    show ?thesis unfolding if_P [OF True] by (rule RunContainer_total)
  next
    case False
    show ?thesis unfolding if_not_P [OF False] by (rule RunProcess_total)
  qed
  then obtain x t where run: "?m w = (Inr x, t)"
    and out: "cmd_log t = cmd_log w \<and> snd x \<noteq> None \<and> \<not> po_Timeout (fst x) \<or>
      (\<exists>c. cm_Stdin c = plugin_stdin (w_env w) e p rq \<and> (Inr x, t) = run_limited c (output_limit (rt_maxOutputBytes S)) w)" by blast
  let ?r = "classify (w_env w) res x"
  have eq: "run_prepared S e p rq res w = (Inr ?r, t)" using Inr run by (simp add: run_prepared_def)
  have "\<exists>c. cmd_log t = cmd_log w @ [c] \<and> cm_Stdin c = plugin_stdin (w_env w) e p rq \<and>
      succeeded (w_env w) (output_limit (rt_maxOutputBytes S)) (length (cmd_log w)) c ?r"
    if s: "rs_Status ?r = PluginResultSuccess"
  proof -
    from classify_success [OF s] out obtain c where
      c: "cm_Stdin c = plugin_stdin (w_env w) e p rq" "(Inr x, t) = run_limited c (output_limit (rt_maxOutputBytes S)) w" by auto
    from c(2) have "cmd_log t = cmd_log w @ [c]" by (metis run_limited_log snd_conv)
    moreover have "succeeded (w_env w) (output_limit (rt_maxOutputBytes S)) (length (cmd_log w)) c ?r"
      using classify_success [OF s] c
      by (auto simp: succeeded_def run_limited_def Let_def split: if_splits)
    ultimately show ?thesis using c(1) by blast
  qed
  with eq classify_status show ?thesis by auto
qed

lemma Event_Record_frame:
  "\<exists>t. Event_Record i p ty st m rq d w = (Inr (), t) \<and> cmd_log t = cmd_log w \<and> w_env t = w_env w"
proof -
  obtain r t where e: "Event_Record i p ty st m rq d w = (r, t)" by (cases "Event_Record i p ty st m rq d w")
  from evolvesD [OF observes_Event_Record _ e] have "observes w t" by simp
  moreover have "r = Inr ()"
    using e by (auto simp: Event_Record_def newID_run time_now_run tryE_run Let_def Bus_Publish_def split: if_splits)
  ultimately show ?thesis using e by (simp add: observes_def)
qed

lemma RunOnePlugin_result:
  "\<exists>q t. RunOnePluginWithEvents S e p rq ev w = (Inr q, t) \<and> rs_PluginID q = pl_ID p \<and> rs_ExecutionID q = ex_ID e \<and>
    rs_Status q \<in> {PluginResultSuccess, PluginResultFailed, PluginResultTimeout,
     PluginResultInvalidOutput, PluginResultRuntimeError} \<and>
    (rs_Status q = PluginResultSuccess \<longrightarrow>
       (\<exists>c. cmd_log t = cmd_log w @ [c] \<and> cm_Stdin c = plugin_stdin (w_env w) e p rq \<and>
          succeeded (w_env w) (output_limit (rt_maxOutputBytes S)) (length (cmd_log w)) c q))"
proof -
  let ?n = "clock (w_env w) (now_ix w)" and ?i = "''result_'' @ id_text (w_env w) (id_ix w)"
  let ?res = "\<lparr>rs_TenantID = [], rs_ProjectID = [], rs_ID = ?i, rs_ExecutionID = ex_ID e, rs_PluginID = pl_ID p,
           rs_PluginName = pl_Name p, rs_Status = PluginResultRaw [], rs_OutputJSON = None, rs_ErrorMessage = [],
           rs_StdoutPreview = [], rs_StderrPreview = [], rs_ExitCode = -1, rs_DurationMS = 0,
           rs_StartedAt = ?n, rs_FinishedAt = 0\<rparr>"
  let ?w = "snd (IncPluginStarted (pl_Name p) (w\<lparr>now_ix := Suc (now_ix w), id_ix := Suc (id_ix w)\<rparr>))"
  let ?a = "if ev then Event_Record (ex_ID e) (pl_ID p) ExecutionEventPluginStarted [] ''plugin started'' rq
            (Some [(''plugin_name'', JStr (pl_Name p)), (''plugin_version'', JStr (pl_Version p))]) else retE ()"
  have "\<exists>t. ?a ?w = (Inr (), t) \<and> cmd_log t = cmd_log ?w \<and> w_env t = w_env ?w"
    using Event_Record_frame by simp
  then obtain u where u: "?a ?w = (Inr (), u)" "cmd_log u = cmd_log w" "w_env u = w_env w"
    by (auto simp: inc_defs add_metric_run)
  from run_prepared_result [of S e p rq ?res u] obtain q x
    where q: "run_prepared S e p rq ?res u = (Inr q, x)" "rs_PluginID q = pl_ID p" "rs_ExecutionID q = ex_ID e"
      "rs_Status q \<in> {PluginResultSuccess, PluginResultFailed, PluginResultTimeout,
         PluginResultInvalidOutput, PluginResultRuntimeError}"
      "rs_Status q = PluginResultSuccess \<longrightarrow> (\<exists>c. cmd_log x = cmd_log w @ [c] \<and>
         cm_Stdin c = plugin_stdin (w_env w) e p rq \<and>
         succeeded (w_env w) (output_limit (rt_maxOutputBytes S)) (length (cmd_log w)) c q)"
    using u by auto
  let ?f = "clock (w_env x) (now_ix x)"
  let ?d = "go_div (?f - rs_StartedAt q) 1000000"
  let ?q = "q\<lparr>rs_FinishedAt := ?f, rs_DurationMS := go_div (?f - ?n) 1000000\<rparr>"
  let ?x = "snd (IncPluginCompleted (rs_Status q) (x\<lparr>now_ix := Suc (now_ix x)\<rparr>))"
  let ?b = "if ev then Event_Record (ex_ID e) (pl_ID p) ExecutionEventPluginFinished
              (PluginResultStatus_text (rs_Status q)) ''plugin finished'' rq
              (Some [(''duration_ms'', JNum (show_int (go_div (?f - ?n) 1000000))), (''error'', JStr (rs_ErrorMessage q))]) else retE ()"
  have "\<exists>t. ?b ?x = (Inr (), t) \<and> cmd_log t = cmd_log ?x \<and> w_env t = w_env ?x"
    using Event_Record_frame by simp
  then obtain t where t: "?b ?x = (Inr (), t)" "cmd_log t = cmd_log x"
    by (auto simp: inc_defs add_metric_run)
  have "RunOnePluginWithEvents S e p rq ev w = (Inr ?q, t)"
    using u(1) q(1) t(1)
    by (cases ev) (simp_all add: RunOnePluginWithEvents_def time_now_run newID_run Let_def inc_defs add_metric_run)
  moreover have "succeeded v k n c ?q = succeeded v k n c q" for v k n c
    by (simp add: succeeded_def)
  ultimately show ?thesis using q t(2) by auto
qed

text \<open>
  C23. A plugin is only reported successful if a child really ran for it, on the request of this
  task, and did its part: it ended in time and without error, both its outputs stayed within the
  service's limit, and what it wrote parses to a plugin output that says \<^verbatim>\<open>success\<close>; the stored output is that output's data.
\<close>

theorem RunOnePlugin_success_sound:
  assumes "RunOnePluginWithEvents S e p rq ev w = (Inr q, t)" and "rs_Status q = PluginResultSuccess"
  shows "\<exists>c. cmd_log t = cmd_log w @ [c] \<and> cm_Stdin c = plugin_stdin (w_env w) e p rq \<and>
    succeeded (w_env w) (output_limit (rt_maxOutputBytes S)) (length (cmd_log w)) c q"
  using RunOnePlugin_result [of S e p rq ev w] assms by auto

text \<open>
  Running the plugins of a task never fails as a whole: every plugin, in order, yields
  exactly one result for this task, with one of the five outcome statuses.
\<close>

theorem RunPlugins_total:
  "\<exists>rs t. RunPlugins S e ps rq ev w = (Inr rs, t) \<and> map rs_PluginID rs = map pl_ID ps \<and>
    list_all (\<lambda>r. rs_ExecutionID r = ex_ID e \<and> rs_Status r \<in> {PluginResultSuccess, PluginResultFailed,
      PluginResultTimeout, PluginResultInvalidOutput, PluginResultRuntimeError}) rs"
  unfolding RunPlugins_def
proof (induction ps arbitrary: w)
  case Nil then show ?case by simp
next
  case (Cons p ps)
  from RunOnePlugin_result [of S e p rq ev w] obtain q u
    where q: "RunOnePluginWithEvents S e p rq ev w = (Inr q, u)" "rs_PluginID q = pl_ID p" "rs_ExecutionID q = ex_ID e"
      "rs_Status q \<in> {PluginResultSuccess, PluginResultFailed, PluginResultTimeout,
         PluginResultInvalidOutput, PluginResultRuntimeError}" by blast
  from Cons.IH [of u] obtain rs t
    where "mapE (\<lambda>p. RunOnePluginWithEvents S e p rq ev) ps u = (Inr rs, t)" "map rs_PluginID rs = map pl_ID ps"
      "list_all (\<lambda>r. rs_ExecutionID r = ex_ID e \<and> rs_Status r \<in> {PluginResultSuccess, PluginResultFailed,
      PluginResultTimeout, PluginResultInvalidOutput, PluginResultRuntimeError}) rs" by blast
  with q show ?case by simp
qed

section \<open>Running plugins only starts children and observes\<close>

lemma run_limited_ran: "evolves always ran (run_limited c m)"
  by (simp add: evolves_def run_limited_def ran_def observes_def Let_def)

lemma deny_observes [observing]: "evolves always observes (deny err)"
  unfolding deny_def IncSandboxDenial_def by (intro observing)

lemma RunProcess_ran: "evolves always ran (RunProcessPlugin r p stdin m)"
  unfolding RunProcessPlugin_def Let_def
  by (intro rans.opt rans.bind rans.gets rans.sum rans.pair run_limited_ran) (intro observing_ran observing)+

lemma RunContainer_ran: "evolves always ran (RunContainerPlugin r p stdin m)"
  unfolding RunContainerPlugin_def Let_def
  by (intro rans.opt rans.cond rans.bind rans.gets rans.sum run_limited_ran) (intro observing_ran observing)+

lemma run_prepared_ran: "evolves always ran (run_prepared S e p rq res)"
  unfolding run_prepared_def
  by (intro rans.bind rans.gets rans.sum rans.ret rans.cond RunProcess_ran RunContainer_ran)

lemma RunOnePlugin_ran: "evolves always ran (RunOnePluginWithEvents S e p rq ev)"
  unfolding RunOnePluginWithEvents_def IncPluginStarted_def IncPluginCompleted_def Let_def
  by (intro rans.bind run_prepared_ran) (intro observing_ran observing)+

lemma RunPlugins_ran: "evolves always ran (RunPlugins S e ps rq ev)"
  unfolding RunPlugins_def by (intro rans.map_each RunOnePlugin_ran)

end
