(* ===== verification/Enterprise.thy ===== *)
theory Enterprise
  imports Access DurablePool ExecutionSpec RuntimeSpec
begin

text \<open>
  The production mode: \<^verbatim>\<open>internal/service/enterprise_execution.go\<close>, whose requests run under a
  policy and write through the metadata store, and
  \<^verbatim>\<open>internal/worker/metadata_execution_handler.go\<close>, what a worker of the durable pool does with
  a task it leased. The queries go to the Postgres repository, as \<^verbatim>\<open>cmd/server\<close> wires them; the
  plugin service runs over any plugin store.
\<close>

section \<open>The service\<close>

record EnterpriseExecutionService =
  en_plugins :: "world PluginStore"
  en_policy :: "Engine option"

definition NewEnterpriseExecutionService :: "world PluginStore \<Rightarrow> EnterpriseExecutionService" where
  "NewEnterpriseExecutionService ps = \<lparr>en_plugins = ps, en_policy = Some (RBAC_Evaluate NewRBACEngine)\<rparr>"

definition WithPolicyEngine :: "Engine option \<Rightarrow> EnterpriseExecutionService \<Rightarrow> EnterpriseExecutionService" where
  "WithPolicyEngine engine S = (case engine of None \<Rightarrow> S | Some e \<Rightarrow> S\<lparr>en_policy := Some e\<rparr>)"

definition policy_input :: "CurrentUser \<Rightarrow> string \<Rightarrow> PolicyResource \<Rightarrow> PolicyInput" where
  "policy_input user action resource =
     \<lparr>in_Subject = \<lparr>sj_TenantID = cu_TenantID user, sj_ProjectID = cu_ProjectID user, sj_ActorID = cu_ID user, sj_Role = cu_Role user\<rparr>,
      in_Action = action, in_Resource = resource, in_Context = None\<rparr>"

definition enforcePolicy :: "EnterpriseExecutionService \<Rightarrow> CurrentUser \<Rightarrow> string \<Rightarrow> PolicyResource \<Rightarrow> unit prog_w" where
  "enforcePolicy S user action resource = (case en_policy S of
      None \<Rightarrow> retE ()
    | Some eng \<Rightarrow> bindE (eng (policy_input user action resource)) (\<lambda>d.
        guardE (pe_Decision d \<noteq> PolicyDecisionAllow)
          (NewDetailedError CodeForbidden ''policy denied request'' (pe_Reason d)) (retE ())))"

definition task_event :: "Execution \<Rightarrow> string \<Rightarrow> ExecutionEventType \<Rightarrow> string \<Rightarrow> string \<Rightarrow> string \<Rightarrow> time \<Rightarrow> ExecutionEvent" where
  "task_event e i ty st msg requestID at = \<lparr>ev_TenantID = ex_TenantID e, ev_ProjectID = ex_ProjectID e, ev_ID = i,
     ev_ExecutionID = ex_ID e, ev_PluginID = [], ev_Type = ty, ev_Status = st, ev_Message = msg, ev_Detail = None,
     ev_RequestID = requestID, ev_CreatedAt = at\<rparr>"

definition task_audit :: "Execution \<Rightarrow> string \<Rightarrow> string \<Rightarrow> string \<Rightarrow> AuditAction \<Rightarrow> string \<Rightarrow> string \<Rightarrow> jobj option \<Rightarrow> time \<Rightarrow> AuditLog" where
  "task_audit e i actor actorType action requestID msg detail at = \<lparr>al_TenantID = ex_TenantID e, al_ProjectID = ex_ProjectID e,
     al_ID = i, al_ActorID = actor, al_ActorType = actorType, al_UserID = [], al_Action = action,
     al_ResourceType = AuditResourceExecution, al_ResourceID = ex_ID e, al_Decision = AuditDecisionAllow, al_Reason = [],
     al_RequestID = requestID, al_TraceID = [], al_PluginDigest = [], al_InputHash = ex_InputHash e, al_ResultHash = [],
     al_Message = msg, al_DetailJSON = detail, al_CreatedAt = at\<rparr>"

text \<open>The task a request asks for: it is stored as queued at once.\<close>

definition queued_execution :: "CurrentUser \<Rightarrow> string list \<Rightarrow> jobj option \<Rightarrow> string \<Rightarrow> string \<Rightarrow> string \<Rightarrow> time \<Rightarrow> string \<Rightarrow> Execution" where
  "queued_execution user ids input inputHash pluginHash key now i =
     (new_execution user ids input inputHash pluginHash key now i)\<lparr>ex_Status := ExecutionStatusQueued, ex_QueuedAt := Some now\<rparr>"

definition store_request :: "Execution \<Rightarrow> string \<Rightarrow> time \<Rightarrow> (Execution \<times> bool) prog_w" where
  "store_request e requestID now =
     bindE (newID ''evt'') (\<lambda>i1. bindE (newID ''evt'') (\<lambda>i2. bindE (newID ''audit'') (\<lambda>i3.
     CreateExecutionAndEnqueue e
       [task_event e i1 ExecutionEventCreated (ExecutionStatus_text ExecutionStatusPending) ''execution created'' requestID now,
        task_event e i2 ExecutionEventQueued (ExecutionStatus_text ExecutionStatusQueued) ''execution queued'' requestID (now + 1)]
       (task_audit e i3 (ex_UserID e) [] AuditExecutionCreated requestID ''execution created and queued''
         (Some [(''plugin_ids_hash'', JStr (ex_PluginIDsHash e))]) now)
       now)))"

text \<open>The checks a request passes before anything is written, and the two digests of it.\<close>

definition check_request :: "EnterpriseExecutionService \<Rightarrow> CurrentUser \<Rightarrow> string list \<Rightarrow> jobj option \<Rightarrow> (string \<times> string) prog_w" where
  "check_request S user pluginIDs input =
     (let scope = CurrentUser_Scope user in
      bindE (enforcePolicy S user ''execution:create'' \<lparr>pr_TenantID = sc_TenantID scope, pr_ProjectID = sc_ProjectID scope,
        pr_Type = ''project'', pr_ID = sc_ProjectID scope\<rparr>) (\<lambda>_.
      guardE (length pluginIDs = 0 \<or> input = None) (NewAppError CodeInvalidArgument ''plugin_ids and input are required'')
      (bindE (ValidatePluginsExecutableInScope (en_plugins S) pluginIDs scope) (\<lambda>_.
       bindE (BuildInputHash input) (\<lambda>inputHash.
       bindE (BuildPluginIDsHash pluginIDs) (\<lambda>pluginHash.
       retE (inputHash, pluginHash)))))))"

definition EnterpriseCreateExecution :: "EnterpriseExecutionService \<Rightarrow> CurrentUser \<Rightarrow> string list \<Rightarrow> jobj option
    \<Rightarrow> string \<Rightarrow> string \<Rightarrow> Execution prog_w" where
  "EnterpriseCreateExecution S user pluginIDs input idemKey requestID =
     bindE (check_request S user pluginIDs input) (\<lambda>(inputHash, pluginHash).
     bindE time_now (\<lambda>now.
     bindE (newID ''exec'') (\<lambda>i.
     bindE (store_request (queued_execution user pluginIDs input inputHash pluginHash idemKey now i) requestID now)
       (\<lambda>(e, created).
       if \<not> created then reuse_execution e inputHash pluginHash
       else bindE IncTaskSubmitted (\<lambda>_. retE e)))))"

definition execution_resource :: "Execution \<Rightarrow> PolicyResource" where
  "execution_resource e = \<lparr>pr_TenantID = ex_TenantID e, pr_ProjectID = ex_ProjectID e, pr_Type = ''execution'', pr_ID = ex_ID e\<rparr>"

definition EnterpriseGetExecution :: "EnterpriseExecutionService \<Rightarrow> CurrentUser \<Rightarrow> string \<Rightarrow> Execution prog_w" where
  "EnterpriseGetExecution S user i = bindE (PgExecution_GetByID i) (\<lambda>r. case r of
      None \<Rightarrow> failE (NewAppError CodeExecutionNotFound ''execution not found'')
    | Some e \<Rightarrow> bindE (enforcePolicy S user ''execution:read'' (execution_resource e)) (\<lambda>_.
        guardE (\<not> IsSuperAdminRole (cu_Role user) \<and> \<not> SameScope (CurrentUser_Scope user) (Execution_Scope e))
          (NewAppError CodeForbidden ''cannot view execution'')
        (guardE (\<not> IsAdminRole (cu_Role user) \<and> ex_UserID e \<noteq> cu_ID user)
          (NewAppError CodeForbidden ''cannot view execution'')
        (retE e))))"

definition EnterpriseGetExecutionInternal :: "string \<Rightarrow> Execution prog_w" where
  "EnterpriseGetExecutionInternal i = bindE (PgExecution_GetByID i) (\<lambda>r. case r of
      None \<Rightarrow> failE (NewAppError CodeExecutionNotFound ''execution not found'') | Some e \<Rightarrow> retE e)"

definition EnterpriseListExecutions :: "CurrentUser \<Rightarrow> Execution list prog_w" where
  "EnterpriseListExecutions user =
     (if IsSuperAdminRole (cu_Role user) then PgExecution_ListAll
      else if IsAdminRole (cu_Role user) then PgExecution_ListByScope (CurrentUser_Scope user)
      else PgExecution_ListByUserID (cu_ID user))"

definition EnterpriseCancelExecution :: "EnterpriseExecutionService \<Rightarrow> CurrentUser \<Rightarrow> string \<Rightarrow> string \<Rightarrow> Execution prog_w" where
  "EnterpriseCancelExecution S user i requestID = bindE (EnterpriseGetExecution S user i) (\<lambda>e.
     bindE (enforcePolicy S user ''execution:cancel'' (execution_resource e)) (\<lambda>_.
     guardE (\<not> CanCancel (ex_Status e)) (NewAppError CodeExecutionStateInvalid ''execution cannot be canceled'')
     (bindE time_now (\<lambda>now.
      bindE (newID ''evt'') (\<lambda>i1. bindE (newID ''audit'') (\<lambda>i2.
      bindE (TransitionExecutionWithEvent (ex_ID e) (ex_Status e) ExecutionStatusCanceled
          (task_event e i1 ExecutionEventCanceled (ExecutionStatus_text ExecutionStatusCanceled) ''execution canceled'' requestID now)
          (task_audit e i2 (cu_ID user) [] AuditExecutionCanceled requestID ''execution canceled'' None now)) (\<lambda>_.
      EnterpriseGetExecution S user i)))))))"

section \<open>The worker's handler\<close>

record MetadataExecutionHandler =
  mh_plugins :: "world PluginStore"
  mh_runtime :: RuntimeService
  mh_events :: bool                \<comment> \<open>whether the runtime records plugin events\<close>
  mh_workerID :: string

definition handler_request :: string where "handler_request = ''durable-worker''"

definition NewMetadataExecutionHandler :: "world PluginStore \<Rightarrow> RuntimeService \<Rightarrow> bool \<Rightarrow> string \<Rightarrow> MetadataExecutionHandler" where
  "NewMetadataExecutionHandler ps rt events wid = \<lparr>mh_plugins = ps, mh_runtime = rt, mh_events = events,
     mh_workerID = (if wid = [] then ''durable-worker'' else wid)\<rparr>"

text \<open>The attempt the handler opens with.\<close>

definition open_attempt :: "MetadataExecutionHandler \<Rightarrow> TaskRef \<Rightarrow> Execution \<Rightarrow> (ExecutionAttempt \<times> time) prog_w" where
  "open_attempt H ref e =
     bindE (newID ''attempt'') (\<lambda>i. bindE time_now (\<lambda>started. bindE time_now (\<lambda>now.
     let attempt = \<lparr>at_TenantID = ex_TenantID e, at_ProjectID = ex_ProjectID e, at_ID = i, at_ExecutionID = ex_ID e,
           at_AttemptNo = tr_AttemptNo ref, at_WorkerID = mh_workerID H, at_LeaseID = tr_LeaseID ref,
           at_HeartbeatAt = Some now, at_LeaseUntil = (if tr_LeaseUntil ref = 0 then None else Some (tr_LeaseUntil ref)),
           at_Status = ExecutionAttemptRunning, at_ErrorMessage = [], at_StartedAt = started, at_FinishedAt = None\<rparr>
     in bindE (newID ''evt'') (\<lambda>i1.
        bindE (AppendAttempt attempt (task_event e i1 ExecutionEventStarted (ExecutionStatus_text ExecutionStatusRunning)
          ''durable worker attempt started'' handler_request now)) (\<lambda>_. retE (attempt, now))))))"

text \<open>Moving the task to \<open>Running\<close>, from whatever status it was read in.\<close>

definition take_task :: "MetadataExecutionHandler \<Rightarrow> Execution \<Rightarrow> time \<Rightarrow> unit prog_w" where
  "take_task H e now =
     (if ex_Status e \<noteq> ExecutionStatusRunning then
        bindE (newID ''audit'') (\<lambda>i1. bindE (newID ''evt'') (\<lambda>i2. bindE time_now (\<lambda>at.
        TransitionExecutionWithEvent (ex_ID e) (ex_Status e) ExecutionStatusRunning
          (task_event e i2 ExecutionEventStarted (ExecutionStatus_text ExecutionStatusRunning)
             ''execution state changed to running'' handler_request at)
          (task_audit e i1 (mh_workerID H) ''worker'' AuditExecutionStarted handler_request
             ''execution leased by durable worker'' None now))))
      else retE ())"

text \<open>Running the plugins and recording the outcome.\<close>

definition run_task :: "MetadataExecutionHandler \<Rightarrow> ExecutionAttempt \<Rightarrow> Execution \<Rightarrow> unit prog_w" where
  "run_task H attempt e =
     bindE (GetExecutablePluginsInScope (mh_plugins H) (ex_PluginIDs e) (Execution_Scope e)) (\<lambda>ps.
     bindE (RunPlugins (mh_runtime H) e ps handler_request (mh_events H)) (\<lambda>results.
     let final = AggregateExecutionStatus results in
     bindE time_now (\<lambda>finished.
     bindE (newID ''evt'') (\<lambda>i1. bindE (newID ''evt'') (\<lambda>i2. bindE (newID ''audit'') (\<lambda>i3.
     bindE (AppendAttempt (attempt\<lparr>at_Status := ExecutionAttemptSuccess, at_FinishedAt := Some finished\<rparr>)
       (task_event e i1 ExecutionEventFinished (ExecutionStatus_text final) ''durable worker attempt finished'' handler_request finished)) (\<lambda>_.
     AppendResultAndFinalize (ex_ID e) results final
       (task_event e i2 ExecutionEventFinished (ExecutionStatus_text final) ''execution finalized'' handler_request (finished + 1))
       (task_audit e i3 (mh_workerID H) ''worker'' AuditExecutionFinished handler_request ''execution finished by durable worker''
          (Some [(''status'', JStr (ExecutionStatus_text final))]) finished))))))))"

text \<open>The deferred function: a failure is recorded as a failed attempt, and the record may fail.\<close>

definition fail_attempt :: "ExecutionAttempt \<Rightarrow> Execution \<Rightarrow> go_error \<Rightarrow> unit prog_w" where
  "fail_attempt attempt e err =
     bindE time_now (\<lambda>finished. bindE (newID ''evt'') (\<lambda>i1.
     AppendAttempt (attempt\<lparr>at_Status := ExecutionAttemptFailed, at_ErrorMessage := error_text err, at_FinishedAt := Some finished\<rparr>)
       (task_event e i1 ExecutionEventFailed (ExecutionStatus_text ExecutionStatusFailed) (error_text err) handler_request finished)))"

definition work_task :: "MetadataExecutionHandler \<Rightarrow> ExecutionAttempt \<Rightarrow> Execution \<Rightarrow> time \<Rightarrow> unit prog_w" where
  "work_task H attempt e now = bindE (take_task H e now) (\<lambda>_.
     let e = e\<lparr>ex_Status := ExecutionStatusRunning\<rparr>
     in tryE (run_task H attempt e) (\<lambda>q. case q of
          Inr _ \<Rightarrow> retE ()
        | Inl err \<Rightarrow> tryE (fail_attempt attempt e err) (\<lambda>_. failE err)))"

definition HandleLeasedExecution :: "MetadataExecutionHandler \<Rightarrow> TaskRef \<Rightarrow> unit prog_w" where
  "HandleLeasedExecution H ref = bindE (PgExecution_GetByID (tr_TaskID ref)) (\<lambda>r. case r of
      None \<Rightarrow> failE (PlainError (''execution not found: '' @ tr_TaskID ref))
    | Some e \<Rightarrow> bindE (open_attempt H ref e) (\<lambda>(attempt, now).
        if ex_Status e = ExecutionStatusCanceled then retE () else work_task H attempt e now))"

end
