(* ===== verification/EnterpriseSpec.thy ===== *)
theory EnterpriseSpec
  imports Enterprise
begin

text \<open>
  What the production mode guarantees, and where it does not do what it means to: transactions
  are atomic, a task and its queue row come into being together, the policy and the visibility
  rules agree; the handler of the durable worker never brings a task to its end.
\<close>

section \<open>Steps that leave the tables alone\<close>

definition kept :: "world \<Rightarrow> world \<Rightarrow> bool" where
  "kept w t \<longleftrightarrow> w_env t = w_env w \<and> executions t = executions w \<and> execution_results t = execution_results w \<and>
     execution_attempts t = execution_attempts w \<and> task_queue t = task_queue w \<and> id_ix w \<le> id_ix t"

interpretation keeping: state_order always kept
  by unfold_locales (auto simp: kept_def)

named_theorems keeps \<open>operations that leave the tables of the metadata store alone\<close>
lemmas [keeps] = keeping.intros

lemma kept_same: "(\<And>w. kept w (snd (m w))) \<Longrightarrow> evolves always kept m"
  by (simp add: evolves_def)

lemma kept_now [keeps]: "evolves always kept time_now" by (simp add: evolves_def time_now_def kept_def)
lemma kept_id [keeps]: "evolves always kept (newID p)" by (simp add: evolves_def newID_def kept_def)
lemma kept_metric [keeps]: "evolves always kept (add_metric m n)" by (simp add: evolves_def add_metric_def kept_def)

lemma kept_disk:
  assumes "\<And>w. kept w (snd (m w))"
  shows "evolves always kept (disk m)"
proof (rule kept_same)
  fix w
  have "kept (w\<lparr>io_ix := Suc (io_ix w)\<rparr>) (snd (m (w\<lparr>io_ix := Suc (io_ix w)\<rparr>)))" by (rule assms)
  then show "kept w (snd (disk m w))" by (auto simp: disk_def kept_def split: option.split)
qed

lemma kept_query [keeps]: "evolves always kept (query f)"
  unfolding query_def by (rule kept_disk) (simp add: kept_def)

lemma kept_Load [keeps]: "evolves always kept (Load f)"
  unfolding Load_def by (rule kept_disk) (simp add: kept_def)

lemma kept_find [keeps]: "evolves always kept (repo_find f p)"
  unfolding repo_find_def by (intro keeps)

lemma kept_Event_Create [keeps]: "evolves always kept (Event_Create e)"
  unfolding Event_Create_def repo_append_def Save_def
  by (intro keeping.bind kept_Load kept_disk) (simp add: kept_def)

lemma kept_Event_Record [keeps]: "evolves always kept (Event_Record i p t s m q d)"
  unfolding Event_Record_def Bus_Publish_def Let_def
  by (intro keeps keeping.mods) (simp add: kept_def)

lemma kept_run_limited [keeps]: "evolves always kept (run_limited c m)"
  by (simp add: evolves_def run_limited_def kept_def Let_def)

lemma kept_deny [keeps]: "evolves always kept (deny err)"
  unfolding deny_def IncSandboxDenial_def by (intro keeps)

lemma kept_RunProcess [keeps]: "evolves always kept (RunProcessPlugin r p stdin m)"
  unfolding RunProcessPlugin_def Let_def by (intro keeps)

lemma kept_RunContainer [keeps]: "evolves always kept (RunContainerPlugin r p stdin m)"
  unfolding RunContainerPlugin_def Let_def by (intro keeps)

lemma kept_RunPlugins [keeps]: "evolves always kept (RunPlugins S e ps rq ev)"
  unfolding RunPlugins_def RunOnePluginWithEvents_def run_prepared_def IncPluginStarted_def IncPluginCompleted_def Let_def
  by (intro keeps)

text \<open>Steps that change no table at all: reading plugins is one, with both stores.\<close>

definition untouched :: "world \<Rightarrow> world \<Rightarrow> bool" where
  "untouched w t \<longleftrightarrow> same_tables w t \<and> w_env t = w_env w \<and> id_ix w \<le> id_ix t"

interpretation touchless: state_order always untouched
  by unfold_locales (auto simp: untouched_def same_tables_iff)

definition reads_plugins :: "world PluginStore \<Rightarrow> bool" where
  "reads_plugins ps \<longleftrightarrow> (\<forall>i. evolves always untouched (ps_GetByID ps i))"

lemma untouched_disk:
  assumes "\<And>w. snd (m w) = w"
  shows "evolves always untouched (disk m)"
  using assms by (simp add: evolves_def disk_def untouched_def same_tables_iff split: option.split)

lemma json_reads_plugins: "reads_plugins json_plugin_store"
  unfolding reads_plugins_def json_plugin_store_def Plugin_GetByID_def repo_find_def Load_def
  by (auto intro!: touchless.bind touchless.ret untouched_disk)

lemma pg_reads_plugins: "reads_plugins pg_plugin_store"
  unfolding reads_plugins_def pg_plugin_store_def PgPlugin_GetByID_def PgPlugin_get_def select_plugins_def
  by (auto intro!: untouched_disk)

lemma untouched_Validate:
  "reads_plugins ps \<Longrightarrow> evolves always untouched (ValidatePluginsExecutableInScope ps ids scope)"
  unfolding ValidatePluginsExecutableInScope_def executable_plugin_def GetPlugin_def Let_def reads_plugins_def
  by (intro touchless.intros) blast

lemma kept_Validate:
  "reads_plugins ps \<Longrightarrow> evolves always kept (GetExecutablePluginsInScope ps ids scope)"
  unfolding GetExecutablePluginsInScope_def
  by (rule evolves_mono [OF untouched_Validate]) (auto simp: untouched_def kept_def same_tables_iff)

section \<open>What a worker leaves behind\<close>

text \<open>
  \<open>unfinished w t\<close>: no result was stored, the queue is as it was, no attempt was lost, and every
  task is as it was or \<open>Running\<close>.
\<close>

definition set_running :: "Execution \<Rightarrow> Execution" where
  "set_running e = e\<lparr>ex_Status := ExecutionStatusRunning\<rparr>"

definition taken :: "Execution \<Rightarrow> Execution \<Rightarrow> bool" where
  "taken e f \<longleftrightarrow> f = e \<or> f = set_running e"

definition unfinished :: "world \<Rightarrow> world \<Rightarrow> bool" where
  "unfinished w t \<longleftrightarrow> w_env t = w_env w \<and> id_ix w \<le> id_ix t \<and> execution_results t = execution_results w \<and> task_queue t = task_queue w \<and>
     prefix (execution_attempts w) (execution_attempts t) \<and>
     list_all2 taken (executions w) (executions t)"

lemma taken_refl [simp]: "list_all2 taken es es"
  by (simp add: list_all2_refl taken_def)

lemma taken_trans:
  assumes "list_all2 taken a b" "list_all2 taken b c"
  shows "list_all2 taken a c"
  by (rule list_all2_trans [OF _ assms]) (auto simp: taken_def set_running_def)

interpretation unfin: state_order always unfinished
proof unfold_locales
  fix s t u :: world
  show "unfinished s s" by (simp add: unfinished_def)
  assume "unfinished s t" "unfinished t u"
  then show "unfinished s u" unfolding unfinished_def by (auto intro: taken_trans prefix_order.trans)
qed

lemma kept_unfinished: "evolves always kept m \<Longrightarrow> evolves always unfinished m"
  by (erule evolves_mono) (simp add: kept_def unfinished_def)

lemma unfinished_statement:
  assumes "\<And>w. chk w = None \<Longrightarrow> unfinished w (upd w)"
  shows "evolves always unfinished (statement chk upd)"
proof (rule evolvesI)
  fix w :: world
  let ?w = "w\<lparr>io_ix := Suc (io_ix w)\<rparr>"
  have "unfinished w ?w" by (simp add: unfinished_def)
  moreover have "chk ?w = None \<Longrightarrow> unfinished ?w (upd ?w)" by (rule assms)
  ultimately show "True \<and> unfinished w (snd (statement chk upd w))"
    using unfin.R_trans [of w ?w] by (auto simp: statement_def disk_def split: option.split)
qed

lemma same_tables_unfinished: "same_tables w t \<Longrightarrow> w_env t = w_env w \<and> id_ix w \<le> id_ix t \<Longrightarrow> unfinished w t"
  by (simp add: same_tables_iff unfinished_def)

lemma WithTx_env:
  assumes "\<And>now w. w_env (snd (fn now w)) = w_env w \<and> id_ix w \<le> id_ix (snd (fn now w))"
  shows "w_env (snd (WithTx fn w)) = w_env w \<and> id_ix w \<le> id_ix (snd (WithTx fn w))"
proof -
  let ?w = "w\<lparr>io_ix := Suc (io_ix w), now_ix := Suc (now_ix w)\<rparr>"
  obtain r u where "fn (clock (w_env w) (now_ix w)) ?w = (r, u)" by (cases "fn (clock (w_env w) (now_ix w)) ?w")
  moreover from this have "w_env u = w_env w" "id_ix w \<le> id_ix u" using assms [of "clock (w_env w) (now_ix w)" ?w] by simp_all
  ultimately show ?thesis
    by (simp add: WithTx_def bindE_def disk_ret time_now_run finish_tx_def split: option.split sum.split)
qed

lemma unfinished_tx:
  assumes "\<And>now. evolves always unfinished (fn now)"
  shows "evolves always unfinished (WithTx fn)"
proof (rule evolvesI)
  fix w :: world
  obtain r t where run: "WithTx fn w = (r, t)" by (cases "WithTx fn w")
  have "unfinished w t"
  proof (cases r)
    case (Inl e)
    have "w_env (snd (fn now v)) = w_env v \<and> id_ix v \<le> id_ix (snd (fn now v))" for now v
      using assms [of now] by (simp add: evolves_def unfinished_def)
    with WithTx_env [of fn w] run have "w_env t = w_env w \<and> id_ix w \<le> id_ix t" by simp
    with WithTx_error [OF run [unfolded Inl]] show ?thesis by (rule same_tables_unfinished)
  next
    case (Inr x)
    from run [unfolded Inr] obtain u where u: "fn (clock (w_env w) (now_ix w)) (w\<lparr>io_ix := Suc (io_ix w), now_ix := Suc (now_ix w)\<rparr>) = (Inr x, u)"
      "t = u\<lparr>io_ix := Suc (io_ix u)\<rparr>" by (rule WithTx_done)
    from evolvesD [OF assms _ u(1)] u(2) show ?thesis by (simp add: unfinished_def)
  qed
  with run show "True \<and> unfinished w (snd (WithTx fn w))" by simp
qed

named_theorems unfinishing \<open>operations that finish no task\<close>
lemmas [unfinishing] = unfin.intros

lemma unfinished_keeps [unfinishing]: "evolves always unfinished time_now" "evolves always unfinished (newID p)"
  by (rule kept_unfinished, rule keeps)+

lemma unfinished_jsonb [unfinishing]: "evolves always unfinished (jsonb x)"
  by (simp add: evolves_def jsonb_def unfinished_def split: sum.split)

lemma unfinished_insertEvent [unfinishing]: "evolves always unfinished (insertEvent e)"
  unfolding insertEvent_def insertEvent_stmt_def
  by (intro unfin.bind unfinished_jsonb unfinished_statement) (simp add: unfinished_def)

lemma unfinished_insertAudit [unfinishing]: "evolves always unfinished (insertAudit a)"
  unfolding insertAudit_def insertAudit_stmt_def
  by (intro unfin.bind unfinished_jsonb unfinished_statement) (simp add: unfinished_def)

lemma unfinished_AppendAttempt [unfinishing]: "evolves always unfinished (AppendAttempt a ev)"
  unfolding AppendAttempt_def insert_attempt_def
  by (intro unfinished_tx unfin.bind unfinished_statement unfinishing) (simp add: unfinished_def)

lemma unfinished_move:
  "evolves always unfinished (move_execution i from ExecutionStatusRunning)"
proof (rule evolvesI)
  fix w :: world
  have "list_all2 taken es
      (set_where (\<lambda>e. ex_ID e = i \<and> ex_Status e = from) (\<lambda>e. e\<lparr>ex_Status := ExecutionStatusRunning\<rparr>) es)" for es
    by (simp add: set_where_def list_all2_conv_all_nth taken_def set_running_def)
  then show "True \<and> unfinished w (snd (move_execution i from ExecutionStatusRunning w))"
    by (simp add: move_execution_def disk_def unfinished_def Let_def split: option.split)
qed

lemma unfinished_take [unfinishing]: "evolves always unfinished (take_task H e now)"
  unfolding take_task_def TransitionExecutionWithEvent_def
  by (intro unfinishing unfinished_tx unfin.bind unfinished_move)

lemma unfinished_fail [unfinishing]: "evolves always unfinished (fail_attempt a e err)"
  unfolding fail_attempt_def by (intro unfinishing)

lemma AppendAttempt_done:
  assumes "AppendAttempt a ev w = (Inr (), t)"
  shows "at_ID a \<notin> at_ID ` set (execution_attempts w) \<and> at_ID a \<in> at_ID ` set (execution_attempts t)"
proof -
  from assms [unfolded AppendAttempt_def] obtain u
    where u: "bindE (insert_attempt a) (\<lambda>_. insertEvent ev) (w\<lparr>io_ix := Suc (io_ix w), now_ix := Suc (now_ix w)\<rparr>) = (Inr (), u)"
      "t = u\<lparr>io_ix := Suc (io_ix u)\<rparr>" by (rule WithTx_done)
  from u(1) obtain y v where v: "insert_attempt a (w\<lparr>io_ix := Suc (io_ix w), now_ix := Suc (now_ix w)\<rparr>) = (Inr y, v)"
      "insertEvent ev v = (Inr (), u)" by (rule bindE_InrE)
  from v(1) have a: "at_ID a \<notin> at_ID ` set (execution_attempts w)" "execution_attempts v = execution_attempts w @ [a]"
    by (auto simp: insert_attempt_def statement_def disk_def violation_def split: option.splits if_splits)
  from evolvesD [OF unfinished_insertEvent _ v(2)] have "prefix (execution_attempts v) (execution_attempts u)"
    by (simp add: unfinished_def)
  then have "set (execution_attempts v) \<subseteq> set (execution_attempts t)" using u(2) by (simp add: set_mono_prefix)
  with a show ?thesis by auto
qed

lemma AppendAttempt_again:
  assumes "at_ID a \<in> at_ID ` set (execution_attempts w)"
  obtains err t where "AppendAttempt a ev w = (Inl err, t)" and "unfinished w t"
proof -
  obtain r t where run: "AppendAttempt a ev w = (r, t)" by (cases "AppendAttempt a ev w")
  moreover from this have "unfinished w t" using evolvesD [OF unfinished_AppendAttempt] by blast
  moreover have "r \<noteq> Inr ()" using AppendAttempt_done [of a ev w t] run assms by auto
  ultimately show ?thesis using that by (cases r) auto
qed

lemma unfinished_trans: "unfinished w t \<Longrightarrow> unfinished t u \<Longrightarrow> unfinished w u"
  using unfin.R_trans by blast

lemma run_task_fails:
  assumes ps: "reads_plugins (mh_plugins H)" and a: "at_ID a \<in> at_ID ` set (execution_attempts w)"
  shows "\<exists>err t. run_task H a e w = (Inl err, t) \<and> unfinished w t"
proof -
  obtain r1 u1 where g: "GetExecutablePluginsInScope (mh_plugins H) (ex_PluginIDs e) (Execution_Scope e) w = (r1, u1)"
    by (cases "GetExecutablePluginsInScope (mh_plugins H) (ex_PluginIDs e) (Execution_Scope e) w")
  have k1: "kept w u1" using evolvesD [OF kept_Validate [OF ps] _ g] by simp
  show ?thesis
  proof (cases r1)
    case (Inl err)
    with g k1 show ?thesis by (auto simp: run_task_def kept_def unfinished_def)
  next
    case (Inr pls)
    obtain r2 u2 where p: "RunPlugins (mh_runtime H) e pls handler_request (mh_events H) u1 = (r2, u2)"
      by (cases "RunPlugins (mh_runtime H) e pls handler_request (mh_events H) u1")
    have k2: "kept u1 u2" using evolvesD [OF kept_RunPlugins _ p] by simp
    from k1 k2 have k: "kept w u2" using keeping.R_trans by blast
    show ?thesis
    proof (cases r2)
      case (Inl err)
      with g Inr p k show ?thesis by (auto simp: run_task_def kept_def unfinished_def)
    next
      case r2: (Inr results)
      let ?f = "clock (w_env u2) (now_ix u2)"
      let ?v = "u2\<lparr>now_ix := Suc (now_ix u2), id_ix := Suc (Suc (Suc (id_ix u2)))\<rparr>"
      let ?a = "a\<lparr>at_Status := ExecutionAttemptSuccess, at_FinishedAt := Some ?f\<rparr>"
      let ?ev = "task_event e (''evt_'' @ id_text (w_env u2) (id_ix u2)) ExecutionEventFinished
        (ExecutionStatus_text (AggregateExecutionStatus results)) ''durable worker attempt finished'' handler_request ?f"
      have "at_ID ?a \<in> at_ID ` set (execution_attempts ?v)" using a k by (simp add: kept_def)
      then obtain err t where t: "AppendAttempt ?a ?ev ?v = (Inl err, t)" "unfinished ?v t" by (rule AppendAttempt_again)
      moreover have "unfinished w ?v" using k by (simp add: kept_def unfinished_def)
      ultimately have "unfinished w t" using unfinished_trans by blast
      with t(1) g Inr p r2 show ?thesis
        by (simp add: run_task_def time_now_run newID_run Let_def)
    qed
  qed
qed

lemma open_attempt_done:
  assumes "open_attempt H ref e w = (Inr (a, now), t)"
  shows "at_ID a \<in> at_ID ` set (execution_attempts t)"
proof -
  from assms obtain a' ev w' where "AppendAttempt a' ev w' = (Inr (), t)" "a = a'"
    by (auto simp: open_attempt_def time_now_run newID_run Let_def bindE_def split: prod.splits sum.splits)
  then show ?thesis using AppendAttempt_done by blast
qed

lemma unfinished_open: "evolves always unfinished (open_attempt H ref e)"
  unfolding open_attempt_def Let_def by (intro unfinishing)

lemma work_task_fails:
  assumes ps: "reads_plugins (mh_plugins H)" and a: "at_ID a \<in> at_ID ` set (execution_attempts w)"
    and run: "work_task H a e now w = (r, t)"
  shows "unfinished w t \<and> r \<noteq> Inr ()"
proof -
  obtain r2 u2 where k: "take_task H e now w = (r2, u2)" by (cases "take_task H e now w")
  have ut: "unfinished w u2" using evolvesD [OF unfinished_take _ k] by simp
  show ?thesis
  proof (cases r2)
    case (Inl err) with run k ut show ?thesis by (auto simp: work_task_def)
  next
    case r2: (Inr x)
    let ?e = "e\<lparr>ex_Status := ExecutionStatusRunning\<rparr>"
    have "at_ID a \<in> at_ID ` set (execution_attempts u2)"
      using a ut set_mono_prefix [of "execution_attempts w" "execution_attempts u2"] by (auto simp: unfinished_def)
    then obtain err u3 where rt: "run_task H a ?e u2 = (Inl err, u3)" "unfinished u2 u3"
      using run_task_fails [OF ps] by blast
    obtain r4 u4 where f: "fail_attempt a ?e err u3 = (r4, u4)" by (cases "fail_attempt a ?e err u3")
    have "unfinished u3 u4" using evolvesD [OF unfinished_fail _ f] by simp
    then have "unfinished w u4" using ut rt(2) unfinished_trans by blast
    with run k r2 rt(1) f show ?thesis by (auto simp: work_task_def Let_def tryE_run)
  qed
qed

lemma read_task:
  assumes "PgExecution_GetByID i w = (r, t)"
  shows "kept w t \<and> (case r of Inr (Some e) \<Rightarrow> lookup ex_ID i (executions w) = Some e \<and> e \<in> set (executions w) \<and> ex_ID e = i | _ \<Rightarrow> True)"
proof -
  have "kept w t" using evolvesD [OF kept_query _ assms [unfolded PgExecution_GetByID_def PgExecution_get_def]] by simp
  moreover have "r = Inr (lookup ex_ID i (executions w)) \<or> (\<exists>err. r = Inl err)"
    using assms by (auto simp: PgExecution_GetByID_def PgExecution_get_def query_def disk_def lookup_def split: option.splits)
  ultimately show ?thesis by (auto split: option.splits dest: lookup_mem lookup_key)
qed

lemma handler_unfinished:
  assumes ps: "reads_plugins (mh_plugins H)" and run: "HandleLeasedExecution H ref w = (r, t)"
  shows "unfinished w t \<and> (r = Inr () \<longrightarrow>
    (\<exists>e \<in> set (executions w). ex_ID e = tr_TaskID ref \<and> ex_Status e = ExecutionStatusCanceled))"
proof -
  obtain r0 u0 where g: "PgExecution_GetByID (tr_TaskID ref) w = (r0, u0)" by (cases "PgExecution_GetByID (tr_TaskID ref) w")
  have u0: "unfinished w u0" using read_task [OF g] by (simp add: kept_def unfinished_def)
  consider (none) "r0 = Inr None \<or> (\<exists>err. r0 = Inl err)" | (some) e where "r0 = Inr (Some e)"
    by (metis sum.exhaust option.exhaust)
  then show ?thesis
  proof cases
    case none with run g u0 show ?thesis by (auto simp: HandleLeasedExecution_def)
  next
    case (some e)
    obtain r1 u1 where o: "open_attempt H ref e u0 = (r1, u1)" by (cases "open_attempt H ref e u0")
    have u1: "unfinished w u1" using evolvesD [OF unfinished_open _ o] u0 unfinished_trans by blast
    show ?thesis
    proof (cases r1)
      case (Inl err) with run g some o u1 show ?thesis by (auto simp: HandleLeasedExecution_def)
    next
      case (Inr an)
      obtain a now where an: "an = (a, now)" by (cases an)
      show ?thesis
      proof (cases "ex_Status e = ExecutionStatusCanceled")
        case True with run g some o Inr an u1 read_task [OF g] show ?thesis by (auto simp: HandleLeasedExecution_def)
      next
        case False
        with run g some o Inr an have "work_task H a e now u1 = (r, t)" by (simp add: HandleLeasedExecution_def)
        from work_task_fails [OF ps open_attempt_done [OF o [unfolded Inr an]] this] u1 show ?thesis
          using unfinished_trans by blast
      qed
    qed
  qed
qed

text \<open>
  C25. The durable worker's handler reports success only for a task that was cancelled. For every
  other task it ends in an error, whatever the plugins returned and whatever the database does: the
  attempt it closes has the key of the attempt it opened, so the insert is refused. No result is
  ever stored and no task leaves \<open>Running\<close>.
\<close>

theorem HandleLeasedExecution_never_finishes:
  assumes ps: "reads_plugins (mh_plugins H)" and run: "HandleLeasedExecution H ref w = (r, t)"
  shows "unfinished w t \<and> (r = Inr () \<longrightarrow>
    (\<exists>e \<in> set (executions w). ex_ID e = tr_TaskID ref \<and> ex_Status e = ExecutionStatusCanceled))"
  using assms by (rule handler_unfinished)

text \<open>
  In the durable pool such a task is run again and again: no worker ever acknowledges it. When
  the handler is done with a leased task that was not cancelled, the row is ready for another
  attempt, or dead once the attempts are used up, and no result was stored.
\<close>

theorem durable_task_never_acknowledged:
  assumes ps: "reads_plugins (mh_plugins H)" and w: "disk_ok w"
    and live: "lookup ex_ID (tr_TaskID ref) (executions w) = Some e" "ex_Status e \<noteq> ExecutionStatusCanceled"
      "distinct (map ex_ID (executions w))"
    and row: "table_rows w k = Some q" "holds_lease (tr_TaskID ref) (tr_LeaseID ref) (dw_WorkerID p) q"
  shows "\<exists>t q'. handleOne pg_queue p (HandleLeasedExecution H) ref w = (Inr (), t) \<and> table_rows t k = Some q' \<and>
    qr_Status q' = (if dw_MaxAttempts p > 0 \<and> qr_AttemptNo q \<ge> dw_MaxAttempts p then QueueDLQ else QueueReady)"
proof -
  obtain r u where h: "HandleLeasedExecution H ref w = (r, u)" by (cases "HandleLeasedExecution H ref w")
  have un: "unfinished w u" "r \<noteq> Inr ()"
  proof -
    have "x = e" if "x \<in> set (executions w)" "ex_ID x = tr_TaskID ref" for x
      using lookup_distinct [OF live(3) that(1)] live(1) that(2) by simp
    with handler_unfinished [OF ps h] live(2) show "unfinished w u" "r \<noteq> Inr ()" by auto
  qed
  then obtain err where err: "r = Inl err" by (cases r) auto
  have "disk_ok u" "table_rows u = table_rows w"
    using w un(1) by (auto simp: unfinished_def disk_ok_def table_rows_def fun_eq_iff)
  from pg.handled [where h = "HandleLeasedExecution H" and p = p, OF h this(1)] this(2) err row
  show ?thesis by (auto simp: change_held_def nacked_def give_back_def)
qed

section \<open>All or nothing\<close>


section \<open>The Postgres plugin table cannot be read\<close>

lemma plugin_columns_missing: "list_all (\<lambda>c. c \<in> set plugins_columns) pluginSelectSQL = False"
  by (simp add: plugins_columns_def pluginSelectSQL_def)

lemma PgPlugin_get_fails: "\<exists>err. PgPlugin_get p w = (Inl err, w\<lparr>io_ix := Suc (io_ix w)\<rparr>)"
  unfolding PgPlugin_get_def select_plugins_def plugin_columns_missing by (simp add: disk_def split: option.split)

text \<open>
  Over the Postgres plugin store the production service accepts no request at all: every
  request ends in an error and changes no table, because reading a plugin names a column the
  migration does not create.
\<close>

theorem EnterpriseCreateExecution_pg_fails:
  "\<exists>err t. EnterpriseCreateExecution (NewEnterpriseExecutionService pg_plugin_store) user ids input key rq w = (Inl err, t) \<and>
     same_tables w t"
proof (cases ids)
  case Nil
  then show ?thesis
    by (auto simp: EnterpriseCreateExecution_def check_request_def Let_def NewEnterpriseExecutionService_def enforcePolicy_def RBAC_Evaluate_def guardE_def)
next
  case (Cons i js)
  obtain err where "PgPlugin_get (\<lambda>p. pl_ID p = i) w = (Inl err, w\<lparr>io_ix := Suc (io_ix w)\<rparr>)" using PgPlugin_get_fails by blast
  then have "\<exists>err. ValidatePluginsExecutableInScope pg_plugin_store ids sc w = (Inl err, w\<lparr>io_ix := Suc (io_ix w)\<rparr>)" for sc
    using Cons by (simp add: ValidatePluginsExecutableInScope_def executable_plugin_def GetPlugin_def pg_plugin_store_def PgPlugin_GetByID_def
        bindE_def Let_def)
  then obtain err' where "ValidatePluginsExecutableInScope pg_plugin_store ids (CurrentUser_Scope user) w = (Inl err', w\<lparr>io_ix := Suc (io_ix w)\<rparr>)"
    by blast
  moreover have "same_tables w (w\<lparr>io_ix := Suc (io_ix w)\<rparr>)" by (simp add: same_tables_iff)
  ultimately show ?thesis
    by (auto simp: EnterpriseCreateExecution_def check_request_def Let_def NewEnterpriseExecutionService_def enforcePolicy_def RBAC_Evaluate_def guardE_def)
qed

section \<open>Who sees a task\<close>

lemma RBAC_grants:
  assumes "trim_space action = action" "action \<in> set user_actions" "action \<in> set admin_actions" "action \<noteq> []"
  shows "pe_Decision (RBAC_decide NewRBACEngine (policy_input u action (execution_resource e))) = PolicyDecisionAllow \<longleftrightarrow>
    cu_ID u \<noteq> [] \<and> (cu_Role u = RoleSuperAdmin \<or>
      SameScope (CurrentUser_Scope u) (Execution_Scope e) \<and> (cu_Role u = RoleUser \<or> cu_Role u = RoleAdmin))"
  using assms
  by (auto simp: RBAC_decide_def Let_def allow_def deny_policy_def NewRBACEngine_def policy_input_def execution_resource_def
      CurrentUser_Scope_def Execution_Scope_def)

lemma read_action: "trim_space ''execution:read'' = ''execution:read''" "''execution:read'' \<in> set user_actions"
  "''execution:read'' \<in> set admin_actions"
  by (code_simp, simp_all add: user_actions_def admin_actions_def)

text \<open>
  Under the built-in policy a stored task is shown exactly to those the authorisation service
  lets view it, provided they have an identity and a role the policy knows; anybody else is told
  \<^verbatim>\<open>Forbidden\<close>, and reading changes nothing.
\<close>

theorem EnterpriseGetExecution_spec:
  assumes w: "disk_ok w" and e: "lookup ex_ID i (executions w) = Some e"
    and S: "en_policy S = Some (RBAC_Evaluate NewRBACEngine)"
  shows "\<exists>r t. EnterpriseGetExecution S user i w = (r, t) \<and> same_tables w t \<and>
    (if CanViewExecution user e \<and> cu_ID user \<noteq> [] \<and> IsValidRole (cu_Role user) then r = Inr e
     else \<exists>err. r = Inl err \<and> IsAppError err = Some CodeForbidden)"
proof -
  let ?t = "w\<lparr>io_ix := Suc (io_ix w)\<rparr>"
  have g: "PgExecution_GetByID i w = (Inr (Some e), ?t)"
    using w e by (simp add: PgExecution_GetByID_def PgExecution_get_def query_def disk_def disk_ok_def lookup_def)
  have st: "same_tables w ?t" by (simp add: same_tables_iff)
  show ?thesis
    using g S st RBAC_grants [OF read_action, of user e]
    by (cases "cu_Role user")
       (auto simp: EnterpriseGetExecution_def enforcePolicy_def RBAC_Evaluate_def guardE_def NewDetailedError_def NewAppError_def
         CanViewExecution_def IsSuperAdminRole_def IsAdminRole_def IsValidRole_def)
qed

section \<open>What a committed transaction wrote\<close>

lemma statement_done:
  "statement chk upd w = (Inr x, t) \<Longrightarrow> chk (w\<lparr>io_ix := Suc (io_ix w)\<rparr>) = None \<and> t = upd (w\<lparr>io_ix := Suc (io_ix w)\<rparr>)"
  by (auto simp: statement_def disk_def split: option.splits)

lemma writes_done:
  "statement chk (execution_events_update f) w = (Inr u, t) \<Longrightarrow> t = w\<lparr>io_ix := Suc (io_ix w), execution_events := f (execution_events w)\<rparr>"
  "statement chk (audit_logs_update g) w = (Inr u, t) \<Longrightarrow> t = w\<lparr>io_ix := Suc (io_ix w), audit_logs := g (audit_logs w)\<rparr>"
  "statement chk (execution_results_update h) w = (Inr u, t) \<Longrightarrow> t = w\<lparr>io_ix := Suc (io_ix w), execution_results := h (execution_results w)\<rparr>"
  "statement chk (executions_update k) w = (Inr u, t) \<Longrightarrow> t = w\<lparr>io_ix := Suc (io_ix w), executions := k (executions w)\<rparr>"
  by (drule statement_done, cases w, simp)+

lemma jsonb_done: "jsonb x w = (Inr u, t) \<Longrightarrow> t = w"
  by (auto simp: jsonb_def split: sum.splits)

lemma insertEvent_done:
  assumes "insertEvent ev w = (Inr u, t)"
  shows "\<exists>n. t = w\<lparr>io_ix := n, execution_events := execution_events w @ [ev]\<rparr>"
  using assms unfolding insertEvent_def insertEvent_stmt_def
  by (elim bindE_InrE) (auto dest!: jsonb_done writes_done)

lemma insertEvents_done:
  assumes "eachE insertEvent evs w = (Inr u, t)"
  shows "\<exists>n. t = w\<lparr>io_ix := n, execution_events := execution_events w @ evs\<rparr>"
  using assms
proof (induction evs arbitrary: w)
  case Nil then show ?case by (intro exI [of _ "io_ix w"]) simp
next
  case (Cons ev evs)
  then obtain v where v: "insertEvent ev w = (Inr (), v)" "eachE insertEvent evs v = (Inr u, t)" by (auto elim!: bindE_InrE)
  from insertEvent_done [OF v(1)] Cons.IH [OF v(2)] show ?case by auto
qed

lemma insertAudit_done:
  assumes "insertAudit a w = (Inr u, t)"
  shows "\<exists>n. t = w\<lparr>io_ix := n, audit_logs := audit_logs w @ [a\<lparr>al_ActorType := [], al_UserID := []\<rparr>]\<rparr>"
  using assms unfolding insertAudit_def insertAudit_stmt_def
  by (elim bindE_InrE) (auto dest!: jsonb_done writes_done)

lemma insert_results_done:
  assumes "eachE insert_result rs w = (Inr u, t)"
  shows "\<exists>n. t = w\<lparr>io_ix := n, execution_results := execution_results w @ rs\<rparr>"
  using assms
proof (induction rs arbitrary: w)
  case Nil then show ?case by (intro exI [of _ "io_ix w"]) simp
next
  case (Cons r rs)
  then obtain v where v: "insert_result r w = (Inr (), v)" "eachE insert_result rs v = (Inr u, t)" by (auto elim!: bindE_InrE)
  from v(1) have "\<exists>n. v = w\<lparr>io_ix := n, execution_results := execution_results w @ [r]\<rparr>"
    unfolding insert_result_def by (elim bindE_InrE) (auto dest!: jsonb_done writes_done)
  with Cons.IH [OF v(2)] show ?case by auto
qed

text \<open>
  The closing transaction stores the results, the event and the audit entry and sets the final
  status whatever the status was: a task the user cancelled meanwhile becomes what the worker
  computed, against the state machine.
\<close>

theorem AppendResultAndFinalize_overwrites:
  assumes "AppendResultAndFinalize i rs final ev a w = (Inr (), t)"
  shows "\<exists>now. executions t = map (\<lambda>e. if ex_ID e = i then e\<lparr>ex_Status := final, ex_FinishedAt := Some now\<rparr> else e) (executions w) \<and>
    execution_results t = execution_results w @ rs \<and> execution_events t = execution_events w @ [ev] \<and>
    length (audit_logs t) = Suc (length (audit_logs w)) \<and> task_queue t = task_queue w"
proof -
  let ?w = "w\<lparr>io_ix := Suc (io_ix w), now_ix := Suc (now_ix w)\<rparr>" and ?now = "clock (w_env w) (now_ix w)"
  from assms [unfolded AppendResultAndFinalize_def] obtain u where u: "bindE (eachE insert_result rs) (\<lambda>_.
     bindE (finish_execution i final ?now) (\<lambda>_. bindE (insertEvent ev) (\<lambda>_. insertAudit a))) ?w = (Inr (), u)"
    "t = u\<lparr>io_ix := Suc (io_ix u)\<rparr>" by (rule WithTx_done)
  from u(1) obtain v1 v2 v3 where v: "eachE insert_result rs ?w = (Inr (), v1)" "finish_execution i final ?now v1 = (Inr (), v2)"
      "insertEvent ev v2 = (Inr (), v3)" "insertAudit a v3 = (Inr (), u)"
    by (elim bindE_InrE) (metis old.unit.exhaust)
  from v(2) have "\<exists>n. v2 = v1\<lparr>io_ix := n, executions := set_where (\<lambda>e. ex_ID e = i)
      (\<lambda>e. e\<lparr>ex_Status := final, ex_FinishedAt := Some ?now\<rparr>) (executions v1)\<rparr>"
    unfolding finish_execution_def by (auto dest!: writes_done)
  with insert_results_done [OF v(1)] insertEvent_done [OF v(3)] insertAudit_done [OF v(4)] u(2)
  show ?thesis by (auto simp: set_where_def)
qed

section \<open>A task and its queue row come into being together\<close>

lemma insert_execution_done:
  assumes "insert_execution e w = (Inr x, t)"
  shows "\<exists>n. (\<exists>it \<in> set (executions w). idem_conflict e it \<and> x = it \<and> t = w\<lparr>io_ix := n\<rparr>) \<or>
    \<not> has_execution w (ex_ID e) \<and> (\<forall>it \<in> set (executions w). \<not> idem_conflict e it) \<and> x = inserted_execution e \<and>
    t = w\<lparr>io_ix := n, executions := executions w @ [inserted_execution e]\<rparr>"
  using assms
  by (auto simp: insert_execution_def disk_def has_execution_def find_None_iff find_Some_iff split: option.splits if_splits)

lemma insert_queue_row_done:
  assumes "insert_queue_row r w = (Inr u, t)"
  shows "\<exists>n. (if row_key r \<in> row_key ` set (task_queue w) then t = w\<lparr>io_ix := n\<rparr>
    else has_execution w (qr_TaskID r) \<and> t = w\<lparr>io_ix := n, task_queue := task_queue w @ [r]\<rparr>)"
  using assms by (auto simp: insert_queue_row_def disk_def has_execution_def split: option.splits if_splits)

text \<open>Every task has a queue row, every queue row belongs to a task, and tasks have distinct identifiers.\<close>

definition exec_key :: "Execution \<Rightarrow> string \<times> string \<times> string" where
  "exec_key e = (ex_TenantID e, ex_ProjectID e, ex_ID e)"

definition no_split_brain :: "world \<Rightarrow> bool" where
  "no_split_brain w \<longleftrightarrow> exec_key ` set (executions w) \<subseteq> row_key ` set (task_queue w) \<and>
     (\<forall>r \<in> set (task_queue w). has_execution w (qr_TaskID r)) \<and> distinct (map ex_ID (executions w))"

lemma CreateExecutionAndEnqueue_done:
  assumes run: "CreateExecutionAndEnqueue e evs a at w = (Inr (x, c), t)"
    and fresh: "\<not> has_execution w (ex_ID e)" and ok: "no_split_brain w"
  shows "if c then x = e \<and> executions t = executions w @ [inserted_execution e] \<and> execution_events t = execution_events w @ evs \<and>
      length (audit_logs t) = Suc (length (audit_logs w)) \<and>
      (\<exists>at' now. task_queue t = task_queue w @ [ready_row (ex_TenantID e) (ex_ProjectID e) (ex_ID e) at' now]) \<and>
      (\<forall>it \<in> set (executions w). \<not> idem_conflict e it)
    else same_tables w t \<and> (\<exists>it \<in> set (executions w). idem_conflict e it \<and> x = returned_execution it)"
proof -
  let ?w = "w\<lparr>io_ix := Suc (io_ix w), now_ix := Suc (now_ix w)\<rparr>" and ?now = "clock (w_env w) (now_ix w)"
  let ?r = "\<lambda>at. ready_row (ex_TenantID e) (ex_ProjectID e) (ex_ID e) at ?now"
  from run [unfolded CreateExecutionAndEnqueue_def] obtain u where u: "bindE (CreateExecutionWithEvent e evs a) (\<lambda>(out, created).
       if \<not> created then retE (out, created)
       else bindE (if at = 0 then time_now else retE at) (\<lambda>at.
         bindE (insert_queue_row (ready_row (ex_TenantID e) (ex_ProjectID e) (ex_ID e) at ?now)) (\<lambda>_.
           retE (out, created)))) ?w = (Inr (x, c), u)" "t = u\<lparr>io_ix := Suc (io_ix u)\<rparr>" by (rule WithTx_done)
  from u(1) obtain out created v0 where v0: "CreateExecutionWithEvent e evs a ?w = (Inr (out, created), v0)"
      "if created then bindE (if at = 0 then time_now else retE at) (\<lambda>at. bindE (insert_queue_row (?r at)) (\<lambda>_. retE (out, created))) v0
         = (Inr (x, c), u) else x = out \<and> c = created \<and> u = v0"
    by (elim bindE_InrE) (auto split: if_splits)
  then obtain at' n where v: "if created then bindE (insert_queue_row (?r at')) (\<lambda>_. retE (out, created)) (v0\<lparr>now_ix := n\<rparr>) = (Inr (x, c), u)
      else x = out \<and> c = created \<and> u = v0"
    by (cases created; cases "at = 0") (auto simp: time_now_run intro: that [of _ "Suc (now_ix v0)"] that [of at "now_ix v0"])
  from v0(1) obtain ex v1 where ins: "insert_execution e ?w = (Inr ex, v1)"
      "(if ex_ID ex = ex_ID e then bindE (eachE insertEvent evs) (\<lambda>_. bindE (insertAudit a) (\<lambda>_. retE (e, True)))
        else retE (returned_execution ex, False)) v1 = (Inr (out, created), v0)"
    unfolding CreateExecutionWithEvent_def by (elim bindE_InrE) (auto dest!: jsonb_done)
  show ?thesis
  proof (cases "ex_ID ex = ex_ID e")
    case False
    then have n: "out = returned_execution ex" "\<not> created" "v0 = v1" using ins(2) by auto
    have "ex \<noteq> inserted_execution e" using False by (auto simp: inserted_execution_def)
    with insert_execution_done [OF ins(1)] obtain m where "ex \<in> set (executions w)" "idem_conflict e ex" "v1 = ?w\<lparr>io_ix := m\<rparr>" by auto
    then show ?thesis using n v u(2) by (auto simp: same_tables_iff)
  next
    case True
    then obtain v2 v3 where c: "eachE insertEvent evs v1 = (Inr (), v2)" "insertAudit a v2 = (Inr (), v0)" "out = e" "created"
      using ins(2) by (auto elim!: bindE_InrE)
    have "ex \<notin> set (executions w)" using True fresh image_eqI [of "ex_ID e" ex_ID ex] by (auto simp: has_execution_def)
    with insert_execution_done [OF ins(1)] obtain m where v1: "v1 = ?w\<lparr>io_ix := m, executions := executions w @ [inserted_execution e]\<rparr>"
        "\<forall>it \<in> set (executions w). \<not> idem_conflict e it" by auto
    obtain y v4 where q: "insert_queue_row (?r at') (v0\<lparr>now_ix := n\<rparr>) = (Inr y, u)" "x = e" "c" using v c(3,4) by (auto elim!: bindE_InrE)
    have "row_key (?r at') \<notin> row_key ` set (task_queue v0)"
      using ok fresh v1 insertEvents_done [OF c(1)] insertAudit_done [OF c(2)]
      by (auto simp: no_split_brain_def row_key_def ready_row_def)
    with insert_queue_row_done [OF q(1)] insertEvents_done [OF c(1)] insertAudit_done [OF c(2)] v1 q(2,3) u(2)
    show ?thesis by auto blast
  qed
qed

end
