(* ===== verification/EnterpriseRuns.thy ===== *)
theory EnterpriseRuns
  imports EnterpriseSpec TaskOrder
begin

text \<open>
  The production mode as a whole: what a request leaves in the tables, and what holds of the task
  table and the queue table together after any sequence of requests, worker calls and queue calls.
\<close>

section \<open>What a request leaves\<close>

lemma untouched_BuildInputHash: "evolves always untouched (BuildInputHash input)"
  by (simp add: evolves_def BuildInputHash_def untouched_def same_tables_iff split: sum.split)

lemma untouched_BuildPluginIDsHash: "evolves always untouched (BuildPluginIDsHash ids)"
  by (simp add: evolves_def BuildPluginIDsHash_def untouched_def same_tables_iff split: sum.split)

lemma untouched_enforce: "evolves always untouched (enforcePolicy (NewEnterpriseExecutionService ps) user action resource)"
  unfolding enforcePolicy_def NewEnterpriseExecutionService_def RBAC_Evaluate_def
  by (simp add: touchless.intros)

lemma untouched_check:
  "reads_plugins ps \<Longrightarrow> evolves always untouched (check_request (NewEnterpriseExecutionService ps) user ids input)"
  unfolding check_request_def Let_def
  by (intro touchless.intros untouched_enforce untouched_BuildInputHash untouched_BuildPluginIDsHash)
     (simp add: NewEnterpriseExecutionService_def untouched_Validate)

text \<open>Identifiers are drawn in order, also inside a transaction and when it is rolled back.\<close>

definition forward :: "world \<Rightarrow> world \<Rightarrow> bool" where
  "forward w t \<longleftrightarrow> w_env t = w_env w \<and> id_ix w \<le> id_ix t"

interpretation forwards: state_order always forward
  by unfold_locales (auto simp: forward_def)

lemma forward_disk:
  assumes "\<And>w. forward w (snd (m w))"
  shows "evolves always forward (disk m)"
proof (rule evolvesI)
  fix w :: world
  have "forward (w\<lparr>io_ix := Suc (io_ix w)\<rparr>) (snd (m (w\<lparr>io_ix := Suc (io_ix w)\<rparr>)))" by (rule assms)
  then show "True \<and> forward w (snd (disk m w))" by (auto simp: disk_def forward_def split: option.split)
qed

lemma forward_statement: "(\<And>w. forward w (upd w)) \<Longrightarrow> evolves always forward (statement chk upd)"
  unfolding statement_def by (rule forward_disk) (simp add: forward_def split: option.split)

lemma forward_tx:
  assumes "\<And>now. evolves always forward (fn now)"
  shows "evolves always forward (WithTx fn)"
  using WithTx_env [of fn] assms by (simp add: evolves_def forward_def)

lemma forward_now: "evolves always forward time_now" by (simp add: evolves_def time_now_def forward_def)
lemma forward_id: "evolves always forward (newID p)" by (simp add: evolves_def newID_def forward_def)
lemma forward_jsonb: "evolves always forward (jsonb x)" by (simp add: evolves_def jsonb_def forward_def split: sum.split)

lemma forward_insertEvent: "evolves always forward (insertEvent e)"
  unfolding insertEvent_def insertEvent_stmt_def
  by (intro forwards.bind forward_jsonb forward_statement) (simp add: forward_def)

lemma forward_insertAudit: "evolves always forward (insertAudit a)"
  unfolding insertAudit_def insertAudit_stmt_def
  by (intro forwards.bind forward_jsonb forward_statement) (simp add: forward_def)

lemma forward_insert_queue_row: "evolves always forward (insert_queue_row r)"
  unfolding insert_queue_row_def by (rule forward_disk) (simp add: forward_def)

lemma forward_insert_execution: "evolves always forward (insert_execution e)"
  unfolding insert_execution_def by (rule forward_disk) (simp add: forward_def split: option.split)

lemma forward_store: "evolves always forward (store_request e rq now)"
  unfolding store_request_def CreateExecutionAndEnqueue_def CreateExecutionWithEvent_def
  by (intro forwards.intros forward_tx forward_id forward_now forward_jsonb forward_insertEvent forward_insertAudit
      forward_insert_queue_row forward_insert_execution)

lemma same_tables_trans: "same_tables w t \<Longrightarrow> same_tables t u \<Longrightarrow> same_tables w u"
  by (simp add: same_tables_iff)

lemma no_split_brain_same: "same_tables w t \<Longrightarrow> no_split_brain w \<Longrightarrow> no_split_brain t"
  by (simp add: no_split_brain_def same_tables_iff has_execution_def)

lemma store_request_done:
  assumes run: "store_request e rq now w = (r, t)" and fresh: "\<not> has_execution w (ex_ID e)" and ok: "no_split_brain w"
  shows "case r of Inl _ \<Rightarrow> same_tables w t
    | Inr (x, c) \<Rightarrow> if c then x = e \<and> executions t = executions w @ [inserted_execution e] \<and>
        length (execution_events t) = length (execution_events w) + 2 \<and> length (audit_logs t) = Suc (length (audit_logs w)) \<and>
        (\<exists>at now. task_queue t = task_queue w @ [ready_row (ex_TenantID e) (ex_ProjectID e) (ex_ID e) at now]) \<and>
        (\<forall>it \<in> set (executions w). \<not> idem_conflict e it)
      else same_tables w t \<and> (\<exists>it \<in> set (executions w). idem_conflict e it \<and> x = returned_execution it)"
proof -
  let ?w = "w\<lparr>id_ix := Suc (Suc (Suc (id_ix w)))\<rparr>"
  obtain evs a where c: "CreateExecutionAndEnqueue e evs a now ?w = (r, t)" "length evs = 2"
    using run by (auto simp: store_request_def newID_run)
  have same: "same_tables w ?w" by (simp add: same_tables_iff)
  show ?thesis
  proof (cases r)
    case (Inl err)
    have "same_tables ?w t" by (rule WithTx_error [OF c(1) [unfolded Inl CreateExecutionAndEnqueue_def]])
    with Inl show ?thesis using same_tables_trans [OF same] by simp
  next
    case (Inr xc)
    obtain x c' where xc: "xc = (x, c')" by (cases xc)
    have "\<not> has_execution ?w (ex_ID e)" using fresh by (simp add: has_execution_def)
    from CreateExecutionAndEnqueue_done [OF c(1) [unfolded Inr xc] this no_split_brain_same [OF same ok]] c(2)
    show ?thesis using same_tables_trans [OF same] by (auto simp: Inr xc)
  qed
qed

lemma reuse_tables: "reuse_execution e h g w = (r, t) \<Longrightarrow> same_tables w t \<and> (r = Inr x \<longrightarrow> x = e)"
  by (auto simp: reuse_execution_def IncIdempotencyConflict_def IncIdempotencyHit_def add_metric_run bindE_def same_tables_iff
      split: option.splits)

definition request_stored :: "Execution \<Rightarrow> world \<Rightarrow> world \<Rightarrow> bool" where
  "request_stored e w t \<longleftrightarrow> \<not> has_execution w (ex_ID e) \<and> executions t = executions w @ [inserted_execution e] \<and>
     (\<exists>at now. task_queue t = task_queue w @ [ready_row (ex_TenantID e) (ex_ProjectID e) (ex_ID e) at now]) \<and>
     length (execution_events t) = length (execution_events w) + 2 \<and> length (audit_logs t) = Suc (length (audit_logs w)) \<and>
     (\<forall>it \<in> set (executions w). \<not> idem_conflict e it)"

definition requested :: "CurrentUser \<Rightarrow> string list \<Rightarrow> jobj option \<Rightarrow> string \<Rightarrow> Execution \<Rightarrow> bool" where
  "requested user ids input key e \<longleftrightarrow> ex_Status e = ExecutionStatusQueued \<and> ex_PluginIDs e = ids \<and> ex_InputJSON e = input \<and>
     ex_UserID e = cu_ID user \<and> ex_IdempotencyKey e = key \<and> Execution_Scope e = CurrentUser_Scope user"

lemma request_done:
  assumes ps: "reads_plugins ps" and inj: "inj (id_text (w_env w))" and w: "no_split_brain w" "ids_minted w"
    and run: "EnterpriseCreateExecution (NewEnterpriseExecutionService ps) user ids input key rq w = (r, t)"
  shows "same_tables w t \<and> (\<forall>x. r = Inr x \<longrightarrow> key \<noteq> [] \<and> (\<exists>it \<in> set (executions w). x = returned_execution it \<and>
       pg_idem_key it = (sc_TenantID (CurrentUser_Scope user), sc_ProjectID (CurrentUser_Scope user), cu_ID user, key))) \<or>
     (\<exists>x n. r = Inr x \<and> requested user ids input key x \<and> request_stored x w t \<and>
       w_env t = w_env w \<and> id_ix w \<le> n \<and> n < id_ix t \<and> ex_ID x = ''exec_'' @ id_text (w_env w) n)"
proof -
  let ?S = "NewEnterpriseExecutionService ps"
  obtain rc w1 where c: "check_request ?S user ids input w = (rc, w1)" by (cases "check_request ?S user ids input w")
  have u: "untouched w w1" using evolvesD [OF untouched_check [OF ps] _ c] by simp
  then have st: "same_tables w w1" "w_env w1 = w_env w" "id_ix w \<le> id_ix w1" by (simp_all add: untouched_def)
  show ?thesis
  proof (cases rc)
    case (Inl err) with run c st show ?thesis by (auto simp: EnterpriseCreateExecution_def)
  next
    case (Inr hg)
    obtain h g where hg: "hg = (h, g)" by (cases hg)
    let ?now = "clock (w_env w1) (now_ix w1)" and ?i = "''exec_'' @ id_text (w_env w1) (id_ix w1)"
    let ?w2 = "w1\<lparr>now_ix := Suc (now_ix w1), id_ix := Suc (id_ix w1)\<rparr>"
    let ?e = "queued_execution user ids input h g key ?now ?i"
    have e: "ex_ID ?e = ?i" "requested user ids input key ?e"
        "pg_idem_key ?e = (sc_TenantID (CurrentUser_Scope user), sc_ProjectID (CurrentUser_Scope user), cu_ID user, key)"
        "ex_IdempotencyKey ?e = key"
      by (simp_all add: queued_execution_def new_execution_def Let_def requested_def Execution_Scope_def pg_idem_key_def)
         (simp add: CurrentUser_Scope_def)
    have s2: "same_tables w ?w2" using st(1) by (simp add: same_tables_iff)
    have "ids_minted w1" using w(2) st by (intro ids_minted_mono [OF w(2)]) (simp_all add: same_tables_iff)
    with inj st(2) have "?i \<notin> ex_ID ` set (executions w1)" using ids_minted_fresh [of w1] by fastforce
    then have fresh: "\<not> has_execution ?w2 (ex_ID ?e)" "\<not> has_execution w (ex_ID ?e)"
      using st(1) e(1) by (auto simp: has_execution_def same_tables_iff)
    obtain rs w3 where s: "store_request ?e rq ?now ?w2 = (rs, w3)" by (cases "store_request ?e rq ?now ?w2")
    note d = store_request_done [OF s fresh(1) no_split_brain_same [OF s2 w(1)]]
    have id3: "id_ix ?w2 \<le> id_ix w3" "w_env w3 = w_env ?w2"
      using evolvesD [OF forward_store _ s] by (simp_all add: forward_def)
    show ?thesis
    proof (cases rs)
      case (Inl err)
      with run c Inr hg s d s2 show ?thesis
        by (auto simp: EnterpriseCreateExecution_def time_now_run newID_run intro: same_tables_trans)
    next
      case rs: (Inr xc)
      obtain x cr where xc: "xc = (x, cr)" by (cases xc)
      show ?thesis
      proof (cases cr)
        case False
        with run c Inr hg s rs xc have "reuse_execution x h g w3 = (r, t)"
          by (simp add: EnterpriseCreateExecution_def time_now_run newID_run)
        from reuse_tables [OF this] d False rs xc s2 e(3,4) show ?thesis
          by (auto simp: idem_conflict_def same_tables_iff)
      next
        case True
        with run c Inr hg s rs xc obtain m where "r = Inr x" "t = w3\<lparr>metrics := m\<rparr>"
          by (auto simp: EnterpriseCreateExecution_def time_now_run newID_run IncTaskSubmitted_def add_metric_run)
        with d True rs xc s2 fresh e id3 st(2,3) show ?thesis
          by (intro disjI2 exI [of _ x] exI [of _ "id_ix w1"]) (auto simp: request_stored_def same_tables_iff)
      qed
    qed
  qed
qed

section \<open>Tasks and queue rows stay together\<close>

text \<open>Steps that keep the keys of both tables.\<close>

definition keys_kept :: "world \<Rightarrow> world \<Rightarrow> bool" where
  "keys_kept w t \<longleftrightarrow> w_env t = w_env w \<and> id_ix w \<le> id_ix t \<and>
     map exec_key (executions t) = map exec_key (executions w) \<and> map row_key (task_queue t) = map row_key (task_queue w)"

interpretation keyed: state_order always keys_kept
  by unfold_locales (auto simp: keys_kept_def)

lemma exec_key_IDs:
  assumes "map exec_key xs = map exec_key ys"
  shows "map ex_ID xs = map ex_ID ys"
proof -
  have "map (snd \<circ> snd) (map exec_key zs) = map ex_ID zs" for zs by (simp add: exec_key_def)
  then show ?thesis by (metis assms)
qed

lemma row_key_tasks:
  assumes "map row_key xs = map row_key ys"
  shows "qr_TaskID ` set xs = qr_TaskID ` set ys"
proof -
  have "map (snd \<circ> snd) (map row_key zs) = map qr_TaskID zs" for zs by (simp add: row_key_def)
  then have "map qr_TaskID xs = map qr_TaskID ys" by (metis assms)
  from this [THEN arg_cong, of set] show ?thesis by simp
qed

lemma no_split_brain_iff: "no_split_brain w \<longleftrightarrow> exec_key ` set (executions w) \<subseteq> row_key ` set (task_queue w) \<and>
    qr_TaskID ` set (task_queue w) \<subseteq> ex_ID ` set (executions w) \<and> distinct (map ex_ID (executions w))"
  by (auto simp: no_split_brain_def has_execution_def)

definition production_inv :: "world \<Rightarrow> bool" where
  "production_inv w \<longleftrightarrow> no_split_brain w \<and> ids_minted w"

lemma production_keys:
  assumes k: "keys_kept w t" and w: "production_inv w"
  shows "production_inv t"
proof -
  have IDs: "map ex_ID (executions t) = map ex_ID (executions w)" using k by (intro exec_key_IDs) (simp add: keys_kept_def)
  have keys: "map exec_key (executions t) = map exec_key (executions w)" "map row_key (task_queue t) = map row_key (task_queue w)"
    using k by (simp_all add: keys_kept_def)
  have sets: "exec_key ` set (executions t) = exec_key ` set (executions w)" "row_key ` set (task_queue t) = row_key ` set (task_queue w)"
      "ex_ID ` set (executions t) = ex_ID ` set (executions w)"
    using keys [THEN arg_cong, of set] IDs [THEN arg_cong, of set] by simp_all
  have tasks: "qr_TaskID ` set (task_queue t) = qr_TaskID ` set (task_queue w)"
    using k by (intro row_key_tasks) (simp add: keys_kept_def)
  have "no_split_brain t" using w IDs sets tasks by (simp add: no_split_brain_iff production_inv_def)
  moreover have "ids_minted t"
    unfolding ids_minted_def
  proof (intro conjI ballI)
    show "distinct (map ex_ID (executions t))" using w IDs by (simp add: production_inv_def ids_minted_def)
    fix e assume "e \<in> set (executions t)"
    then have "ex_ID e \<in> ex_ID ` set (executions w)" using sets(3) by blast
    then obtain f where f: "f \<in> set (executions w)" "ex_ID e = ex_ID f" by blast
    then obtain n where "n < id_ix w" "ex_ID e = ''exec_'' @ id_text (w_env w) n"
      using w by (auto simp: production_inv_def ids_minted_def)
    with k show "\<exists>n<id_ix t. ex_ID e = ''exec_'' @ id_text (w_env t) n" by (auto simp: keys_kept_def intro!: exI [of _ n])
  qed
  ultimately show ?thesis by (simp add: production_inv_def)
qed

lemma unfinished_keys: "unfinished w t \<Longrightarrow> keys_kept w t"
proof -
  assume u: "unfinished w t"
  have "list_all2 taken xs ys \<Longrightarrow> map exec_key ys = map exec_key xs" for xs ys
    by (induction rule: list_all2_induct) (auto simp: taken_def set_running_def exec_key_def)
  with u show ?thesis by (auto simp: unfinished_def keys_kept_def)
qed

lemma keyed_disk:
  assumes "\<And>w. keys_kept w (snd (m w))"
  shows "evolves always keys_kept (disk m)"
proof (rule evolvesI)
  fix w :: world
  have "keys_kept (w\<lparr>io_ix := Suc (io_ix w)\<rparr>) (snd (m (w\<lparr>io_ix := Suc (io_ix w)\<rparr>)))" by (rule assms)
  then show "True \<and> keys_kept w (snd (disk m w))" by (auto simp: disk_def keys_kept_def split: option.split)
qed

lemma kept_keys: "evolves always kept m \<Longrightarrow> evolves always keys_kept m"
  by (erule evolves_mono) (simp add: kept_def keys_kept_def)

lemma set_where_rows: "(\<And>r. row_key (f r) = row_key r) \<Longrightarrow> map row_key (set_where p f rows) = map row_key rows"
  by (simp add: set_where_def)

lemma set_where_execs: "(\<And>e. exec_key (f e) = exec_key e) \<Longrightarrow> map exec_key (set_where p f es) = map exec_key es"
  by (simp add: set_where_def)

lemma keyed_rows:
  assumes "\<And>r. row_key (f r) = row_key r"
  shows "evolves always keys_kept (statement chk (task_queue_update (set_where p f)))"
  unfolding statement_def by (rule keyed_disk) (simp add: keys_kept_def set_where_rows [OF assms] split: option.split)

lemma keyed_now: "evolves always keys_kept time_now" by (rule kept_keys, rule kept_now)
lemma keyed_id: "evolves always keys_kept (newID p)" by (rule kept_keys, rule kept_id)

lemma keyed_lease: "evolves always keys_kept (LeaseNext opts)"
  unfolding LeaseNext_def lease_statement_def Let_def
  by (intro keyed.bind keyed_now keyed_disk) (simp add: keys_kept_def)

lemma keyed_heartbeat: "evolves always keys_kept (Heartbeat task l wk d)"
  unfolding Heartbeat_def Let_def
  by (intro keyed.bind keyed_now keyed_disk) (simp add: keys_kept_def set_where_def row_key_def)

lemma keyed_ack: "evolves always keys_kept (Ack task l wk)"
  unfolding Ack_def by (rule keyed_rows) (simp add: row_key_def)

lemma keyed_nack: "evolves always keys_kept (Nack task l wk opts)"
  unfolding Nack_def Let_def by (intro keyed.intros keyed_now keyed_rows) (simp add: row_key_def)

lemma keyed_reclaim: "evolves always keys_kept (ReclaimExpiredLeases now limit)"
  unfolding ReclaimExpiredLeases_def Let_def
  by (intro keyed.bind keyed_now keyed_disk) (simp add: keys_kept_def set_where_def row_key_def)

lemma keyed_move_dlq: "evolves always keys_kept (MoveToDLQ task reason)"
  unfolding MoveToDLQ_def by (rule keyed_rows) (simp add: row_key_def)

lemma keyed_tx:
  assumes "\<And>now. evolves always keys_kept (fn now)"
  shows "evolves always keys_kept (WithTx fn)"
proof (rule evolvesI)
  fix w :: world
  obtain r t where run: "WithTx fn w = (r, t)" by (cases "WithTx fn w")
  have "keys_kept w t"
  proof (cases r)
    case (Inl e)
    have "w_env (snd (fn now v)) = w_env v \<and> id_ix v \<le> id_ix (snd (fn now v))" for now v
      using assms [of now] by (simp add: evolves_def keys_kept_def)
    with WithTx_env [of fn w] run have "w_env t = w_env w \<and> id_ix w \<le> id_ix t" by simp
    with WithTx_error [OF run [unfolded Inl]] show ?thesis by (simp add: same_tables_iff keys_kept_def)
  next
    case (Inr x)
    from run [unfolded Inr] obtain u where u: "fn (clock (w_env w) (now_ix w)) (w\<lparr>io_ix := Suc (io_ix w), now_ix := Suc (now_ix w)\<rparr>) = (Inr x, u)"
      "t = u\<lparr>io_ix := Suc (io_ix u)\<rparr>" by (rule WithTx_done)
    from evolvesD [OF assms _ u(1)] u(2) show ?thesis by (simp add: keys_kept_def)
  qed
  with run show "True \<and> keys_kept w (snd (WithTx fn w))" by simp
qed

lemma keyed_insertEvent: "evolves always keys_kept (insertEvent e)"
  by (rule evolves_mono [OF unfinished_insertEvent]) (auto intro: unfinished_keys)

lemma keyed_insertAudit: "evolves always keys_kept (insertAudit a)"
  by (rule evolves_mono [OF unfinished_insertAudit]) (auto intro: unfinished_keys)

lemma keyed_move: "evolves always keys_kept (move_execution i from to)"
  unfolding move_execution_def Let_def
  by (rule keyed_disk) (simp add: keys_kept_def set_where_def exec_key_def)

lemma keyed_transition: "evolves always keys_kept (TransitionExecutionWithEvent i from to ev a)"
  unfolding TransitionExecutionWithEvent_def
  by (intro keyed_tx keyed.bind keyed_move keyed_insertEvent keyed_insertAudit)

lemma keyed_enforce: "evolves always keys_kept (enforcePolicy (NewEnterpriseExecutionService ps) user action resource)"
  by (rule evolves_mono [OF untouched_enforce]) (simp add: untouched_def same_tables_iff keys_kept_def)

lemma keyed_get: "evolves always keys_kept (EnterpriseGetExecution (NewEnterpriseExecutionService ps) user i)"
  unfolding EnterpriseGetExecution_def PgExecution_GetByID_def PgExecution_get_def
  by (intro keyed.intros keyed_enforce kept_keys [OF kept_query])

lemma keyed_cancel: "evolves always keys_kept (EnterpriseCancelExecution (NewEnterpriseExecutionService ps) user i rq)"
  unfolding EnterpriseCancelExecution_def
  by (intro keyed.intros keyed_get keyed_enforce keyed_transition keyed_now keyed_id)

lemma production_keyed:
  assumes "evolves always keys_kept m" and "m w = (r, t)" and "production_inv w"
  shows "production_inv t \<and> w_env t = w_env w"
  using evolvesD [OF assms(1) _ assms(2)] production_keys assms(3) by (auto simp: keys_kept_def)

lemma production_enqueue:
  assumes w: "production_inv w" and run: "Enqueue opts w = (r, t)"
  shows "production_inv t \<and> w_env t = w_env w"
proof -
  obtain q where q: "insert_queue_row q (w\<lparr>now_ix := Suc (now_ix w)\<rparr>) = (r, t)" using run by (auto simp: Enqueue_def time_now_run)
  then have "w_env t = w_env w \<and> id_ix t = id_ix w \<and> executions t = executions w \<and> (task_queue t = task_queue w \<or>
      has_execution w (qr_TaskID q) \<and> task_queue t = task_queue w @ [q])"
    by (auto simp: insert_queue_row_def disk_def has_execution_def split: option.splits if_splits)
  with w show ?thesis
    by (auto simp: production_inv_def no_split_brain_def has_execution_def ids_minted_def)
qed

lemma production_stored:
  assumes w: "production_inv w" and e: "request_stored e w t" and t: "w_env t = w_env w"
    and n: "id_ix w \<le> n" "n < id_ix t" "ex_ID e = ''exec_'' @ id_text (w_env w) n"
  shows "production_inv t"
proof -
  from e obtain row where x: "executions t = executions w @ [inserted_execution e]" "task_queue t = task_queue w @ [row]"
      "row_key row = exec_key e" "qr_TaskID row = ex_ID e" "ex_ID e \<notin> ex_ID ` set (executions w)"
    by (auto simp: request_stored_def has_execution_def row_key_def exec_key_def ready_row_def)
  have key: "exec_key (inserted_execution e) = exec_key e" "ex_ID (inserted_execution e) = ex_ID e"
    by (simp_all add: inserted_execution_def exec_key_def)
  have "no_split_brain t" using w x key by (auto simp: production_inv_def no_split_brain_iff)
  moreover have "\<exists>k<id_ix t. ex_ID f = ''exec_'' @ id_text (w_env t) k" if "f \<in> set (executions t)" for f
  proof (cases "f \<in> set (executions w)")
    case True
    then obtain k where "k < id_ix w" "ex_ID f = ''exec_'' @ id_text (w_env w) k"
      using w by (auto simp: production_inv_def ids_minted_def)
    with n t show ?thesis by (intro exI [of _ k]) simp
  next
    case False
    with that x have "f = inserted_execution e" by auto
    with n t key show ?thesis by (intro exI [of _ n]) simp
  qed
  moreover have "distinct (map ex_ID (executions t))" using w x key by (auto simp: production_inv_def ids_minted_def)
  ultimately show ?thesis by (simp add: production_inv_def ids_minted_def)
qed

text \<open>
  C6. A request to the production service either fails and changes no table, or repeats a key the
  caller has used before, gets the task of that key and changes no table, or stores exactly one new
  queued task carrying the request, together with one ready row of the queue, two events and one
  entry of the audit trail.
\<close>

theorem EnterpriseCreateExecution_sound:
  assumes "reads_plugins ps" and "inj (id_text (w_env w))" and "production_inv w"
    and "EnterpriseCreateExecution (NewEnterpriseExecutionService ps) user ids input key rq w = (r, t)"
  shows "case r of
      Inl _ \<Rightarrow> same_tables w t
    | Inr e \<Rightarrow> requested user ids input key e \<and> request_stored e w t \<or>
        same_tables w t \<and> key \<noteq> [] \<and> (\<exists>it \<in> set (executions w). e = returned_execution it \<and>
          pg_idem_key it = (sc_TenantID (CurrentUser_Scope user), sc_ProjectID (CurrentUser_Scope user), cu_ID user, key))"
  using request_done [OF assms(1,2) _ _ assms(4)] assms(3) by (cases r) (auto simp: production_inv_def)

lemma forward_create:
  assumes "reads_plugins ps"
  shows "evolves always forward (EnterpriseCreateExecution (NewEnterpriseExecutionService ps) user ids input key rq)"
proof -
  have check: "evolves always forward (check_request (NewEnterpriseExecutionService ps) user ids input)"
    by (rule evolves_mono [OF untouched_check [OF assms]]) (simp add: untouched_def forward_def)
  have metric: "evolves always forward (add_metric m n)" for m n by (simp add: evolves_def add_metric_def forward_def)
  show ?thesis
    unfolding EnterpriseCreateExecution_def reuse_execution_def IncIdempotencyConflict_def IncIdempotencyHit_def IncTaskSubmitted_def
    by (intro forwards.intros check metric forward_now forward_id forward_store)
qed

text \<open>
  The steps of the production mode: requests, cancellations, the handler of a durable worker, and
  every call of the durable queue.
\<close>

inductive production_step :: "world PluginStore \<Rightarrow> world \<Rightarrow> world \<Rightarrow> bool" for ps :: "world PluginStore" where
  Create: "EnterpriseCreateExecution (NewEnterpriseExecutionService ps) user ids input key rq w = (re, t) \<Longrightarrow> production_step ps w t"
| Cancel: "EnterpriseCancelExecution (NewEnterpriseExecutionService ps) user i rq w = (re, t) \<Longrightarrow> production_step ps w t"
| Work: "mh_plugins H = ps \<Longrightarrow> HandleLeasedExecution H ref w = (r, t) \<Longrightarrow> production_step ps w t"
| Enqueue: "Enqueue opts w = (r, t) \<Longrightarrow> production_step ps w t"
| Lease: "LeaseNext lopts w = (rl, t) \<Longrightarrow> production_step ps w t"
| Heartbeat: "Heartbeat task l wk d w = (r, t) \<Longrightarrow> production_step ps w t"
| Ack: "Ack task l wk w = (r, t) \<Longrightarrow> production_step ps w t"
| Nack: "Nack task l wk nopts w = (r, t) \<Longrightarrow> production_step ps w t"
| Reclaim: "ReclaimExpiredLeases now limit w = (ri, t) \<Longrightarrow> production_step ps w t"
| Move: "MoveToDLQ task reason w = (r, t) \<Longrightarrow> production_step ps w t"

lemma production_env: "production_step ps w t \<Longrightarrow> reads_plugins ps \<Longrightarrow> production_inv w \<Longrightarrow> inj (id_text (w_env w)) \<Longrightarrow>
    production_inv t \<and> w_env t = w_env w"
proof (induction rule: production_step.induct)
  case (Create user ids input key rq w re t)
  from request_done [OF Create(2,4) _ _ Create(1)] Create(3) consider "same_tables w t"
    | x n where "request_stored x w t" "w_env t = w_env w" "id_ix w \<le> n" "n < id_ix t" "ex_ID x = ''exec_'' @ id_text (w_env w) n"
    by (auto simp: production_inv_def)
  then show ?case
  proof cases
    case 1
    with evolvesD [OF forward_create [OF Create(2)] _ Create(1)] have "keys_kept w t"
      by (simp add: forward_def same_tables_iff keys_kept_def)
    with production_keys Create(3) show ?thesis by (auto simp: keys_kept_def)
  next
    case 2 with production_stored Create(3) show ?thesis by blast
  qed
next
  case (Cancel user i rq w re t)
  then show ?case by (intro production_keyed [OF keyed_cancel])
next
  case (Work H ref w r t)
  have "keys_kept w t" using handler_unfinished [OF _ Work(2)] Work(1,3) unfinished_keys by blast
  with production_keys Work show ?case by (auto simp: keys_kept_def)
next
  case (Enqueue opts w r t)
  show ?case by (rule production_enqueue [OF Enqueue(3,1)])
next
  case (Lease lopts w rl t)
  then show ?case by (intro production_keyed [OF keyed_lease])
next
  case (Heartbeat task l wk d w r t)
  then show ?case by (intro production_keyed [OF keyed_heartbeat])
next
  case (Ack task l wk w r t)
  then show ?case by (intro production_keyed [OF keyed_ack])
next
  case (Nack task l wk nopts w r t)
  then show ?case by (intro production_keyed [OF keyed_nack])
next
  case (Reclaim now limit w ri t)
  then show ?case by (intro production_keyed [OF keyed_reclaim])
next
  case (Move task reason w r t)
  then show ?case by (intro production_keyed [OF keyed_move_dlq])
qed

text \<open>
  C3. Whatever users and workers do, and whatever fails, every task of the production store has
  its row in the queue table and every row its task: no task is ever stored without being queued.
\<close>

theorem tasks_and_rows_together:
  assumes "reads_plugins ps" and "inj (id_text (w_env w))" and "production_inv w" and "(production_step ps)\<^sup>*\<^sup>* w t"
  shows "no_split_brain t"
proof -
  from assms(4,1-3) have "production_inv t \<and> w_env t = w_env w"
    by (induction rule: rtranclp_induct) (auto dest: production_env)
  then show ?thesis by (simp add: production_inv_def)
qed

end
