(* ===== verification/Worker.thy ===== *)
theory Worker
  imports ExecutionSpec RuntimeSpec
begin

text \<open>
  \<^verbatim>\<open>internal/worker/execution_worker.go\<close>: what a worker does with an identifier taken from
  the queue. The \<^verbatim>\<open>recover\<close> branch is not reached: nothing the modelled code calls panics
  (subscribers of the bus are assumed to return).
\<close>

record ExecutionWorker =
  wk_executions :: ExecutionService
  wk_runtime :: RuntimeService
  wk_events :: bool
  wk_attempts :: bool
  wk_workerID :: string

definition runExecutionSafely :: "ExecutionWorker \<Rightarrow> string \<Rightarrow> unit prog_w" where
  "runExecutionSafely W i = bindE (GetExecutionInternal i) (\<lambda>e.
     if ex_Status e = ExecutionStatusCanceled then retE ()
     else bindE (MarkRunning (wk_executions W) i ''worker'') (\<lambda>_.
       bindE (GetExecutablePlugins json_plugin_store (ex_PluginIDs e)) (\<lambda>ps.
       bindE (RunPlugins (wk_runtime W) e ps ''worker'' (wk_events W)) (\<lambda>results.
       bindE (BatchSaveResults results) (\<lambda>_.
       FinishExecution (wk_executions W) (ex_ID e) (AggregateExecutionStatus results) [] ''worker'')))))"

text \<open>\<open>attempt.ID != ""\<close> holds exactly when \<^verbatim>\<open>StartAttempt\<close> succeeded.\<close>

definition finish_attempt :: "ExecutionAttempt option \<Rightarrow> ExecutionAttemptStatus \<Rightarrow> string \<Rightarrow> unit prog_w" where
  "finish_attempt a st msg = (case a of None \<Rightarrow> retE () | Some x \<Rightarrow> tryE (FinishAttempt x st msg) (\<lambda>_. retE ()))"

definition begin_attempt :: "ExecutionWorker \<Rightarrow> string \<Rightarrow> ExecutionAttempt option prog_w" where
  "begin_attempt W i = (if wk_attempts W then tryE (StartAttempt i (wk_workerID W))
     (\<lambda>r. retE (case r of Inl _ \<Rightarrow> None | Inr a \<Rightarrow> Some a)) else retE None)"

definition HandleExecution :: "ExecutionWorker \<Rightarrow> string \<Rightarrow> unit prog_w" where
  "HandleExecution W i =
     bindE (begin_attempt W i) (\<lambda>attempt.
     tryE (runExecutionSafely W i) (\<lambda>r. case r of
         Inl err \<Rightarrow> tryE (FailExecution (wk_executions W) i (error_text err) ''worker'')
           (\<lambda>_. finish_attempt attempt ExecutionAttemptFailed (error_text err))
       | Inr _ \<Rightarrow> finish_attempt attempt ExecutionAttemptSuccess []))"

section \<open>Handling respects the task order\<close>

lemma ran_order: "evolves always ran m \<Longrightarrow> evolves always task_order m"
proof (erule evolves_mono)
  fix w t assume "ran w t"
  then show "task_order w t" by (intro task_order_same) (simp_all add: ran_def observes_def)
qed

lemma BatchSave_order [ordering]: "evolves always task_order (BatchSaveResults rs)"
proof (rule evolvesI)
  fix w
  obtain r t where b: "BatchSaveResults rs w = (r, t)" by (cases "BatchSaveResults rs w")
  then have "task_order w t"
    unfolding BatchSaveResults_def Result_BatchCreate_def
    by (cases rule: repo_append_cases) (auto intro: task_order_same)
  with b show "True \<and> task_order w (snd (BatchSaveResults rs w))" by simp
qed

lemma runExecutionSafely_order [ordering]: "evolves always task_order (runExecutionSafely W i)"
  unfolding runExecutionSafely_def GetExecutablePlugins_def
  by (intro tasks.bind tasks.cond tasks.ret MarkRunning_order FinishExecution_order BatchSave_order
      ran_order [OF RunPlugins_ran] observing_order [OF observes_Validate]
      observing_order [OF GetExecutionInternal_observes])

lemma finish_attempt_observes [observing]: "evolves always observes (finish_attempt a st m)"
  unfolding finish_attempt_def by (intro observing)

lemma HandleExecution_order [ordering]: "evolves always task_order (HandleExecution W i)"
  unfolding HandleExecution_def begin_attempt_def
  by (intro tasks.bind tasks.attempt tasks.sum runExecutionSafely_order FailExecution_order)
    (intro observing_order observing)+

section \<open>A queued task is brought to an end\<close>

lemma disk_ok_of: "task_order w t \<Longrightarrow> disk_ok t = disk_ok w"
  by (simp add: task_order_def disk_ok_def)

lemma ran_disk_ok: "ran w t \<Longrightarrow> disk_ok t = disk_ok w"
  by (simp add: ran_def observes_def disk_ok_def)

lemma BatchSave_ok: "disk_ok w \<Longrightarrow> BatchSaveResults rs w =
    (Inr (), io_skip 2 w\<lparr>execution_results := execution_results w @ rs\<rparr>)"
  by (simp add: BatchSaveResults_def Result_BatchCreate_def repo_append_ok)

text \<open>What the body of the worker does with a queued task, without disk failures.\<close>

lemma runExecutionSafely_ok:
  assumes w: "disk_ok w" and e: "lookup ex_ID i (executions w) = Some e" "ex_Status e = ExecutionStatusQueued"
    and plugins: "runnable_plugins w (ex_PluginIDs e)"
  shows "\<exists>rs t n m. runExecutionSafely W i w = (Inr (), t) \<and>
    execution_results t = execution_results w @ rs \<and> map rs_PluginID rs = ex_PluginIDs e \<and>
    executions t = upsert ex_ID (stamp_status (AggregateExecutionStatus rs) [] n
      (stamp_status ExecutionStatusRunning [] m e)) (executions w)"
proof -
  let ?w = "io_skip 1 w"
  have w1: "disk_ok ?w" "lookup ex_ID i (executions ?w) = Some e" using w e by (simp_all add: disk_ok_def)
  have i: "ex_ID e = i" using lookup_key [OF e(1)] .
  from MarkRunning_ok [OF w1, of "wk_executions W" "''worker''"] e(2) obtain a m
    where a: "MarkRunning (wk_executions W) i ''worker'' ?w = (Inr (), a)"
      "observes (set_task (stamp_status ExecutionStatusRunning [] m e) ?w) a" by (auto simp: Exec_CanTransit_iff)
  let ?r = "stamp_status ExecutionStatusRunning [] m e"
  have da: "disk_ok a" using a(2) w by (simp add: observes_def disk_ok_def)
  have pa: "plugins a = plugins w" using a(2) by (simp add: observes_def)
  from plugins have pl: "\<forall>j \<in> set (ex_PluginIDs e). \<exists>p. json_rows plugins pl_ID a j = Some p \<and> CanExecute p \<and>
      SameScope NewDefaultScope (Plugin_Scope p)" by (simp add: runnable_plugins_def pa)
  from json_plugins.validate_live [OF da this] obtain b
    where b: "GetExecutablePlugins json_plugin_store (ex_PluginIDs e) a
      = (Inr (map (\<lambda>j. the (json_rows plugins pl_ID a j)) (ex_PluginIDs e)), b)" "disk_ok b"
    unfolding GetExecutablePlugins_def ValidatePluginsExecutable_default by blast
  let ?ps = "map (\<lambda>j. the (json_rows plugins pl_ID a j)) (ex_PluginIDs e)"
  have ids: "map pl_ID ?ps = ex_PluginIDs e"
  proof -
    have "pl_ID (the (json_rows plugins pl_ID a j)) = j" if "j \<in> set (ex_PluginIDs e)" for j
      using pl that lookup_key by (metis option.sel)
    then show ?thesis by (simp add: map_idI)
  qed
  have ob: "observes a b" using evolvesD [OF observes_Validate _ b(1) [unfolded GetExecutablePlugins_def]] by simp
  from RunPlugins_total [of "wk_runtime W" e ?ps "''worker''" "wk_events W" b] obtain rs c
    where c: "RunPlugins (wk_runtime W) e ?ps ''worker'' (wk_events W) b = (Inr rs, c)"
      "map rs_PluginID rs = map pl_ID ?ps" by blast
  have rc: "ran b c" using evolvesD [OF RunPlugins_ran _ c(1)] by simp
  then have dc: "disk_ok c" using b(2) by (simp add: ran_disk_ok)
  let ?d = "io_skip 2 c\<lparr>execution_results := execution_results c @ rs\<rparr>"
  have ex: "executions ?d = upsert ex_ID ?r (executions w)" "execution_results ?d = execution_results w @ rs"
    using a(2) ob rc by (simp_all add: observes_def ran_def)
  have "disk_ok ?d" using dc by (simp add: disk_ok_def)
  moreover have "lookup ex_ID i (executions ?d) = Some ?r" using ex i by (simp add: lookup_upsert)
  moreover have "Exec_CanTransit (ex_Status ?r) (AggregateExecutionStatus rs)"
    by (auto simp: Exec_CanTransit_iff AggregateExecutionStatus_cases)
  ultimately obtain t n where t: "FinishExecution (wk_executions W) i (AggregateExecutionStatus rs) [] ''worker'' ?d = (Inr (), t)"
      "observes (set_task (stamp_status (AggregateExecutionStatus rs) [] n ?r) ?d) t"
    using FinishExecution_ok [of ?d i ?r "AggregateExecutionStatus rs" "wk_executions W" "[]" "''worker''"] by blast
  have "runExecutionSafely W i w = (Inr (), t)"
    using w e a(1) b(1) c(1) t(1)
    by (simp add: runExecutionSafely_def Internal_ok BatchSave_ok [OF dc] i)
  moreover have "executions t = upsert ex_ID (stamp_status (AggregateExecutionStatus rs) [] n ?r) (executions w)"
    using t(2) ex by (simp add: observes_def upsert_twice)
  moreover have "execution_results t = execution_results w @ rs" using t(2) ex by (simp add: observes_def)
  ultimately show ?thesis using c(2) ids by (intro exI [of _ rs] exI [of _ t]) auto
qed

lemma finish_attempt_Inr: "fst (finish_attempt a st m w) = Inr ()"
  by (auto simp: finish_attempt_def tryE_run split: option.split)

text \<open>The start of an attempt only observes, whether it succeeds or not.\<close>

lemma attempt_start:
  "\<exists>a v. begin_attempt W i w = (Inr a, v) \<and> observes w v"
proof (cases "wk_attempts W")
  case False then show ?thesis by (simp add: begin_attempt_def obs.R_refl)
next
  case True
  obtain r v where s: "StartAttempt i (wk_workerID W) w = (r, v)" by (cases "StartAttempt i (wk_workerID W) w")
  from evolvesD [OF observes_StartAttempt _ s] have "observes w v" by simp
  with True s show ?thesis by (auto simp: begin_attempt_def tryE_run)
qed

lemma HandleExecution_run:
  obtains a v where "observes w v"
    and "HandleExecution W i w = tryE (runExecutionSafely W i) (\<lambda>r. case r of
         Inl err \<Rightarrow> tryE (FailExecution (wk_executions W) i (error_text err) ''worker'')
           (\<lambda>_. finish_attempt a ExecutionAttemptFailed (error_text err))
       | Inr _ \<Rightarrow> finish_attempt a ExecutionAttemptSuccess []) v"
proof -
  from attempt_start [of W i w] obtain a v where a: "begin_attempt W i w = (Inr a, v)" and o: "observes w v"
    by blast
  have "HandleExecution W i w = tryE (runExecutionSafely W i) (\<lambda>r. case r of
         Inl err \<Rightarrow> tryE (FailExecution (wk_executions W) i (error_text err) ''worker'')
           (\<lambda>_. finish_attempt a ExecutionAttemptFailed (error_text err))
       | Inr _ \<Rightarrow> finish_attempt a ExecutionAttemptSuccess []) v"
    by (simp add: HandleExecution_def a)
  with o show ?thesis by (rule that)
qed

lemma finish_attempt_snd: "observes w (snd (finish_attempt a st m w))"
  using finish_attempt_observes by (simp add: evolves_def)

text \<open>
  C19. A worker that takes a queued task whose plugins are all executable runs each of them, in
  order, stores one result per plugin, and ends the task in the status that the results
  determine, with the task's identity untouched.
\<close>

theorem HandleExecution_completes:
  assumes w: "disk_ok w" and e: "lookup ex_ID i (executions w) = Some e" "ex_Status e = ExecutionStatusQueued"
    and plugins: "runnable_plugins w (ex_PluginIDs e)"
  shows "\<exists>rs t f. HandleExecution W i w = (Inr (), t) \<and>
    execution_results t = execution_results w @ rs \<and> map rs_PluginID rs = ex_PluginIDs e \<and>
    executions t = upsert ex_ID f (executions w) \<and> immut f = immut e \<and>
    ex_Status f = AggregateExecutionStatus rs \<and> ex_FinishedAt f \<noteq> None"
proof (rule HandleExecution_run [of w W i])
  fix a v
  assume v: "observes w v"
    and run: "HandleExecution W i w = tryE (runExecutionSafely W i) (\<lambda>r. case r of
         Inl err \<Rightarrow> tryE (FailExecution (wk_executions W) i (error_text err) ''worker'')
           (\<lambda>_. finish_attempt a ExecutionAttemptFailed (error_text err))
       | Inr _ \<Rightarrow> finish_attempt a ExecutionAttemptSuccess []) v"
  have v': "disk_ok v" "lookup ex_ID i (executions v) = Some e" "runnable_plugins v (ex_PluginIDs e)"
    using w e plugins v by (simp_all add: observes_def disk_ok_def runnable_plugins_def)
  from runExecutionSafely_ok [OF v'(1,2) e(2) v'(3), of W] obtain rs x n m
    where x: "runExecutionSafely W i v = (Inr (), x)" "execution_results x = execution_results v @ rs"
      "map rs_PluginID rs = ex_PluginIDs e"
      "executions x = upsert ex_ID (stamp_status (AggregateExecutionStatus rs) [] n
        (stamp_status ExecutionStatusRunning [] m e)) (executions v)" by blast
  let ?f = "stamp_status (AggregateExecutionStatus rs) [] n (stamp_status ExecutionStatusRunning [] m e)"
  let ?t = "snd (finish_attempt a ExecutionAttemptSuccess [] x)"
  have "HandleExecution W i w = finish_attempt a ExecutionAttemptSuccess [] x"
    using run x(1) by (simp add: tryE_run)
  then have "HandleExecution W i w = (Inr (), ?t)"
    using finish_attempt_Inr by (metis prod.collapse)
  moreover have "observes x ?t" by (rule finish_attempt_snd)
  moreover have "ex_FinishedAt ?f \<noteq> None"
    using AggregateExecutionStatus_final [of rs] by (simp add: stamp_status_def Let_def)
  ultimately show ?thesis using x v
    by (intro exI [of _ rs] exI [of _ ?t] exI [of _ ?f]) (simp add: observes_def)
qed

text \<open>The status a task can have after a run of the worker that started on a queued task.\<close>

lemma Fail_ends:
  assumes "disk_ok w" and "lookup ex_ID i (executions w) = Some e" and "ex_Status e = ExecutionStatusRunning"
  shows "\<exists>t f. FailExecution S i m rq w = (Inr (), t) \<and> lookup ex_ID i (executions t) = Some f \<and>
    ex_Status f = ExecutionStatusFailed \<and> ex_ErrorMessage f = m"
proof -
  from FinishExecution_ok [OF assms(1,2), of ExecutionStatusFailed S m rq] assms(3) obtain t n
    where t: "FinishExecution S i ExecutionStatusFailed m rq w = (Inr (), t)"
      "observes (set_task (stamp_status ExecutionStatusFailed m n e) w) t" by (auto simp: Exec_CanTransit_iff)
  have "lookup ex_ID i (executions t) = Some (stamp_status ExecutionStatusFailed m n e)"
    using t(2) lookup_key [OF assms(2)] by (simp add: observes_def lookup_upsert)
  with t(1) show ?thesis by (auto simp: FailExecution_def)
qed

text \<open>Reading the plugins again may fail; then the body stops with the task \<open>Running\<close>.\<close>

lemma runExecutionSafely_outcome:
  assumes w: "disk_ok w" and e: "lookup ex_ID i (executions w) = Some e" "ex_Status e = ExecutionStatusQueued"
  obtains (Ended) t f where "runExecutionSafely W i w = (Inr (), t)" and "lookup ex_ID i (executions t) = Some f"
      and "IsFinalExecutionStatus (ex_Status f)"
  | (Stopped) err t f where "runExecutionSafely W i w = (Inl err, t)" and "lookup ex_ID i (executions t) = Some f"
      and "ex_Status f = ExecutionStatusRunning"
proof (cases "runnable_plugins w (ex_PluginIDs e)")
  case True
  from runExecutionSafely_ok [OF w e True, of W] obtain rs t n m
    where t: "runExecutionSafely W i w = (Inr (), t)"
      "executions t = upsert ex_ID (stamp_status (AggregateExecutionStatus rs) [] n
        (stamp_status ExecutionStatusRunning [] m e)) (executions w)" by blast
  then show ?thesis
    using lookup_key [OF e(1)] AggregateExecutionStatus_final by (intro Ended) (auto simp: lookup_upsert)
next
  case False
  let ?w = "io_skip 1 w"
  have w1: "disk_ok ?w" "lookup ex_ID i (executions ?w) = Some e" using w e by (simp_all add: disk_ok_def)
  from MarkRunning_ok [OF w1, of "wk_executions W" "''worker''"] e(2) obtain a m
    where a: "MarkRunning (wk_executions W) i ''worker'' ?w = (Inr (), a)"
      "observes (set_task (stamp_status ExecutionStatusRunning [] m e) ?w) a" by (auto simp: Exec_CanTransit_iff)
  let ?k = "GetExecutablePlugins json_plugin_store (ex_PluginIDs e)"
  obtain r b where b: "?k a = (r, b)" by (cases "?k a")
  from json_plugins.validate_sound [OF b [unfolded GetExecutablePlugins_def ValidatePluginsExecutable_default]] obtain err
    where r: "r = Inl err"
  proof (cases r)
    case (Inr ps)
    have "plugins a = plugins w" using a(2) by (simp add: observes_def)
    moreover have "map Some ps = map (json_rows plugins pl_ID a) (ex_PluginIDs e)" and
      "\<forall>p \<in> set ps. CanExecute p \<and> SameScope NewDefaultScope (Plugin_Scope p)"
      using json_plugins.validate_sound [OF b [unfolded GetExecutablePlugins_def ValidatePluginsExecutable_default]] Inr by auto
    ultimately have "runnable_plugins w (ex_PluginIDs e)"
      unfolding runnable_plugins_def by (metis (mono_tags, lifting) image_iff image_set)
    with False show ?thesis ..
  qed blast
  have "observes a b" using evolvesD [OF observes_Validate _ b [unfolded GetExecutablePlugins_def]] by simp
  then have "lookup ex_ID i (executions b) = Some (stamp_status ExecutionStatusRunning [] m e)"
    using a(2) lookup_key [OF e(1)] by (simp add: observes_def lookup_upsert)
  moreover have "runExecutionSafely W i w = (Inl err, b)"
    using w e a(1) b r by (simp add: runExecutionSafely_def Internal_ok)
  ultimately show ?thesis by (intro Stopped) auto
qed

lemma worker_ends:
  assumes w: "disk_ok w" and e: "lookup ex_ID i (executions w) = Some e" "ex_Status e = ExecutionStatusQueued"
  shows "\<exists>t f. HandleExecution W i w = (Inr (), t) \<and> lookup ex_ID i (executions t) = Some f \<and>
    immut f = immut e \<and> IsFinalExecutionStatus (ex_Status f)"
proof (rule HandleExecution_run [of w W i])
  fix a v
  assume v: "observes w v"
    and run: "HandleExecution W i w = tryE (runExecutionSafely W i) (\<lambda>r. case r of
         Inl err \<Rightarrow> tryE (FailExecution (wk_executions W) i (error_text err) ''worker'')
           (\<lambda>_. finish_attempt a ExecutionAttemptFailed (error_text err))
       | Inr _ \<Rightarrow> finish_attempt a ExecutionAttemptSuccess []) v"
  have v': "disk_ok v" "lookup ex_ID i (executions v) = Some e" using w e v by (simp_all add: observes_def disk_ok_def)
  have "\<exists>t f. HandleExecution W i w = (Inr (), t) \<and> lookup ex_ID i (executions t) = Some f \<and>
      IsFinalExecutionStatus (ex_Status f)"
    using v' e(2)
  proof (cases rule: runExecutionSafely_outcome [where W = W])
    case (Ended x f)
    let ?t = "snd (finish_attempt a ExecutionAttemptSuccess [] x)"
    have "HandleExecution W i w = finish_attempt a ExecutionAttemptSuccess [] x"
      using run Ended(1) by (simp add: tryE_run)
    then have "HandleExecution W i w = (Inr (), ?t)" using finish_attempt_Inr by (metis prod.collapse)
    moreover have "lookup ex_ID i (executions ?t) = Some f"
      using finish_attempt_snd [of x a ExecutionAttemptSuccess "[]"] Ended(2) by (simp add: observes_def)
    ultimately show ?thesis using Ended(3) by blast
  next
    case (Stopped err x f)
    have "task_order v x" using evolvesD [OF runExecutionSafely_order _ Stopped(1)] by simp
    then have "disk_ok x" using v'(1) by (simp add: disk_ok_of)
    from Fail_ends [OF this Stopped(2,3), of "wk_executions W" "error_text err" "''worker''"] obtain y g
      where y: "FailExecution (wk_executions W) i (error_text err) ''worker'' x = (Inr (), y)"
        "lookup ex_ID i (executions y) = Some g" "ex_Status g = ExecutionStatusFailed" by blast
    let ?t = "snd (finish_attempt a ExecutionAttemptFailed (error_text err) y)"
    have "HandleExecution W i w = finish_attempt a ExecutionAttemptFailed (error_text err) y"
      using run Stopped(1) y(1) by (simp add: tryE_run)
    then have "HandleExecution W i w = (Inr (), ?t)" using finish_attempt_Inr by (metis prod.collapse)
    moreover have "lookup ex_ID i (executions ?t) = Some g"
      using finish_attempt_snd [of y a ExecutionAttemptFailed "error_text err"] y(2) by (simp add: observes_def)
    ultimately show ?thesis using y(3) by (auto simp: IsFinalExecutionStatus_def)
  qed
  then obtain t f where t: "HandleExecution W i w = (Inr (), t)" "lookup ex_ID i (executions t) = Some f"
    "IsFinalExecutionStatus (ex_Status f)" by blast
  from evolvesD [OF HandleExecution_order _ t(1)] have "tasks_evolve (executions w) (executions t)"
    by (simp add: task_order_def)
  from tasks_evolve_lookup [OF this e(1)] t(2) have "immut f = immut e" by (auto simp: task_step_def)
  with t show ?thesis by blast
qed

text \<open>
  C20. No queued task is left hanging by a worker: on a run without disk failures a queued task
  is in a final status afterwards, whatever its plugins are or do (a plugin that was disabled
  or removed in the meantime makes it \<open>Failed\<close>).
\<close>

theorem HandleExecution_ends:
  assumes w: "disk_ok w" and e: "lookup ex_ID i (executions w) = Some e" "ex_Status e = ExecutionStatusQueued"
  shows "\<exists>t f. HandleExecution W i w = (Inr (), t) \<and> lookup ex_ID i (executions t) = Some f \<and>
    immut f = immut e \<and> IsFinalExecutionStatus (ex_Status f)"
  using assms by (rule worker_ends)

text \<open>
  A task that was canceled while it waited in the queue is not run: no child process is
  started, no result is stored, and the tasks stay as they are.
\<close>

theorem HandleExecution_canceled:
  assumes w: "disk_ok w" and e: "lookup ex_ID i (executions w) = Some e" "ex_Status e = ExecutionStatusCanceled"
  shows "\<exists>t. HandleExecution W i w = (Inr (), t) \<and> executions t = executions w \<and>
    execution_results t = execution_results w \<and> cmd_log t = cmd_log w"
proof (rule HandleExecution_run [of w W i])
  fix a v
  assume v: "observes w v"
    and run: "HandleExecution W i w = tryE (runExecutionSafely W i) (\<lambda>r. case r of
         Inl err \<Rightarrow> tryE (FailExecution (wk_executions W) i (error_text err) ''worker'')
           (\<lambda>_. finish_attempt a ExecutionAttemptFailed (error_text err))
       | Inr _ \<Rightarrow> finish_attempt a ExecutionAttemptSuccess []) v"
  have v': "disk_ok v" "lookup ex_ID i (executions v) = Some e" using w e v by (simp_all add: observes_def disk_ok_def)
  then have "runExecutionSafely W i v = (Inr (), io_skip 1 v)"
    using e(2) by (simp add: runExecutionSafely_def Internal_ok)
  let ?t = "snd (finish_attempt a ExecutionAttemptSuccess [] (io_skip 1 v))"
  have "HandleExecution W i w = finish_attempt a ExecutionAttemptSuccess [] (io_skip 1 v)"
    using run v' e(2) by (simp add: tryE_run runExecutionSafely_def Internal_ok)
  then have "HandleExecution W i w = (Inr (), ?t)" using finish_attempt_Inr by (metis prod.collapse)
  moreover have "observes (io_skip 1 v) ?t" by (rule finish_attempt_snd)
  ultimately show ?thesis using v by (intro exI [of _ ?t]) (simp add: observes_def)
qed

text \<open>
  The worker does not survive a second delivery of the same identifier: handling a task
  that another worker is still running fails the attempt to start it again, and the error path
  then marks the running task \<open>Failed\<close>.
\<close>

theorem HandleExecution_duplicate_fails:
  assumes w: "disk_ok w" and e: "lookup ex_ID i (executions w) = Some e" "ex_Status e = ExecutionStatusRunning"
  shows "\<exists>t f. HandleExecution W i w = (Inr (), t) \<and> lookup ex_ID i (executions t) = Some f \<and>
    ex_Status f = ExecutionStatusFailed \<and> ex_ErrorMessage f = ''invalid execution state transition''"
proof (rule HandleExecution_run [of w W i])
  fix a v
  assume v: "observes w v"
    and run: "HandleExecution W i w = tryE (runExecutionSafely W i) (\<lambda>r. case r of
         Inl err \<Rightarrow> tryE (FailExecution (wk_executions W) i (error_text err) ''worker'')
           (\<lambda>_. finish_attempt a ExecutionAttemptFailed (error_text err))
       | Inr _ \<Rightarrow> finish_attempt a ExecutionAttemptSuccess []) v"
  let ?v = "io_skip 2 v"
  have v': "disk_ok v" "lookup ex_ID i (executions v) = Some e" "disk_ok (io_skip 1 v)" "disk_ok ?v"
    "lookup ex_ID i (executions ?v) = Some e"
    using w e v by (simp_all add: observes_def disk_ok_def)
  have nt: "\<not> Exec_CanTransit ExecutionStatusRunning ExecutionStatusRunning" by (simp add: Exec_CanTransit_iff)
  let ?err = "NewAppError CodeExecutionStateInvalid ''invalid execution state transition''"
  have r: "runExecutionSafely W i v = (Inl ?err, ?v)"
    using v' e(2) nt
    by (simp add: runExecutionSafely_def MarkRunning_def Internal_ok checked_def Exec_ValidateTransition_def
        numeral_2_eq_2)
  have et: "error_text ?err = ''invalid execution state transition''" by (simp add: NewAppError_def)
  from Fail_ends [OF v'(4,5) e(2), of "wk_executions W" "error_text ?err" "''worker''"] obtain y g
    where y: "FailExecution (wk_executions W) i (error_text ?err) ''worker'' ?v = (Inr (), y)"
      "lookup ex_ID i (executions y) = Some g" "ex_Status g = ExecutionStatusFailed" "ex_ErrorMessage g = error_text ?err"
    by blast
  let ?t = "snd (finish_attempt a ExecutionAttemptFailed (error_text ?err) y)"
  have "HandleExecution W i w = finish_attempt a ExecutionAttemptFailed (error_text ?err) y"
    using run r y(1) by (simp add: tryE_run)
  then have "HandleExecution W i w = (Inr (), ?t)" using finish_attempt_Inr by (metis prod.collapse)
  moreover have "lookup ex_ID i (executions ?t) = Some g"
    using finish_attempt_snd [of y a ExecutionAttemptFailed "error_text ?err"] y(2) by (simp add: observes_def)
  ultimately show ?thesis using y(3,4) et by auto
qed

end
