(* ===== verification/Sample.thy ===== *)
theory Sample
  imports Repos
begin

text \<open>
  Concrete data for the witnesses: an environment without failures whose identifiers are
  \<open>a\<close>, \<open>aa\<close>, \dots, an enabled plugin, a user, and a store with one waiting task.
\<close>

definition sample_env :: env where
  "sample_env = \<lparr>clock = int, id_text = (\<lambda>n. replicate n CHR ''a''), io_fault = (\<lambda>_. None),
     sha256_hex = id, json_text = (\<lambda>_. Inr ''text''), json_encode = (\<lambda>_. Inr ''text''),
     json_parse = (\<lambda>_. Some (JObj [(''success'', JBool True)])), json_error = (\<lambda>_. ''syntax''),
     run_cmd = (\<lambda>_ _. \<lparr>co_Stdout = [''ok''], co_Stderr = [], co_ExitCode = Some 0, co_Deadline = False, co_Err = None\<rparr>),
     stat = (\<lambda>_. Inr True), work_dir = Some ''/srv'', read_file = (\<lambda>_. Inr ''file''),
     read_dir = (\<lambda>_. Inr [(''echo'', True)]), http_new = (\<lambda>_. None), http_do = (\<lambda>_ _. Inr 200),
     rfc3339 = show_int, hmac_hex = (\<lambda>k m. k @ m), url_parse = (\<lambda>_. Some \<lparr>ur_Scheme = ''https'', ur_Host = ''example.org'', ur_Hostname = ''example.org''\<rparr>),
     parse_ip6 = (\<lambda>_. None), rand_hex = (\<lambda>_. Some ''00''), ed25519_verify = (\<lambda>_ _ _. False),
     pg_error = PlainError, pg_uuid = (\<lambda>n. CHR ''b'' # replicate n CHR ''b''), row_locked = (\<lambda>_ _. False), float_int64 = (\<lambda>_. - (2 ^ 63))\<rparr>"

definition sample_plugin :: Plugin where
  "sample_plugin = \<lparr>pl_TenantID = [], pl_ProjectID = [], pl_ID = ''p1'', pl_Name = ''echo'', pl_Version = ''1'',
     pl_Description = [], pl_EntryType = ''process'', pl_Command = ''python3'', pl_Args = [''main.py''], pl_Image = [],
     pl_Env = [], pl_SecretRefs = [], pl_WorkDir = ''/srv/echo'', pl_TimeoutSeconds = 5, pl_MemoryLimit = [],
     pl_CPULimit = [], pl_PIDsLimit = 0, pl_Status = PluginStatusEnabled, pl_ErrorMessage = [], pl_APIVersion = [],
     pl_Protocol = [], pl_Capabilities = [], pl_NetworkPolicy = [], pl_Checksum = [], pl_ChecksumVerified = False,
     pl_CreatedAt = 0, pl_UpdatedAt = 0\<rparr>"

definition sample_user :: CurrentUser where
  "sample_user = \<lparr>cu_TenantID = [], cu_ProjectID = [], cu_ID = ''u1'', cu_Username = ''ann'', cu_Role = RoleUser\<rparr>"

definition sample_task :: "string \<Rightarrow> ExecutionStatus \<Rightarrow> Execution" where
  "sample_task i s = \<lparr>ex_TenantID = DefaultTenantID, ex_ProjectID = DefaultProjectID, ex_ID = i, ex_UserID = ''u1'',
     ex_PluginIDs = [''p1''], ex_InputJSON = Some [], ex_InputHash = ''text'', ex_PluginIDsHash = ''text'',
     ex_IdempotencyKey = [], ex_Status = s, ex_ErrorMessage = [], ex_CreatedAt = 0,
     ex_QueuedAt = (if s = ExecutionStatusPending then None else Some 1),
     ex_StartedAt = (if s = ExecutionStatusRunning then Some 2 else None),
     ex_FinishedAt = (if IsFinalExecutionStatus s then Some 3 else None)\<rparr>"

definition sample_world :: "Execution list \<Rightarrow> world" where
  "sample_world es = \<lparr>w_env = sample_env, now_ix = 0, id_ix = 10, io_ix = 0, cmd_log = [], http_log = [], metrics = (\<lambda>_. 0),
     users = [], plugins = [sample_plugin], plugin_registry = [], executions = es, execution_results = [],
     execution_events = [], execution_attempts = [], audit_logs = [], webhooks = [], webhook_deliveries = [],
     subscribers = (\<lambda>_. []), bus_calls = [], queue_ch = [], queue_size = 4, task_queue = []\<rparr>"

lemma sample_disk_ok [simp]: "disk_ok (sample_world es)"
  by (simp add: disk_ok_def sample_world_def sample_env_def)

lemma sample_ids_inj [simp]: "inj (id_text (w_env (sample_world es)))"
  by (simp add: sample_world_def sample_env_def inj_def)

lemma sample_simps [simp]:
  "executions (sample_world es) = es" "plugins (sample_world es) = [sample_plugin]"
  "queue_ch (sample_world es) = []" "queue_size (sample_world es) = 4" "id_ix (sample_world es) = 10"
  "w_env (sample_world es) = sample_env" "execution_results (sample_world es) = []"
  "cmd_log (sample_world es) = []"
  by (simp_all add: sample_world_def)

lemma sample_task_simps [simp]:
  "ex_ID (sample_task i s) = i" "ex_Status (sample_task i s) = s" "ex_UserID (sample_task i s) = ''u1''"
  "ex_PluginIDs (sample_task i s) = [''p1'']" "ex_IdempotencyKey (sample_task i s) = []"
  by (simp_all add: sample_task_def)

end
