(* ===== verification/LocalSystem.thy ===== *)
theory LocalSystem
  imports Worker Sample
begin

text \<open>
  A local-mode process as a transition system: users create and cancel tasks and change
  plugins, any number of workers (\<^verbatim>\<open>internal/worker/worker_pool.go\<close>) take tasks from the queue
  and go through the phases of \<^verbatim>\<open>HandleExecution\<close>, and the process may crash and be restarted
  (\<^verbatim>\<open>cmd/server/main.go\<close> then calls \<^verbatim>\<open>RecoverIncompleteExecutions\<close>). The steps are the
  operations of the services, interleaved in any order; every safety property of the whole
  is the per-operation order of \<open>TaskOrder\<close>, lifted by rule induction.

  The last section goes below that granularity: one repository update is a read and a write
  of the whole file, without a lock.
\<close>

section \<open>The phases of a worker\<close>

definition start_phase :: "ExecutionWorker \<Rightarrow> string \<Rightarrow> Execution option prog_w" where
  "start_phase W i = bindE (GetExecutionInternal i) (\<lambda>e.
     if ex_Status e = ExecutionStatusCanceled then retE None
     else bindE (MarkRunning (wk_executions W) i ''worker'') (\<lambda>_. retE (Some e)))"

definition run_phase :: "ExecutionWorker \<Rightarrow> Execution \<Rightarrow> ExecutionResult list prog_w" where
  "run_phase W e = bindE (GetExecutablePlugins json_plugin_store (ex_PluginIDs e)) (\<lambda>ps.
     bindE (RunPlugins (wk_runtime W) e ps ''worker'' (wk_events W)) (\<lambda>results.
     bindE (BatchSaveResults results) (\<lambda>_. retE results)))"

definition end_phase :: "ExecutionWorker \<Rightarrow> Execution \<Rightarrow> ExecutionResult list \<Rightarrow> unit prog_w" where
  "end_phase W e results =
     FinishExecution (wk_executions W) (ex_ID e) (AggregateExecutionStatus results) [] ''worker''"

definition fail_phase :: "ExecutionWorker \<Rightarrow> string \<Rightarrow> ExecutionAttempt option \<Rightarrow> go_error \<Rightarrow> unit prog_w" where
  "fail_phase W i a err = tryE (FailExecution (wk_executions W) i (error_text err) ''worker'')
     (\<lambda>_. finish_attempt a ExecutionAttemptFailed (error_text err))"

lemma runExecutionSafely_phases:
  "runExecutionSafely W i = bindE (start_phase W i) (\<lambda>r. case r of None \<Rightarrow> retE ()
     | Some e \<Rightarrow> bindE (run_phase W e) (end_phase W e))"
  unfolding runExecutionSafely_def start_phase_def run_phase_def end_phase_def
  by (auto simp: bindE_def fun_eq_iff split: prod.splits sum.splits)

section \<open>The system\<close>

datatype worker_state = Idle | Taken string "ExecutionAttempt option"
  | Running_task string Execution "ExecutionAttempt option"
  | Finishing string Execution "ExecutionResult list" "ExecutionAttempt option"
  | Failing string go_error "ExecutionAttempt option"
  | Closing "ExecutionAttempt option"

type_synonym system = "world \<times> (nat \<Rightarrow> worker_state)"

text \<open>What a restart keeps: the files, not the queue, the subscribers or the workers.\<close>

definition rebooted :: "world \<Rightarrow> world" where
  "rebooted w = w\<lparr>queue_ch := [], subscribers := (\<lambda>_. [])\<rparr>"

inductive sys_step :: "ExecutionWorker \<Rightarrow> system \<Rightarrow> system \<Rightarrow> bool" for W where
  Create: "CreateExecution (wk_executions W) c u ids inp key rq w = (r, t) \<Longrightarrow> sys_step W (w, ws) (t, ws)"
| Cancel: "CancelExecution (wk_executions W) u i rq w = (r, t) \<Longrightarrow> sys_step W (w, ws) (t, ws)"
| Enable: "EnablePlugin json_plugin_store i w = (r, t) \<Longrightarrow> sys_step W (w, ws) (t, ws)"
| Disable: "DisablePlugin json_plugin_store i w = (r, t) \<Longrightarrow> sys_step W (w, ws) (t, ws)"
| Take: "ws k = Idle \<Longrightarrow> Consume w = Some (i, v) \<Longrightarrow> begin_attempt W i v = (Inr a, t) \<Longrightarrow>
    sys_step W (w, ws) (t, ws(k := Taken i a))"
| Start_run: "ws k = Taken i a \<Longrightarrow> start_phase W i w = (Inr (Some e), t) \<Longrightarrow>
    sys_step W (w, ws) (t, ws(k := Running_task i e a))"
| Start_skip: "ws k = Taken i a \<Longrightarrow> start_phase W i w = (Inr None, t) \<Longrightarrow>
    sys_step W (w, ws) (t, ws(k := Closing a))"
| Start_fail: "ws k = Taken i a \<Longrightarrow> start_phase W i w = (Inl err, t) \<Longrightarrow>
    sys_step W (w, ws) (t, ws(k := Failing i err a))"
| Run_done: "ws k = Running_task i e a \<Longrightarrow> run_phase W e w = (Inr rs, t) \<Longrightarrow>
    sys_step W (w, ws) (t, ws(k := Finishing i e rs a))"
| Run_fail: "ws k = Running_task i e a \<Longrightarrow> run_phase W e w = (Inl err, t) \<Longrightarrow>
    sys_step W (w, ws) (t, ws(k := Failing i err a))"
| End_done: "ws k = Finishing i e rs a \<Longrightarrow> end_phase W e rs w = (Inr x, t) \<Longrightarrow>
    sys_step W (w, ws) (t, ws(k := Closing a))"
| End_fail: "ws k = Finishing i e rs a \<Longrightarrow> end_phase W e rs w = (Inl err, t) \<Longrightarrow>
    sys_step W (w, ws) (t, ws(k := Failing i err a))"
| Fail: "ws k = Failing i err a \<Longrightarrow> fail_phase W i a err w = (r, t) \<Longrightarrow>
    sys_step W (w, ws) (t, ws(k := Idle))"
| Close: "ws k = Closing a \<Longrightarrow> finish_attempt a ExecutionAttemptSuccess [] w = (r, t) \<Longrightarrow>
    sys_step W (w, ws) (t, ws(k := Idle))"
| Restart: "RecoverIncompleteExecutions (wk_executions W) CtxLive rq (rebooted w) = (r, t) \<Longrightarrow>
    sys_step W (w, ws) (t, \<lambda>_. Idle)"

inductive_cases sys_stepE: "sys_step W (w, ws) (t, us)"

definition reaches :: "ExecutionWorker \<Rightarrow> system \<Rightarrow> system \<Rightarrow> bool" where
  "reaches W = (sys_step W)\<^sup>*\<^sup>*"

section \<open>Every step respects the task order\<close>

text \<open>What is left of \<open>task_order\<close> when plugins and subscribers may change too.\<close>

definition task_safe :: "world \<Rightarrow> world \<Rightarrow> bool" where
  "task_safe w t \<longleftrightarrow> tasks_evolve (executions w) (executions t) \<and> w_env t = w_env w \<and>
     id_ix w \<le> id_ix t \<and> (tasks_ok w \<longrightarrow> tasks_ok t)"

interpretation safe: state_order always task_safe
  by unfold_locales (auto simp: task_safe_def intro: tasks_evolve_trans)

lemma order_safe: "task_order w t \<Longrightarrow> task_safe w t"
  by (simp add: task_order_def task_safe_def)

lemma safe_same:
  "executions t = executions w \<Longrightarrow> w_env t = w_env w \<Longrightarrow> id_ix w \<le> id_ix t \<Longrightarrow> task_safe w t"
  using tasks_ok_cong by (simp add: task_safe_def)

lemma ordering_safe: "evolves always task_order m \<Longrightarrow> m w = (r, t) \<Longrightarrow> task_safe w t"
  by (rule order_safe) (auto dest: evolvesD)

lemma start_phase_order: "evolves always task_order (start_phase W i)"
  unfolding start_phase_def
  by (intro tasks.bind tasks.cond tasks.ret MarkRunning_order observing_order [OF GetExecutionInternal_observes])

lemma run_phase_order: "evolves always task_order (run_phase W e)"
  unfolding run_phase_def GetExecutablePlugins_def
  by (intro tasks.bind tasks.ret BatchSave_order ran_order [OF RunPlugins_ran] observing_order [OF observes_Validate])

lemma end_phase_order: "evolves always task_order (end_phase W e rs)"
  unfolding end_phase_def by (rule FinishExecution_order)

lemma fail_phase_order: "evolves always task_order (fail_phase W i a err)"
  unfolding fail_phase_def
  by (intro tasks.attempt FailExecution_order observing_order [OF finish_attempt_observes])

lemma begin_attempt_observes [observing]: "evolves always observes (begin_attempt W i)"
  unfolding begin_attempt_def by (intro observing)

text \<open>Enabling and disabling do not touch the tasks.\<close>

lemma Plugin_Update_safe: "evolves always task_safe (Plugin_Update p)"
proof (rule evolvesI)
  fix w
  obtain r t where u: "Plugin_Update p w = (r, t)" by (cases "Plugin_Update p w")
  then have "task_safe w t"
    unfolding Plugin_Update_def by (cases rule: repo_update_cases) (auto intro: safe_same)
  with u show "True \<and> task_safe w (snd (Plugin_Update p w))" by simp
qed

lemma observing_safe: "evolves always observes m \<Longrightarrow> evolves always task_safe m"
  by (erule evolves_mono) (rule safe_same; simp add: observes_def)

lemma enable_disable_safe:
  "evolves always task_safe (EnablePlugin json_plugin_store i)"
  "evolves always task_safe (DisablePlugin json_plugin_store i)"
  unfolding EnablePlugin_def DisablePlugin_def Let_def
  by (intro safe.bind safe.guard safe.ret observing_safe [OF observes_Find(3)];
      simp add: json_plugin_store_def Plugin_Update_safe observing_safe [OF observes_time_now] safe.ret)+

lemma Consume_same: "Consume w = Some (i, v) \<Longrightarrow> task_safe w v"
  by (auto simp: Consume_def split: list.splits intro: safe_same)

lemma rebooted_same: "task_safe w (rebooted w)" "task_safe (rebooted w) w"
  by (auto simp: rebooted_def intro: safe_same)

lemmas phase_safe = ordering_safe [OF start_phase_order] ordering_safe [OF run_phase_order]
  ordering_safe [OF end_phase_order] ordering_safe [OF fail_phase_order]
  ordering_safe [OF observing_order [OF finish_attempt_observes]]

lemma sys_step_safe:
  assumes "sys_step W s s'" and "tasks_ok (fst s)" and "inj (id_text (w_env (fst s)))"
  shows "task_safe (fst s) (fst s')"
  using assms
proof (cases rule: sys_step.cases)
  case Create then show ?thesis using CreateExecution_order ordering_safe by force
next
  case Cancel then show ?thesis using CancelExecution_order ordering_safe by force
next
  case (Enable i w r t ws)
  then show ?thesis using enable_disable_safe(1) by (force dest: evolvesD)
next
  case (Disable i w r t ws)
  then show ?thesis using enable_disable_safe(2) by (force dest: evolvesD)
next
  case (Take ws k w i v a t)
  from Take(5) observing_order [OF begin_attempt_observes] have "task_safe v t" by (auto intro: ordering_safe)
  with Consume_same [OF Take(4)] Take(1,2) show ?thesis using safe.R_trans by simp
next
  case (Restart rq w r t ws)
  let ?v = "rebooted w"
  have "tasks_ok ?v" using Restart(1) assms(2) rebooted_same(1) by (simp add: task_safe_def)
  moreover have "inj (id_text (w_env ?v))" using Restart(1) assms(3) by (simp add: rebooted_def)
  ultimately have "distinct (map ex_ID (executions ?v))" by (simp add: tasks_ok_def ids_minted_def)
  from RecoverIncompleteExecutions_order [OF this, of "wk_executions W" CtxLive rq] Restart(3)
  have "task_safe ?v t" using order_safe by simp
  with rebooted_same(1) Restart(1,2) show ?thesis using safe.R_trans by (metis fst_conv)
qed (auto dest: phase_safe)

lemma reaches_safe:
  assumes "reaches W s s'" and "tasks_ok (fst s)" and "inj (id_text (w_env (fst s)))"
  shows "task_safe (fst s) (fst s')"
  using assms(1) unfolding reaches_def
proof (induction rule: rtranclp_induct)
  case base then show ?case by (simp add: safe.R_refl)
next
  case (step y z)
  then have "tasks_ok (fst y)" "inj (id_text (w_env (fst y)))"
    using assms(2,3) by (auto simp: task_safe_def)
  from sys_step_safe [OF step(2) this] step(3) show ?case using safe.R_trans by blast
qed



section \<open>The worker of the code is a run of the phases\<close>

lemma one_step: "sys_step W s s' \<Longrightarrow> reaches W s' s'' \<Longrightarrow> reaches W s s''"
  by (simp add: reaches_def converse_rtranclp_into_rtranclp)

lemma zero_steps: "reaches W s s" by (simp add: reaches_def)

text \<open>The rest of a run from each phase on; \<open>closing\<close> is what \<^verbatim>\<open>HandleExecution\<close> does with the outcome of the phases.\<close>

definition closing :: "ExecutionWorker \<Rightarrow> string \<Rightarrow> ExecutionAttempt option \<Rightarrow> go_error + unit \<Rightarrow> unit prog_w" where
  "closing W i a r = (case r of Inl err \<Rightarrow> fail_phase W i a err | Inr _ \<Rightarrow> finish_attempt a ExecutionAttemptSuccess [])"

lemma reaches_failed:
  "closing W i a (Inl err) x = (q, t) \<Longrightarrow> reaches W (x, ws(k := Failing i err a)) (t, ws(k := Idle))"
  using one_step [OF Fail [of "ws(k := Failing i err a)" k i err a W x q t]] zero_steps by (simp add: closing_def)

lemma reaches_closed:
  "closing W i a (Inr u) x = (q, t) \<Longrightarrow> reaches W (x, ws(k := Closing a)) (t, ws(k := Idle))"
  using one_step [OF Close [of "ws(k := Closing a)" k a x q t W]] zero_steps by (simp add: closing_def)

lemma reaches_finished:
  assumes "tryE (end_phase W e rs) (closing W i a) y = (q, t)"
  shows "reaches W (y, ws(k := Finishing i e rs a)) (t, ws(k := Idle))"
proof -
  obtain f z where f: "end_phase W e rs y = (f, z)" by (cases "end_phase W e rs y")
  have "closing W i a f z = (q, t)" using assms f by (simp add: tryE_run)
  with f show ?thesis using reaches_failed [of W i a _ z q t ws k] reaches_closed [of W i a "()" z q t ws k]
      End_done [of "ws(k := Finishing i e rs a)" k i e rs a W y "()" z] End_fail [of "ws(k := Finishing i e rs a)" k i e rs a W y _ z]
    by (cases f) (auto intro: one_step)
qed

lemma reaches_run:
  assumes "tryE (bindE (run_phase W e) (end_phase W e)) (closing W i a) x = (q, t)"
  shows "reaches W (x, ws(k := Running_task i e a)) (t, ws(k := Idle))"
proof -
  obtain p y where p: "run_phase W e x = (p, y)" by (cases "run_phase W e x")
  show ?thesis
  proof (cases p)
    case (Inl err)
    then have "reaches W (y, ws(k := Failing i err a)) (t, ws(k := Idle))"
      using assms p by (intro reaches_failed [where q = q]) (simp add: tryE_run)
    with p Inl Run_fail [of "ws(k := Running_task i e a)" k i e a W x err y] show ?thesis by (auto intro: one_step)
  next
    case (Inr rs)
    then have "reaches W (y, ws(k := Finishing i e rs a)) (t, ws(k := Idle))"
      using assms p by (intro reaches_finished [where q = q]) (simp add: tryE_run)
    with p Inr Run_done [of "ws(k := Running_task i e a)" k i e a W x rs y] show ?thesis by (auto intro: one_step)
  qed
qed

lemma reaches_taken:
  assumes "tryE (runExecutionSafely W i) (closing W i a) u = (q, t)"
  shows "reaches W (u, ws(k := Taken i a)) (t, ws(k := Idle))"
proof -
  obtain p x where p: "start_phase W i u = (p, x)" by (cases "start_phase W i u")
  consider (fail) err where "p = Inl err" | (skip) "p = Inr None" | (go) e where "p = Inr (Some e)"
    by (metis not_None_eq old.sum.exhaust)
  then show ?thesis
  proof cases
    case (fail err)
    then have "reaches W (x, ws(k := Failing i err a)) (t, ws(k := Idle))"
      using assms p by (intro reaches_failed [where q = q]) (simp add: tryE_run runExecutionSafely_phases)
    with p fail Start_fail [of "ws(k := Taken i a)" k i a W u err x] show ?thesis by (auto intro: one_step)
  next
    case skip
    then have "reaches W (x, ws(k := Closing a)) (t, ws(k := Idle))"
      using assms p by (intro reaches_closed [where q = q and u = "()"]) (simp add: tryE_run runExecutionSafely_phases)
    with p skip Start_skip [of "ws(k := Taken i a)" k i a W u x] show ?thesis by (auto intro: one_step)
  next
    case (go e)
    then have "reaches W (x, ws(k := Running_task i e a)) (t, ws(k := Idle))"
      using assms p by (intro reaches_run [where q = q]) (simp add: tryE_run runExecutionSafely_phases)
    with p go Start_run [of "ws(k := Taken i a)" k i a W u e x] show ?thesis by (auto intro: one_step)
  qed
qed


end
