(* ===== verification/Webhook.thy ===== *)
theory Webhook
  imports Observe Sanitize
begin

text \<open>
  \<^verbatim>\<open>internal/service/webhook.go\<close> and \<^verbatim>\<open>internal/worker/webhook_retry_scheduler.go\<close>: managing
  webhook endpoints within a scope, delivering the events of a task to the endpoints that
  subscribe to them, and retrying failed deliveries with a growing delay until they succeed
  or end in the dead letter state. The HTTP client is the environment's \<open>http_do\<close>; every
  request sent is recorded in \<open>http_log\<close>. The goroutine \<^verbatim>\<open>HandleExecutionEvent\<close> starts is a later
  call of \<open>DispatchExecutionEvent\<close>.
\<close>

record WebhookService =
  ws_maxAttempts :: int
  ws_allowPrivateTargets :: bool

definition NewWebhookService :: WebhookService where
  "NewWebhookService = \<lparr>ws_maxAttempts = 5, ws_allowPrivateTargets = False\<rparr>"

definition sameWebhookScope :: "CurrentUser \<Rightarrow> string \<Rightarrow> string \<Rightarrow> bool" where
  "sameWebhookScope user tenantID projectID \<longleftrightarrow>
     (if IsSuperAdminRole (cu_Role user) then True
      else SameScope (CurrentUser_Scope user) (mk_scope tenantID projectID))"

section \<open>Addresses\<close>

text \<open>\<open>net.ParseIP\<close>: four decimal octets without superfluous zeros, or a text with a colon.\<close>

definition octet :: "string \<Rightarrow> nat option" where
  "octet s = (if s = [] \<or> \<not> list_all (\<lambda>c. CHR ''0'' \<le> c \<and> c \<le> CHR ''9'') s \<or>
       (1 < length s \<and> hd s = CHR ''0'') then None
     else let n = foldl (\<lambda>n c. n * 10 + (of_char c - 48)) 0 s in if n \<le> 255 then Some n else None)"

definition parse_ip4 :: "string \<Rightarrow> nat list option" where
  "parse_ip4 s = (case map octet (split_on (CHR ''.'') s) of
     [Some a, Some b, Some c, Some d] \<Rightarrow> Some [a, b, c, d] | _ \<Rightarrow> None)"

fun first_mark :: "string \<Rightarrow> char option" where
  "first_mark [] = None"
| "first_mark (c # s) = (if c \<in> {CHR ''.'', CHR '':'', CHR ''%''} then Some c else first_mark s)"

definition ParseIP :: "env \<Rightarrow> string \<Rightarrow> nat list option" where
  "ParseIP v s = (case first_mark s of
     Some m \<Rightarrow> if m = CHR ''.'' then parse_ip4 s else if m = CHR '':'' then parse_ip6 v s else None
   | None \<Rightarrow> None)"

text \<open>An IPv4 address has four bytes here; \<open>To4\<close> gives those of an IPv4-mapped one.\<close>

definition To4 :: "nat list \<Rightarrow> nat list option" where
  "To4 ip = (if length ip = 4 then Some ip
     else if length ip = 16 \<and> take 10 ip = replicate 10 0 \<and> ip ! 10 = 255 \<and> ip ! 11 = 255 then Some (drop 12 ip)
     else None)"

definition IsLoopback :: "nat list \<Rightarrow> bool" where
  "IsLoopback ip = (case To4 ip of Some q \<Rightarrow> q ! 0 = 127 | None \<Rightarrow> ip = replicate 15 0 @ [1])"

definition IsUnspecified :: "nat list \<Rightarrow> bool" where
  "IsUnspecified ip = (case To4 ip of Some q \<Rightarrow> q = [0, 0, 0, 0] | None \<Rightarrow> ip = replicate 16 0)"

definition IsPrivate :: "nat list \<Rightarrow> bool" where
  "IsPrivate ip = (case To4 ip of
     Some q \<Rightarrow> q ! 0 = 10 \<or> q ! 0 = 172 \<and> q ! 1 div 16 = 1 \<or> q ! 0 = 192 \<and> q ! 1 = 168
   | None \<Rightarrow> length ip = 16 \<and> ip ! 0 div 2 = 126)"

definition IsLinkLocalUnicast :: "nat list \<Rightarrow> bool" where
  "IsLinkLocalUnicast ip = (case To4 ip of Some q \<Rightarrow> q ! 0 = 169 \<and> q ! 1 = 254
   | None \<Rightarrow> length ip = 16 \<and> ip ! 0 = 254 \<and> ip ! 1 div 64 = 2)"

definition IsLinkLocalMulticast :: "nat list \<Rightarrow> bool" where
  "IsLinkLocalMulticast ip = (case To4 ip of Some q \<Rightarrow> q ! 0 = 224 \<and> q ! 1 = 0 \<and> q ! 2 = 0
   | None \<Rightarrow> length ip = 16 \<and> ip ! 0 = 255 \<and> ip ! 1 mod 16 = 2)"

definition isBlockedWebhookHost :: "env \<Rightarrow> string \<Rightarrow> bool" where
  "isBlockedWebhookHost v host =
     (let host = trim_space (to_lower host) in
      if host = [] \<or> host = ''localhost'' \<or> has_suffix host ''.localhost'' then True
      else case ParseIP v host of None \<Rightarrow> False
        | Some ip \<Rightarrow> IsLoopback ip \<or> IsUnspecified ip \<or> IsPrivate ip \<or> IsLinkLocalUnicast ip \<or> IsLinkLocalMulticast ip)"

definition validateWebhookURLWithOptions :: "env \<Rightarrow> string \<Rightarrow> bool \<Rightarrow> go_error option" where
  "validateWebhookURLWithOptions v raw allowPrivateTargets =
     (case url_parse v (trim_space raw) of
        None \<Rightarrow> Some (NewAppError CodeInvalidArgument ''invalid webhook url'')
      | Some parsed \<Rightarrow>
        if ur_Scheme parsed = [] \<or> ur_Host parsed = [] then Some (NewAppError CodeInvalidArgument ''invalid webhook url'')
        else if ur_Scheme parsed \<noteq> ''http'' \<and> ur_Scheme parsed \<noteq> ''https''
          then Some (NewAppError CodeInvalidArgument ''webhook url must use http or https'')
        else if contains raw [CHR 0x00] then Some (NewAppError CodeInvalidArgument ''invalid webhook url'')
        else if \<not> allowPrivateTargets \<and> isBlockedWebhookHost v (ur_Hostname parsed)
          then Some (NewAppError CodeInvalidArgument ''webhook url host is not allowed'')
        else None)"

definition validateWebhookURL :: "env \<Rightarrow> string \<Rightarrow> go_error option" where
  "validateWebhookURL v raw = validateWebhookURLWithOptions v raw False"

section \<open>Managing endpoints\<close>

fun normalize_events :: "string list \<Rightarrow> string list \<Rightarrow> string list" where
  "normalize_events [] out = out"
| "normalize_events (ev # evs) out =
     (let ev = trim_space ev
      in if ev = [] \<or> ev \<in> set out then normalize_events evs out else normalize_events evs (out @ [ev]))"

definition normalizeWebhookEvents :: "string list \<Rightarrow> string list" where
  "normalizeWebhookEvents events =
     (let out = normalize_events events [] in if length out = 0 then [''*''] else out)"

text \<open>\<open>rand.Read\<close> gives the next random block; on its failure an identifier takes its place.\<close>

definition generateWebhookSecret :: "string prog_w" where
  "generateWebhookSecret = (\<lambda>w. case rand_hex (w_env w) (id_ix w) of
     None \<Rightarrow> newID ''secret'' w
   | Some h \<Rightarrow> (Inr h, w\<lparr>id_ix := Suc (id_ix w)\<rparr>))"

definition Webhook_GetEndpoint :: "string \<Rightarrow> WebhookEndpoint prog_w" where
  "Webhook_GetEndpoint i = bindE (Webhook_GetEndpointByID i) (\<lambda>r. case r of
     None \<Rightarrow> failE (NewAppError CodeNotFound ''webhook not found'') | Some e \<Rightarrow> retE e)"

definition GetEndpointForUser :: "CurrentUser \<Rightarrow> string \<Rightarrow> WebhookEndpoint prog_w" where
  "GetEndpointForUser user i = bindE (Webhook_GetEndpoint i) (\<lambda>e.
     guardE (\<not> sameWebhookScope user (we_TenantID e) (we_ProjectID e))
       (NewAppError CodeForbidden ''webhook scope denied'') (retE e))"

definition ListEndpointsForUser :: "CurrentUser \<Rightarrow> WebhookEndpoint list prog_w" where
  "ListEndpointsForUser user = bindE Webhook_ListEndpoints (\<lambda>items.
     retE (filter (\<lambda>e. sameWebhookScope user (we_TenantID e) (we_ProjectID e)) items))"

definition SetEndpointStatusForUser :: "CurrentUser \<Rightarrow> string \<Rightarrow> WebhookStatus \<Rightarrow> WebhookEndpoint prog_w" where
  "SetEndpointStatusForUser user i status = bindE (GetEndpointForUser user i) (\<lambda>e.
     guardE (status \<noteq> WebhookStatusEnabled \<and> status \<noteq> WebhookStatusDisabled)
       (NewAppError CodeInvalidArgument ''invalid webhook status'')
     (bindE time_now (\<lambda>now.
      let e = e\<lparr>we_Status := status, we_UpdatedAt := now\<rparr>
      in bindE (Webhook_UpdateEndpoint e) (\<lambda>_. retE e))))"

definition DeleteEndpointForUser :: "CurrentUser \<Rightarrow> string \<Rightarrow> unit prog_w" where
  "DeleteEndpointForUser user i = bindE (GetEndpointForUser user i) (\<lambda>_. Webhook_DeleteEndpoint i)"

definition ListDeliveriesForUser :: "CurrentUser \<Rightarrow> string \<Rightarrow> WebhookDelivery list prog_w" where
  "ListDeliveriesForUser user webhookID = bindE (Webhook_ListDeliveries webhookID) (\<lambda>items.
     retE (filter (\<lambda>d. sameWebhookScope user (wd_TenantID d) (wd_ProjectID d)) items))"

definition SetEndpointStatus :: "string \<Rightarrow> WebhookStatus \<Rightarrow> WebhookEndpoint prog_w" where
  "SetEndpointStatus i status =
     guardE (status \<noteq> WebhookStatusEnabled \<and> status \<noteq> WebhookStatusDisabled)
       (NewAppError CodeInvalidArgument ''invalid webhook status'')
     (bindE (Webhook_GetEndpoint i) (\<lambda>e. bindE time_now (\<lambda>now.
      let e = e\<lparr>we_Status := status, we_UpdatedAt := now\<rparr>
      in bindE (Webhook_UpdateEndpoint e) (\<lambda>_. retE e))))"

definition DeleteEndpoint :: "string \<Rightarrow> unit prog_w" where
  "DeleteEndpoint i = bindE (Webhook_GetEndpoint i) (\<lambda>_. Webhook_DeleteEndpoint i)"

record CreateWebhookInput =
  ci_Name :: string
  ci_URL :: string
  ci_Secret :: string
  ci_Events :: "string list"

definition CreateEndpoint :: "WebhookService \<Rightarrow> CurrentUser \<Rightarrow> CreateWebhookInput \<Rightarrow> (WebhookEndpoint \<times> string) prog_w" where
  "CreateEndpoint S user inp =
     (let name = trim_space (ci_Name inp) in
      guardE (name = []) (NewAppError CodeInvalidArgument ''webhook name is required'')
      (bindE (getE w_env) (\<lambda>v.
       case validateWebhookURLWithOptions v (ci_URL inp) (ws_allowPrivateTargets S) of
         Some err \<Rightarrow> failE err
       | None \<Rightarrow>
         let secret = trim_space (ci_Secret inp) in
         bindE (if secret = [] then generateWebhookSecret else retE secret) (\<lambda>secret.
         bindE time_now (\<lambda>now. bindE (newID ''wh'') (\<lambda>i.
         let scope = CurrentUser_Scope user;
             e = \<lparr>we_TenantID = sc_TenantID scope, we_ProjectID = sc_ProjectID scope, we_ID = i, we_Name = name,
                  we_URL = ci_URL inp, we_Secret = secret, we_Events = normalizeWebhookEvents (ci_Events inp),
                  we_Status = WebhookStatusEnabled, we_CreatedBy = cu_ID user, we_CreatedAt = now, we_UpdatedAt = now\<rparr>
         in bindE (Webhook_CreateEndpoint e) (\<lambda>_. retE (e, secret))))))))"

section \<open>Delivering\<close>

definition backoffForAttempt :: "int \<Rightarrow> time" where
  "backoffForAttempt attempt =
     (let attempt = (if attempt \<le> 0 then 1 else attempt);
          seconds = 2 ^ nat (min (attempt - 1) 6)
      in wrap64 (seconds * (60 * second)))"

definition SignWebhookPayload :: "env \<Rightarrow> string \<Rightarrow> string \<Rightarrow> string \<Rightarrow> string" where
  "SignWebhookPayload v secret timestamp body = ''sha256='' @ hmac_hex v secret (timestamp @ ''.'' @ body)"

definition sanitizeDeliveryError :: "string \<Rightarrow> string" where
  "sanitizeDeliveryError err = SanitizePreview err 512"

definition markDeliveryFailed :: "WebhookService \<Rightarrow> WebhookDelivery \<Rightarrow> string \<Rightarrow> WebhookDelivery prog_w" where
  "markDeliveryFailed S d reason =
     (let d = d\<lparr>wd_Error := sanitizeDeliveryError reason\<rparr>;
          d = (if wd_MaxAttempts d \<le> 0 then d\<lparr>wd_MaxAttempts := ws_maxAttempts S\<rparr> else d)
      in if wd_AttemptNo d \<ge> wd_MaxAttempts d then retE (d\<lparr>wd_Status := WebhookDeliveryDLQ\<rparr>)
         else bindE time_now (\<lambda>now.
           retE (d\<lparr>wd_Status := WebhookDeliveryFailed,
                   wd_NextRetryAt := Some (now + backoffForAttempt (wd_AttemptNo d))\<rparr>)))"

text \<open>The JSON form of an event; a field tagged \<^verbatim>\<open>omitempty\<close> is left out when it is empty.\<close>

definition opt_str :: "string \<Rightarrow> string \<Rightarrow> jobj" where
  "opt_str k s = (if s = [] then [] else [(k, JStr s)])"

definition event_json :: "env \<Rightarrow> ExecutionEvent \<Rightarrow> jval" where
  "event_json v e = JObj ([(''tenant_id'', JStr (ev_TenantID e)), (''project_id'', JStr (ev_ProjectID e)),
       (''id'', JStr (ev_ID e)), (''execution_id'', JStr (ev_ExecutionID e))] @
     opt_str ''plugin_id'' (ev_PluginID e) @ [(''type'', JStr (ExecutionEventType_text (ev_Type e)))] @
     opt_str ''status'' (ev_Status e) @ opt_str ''message'' (ev_Message e) @
     (case ev_Detail e of None \<Rightarrow> [] | Some d \<Rightarrow> if d = [] then [] else [(''detail'', JObj d)]) @
     opt_str ''request_id'' (ev_RequestID e) @ [(''created_at'', JStr (rfc3339 v (ev_CreatedAt e)))])"

definition unix_text :: "time \<Rightarrow> string" where
  "unix_text now = show_int (now div second)"

definition webhook_request :: "env \<Rightarrow> WebhookEndpoint \<Rightarrow> string \<Rightarrow> string \<Rightarrow> string \<Rightarrow> string \<Rightarrow> http_request" where
  "webhook_request v endpoint evType deliveryID timestamp body =
     \<lparr>hr_URL = we_URL endpoint,
      hr_Headers = [(''Content-Type'', ''application/json''), (''User-Agent'', ''pes-webhook/1''),
        (''X-PES-Event'', evType), (''X-PES-Delivery'', deliveryID), (''X-PES-Timestamp'', timestamp),
        (''X-PES-Signature'', SignWebhookPayload v (we_Secret endpoint) timestamp body)],
      hr_Body = body\<rparr>"

definition http_Do :: "http_request \<Rightarrow> int prog_w" where
  "http_Do req = (\<lambda>w. (http_do (w_env w) (length (http_log w)) req, w\<lparr>http_log := http_log w @ [req]\<rparr>))"

text \<open>Building the request, sending it and reading the answer: the part both senders share.\<close>

definition send_delivery :: "WebhookService \<Rightarrow> WebhookEndpoint \<Rightarrow> string \<Rightarrow> string \<Rightarrow> string \<Rightarrow> WebhookDelivery
    \<Rightarrow> (WebhookDelivery \<Rightarrow> WebhookDelivery) \<Rightarrow> WebhookDelivery prog_w" where
  "send_delivery S endpoint evType timestamp body d ok = bindE (getE w_env) (\<lambda>v.
     case http_new v (we_URL endpoint) of Some err \<Rightarrow> markDeliveryFailed S d (error_text err)
     | None \<Rightarrow> tryE (http_Do (webhook_request v endpoint evType (wd_ID d) timestamp body)) (\<lambda>r. case r of
         Inl err \<Rightarrow> markDeliveryFailed S d (error_text err)
       | Inr code \<Rightarrow>
         let d = d\<lparr>wd_StatusCode := code\<rparr>
         in if 200 \<le> code \<and> code < 300
            then bindE time_now (\<lambda>at. retE (ok (d\<lparr>wd_Status := WebhookDeliveryDelivered, wd_DeliveredAt := Some at\<rparr>)))
            else markDeliveryFailed S d (''unexpected status code '' @ show_int code)))"

definition event_payload :: "env \<Rightarrow> ExecutionEvent \<Rightarrow> time \<Rightarrow> jobj" where
  "event_payload v evt now = [(''type'', JStr (ExecutionEventType_text (ev_Type evt))), (''event'', event_json v evt),
     (''sent_at'', JStr (rfc3339 v now))]"

definition new_delivery :: "WebhookService \<Rightarrow> WebhookEndpoint \<Rightarrow> ExecutionEvent \<Rightarrow> jobj \<Rightarrow> time \<Rightarrow> string \<Rightarrow> WebhookDelivery" where
  "new_delivery S endpoint evt payload now i =
     \<lparr>wd_TenantID = we_TenantID endpoint, wd_ProjectID = we_ProjectID endpoint, wd_ID = i,
      wd_WebhookID = we_ID endpoint, wd_EventID = ev_ID evt, wd_EventType = ExecutionEventType_text (ev_Type evt),
      wd_TargetURL = we_URL endpoint, wd_Status = WebhookDeliveryPending, wd_AttemptNo = 1,
      wd_MaxAttempts = ws_maxAttempts S, wd_NextRetryAt = None, wd_StatusCode = 0, wd_Error = [],
      wd_PayloadJSON = Some payload, wd_CreatedAt = now, wd_DeliveredAt = None\<rparr>"

definition first_attempt :: "WebhookService \<Rightarrow> WebhookEndpoint \<Rightarrow> ExecutionEvent \<Rightarrow> time \<Rightarrow> string \<Rightarrow> WebhookDelivery prog_w" where
  "first_attempt S endpoint evt now i = bindE (getE w_env) (\<lambda>v.
     let payload = event_payload v evt now;
         d = new_delivery S endpoint evt payload now i
     in case json_text v (JObj payload) of
          Inl err \<Rightarrow> markDeliveryFailed S d (error_text err)
        | Inr body \<Rightarrow> send_delivery S endpoint (wd_EventType d) (unix_text now) body d id)"

definition deliver :: "WebhookService \<Rightarrow> WebhookEndpoint \<Rightarrow> ExecutionEvent \<Rightarrow> WebhookDelivery prog_w" where
  "deliver S endpoint evt = bindE time_now (\<lambda>now. bindE (newID ''whd'') (\<lambda>i.
     bindE (first_attempt S endpoint evt now i) (\<lambda>d.
     tryE (Webhook_CreateDelivery d) (\<lambda>_. retE d))))"

definition DispatchExecutionEvent :: "WebhookService \<Rightarrow> ExecutionEvent \<Rightarrow> WebhookDelivery list prog_w" where
  "DispatchExecutionEvent S evt = bindE Webhook_ListEnabledEndpoints (\<lambda>endpoints.
     mapE (\<lambda>e. deliver S e evt)
       (filter (\<lambda>e. SameScope (mk_scope (we_TenantID e) (we_ProjectID e)) (ExecutionEvent_Scope evt) \<and>
                    Matches e (ExecutionEventType_text (ev_Type evt))) endpoints))"

section \<open>Retrying\<close>

text \<open>The map of the delivery's payload is the one that is changed, so the change is kept with it.\<close>

definition obj_put :: "string \<Rightarrow> jval \<Rightarrow> jobj \<Rightarrow> jobj" where
  "obj_put k v o1 = (if k \<in> fst ` set o1 then map (\<lambda>(a, b). if a = k then (a, v) else (a, b)) o1 else o1 @ [(k, v)])"

definition retry_payload :: "WebhookDelivery \<Rightarrow> jobj" where
  "retry_payload d =
     (let payload = (case wd_PayloadJSON d of None \<Rightarrow> [] | Some p \<Rightarrow> p);
          payload = (if length payload = 0
            then [(''type'', JStr (wd_EventType d)), (''event_id'', JStr (wd_EventID d))] else payload)
      in obj_put ''retry_attempt'' (JNum (show_int (wd_AttemptNo d))) (obj_put ''delivery_id'' (JStr (wd_ID d)) payload))"

definition retryDelivery :: "WebhookService \<Rightarrow> WebhookEndpoint \<Rightarrow> WebhookDelivery \<Rightarrow> WebhookDelivery prog_w" where
  "retryDelivery S endpoint d =
     (let d = d\<lparr>wd_AttemptNo := wrap64 (wd_AttemptNo d + 1), wd_NextRetryAt := None\<rparr>;
          payload = retry_payload d;
          d = (case wd_PayloadJSON d of None \<Rightarrow> d | Some p \<Rightarrow> if p = [] then d else d\<lparr>wd_PayloadJSON := Some payload\<rparr>)
      in bindE (getE w_env) (\<lambda>v. bindE time_now (\<lambda>now.
           let body = (case json_text v (JObj payload) of Inl _ \<Rightarrow> [] | Inr b \<Rightarrow> b)
           in send_delivery S endpoint (wd_EventType d) (unix_text now) body d (\<lambda>d. d\<lparr>wd_Error := []\<rparr>))))"

definition retry_due :: "time \<Rightarrow> WebhookDelivery \<Rightarrow> bool" where
  "retry_due now d \<longleftrightarrow> \<not> (wd_Status d \<noteq> WebhookDeliveryFailed \<or>
     (case wd_NextRetryAt d of None \<Rightarrow> True | Some t \<Rightarrow> t > now))"

text \<open>The code returns what it has retried so far together with an error.\<close>

fun retry_loop :: "WebhookService \<Rightarrow> time \<Rightarrow> int \<Rightarrow> WebhookDelivery list \<Rightarrow> WebhookDelivery list
    \<Rightarrow> (WebhookDelivery list \<times> go_error option) prog_w" where
  "retry_loop S now max1 [] out = retE (out, None)"
| "retry_loop S now max1 (d # ds) out =
     (if max1 > 0 \<and> int (length out) \<ge> max1 then retE (out, None)
      else if \<not> retry_due now d then retry_loop S now max1 ds out
      else tryE (Webhook_GetEndpointByID (wd_WebhookID d)) (\<lambda>r. case r of
        Inl err \<Rightarrow> retE (out, Some err)
      | Inr endpoint \<Rightarrow> (case endpoint of
          Some e \<Rightarrow> (if we_Status e = WebhookStatusEnabled
            then bindE (retryDelivery S e d) (\<lambda>d.
              tryE (Webhook_UpdateDelivery d) (\<lambda>_. retry_loop S now max1 ds (out @ [d])))
            else (let d = d\<lparr>wd_Status := WebhookDeliveryDLQ, wd_Error := ''webhook endpoint missing or disabled''\<rparr>
              in tryE (Webhook_UpdateDelivery d) (\<lambda>_. retry_loop S now max1 ds (out @ [d]))))
        | None \<Rightarrow> (let d = d\<lparr>wd_Status := WebhookDeliveryDLQ, wd_Error := ''webhook endpoint missing or disabled''\<rparr>
            in tryE (Webhook_UpdateDelivery d) (\<lambda>_. retry_loop S now max1 ds (out @ [d]))))))"

definition RetryFailedDeliveries :: "WebhookService \<Rightarrow> time \<Rightarrow> int \<Rightarrow> (WebhookDelivery list \<times> go_error option) prog_w" where
  "RetryFailedDeliveries S now max1 = tryE (Webhook_ListDeliveries []) (\<lambda>r. case r of
     Inl err \<Rightarrow> retE ([], Some err) | Inr items \<Rightarrow> retry_loop S now max1 items [])"

section \<open>The retry scheduler\<close>

record WebhookRetryOptions =
  wo_Interval :: time
  wo_Batch :: int

definition NewWebhookRetryScheduler :: "WebhookRetryOptions \<Rightarrow> WebhookRetryOptions" where
  "NewWebhookRetryScheduler opts =
     (let opts = (if wo_Interval opts \<le> 0 then opts\<lparr>wo_Interval := 30 * second\<rparr> else opts)
      in if wo_Batch opts \<le> 0 then opts\<lparr>wo_Batch := 50\<rparr> else opts)"

definition retryOnce :: "WebhookService \<Rightarrow> WebhookRetryOptions \<Rightarrow> time \<Rightarrow> unit prog_w" where
  "retryOnce S opts now = bindE (RetryFailedDeliveries S now (wo_Batch opts)) (\<lambda>(items, err). case err of
     Some _ \<Rightarrow> IncWebhookRetryError
   | None \<Rightarrow> if length items > 0 then IncWebhookRetry (int (length items)) else retE ())"

end
