(* ===== verification/WebhookSpec.thy ===== *)
theory WebhookSpec
  imports Webhook
begin

text \<open>
  What the webhook service guarantees: which addresses an endpoint may have, the delays
  between attempts, who receives an event, and that no delivery is sent more often than its
  limit, over any sequence of dispatches and retries.
\<close>

section \<open>Addresses\<close>

definition show_octet :: "nat \<Rightarrow> string" where "show_octet n = show_int (int n)"

definition quad :: "nat \<Rightarrow> nat \<Rightarrow> nat \<Rightarrow> nat \<Rightarrow> string" where
  "quad a b c d = show_octet a @ ''.'' @ show_octet b @ ''.'' @ show_octet c @ ''.'' @ show_octet d"

text \<open>Reading back a printed number: the digits are digits, the first is not a zero, and their value is the number.\<close>

definition is_digit :: "char \<Rightarrow> bool" where
  "is_digit c \<longleftrightarrow> CHR ''0'' \<le> c \<and> c \<le> CHR ''9''"

lemma is_digit_code: "is_digit c \<longleftrightarrow> 48 \<le> (of_char c :: nat) \<and> (of_char c :: nat) \<le> 57"
  by (simp add: is_digit_def less_eq_char_def)

lemma digit_of: "n < 10 \<Longrightarrow> is_digit (char_of (48 + n))" "n < 10 \<Longrightarrow> of_char (char_of (48 + n :: nat)) = 48 + n"
  by (simp_all add: is_digit_code of_char_of)

lemma nat_digits_value:
  "n < f \<Longrightarrow> list_all is_digit (nat_digits f n) \<and> nat_digits f n \<noteq> [] \<and>
     foldl (\<lambda>n c. n * 10 + (of_char c - 48)) 0 (nat_digits f n) = n \<and>
     (0 < n \<longrightarrow> hd (nat_digits f n) \<noteq> CHR ''0'')"
proof (induction f arbitrary: n)
  case (Suc f)
  show ?case
  proof (cases "n < 10")
    case True
    have "(char_of (48 + n) :: char) = CHR ''0'' \<Longrightarrow> n = 0"
    proof -
      assume "(char_of (48 + n) :: char) = CHR ''0''"
      then have "(of_char (char_of (48 + n) :: char) :: nat) = 48" by simp
      with digit_of(2) [OF True] show "n = 0" by simp
    qed
    with True digit_of [OF True] show ?thesis by auto
  next
    case False
    then have "n div 10 < f" "0 < n div 10" using Suc.prems by auto
    with Suc.IH [of "n div 10"] False digit_of [of "n mod 10"] show ?thesis by auto
  qed
qed simp

lemma show_octet_digits:
  "list_all is_digit (show_octet n) \<and> show_octet n \<noteq> [] \<and>
     foldl (\<lambda>n c. n * 10 + (of_char c - 48)) 0 (show_octet n) = n \<and> (0 < n \<longrightarrow> hd (show_octet n) \<noteq> CHR ''0'')"
  using nat_digits_value [of n "Suc n"] by (simp add: show_octet_def show_int_def del: nat_digits.simps)

lemma octet_show: "n \<le> 255 \<Longrightarrow> octet (show_octet n) = Some n"
proof -
  assume n: "n \<le> 255"
  have "(char_of (48 :: nat) :: char) = CHR ''0''" by code_simp
  then have "n = 0 \<Longrightarrow> show_octet n = [CHR ''0'']" by (simp add: show_octet_def show_int_def)
  then have "\<not> (1 < length (show_octet n) \<and> hd (show_octet n) = CHR ''0'')"
    using show_octet_digits [of n] by (cases "n = 0") auto
  with n show_octet_digits [of n] show ?thesis
    by (simp add: octet_def is_digit_def [abs_def] Let_def)
qed

lemma split_on_append: "d \<notin> set w \<Longrightarrow> split_on d (w @ d # s) = w # split_on d s"
  by (induction w) auto

lemma split_on_plain: "d \<notin> set w \<Longrightarrow> split_on d w = [w]"
  by (induction w) auto

lemma is_digit_simple:
  assumes "is_digit c"
  shows "c \<noteq> CHR ''.''" "c \<noteq> CHR '':''" "c \<noteq> CHR ''%''" "lower_char c = c"
  using assms by (auto simp: is_digit_code lower_char_def)

lemma quad_parse:
  assumes "a \<le> 255" "b \<le> 255" "c \<le> 255" "d \<le> 255"
  shows "parse_ip4 (quad a b c d) = Some [a, b, c, d]"
proof -
  have nd: "CHR ''.'' \<notin> set (show_octet n)" for n
    using show_octet_digits [of n] is_digit_simple(1) by (auto simp: list_all_iff)
  have "split_on (CHR ''.'') (quad a b c d) = [show_octet a, show_octet b, show_octet c, show_octet d]"
    using split_on_append [OF nd] split_on_plain [OF nd] by (simp add: quad_def)
  then show ?thesis using assms by (simp add: parse_ip4_def octet_show)
qed

lemma first_mark_append: "first_mark w = None \<Longrightarrow> first_mark (w @ s) = first_mark s"
  by (induction w) (auto split: if_splits)

lemma first_mark_digits: "list_all is_digit w \<Longrightarrow> first_mark w = None"
  by (induction w) (auto dest: is_digit_simple)

lemma to_lower_digits: "list_all is_digit w \<Longrightarrow> to_lower w = w"
  by (induction w) (auto simp: to_lower_def is_digit_simple)

lemma to_lower_append: "to_lower (v @ w) = to_lower v @ to_lower w"
  by (simp add: to_lower_def)

lemma to_lower_quad: "to_lower (quad a b c d) = quad a b c d"
proof -
  have "to_lower ''.'' = ''.''" by (simp add: to_lower_def lower_char_def)
  then show ?thesis
    using show_octet_digits by (simp add: quad_def to_lower_append to_lower_digits del: append_Cons append_Nil)
qed

lemma strip_with_stuck: "find (\<lambda>p. has_prefix s p) ps = None \<Longrightarrow> strip_with ps n s = s"
  by (cases n) auto

lemma spaces_no_digit:
  "list_all (\<lambda>p. p \<noteq> [] \<and> \<not> is_digit (hd p)) space_seqs"
  "list_all (\<lambda>p. p \<noteq> [] \<and> \<not> is_digit (hd p)) (map rev space_seqs)"
  by code_simp+

lemma no_space_at:
  assumes "list_all (\<lambda>p. p \<noteq> [] \<and> \<not> is_digit (hd p)) ps" and "is_digit c"
  shows "find (\<lambda>p. has_prefix (c # s) p) ps = None"
proof -
  have "\<not> has_prefix (c # s) p" if "p \<in> set ps" for p
    using assms that by (cases p) (auto simp: list_all_iff has_prefix_def)
  then show ?thesis by (simp add: find_None_iff)
qed

lemmas no_space_prefix = no_space_at [OF spaces_no_digit(1)]
lemmas no_space_suffix = no_space_at [OF spaces_no_digit(2)]

lemma trim_digits:
  assumes "is_digit c" "is_digit d" "s = c # t" "s = u @ [d]"
  shows "trim_space s = s"
proof -
  have "trim_left_space s = s"
    using no_space_prefix [OF assms(1), of t] by (simp add: trim_left_space_def strip_with_stuck assms(3))
  moreover have "trim_right_space s = s"
    using no_space_suffix [OF assms(2), of "rev u"] by (simp add: trim_right_space_def strip_with_stuck assms(4))
  ultimately show ?thesis by (simp add: trim_space_def)
qed

lemma quad_ends: "\<exists>x y s t. is_digit x \<and> is_digit y \<and> quad a b c d = x # s \<and> quad a b c d = t @ [y]"
proof -
  from show_octet_digits [of a] obtain x s where x: "show_octet a = x # s" "is_digit x"
    by (cases "show_octet a") auto
  from show_octet_digits [of d] obtain t y where y: "show_octet d = t @ [y]" "is_digit y"
    by (cases "show_octet d" rule: rev_cases) auto
  have "quad a b c d = x # (s @ ''.'' @ show_octet b @ ''.'' @ show_octet c @ ''.'' @ show_octet d)"
    by (simp add: quad_def x)
  moreover have "quad a b c d = (show_octet a @ ''.'' @ show_octet b @ ''.'' @ show_octet c @ ''.'' @ t) @ [y]"
    by (simp add: quad_def y)
  ultimately show ?thesis using x(2) y(2) by blast
qed

lemma trim_quad: "trim_space (quad a b c d) = quad a b c d"
  using quad_ends [of a b c d] trim_digits by blast

lemma quad_not_local: "quad a b c d \<noteq> ''localhost''" "\<not> has_suffix (quad a b c d) ''.localhost''"
proof -
  from quad_ends [of a b c d] obtain x s y t
    where q: "is_digit x" "is_digit y" "quad a b c d = x # s" "quad a b c d = t @ [y]" by blast
  from q(1,3) show "quad a b c d \<noteq> ''localhost''" by (auto simp: is_digit_code)
  from q(2,4) show "\<not> has_suffix (quad a b c d) ''.localhost''"
    by (auto simp: has_suffix_def has_prefix_def is_digit_code)
qed

text \<open>
  The address filter is exact on IPv4 literals: a dotted quad is refused if and only if it is
  a loopback, unspecified, private or link-local address.
\<close>

theorem isBlockedWebhookHost_quad:
  assumes "a \<le> 255" "b \<le> 255" "c \<le> 255" "d \<le> 255"
  shows "isBlockedWebhookHost v (quad a b c d) \<longleftrightarrow>
    a = 127 \<or> a = 10 \<or> a = 172 \<and> 16 \<le> b \<and> b \<le> 31 \<or> a = 192 \<and> b = 168 \<or> a = 169 \<and> b = 254 \<or>
    a = 224 \<and> b = 0 \<and> c = 0 \<or> a = 0 \<and> b = 0 \<and> c = 0 \<and> d = 0"
proof -
  have "first_mark (quad a b c d) = Some CHR ''.''"
    using show_octet_digits by (simp add: quad_def first_mark_append first_mark_digits)
  then have ip: "ParseIP v (quad a b c d) = Some [a, b, c, d]"
    using quad_parse [OF assms] by (simp add: ParseIP_def)
  have "quad a b c d \<noteq> []" using quad_ends [of a b c d] by auto
  then have "isBlockedWebhookHost v (quad a b c d) \<longleftrightarrow>
      IsLoopback [a, b, c, d] \<or> IsUnspecified [a, b, c, d] \<or> IsPrivate [a, b, c, d] \<or>
      IsLinkLocalUnicast [a, b, c, d] \<or> IsLinkLocalMulticast [a, b, c, d]"
    by (simp add: isBlockedWebhookHost_def to_lower_quad trim_quad quad_not_local ip)
  moreover have "b div 16 = 1 \<longleftrightarrow> 16 \<le> b \<and> b \<le> 31" by auto
  ultimately show ?thesis
    by (auto simp: IsLoopback_def IsUnspecified_def IsPrivate_def IsLinkLocalUnicast_def IsLinkLocalMulticast_def To4_def)
qed

text \<open>
  The filter looks at the text of the host only: the fully qualified spelling of the local
  host passes it.
\<close>

theorem isBlockedWebhookHost_localhost_dot:
  "isBlockedWebhookHost v ''localhost'' \<and> \<not> isBlockedWebhookHost v ''localhost.''"
proof -
  have "trim_space (to_lower ''localhost.'') = ''localhost.''" "trim_space (to_lower ''localhost'') = ''localhost''"
    "\<not> has_suffix ''localhost.'' ''.localhost''" "first_mark ''localhost.'' = Some CHR ''.''"
    "parse_ip4 ''localhost.'' = None"
    by code_simp+
  then show ?thesis by (simp add: isBlockedWebhookHost_def ParseIP_def)
qed

section \<open>Subscriptions\<close>

lemma normalize_events_set:
  "distinct out \<Longrightarrow> distinct (normalize_events evs out) \<and>
   set (normalize_events evs out) = set out \<union> (trim_space ` set evs - {[]})"
  by (induction evs arbitrary: out) (auto simp: Let_def)

text \<open>
  An endpoint always subscribes to something, to nothing twice and never to the empty name:
  the stored events are the trimmed non-empty ones that were asked for, or all events when there
  are none.
\<close>

theorem normalizeWebhookEvents_spec:
  "distinct (normalizeWebhookEvents evs) \<and>
   set (normalizeWebhookEvents evs) =
     (if trim_space ` set evs \<subseteq> {[]} then {''*''} else trim_space ` set evs - {[]})"
proof -
  have e: "distinct (normalize_events evs []) \<and> set (normalize_events evs []) = trim_space ` set evs - {[]}"
    using normalize_events_set [of "[]" evs] by simp
  show ?thesis
  proof (cases "normalize_events evs [] = []")
    case True
    with e have "trim_space ` set evs - {[]} = {}" by simp
    then show ?thesis using True by (simp add: normalizeWebhookEvents_def Diff_eq_empty_iff)
  next
    case False
    with e have "trim_space ` set evs - {[]} \<noteq> {}" by (metis set_empty)
    then show ?thesis using e False by (auto simp: normalizeWebhookEvents_def Let_def)
  qed
qed

section \<open>Delays\<close>

lemma backoff_eq: "backoffForAttempt n = 60 * second * 2 ^ nat (min (max n 1 - 1) 6)"
proof -
  let ?k = "nat (min (max n 1 - 1) 6)"
  have "?k \<le> 6" by simp
  then have "(2::int) ^ ?k \<le> 2 ^ 6" by (intro power_increasing) auto
  then have "wrap64 (2 ^ ?k * (60 * second)) = 2 ^ ?k * (60 * second)"
    by (intro wrap64_id) (auto simp: second_def intro: order_trans [of _ "0::int"])
  then show ?thesis by (auto simp: backoffForAttempt_def Let_def max_def algebra_simps)
qed

text \<open>
  The delay before the next attempt is one minute after the first failure, doubles with every
  further one, and stays at 64 minutes from the seventh on; it never wraps around.
\<close>

theorem backoffForAttempt_doubles:
  "backoffForAttempt 1 = 60 * second \<and> (1 \<le> n \<and> n \<le> 6 \<longrightarrow> backoffForAttempt (n + 1) = 2 * backoffForAttempt n) \<and>
   (7 \<le> n \<longrightarrow> backoffForAttempt n = 64 * 60 * second) \<and>
   60 * second \<le> backoffForAttempt n \<and> backoffForAttempt n \<le> 64 * 60 * second"
proof -
  have dbl: "backoffForAttempt (n + 1) = 2 * backoffForAttempt n" if "1 \<le> n" "n \<le> 6"
  proof -
    have "nat (min (max (n + 1) 1 - 1) 6) = Suc (nat (min (max n 1 - 1) 6))" using that by auto
    then show ?thesis unfolding backoff_eq by (simp only: power_Suc mult.left_commute)
  qed
  let ?k = "nat (min (max n 1 - 1) 6)"
  have "?k \<le> 6" by simp
  then have "(2::int) ^ ?k \<le> 2 ^ 6" by (intro power_increasing) auto
  moreover have "(1::int) \<le> 2 ^ ?k" by simp
  ultimately have "60 * second \<le> backoffForAttempt n \<and> backoffForAttempt n \<le> 64 * 60 * second"
    by (simp add: backoff_eq second_def)
  moreover have "7 \<le> n \<Longrightarrow> ?k = 6" by simp
  ultimately show ?thesis using dbl by (auto simp: backoff_eq)
qed

theorem backoffForAttempt_doubles_witness: "backoffForAttempt 9 = 64 * 60 * second"
  using backoffForAttempt_doubles [of 9] by simp

section \<open>One attempt\<close>

text \<open>
  What sending leaves behind: the delivery with its number and identity, in one of the three
  states an attempt can end in, and at most one more request, addressed to the endpoint.
\<close>

definition outcome_of :: "WebhookService \<Rightarrow> WebhookDelivery \<Rightarrow> WebhookDelivery \<Rightarrow> bool" where
  "outcome_of S d f \<longleftrightarrow> wd_ID f = wd_ID d \<and> wd_WebhookID f = wd_WebhookID d \<and> wd_AttemptNo f = wd_AttemptNo d \<and>
     wd_TenantID f = wd_TenantID d \<and> wd_ProjectID f = wd_ProjectID d \<and>
     (wd_Status f = WebhookDeliveryDelivered \<and> wd_DeliveredAt f \<noteq> None \<and> 200 \<le> wd_StatusCode f \<and> wd_StatusCode f < 300 \<and>
        wd_MaxAttempts f = wd_MaxAttempts d \<or>
      wd_Status f \<noteq> WebhookDeliveryDelivered \<and>
        wd_MaxAttempts f = (if wd_MaxAttempts d \<le> 0 then ws_maxAttempts S else wd_MaxAttempts d) \<and>
        (if wd_MaxAttempts f \<le> wd_AttemptNo f then wd_Status f = WebhookDeliveryDLQ
         else wd_Status f = WebhookDeliveryFailed \<and> wd_NextRetryAt f \<noteq> None))"

text \<open>The world after an attempt: the clock has moved and at most the request \<open>q\<close> was sent.\<close>

definition sent_at_most :: "http_request \<Rightarrow> world \<Rightarrow> world \<Rightarrow> bool" where
  "sent_at_most q w t \<longleftrightarrow> (\<exists>n ls. t = w\<lparr>now_ix := n, http_log := http_log w @ ls\<rparr> \<and> (ls = [] \<or> ls = [q]))"

lemma markDeliveryFailed_run:
  "\<exists>f n. markDeliveryFailed S d reason w = (Inr f, w\<lparr>now_ix := n\<rparr>) \<and> outcome_of S d f \<and>
     wd_Status f \<noteq> WebhookDeliveryDelivered"
  by (auto simp: markDeliveryFailed_def Let_def outcome_of_def time_now_run intro: exI [of _ "now_ix w"])

lemma failed_outcome:
  assumes "outcome_of S d f" and "wd_ID d = wd_ID e" "wd_WebhookID d = wd_WebhookID e" "wd_AttemptNo d = wd_AttemptNo e"
    "wd_TenantID d = wd_TenantID e" "wd_ProjectID d = wd_ProjectID e" "wd_MaxAttempts d = wd_MaxAttempts e"
  shows "outcome_of S e f"
  using assms(1) unfolding outcome_of_def assms(2-) .

lemma send_delivery_run:
  assumes keep: "ok = id \<or> ok = (\<lambda>d. d\<lparr>wd_Error := []\<rparr>)"
  shows "\<exists>f t. send_delivery S e ty ts body d ok w = (Inr f, t) \<and> outcome_of S d f \<and>
    sent_at_most (webhook_request (w_env w) e ty (wd_ID d) ts body) w t"
proof (cases "http_new (w_env w) (we_URL e)")
  case (Some err)
  from markDeliveryFailed_run [of S d "error_text err" w] obtain f n
    where "markDeliveryFailed S d (error_text err) w = (Inr f, w\<lparr>now_ix := n\<rparr>)" "outcome_of S d f" by blast
  with Some show ?thesis
    by (auto simp: send_delivery_def sent_at_most_def intro!: exI [of _ n] exI [of _ "[]"])
next
  case None
  let ?q = "webhook_request (w_env w) e ty (wd_ID d) ts body"
  let ?w = "w\<lparr>http_log := http_log w @ [?q]\<rparr>"
  have run: "send_delivery S e ty ts body d ok w = (case http_do (w_env w) (length (http_log w)) ?q of
      Inl err \<Rightarrow> markDeliveryFailed S d (error_text err) ?w
    | Inr code \<Rightarrow> let d = d\<lparr>wd_StatusCode := code\<rparr>
         in if 200 \<le> code \<and> code < 300
            then bindE time_now (\<lambda>at. retE (ok (d\<lparr>wd_Status := WebhookDeliveryDelivered, wd_DeliveredAt := Some at\<rparr>))) ?w
            else markDeliveryFailed S d (''unexpected status code '' @ show_int code) ?w)"
    using None by (simp add: send_delivery_def tryE_run http_Do_def Let_def split: sum.split)
  have sent: "sent_at_most ?q w (?w\<lparr>now_ix := n\<rparr>)" for n
    by (auto simp: sent_at_most_def intro!: exI [of _ n] exI [of _ "[?q]"])
  show ?thesis
  proof (cases "http_do (w_env w) (length (http_log w)) ?q")
    case (Inl err)
    with markDeliveryFailed_run [of S d "error_text err" ?w] run sent show ?thesis by fastforce
  next
    case (Inr code)
    show ?thesis
    proof (cases "200 \<le> code \<and> code < 300")
      case True
      with Inr run sent [of "Suc (now_ix w)"] keep show ?thesis
        by (auto simp: Let_def time_now_run outcome_of_def)
    next
      case False
      let ?d = "d\<lparr>wd_StatusCode := code\<rparr>"
      from markDeliveryFailed_run [of S ?d "''unexpected status code '' @ show_int code" ?w] obtain f n
        where f: "markDeliveryFailed S ?d (''unexpected status code '' @ show_int code) ?w = (Inr f, ?w\<lparr>now_ix := n\<rparr>)"
          "outcome_of S ?d f" by blast
      from failed_outcome [OF f(2)] have "outcome_of S d f" by simp
      with f(1) False Inr run sent [of n] show ?thesis by (auto simp: Let_def)
    qed
  qed
qed

section \<open>The store of deliveries\<close>

text \<open>The requests that carry a delivery's identifier.\<close>

definition carries :: "string \<Rightarrow> http_request \<Rightarrow> bool" where
  "carries i q \<longleftrightarrow> (''X-PES-Delivery'', i) \<in> set (hr_Headers q)"

definition sent_for :: "string \<Rightarrow> world \<Rightarrow> nat" where
  "sent_for i w = length (filter (carries i) (http_log w))"

lemma carries_request [simp]: "carries i (webhook_request v e ty j ts body) \<longleftrightarrow> i = j"
  by (auto simp: carries_def webhook_request_def)

text \<open>
  A stored delivery has been attempted at least once and at most as often as it may be, and is
  delivered, waiting for a retry that is allowed, or dead.
\<close>

definition delivery_ok :: "WebhookDelivery \<Rightarrow> bool" where
  "delivery_ok d \<longleftrightarrow> 1 \<le> wd_AttemptNo d \<and> wd_AttemptNo d \<le> wd_MaxAttempts d \<and>
     (case wd_Status d of WebhookDeliveryPending \<Rightarrow> False
      | WebhookDeliveryDelivered \<Rightarrow> wd_DeliveredAt d \<noteq> None
      | WebhookDeliveryFailed \<Rightarrow> wd_AttemptNo d < wd_MaxAttempts d \<and> wd_NextRetryAt d \<noteq> None
      | WebhookDeliveryDLQ \<Rightarrow> True)"

definition minted :: "world \<Rightarrow> string \<Rightarrow> bool" where
  "minted w i \<longleftrightarrow> (\<exists>n < id_ix w. i = ''whd_'' @ id_text (w_env w) n)"

definition webhook_ok :: "int \<Rightarrow> world \<Rightarrow> bool" where
  "webhook_ok m w \<longleftrightarrow> distinct (map wd_ID (webhook_deliveries w)) \<and>
     (\<forall>d \<in> set (webhook_deliveries w). delivery_ok d \<and> wd_MaxAttempts d \<le> m \<and> minted w (wd_ID d) \<and>
        int (sent_for (wd_ID d) w) \<le> wd_AttemptNo d) \<and>
     (\<forall>q \<in> set (http_log w). \<forall>i. carries i q \<longrightarrow> minted w i)"

lemma outcome_ok:
  assumes "outcome_of S d f" and "1 \<le> wd_AttemptNo d" "wd_AttemptNo d \<le> wd_MaxAttempts d" "wd_MaxAttempts d \<le> m"
  shows "delivery_ok f \<and> wd_MaxAttempts f \<le> m"
  using assms by (auto simp: outcome_of_def delivery_ok_def split: if_splits)

lemma sent_for_fresh:
  assumes "webhook_ok m w" and "\<not> minted w i"
  shows "sent_for i w = 0"
  using assms by (auto simp: webhook_ok_def sent_for_def filter_empty_conv)

lemma fresh_not_minted: "inj (id_text (w_env w)) \<Longrightarrow> \<not> minted w (''whd_'' @ id_text (w_env w) (id_ix w))"
  by (auto simp: minted_def dest: injD)

text \<open>A new delivery after one attempt.\<close>

lemma first_attempt_run:
  "\<exists>f n ls. first_attempt S e evt now i w = (Inr f, w\<lparr>now_ix := n, http_log := http_log w @ ls\<rparr>) \<and>
    outcome_of S (new_delivery S e evt (event_payload (w_env w) evt now) now i) f \<and>
    (ls = [] \<or> (\<exists>q. ls = [q] \<and> hr_URL q = we_URL e \<and> (\<forall>j. carries j q \<longleftrightarrow> j = i)))"
proof -
  let ?d = "new_delivery S e evt (event_payload (w_env w) evt now) now i"
  show ?thesis
  proof (cases "json_text (w_env w) (JObj (event_payload (w_env w) evt now))")
    case (Inl err)
    from markDeliveryFailed_run [of S ?d "error_text err" w] obtain f n
      where "markDeliveryFailed S ?d (error_text err) w = (Inr f, w\<lparr>now_ix := n\<rparr>)" "outcome_of S ?d f" by blast
    with Inl show ?thesis
      by (intro exI [of _ f] exI [of _ n] exI [of _ "[]"]) (simp add: first_attempt_def Let_def)
  next
    case (Inr body)
    let ?q = "webhook_request (w_env w) e (wd_EventType ?d) (wd_ID ?d) (unix_text now) body"
    from send_delivery_run [where ok = id and S = S and d = ?d and e = e and ty = "wd_EventType ?d"
        and ts = "unix_text now" and body = body and w = w] obtain f t
      where f: "send_delivery S e (wd_EventType ?d) (unix_text now) body ?d id w = (Inr f, t)" "outcome_of S ?d f"
        "sent_at_most ?q w t" by auto
    from f(3) obtain n ls where t: "t = w\<lparr>now_ix := n, http_log := http_log w @ ls\<rparr>" "ls = [] \<or> ls = [?q]"
      by (auto simp: sent_at_most_def)
    have "hr_URL ?q = we_URL e" "\<forall>j. carries j ?q \<longleftrightarrow> j = i"
      by (auto simp: webhook_request_def carries_def new_delivery_def)
    with t f(1,2) Inr show ?thesis
      by (intro exI [of _ f] exI [of _ n] exI [of _ ls]) (auto simp: first_attempt_def Let_def)
  qed
qed

lemma deliver_run:
  assumes w: "disk_ok w"
  shows "\<exists>f n k ls. deliver S e evt w = (Inr f, w\<lparr>now_ix := n, id_ix := Suc (id_ix w), io_ix := k,
      http_log := http_log w @ ls, webhook_deliveries := webhook_deliveries w @ [f]\<rparr>) \<and>
    wd_ID f = ''whd_'' @ id_text (w_env w) (id_ix w) \<and> wd_WebhookID f = we_ID e \<and> wd_AttemptNo f = 1 \<and>
    (1 \<le> ws_maxAttempts S \<longrightarrow> delivery_ok f \<and> wd_MaxAttempts f \<le> ws_maxAttempts S) \<and>
    (ls = [] \<or> (\<exists>q. ls = [q] \<and> hr_URL q = we_URL e \<and> (\<forall>i. carries i q \<longleftrightarrow> i = wd_ID f)))"
proof -
  let ?v = "w_env w" and ?now = "clock (w_env w) (now_ix w)" and ?i = "''whd_'' @ id_text (w_env w) (id_ix w)"
  let ?w = "w\<lparr>now_ix := Suc (now_ix w), id_ix := Suc (id_ix w)\<rparr>"
  let ?d = "new_delivery S e evt (event_payload ?v evt ?now) ?now ?i"
  obtain f n ls where f: "first_attempt S e evt ?now ?i ?w = (Inr f, ?w\<lparr>now_ix := n, http_log := http_log w @ ls\<rparr>)"
    "outcome_of S ?d f" "ls = [] \<or> (\<exists>q. ls = [q] \<and> hr_URL q = we_URL e \<and> (\<forall>i. carries i q \<longleftrightarrow> i = ?i))"
    using first_attempt_run [of S e evt ?now ?i ?w] by auto
  let ?t = "?w\<lparr>now_ix := n, http_log := http_log w @ ls\<rparr>"
  have eq: "deliver S e evt w = tryE (Webhook_CreateDelivery f) (\<lambda>_. retE f) ?t"
    using f(1) by (simp add: deliver_def time_now_run newID_run)
  have "disk_ok ?t" using w by (simp add: disk_ok_def)
  then have "Webhook_CreateDelivery f ?t = (Inr (), ?t\<lparr>io_ix := io_ix w + 2,
      webhook_deliveries := webhook_deliveries w @ [f]\<rparr>)"
    by (simp add: Webhook_CreateDelivery_def repo_append_ok)
  then have "deliver S e evt w = (Inr f, ?t\<lparr>io_ix := io_ix w + 2, webhook_deliveries := webhook_deliveries w @ [f]\<rparr>)"
    using eq by (simp add: tryE_run)
  moreover have "wd_ID f = ?i" "wd_WebhookID f = we_ID e" "wd_AttemptNo f = 1"
    using f(2) by (simp_all add: outcome_of_def new_delivery_def)
  moreover have "1 \<le> ws_maxAttempts S \<Longrightarrow> delivery_ok f \<and> wd_MaxAttempts f \<le> ws_maxAttempts S"
    using outcome_ok [OF f(2), of "ws_maxAttempts S"] by (simp add: new_delivery_def)
  ultimately show ?thesis using f(3)
    by (intro exI [of _ f] exI [of _ n] exI [of _ "io_ix w + 2"] exI [of _ ls]) simp
qed

section \<open>Dispatching an event\<close>

abbreviation interested :: "ExecutionEvent \<Rightarrow> WebhookEndpoint \<Rightarrow> bool" where
  "interested evt e \<equiv> SameScope (mk_scope (we_TenantID e) (we_ProjectID e)) (ExecutionEvent_Scope evt) \<and>
     Matches e (ExecutionEventType_text (ev_Type evt))"

lemma deliver_ok:
  assumes w: "disk_ok w" and m: "1 \<le> ws_maxAttempts S" and ok: "webhook_ok (ws_maxAttempts S) w"
    and inj: "inj (id_text (w_env w))"
  shows "\<exists>f t ls. deliver S e evt w = (Inr f, t) \<and> disk_ok t \<and> webhook_ok (ws_maxAttempts S) t \<and>
    w_env t = w_env w \<and> webhooks t = webhooks w \<and> executions t = executions w \<and>
    webhook_deliveries t = webhook_deliveries w @ [f] \<and> wd_WebhookID f = we_ID e \<and>
    http_log t = http_log w @ ls \<and> (ls = [] \<or> (\<exists>q. ls = [q] \<and> hr_URL q = we_URL e))"
proof -
  from deliver_run [OF w, of S e evt] obtain f n k ls
    where d: "deliver S e evt w = (Inr f, w\<lparr>now_ix := n, id_ix := Suc (id_ix w), io_ix := k,
      http_log := http_log w @ ls, webhook_deliveries := webhook_deliveries w @ [f]\<rparr>)"
    and f: "wd_ID f = ''whd_'' @ id_text (w_env w) (id_ix w)" "wd_WebhookID f = we_ID e" "wd_AttemptNo f = 1"
      "delivery_ok f" "wd_MaxAttempts f \<le> ws_maxAttempts S"
    and ls: "ls = [] \<or> (\<exists>q. ls = [q] \<and> hr_URL q = we_URL e \<and> (\<forall>i. carries i q \<longleftrightarrow> i = wd_ID f))" using m by blast
  let ?t = "w\<lparr>now_ix := n, id_ix := Suc (id_ix w), io_ix := k,
      http_log := http_log w @ ls, webhook_deliveries := webhook_deliveries w @ [f]\<rparr>"
  have nm: "\<not> minted w (wd_ID f)" unfolding f(1) by (rule fresh_not_minted [OF inj])
  have mint: "minted ?t i" if "minted w i \<or> i = wd_ID f" for i
    using that f(1) unfolding minted_def by (auto intro: less_SucI)
  have old: "sent_for (wd_ID d) ?t = sent_for (wd_ID d) w" if "d \<in> set (webhook_deliveries w)" for d
  proof -
    have "minted w (wd_ID d)" using that ok by (simp add: webhook_ok_def)
    then have ne: "wd_ID d \<noteq> wd_ID f" using nm by metis
    from ls have "filter (carries (wd_ID d)) ls = []" by (elim disjE exE conjE) (simp_all add: ne)
    then show ?thesis by (simp add: sent_for_def)
  qed
  have new: "sent_for (wd_ID f) ?t \<le> 1"
  proof -
    have "sent_for (wd_ID f) w = 0" by (rule sent_for_fresh [OF ok nm])
    then have "filter (carries (wd_ID f)) (http_log w) = []" by (simp add: sent_for_def)
    moreover from ls have "length (filter (carries (wd_ID f)) ls) \<le> 1" by (elim disjE exE conjE) simp_all
    ultimately show ?thesis by (simp add: sent_for_def)
  qed
  have "webhook_ok (ws_maxAttempts S) ?t"
    unfolding webhook_ok_def
  proof (intro conjI ballI allI impI)
    show "distinct (map wd_ID (webhook_deliveries ?t))" using ok nm by (auto simp: webhook_ok_def)
  next
    fix d assume "d \<in> set (webhook_deliveries ?t)"
    then consider "d \<in> set (webhook_deliveries w)" | "d = f" by auto
    note cases = this
    show "delivery_ok d" using cases ok f(4) by cases (auto simp: webhook_ok_def)
    show "wd_MaxAttempts d \<le> ws_maxAttempts S" using cases ok f(5) by cases (auto simp: webhook_ok_def)
    show "minted ?t (wd_ID d)" using cases ok by cases (auto simp: webhook_ok_def intro!: mint)
    show "int (sent_for (wd_ID d) ?t) \<le> wd_AttemptNo d"
      using cases old new ok f(3) by cases (auto simp: webhook_ok_def)
  next
    fix q i assume "q \<in> set (http_log ?t)" and "carries i q"
    then show "minted ?t i" using ok ls by (intro mint) (auto simp: webhook_ok_def)
  qed
  with d f(2) ls w show ?thesis by (intro exI [of _ f] exI [of _ ?t] exI [of _ ls]) (auto simp: disk_ok_def)
qed

lemma deliver_each:
  assumes "disk_ok w" and "1 \<le> ws_maxAttempts S" and "webhook_ok (ws_maxAttempts S) w"
    and "inj (id_text (w_env w))"
  shows "\<exists>fs t qs. mapE (\<lambda>e. deliver S e evt) es w = (Inr fs, t) \<and> disk_ok t \<and> webhook_ok (ws_maxAttempts S) t \<and>
    w_env t = w_env w \<and> webhooks t = webhooks w \<and> executions t = executions w \<and>
    webhook_deliveries t = webhook_deliveries w @ fs \<and> map wd_WebhookID fs = map we_ID es \<and>
    http_log t = http_log w @ qs \<and> length qs \<le> length es \<and> hr_URL ` set qs \<subseteq> we_URL ` set es"
  using assms
proof (induction es arbitrary: w)
  case Nil
  then show ?case by (intro exI [of _ "[]"] exI [of _ w]) simp
next
  case (Cons e es)
  from deliver_ok [OF Cons.prems, of e evt] obtain f u ls
    where u: "deliver S e evt w = (Inr f, u)" "disk_ok u" "webhook_ok (ws_maxAttempts S) u" "w_env u = w_env w"
      "webhooks u = webhooks w" "executions u = executions w" "webhook_deliveries u = webhook_deliveries w @ [f]"
      "wd_WebhookID f = we_ID e" "http_log u = http_log w @ ls" "ls = [] \<or> (\<exists>q. ls = [q] \<and> hr_URL q = we_URL e)" by blast
  have inj: "inj (id_text (w_env u))" using Cons.prems(4) u(4) by simp
  from Cons.IH [OF u(2) Cons.prems(2) u(3) inj] obtain fs t qs
    where t: "mapE (\<lambda>e. deliver S e evt) es u = (Inr fs, t)" "disk_ok t" "webhook_ok (ws_maxAttempts S) t"
      "w_env t = w_env u" "webhooks t = webhooks u" "executions t = executions u"
      "webhook_deliveries t = webhook_deliveries u @ fs" "map wd_WebhookID fs = map we_ID es"
      "http_log t = http_log u @ qs" "length qs \<le> length es" "hr_URL ` set qs \<subseteq> we_URL ` set es" by blast
  show ?case
    using u t by (intro exI [of _ "f # fs"] exI [of _ t] exI [of _ "ls @ qs"]) auto
qed


section \<open>Retrying\<close>

text \<open>The delivery as the attempt starts with it.\<close>

definition next_attempt :: "WebhookDelivery \<Rightarrow> WebhookDelivery" where
  "next_attempt d = (let d = d\<lparr>wd_AttemptNo := wrap64 (wd_AttemptNo d + 1), wd_NextRetryAt := None\<rparr>
     in case wd_PayloadJSON d of None \<Rightarrow> d
        | Some p \<Rightarrow> if p = [] then d else d\<lparr>wd_PayloadJSON := Some (retry_payload d)\<rparr>)"

lemma next_attempt_simps [simp]:
  "wd_ID (next_attempt d) = wd_ID d" "wd_WebhookID (next_attempt d) = wd_WebhookID d"
  "wd_AttemptNo (next_attempt d) = wrap64 (wd_AttemptNo d + 1)" "wd_MaxAttempts (next_attempt d) = wd_MaxAttempts d"
  "wd_EventType (next_attempt d) = wd_EventType d"
  by (simp_all add: next_attempt_def Let_def split: option.split)

lemma retryDelivery_run:
  "\<exists>f n ls. retryDelivery S e d w = (Inr f, w\<lparr>now_ix := n, http_log := http_log w @ ls\<rparr>) \<and>
    outcome_of S (next_attempt d) f \<and>
    (ls = [] \<or> (\<exists>q. ls = [q] \<and> hr_URL q = we_URL e \<and> (\<forall>j. carries j q \<longleftrightarrow> j = wd_ID d)))"
proof -
  let ?d1 = "d\<lparr>wd_AttemptNo := wrap64 (wd_AttemptNo d + 1), wd_NextRetryAt := None\<rparr>"
  let ?v = "w_env w" and ?w = "w\<lparr>now_ix := Suc (now_ix w)\<rparr>" and ?ok = "\<lambda>d :: WebhookDelivery. d\<lparr>wd_Error := []\<rparr>"
  let ?ts = "unix_text (clock (w_env w) (now_ix w))" and ?d = "next_attempt d"
  define body where "body = (case json_text ?v (JObj (retry_payload ?d1)) of Inl _ \<Rightarrow> [] | Inr b \<Rightarrow> b)"
  have run: "retryDelivery S e d w = send_delivery S e (wd_EventType d) ?ts body ?d ?ok ?w"
    unfolding retryDelivery_def Let_def next_attempt_def body_def by (simp add: time_now_run split: option.split)
  from send_delivery_run [where ok = ?ok and S = S and d = ?d and e = e and ty = "wd_EventType d"
      and ts = ?ts and body = body and w = ?w] obtain f t
    where f: "send_delivery S e (wd_EventType d) ?ts body ?d ?ok ?w = (Inr f, t)" "outcome_of S ?d f"
      "sent_at_most (webhook_request ?v e (wd_EventType d) (wd_ID d) ?ts body) ?w t" by auto
  let ?q = "webhook_request ?v e (wd_EventType d) (wd_ID d) ?ts body"
  from f(3) obtain n ls where t: "t = w\<lparr>now_ix := n, http_log := http_log w @ ls\<rparr>" "ls = [] \<or> ls = [?q]"
    by (auto simp: sent_at_most_def)
  have "hr_URL ?q = we_URL e" by (simp add: webhook_request_def)
  with t f run show ?thesis by (intro exI [of _ f] exI [of _ n] exI [of _ ls]) auto
qed

text \<open>
  How a stored delivery may develop: it keeps its identity, its number only grows, and one that
  is delivered or dead does not change at all.
\<close>

definition later :: "WebhookDelivery \<Rightarrow> WebhookDelivery \<Rightarrow> bool" where
  "later d f \<longleftrightarrow> wd_ID f = wd_ID d \<and> wd_WebhookID f = wd_WebhookID d \<and> wd_AttemptNo d \<le> wd_AttemptNo f \<and>
     (wd_Status d \<noteq> WebhookDeliveryFailed \<longrightarrow> f = d)"

lemma later_refl [simp]: "later d d" by (simp add: later_def)

lemma later_trans: "later d e \<Longrightarrow> later e f \<Longrightarrow> later d f"
  by (auto simp: later_def)

lemma later_upsert:
  "distinct (map wd_ID ds) \<Longrightarrow> lookup wd_ID (wd_ID f) ds = Some d \<Longrightarrow> later d f \<Longrightarrow> list_all2 later ds (upsert wd_ID f ds)"
  by (induction ds) (auto simp: list_all2_refl split: if_splits)

lemma later_all_trans: "list_all2 later xs ys \<Longrightarrow> list_all2 later ys zs \<Longrightarrow> list_all2 later xs zs"
  by (rule list_all2_trans [of later later later]) (auto intro: later_trans)

text \<open>Storing the outcome of one attempt keeps the store in order.\<close>

lemma store_ok:
  assumes ok: "webhook_ok m w" and d: "lookup wd_ID (wd_ID f) (webhook_deliveries w) = Some d"
    and f: "delivery_ok f" "wd_MaxAttempts f \<le> m" "later d f"
    and ls: "ls = [] \<or> (\<exists>q. ls = [q] \<and> (\<forall>j. carries j q \<longleftrightarrow> j = wd_ID f))"
    and more: "ls = [] \<or> wd_AttemptNo f = wd_AttemptNo d + 1"
  shows "webhook_ok m (w\<lparr>now_ix := n, http_log := http_log w @ ls, io_ix := k,
      webhook_deliveries := upsert wd_ID f (webhook_deliveries w)\<rparr>)"
proof -
  let ?t = "w\<lparr>now_ix := n, http_log := http_log w @ ls, io_ix := k, webhook_deliveries := upsert wd_ID f (webhook_deliveries w)\<rparr>"
  have id: "wd_ID f = wd_ID d" "wd_AttemptNo d \<le> wd_AttemptNo f" using f(3) by (simp_all add: later_def)
  have mem: "d \<in> set (webhook_deliveries w)" by (rule lookup_mem [OF d])
  have dist: "distinct (map wd_ID (webhook_deliveries w))" using ok by (simp add: webhook_ok_def)
  have mint: "minted ?t i \<longleftrightarrow> minted w i" for i by (simp add: minted_def)
  have dm: "minted w (wd_ID f)" using ok mem id by (auto simp: webhook_ok_def)
  have old: "sent_for i ?t = sent_for i w" if "i \<noteq> wd_ID f" for i
  proof -
    from ls have "filter (carries i) ls = []" by (elim disjE exE conjE) (simp_all add: that)
    then show ?thesis by (simp add: sent_for_def)
  qed
  have new: "int (sent_for (wd_ID f) ?t) \<le> wd_AttemptNo f"
  proof (cases "ls = []")
    case True
    then have "sent_for (wd_ID f) ?t = sent_for (wd_ID d) w" by (simp add: sent_for_def id)
    then show ?thesis using ok mem id(2) by (auto simp: webhook_ok_def)
  next
    case False
    with ls obtain q where "ls = [q]" "\<forall>j. carries j q \<longleftrightarrow> j = wd_ID f" by blast
    then have "sent_for (wd_ID f) ?t = sent_for (wd_ID d) w + 1" by (simp add: sent_for_def id)
    moreover have "int (sent_for (wd_ID d) w) \<le> wd_AttemptNo d" using ok mem by (simp add: webhook_ok_def)
    ultimately show ?thesis using more False by simp
  qed
  show ?thesis
    unfolding webhook_ok_def
  proof (intro conjI ballI allI impI)
    show "distinct (map wd_ID (webhook_deliveries ?t))" using dist by (simp add: upsert_distinct)
  next
    fix x assume "x \<in> set (webhook_deliveries ?t)"
    then consider (new) "x = f" | (old) "x \<in> set (webhook_deliveries w)" "wd_ID x \<noteq> wd_ID f"
      by (auto simp: set_upsert_distinct [OF dist])
    note cases = this
    show "delivery_ok x" using cases ok f(1) by cases (auto simp: webhook_ok_def)
    show "wd_MaxAttempts x \<le> m" using cases ok f(2) by cases (auto simp: webhook_ok_def)
    show "minted ?t (wd_ID x)" using cases ok dm by cases (auto simp: webhook_ok_def mint)
    show "int (sent_for (wd_ID x) ?t) \<le> wd_AttemptNo x"
      using cases new old ok by cases (auto simp: webhook_ok_def)
  next
    fix q i assume "q \<in> set (http_log ?t)" "carries i q"
    then consider "q \<in> set (http_log w)" | "q \<in> set ls" by auto
    then show "minted ?t i" using ok ls dm \<open>carries i q\<close> by cases (auto simp: webhook_ok_def mint)
  qed
qed

text \<open>What a retry makes of a due delivery: one attempt more, or its death.\<close>

definition retried :: "WebhookDelivery \<Rightarrow> WebhookDelivery \<Rightarrow> bool" where
  "retried d f \<longleftrightarrow> later d f \<and> delivery_ok f \<and>
     (wd_AttemptNo f = wd_AttemptNo d + 1 \<or> wd_AttemptNo f = wd_AttemptNo d \<and> wd_Status f = WebhookDeliveryDLQ)"

lemma retry_item:
  assumes w: "disk_ok w" and m: "ws_maxAttempts S < 2 ^ 63" and ok: "webhook_ok (ws_maxAttempts S) w"
    and d: "lookup wd_ID (wd_ID d) (webhook_deliveries w) = Some d" and due: "retry_due now d"
    and room: "\<not> (max1 > 0 \<and> int (length out) \<ge> max1)"
  shows "\<exists>f t. retry_loop S now max1 (d # ds) out w = retry_loop S now max1 ds (out @ [f]) t \<and>
    disk_ok t \<and> webhook_ok (ws_maxAttempts S) t \<and> w_env t = w_env w \<and> id_ix t = id_ix w \<and>
    webhook_deliveries t = upsert wd_ID f (webhook_deliveries w) \<and> retried d f"
proof -
  let ?w = "io_skip 1 w" and ?m = "ws_maxAttempts S"
  have mem: "d \<in> set (webhook_deliveries w)" by (rule lookup_mem [OF d])
  then have dok: "delivery_ok d" "wd_MaxAttempts d \<le> ?m" using ok by (simp_all add: webhook_ok_def)
  have st: "wd_Status d = WebhookDeliveryFailed" using due by (simp add: retry_due_def)
  have no: "1 \<le> wd_AttemptNo d" "wd_AttemptNo d < wd_MaxAttempts d" using dok st by (auto simp: delivery_ok_def)
  have w1: "disk_ok ?w" "webhook_ok ?m ?w" using w ok by (simp_all add: disk_ok_def webhook_ok_def sent_for_def minted_def)
  have upd: "Webhook_UpdateDelivery f t = (Inr (), (io_skip 2 t)\<lparr>webhook_deliveries := upsert wd_ID f (webhook_deliveries t)\<rparr>)"
    if "disk_ok t" for f t using that by (simp add: Webhook_UpdateDelivery_def repo_update_ok)
  have get: "Webhook_GetEndpointByID (wd_WebhookID d) w = (Inr (lookup we_ID (wd_WebhookID d) (webhooks w)), ?w)"
    using w by (simp add: Webhook_GetEndpointByID_def repo_find_ok lookup_def)
  show ?thesis
  proof (cases "\<exists>e. lookup we_ID (wd_WebhookID d) (webhooks w) = Some e \<and> we_Status e = WebhookStatusEnabled")
    case True
    then obtain e where e: "lookup we_ID (wd_WebhookID d) (webhooks w) = Some e" "we_Status e = WebhookStatusEnabled" by blast
    from retryDelivery_run [of S e d ?w] obtain f n ls
      where f: "retryDelivery S e d ?w = (Inr f, ?w\<lparr>now_ix := n, http_log := http_log w @ ls\<rparr>)"
        "outcome_of S (next_attempt d) f" "ls = [] \<or> (\<exists>q. ls = [q] \<and> hr_URL q = we_URL e \<and> (\<forall>j. carries j q \<longleftrightarrow> j = wd_ID d))"
      by auto
    have no1: "wrap64 (wd_AttemptNo d + 1) = wd_AttemptNo d + 1" using no dok m by (intro wrap64_id) auto
    then have ids: "wd_ID f = wd_ID d" "wd_WebhookID f = wd_WebhookID d" "wd_AttemptNo f = wd_AttemptNo d + 1"
      using f(2) by (simp_all add: outcome_of_def)
    have fok: "delivery_ok f \<and> wd_MaxAttempts f \<le> ?m" using outcome_ok [OF f(2)] no no1 dok by simp
    have lt: "later d f" using ids st by (simp add: later_def)
    let ?t = "?w\<lparr>now_ix := n, http_log := http_log w @ ls\<rparr>"
    let ?u = "(io_skip 2 ?t)\<lparr>webhook_deliveries := upsert wd_ID f (webhook_deliveries w)\<rparr>"
    have "disk_ok ?t" using w by (simp add: disk_ok_def)
    from upd [OF this] have u: "Webhook_UpdateDelivery f ?t = (Inr (), ?u)" by simp
    have "retry_loop S now max1 (d # ds) out w = retry_loop S now max1 ds (out @ [f]) ?u"
      using room due get e f(1) u by (auto simp: tryE_run)
    moreover have "disk_ok ?u" using w by (simp add: disk_ok_def)
    moreover have "webhook_ok ?m (w\<lparr>now_ix := n, http_log := http_log w @ ls, io_ix := Suc (Suc (Suc (io_ix w))),
        webhook_deliveries := upsert wd_ID f (webhook_deliveries w)\<rparr>)"
    proof (rule store_ok [OF ok _ _ _ lt])
      show "lookup wd_ID (wd_ID f) (webhook_deliveries w) = Some d" using d ids(1) by simp
      show "ls = [] \<or> (\<exists>q. ls = [q] \<and> (\<forall>j. carries j q \<longleftrightarrow> j = wd_ID f))" using f(3) ids(1) by auto
      show "ls = [] \<or> wd_AttemptNo f = wd_AttemptNo d + 1" using ids(3) by simp
    qed (use fok in simp_all)
    moreover have "retried d f" using lt fok ids by (simp add: retried_def)
    ultimately show ?thesis by (intro exI [of _ f] exI [of _ ?u]) simp
  next
    case False
    let ?f = "d\<lparr>wd_Status := WebhookDeliveryDLQ, wd_Error := ''webhook endpoint missing or disabled''\<rparr>"
    let ?u = "(io_skip 2 ?w)\<lparr>webhook_deliveries := upsert wd_ID ?f (webhook_deliveries w)\<rparr>"
    have u: "Webhook_UpdateDelivery ?f ?w = (Inr (), ?u)" using upd [OF w1(1)] by simp
    have "retry_loop S now max1 (d # ds) out w = retry_loop S now max1 ds (out @ [?f]) ?u"
      using room due get False u by (auto simp: tryE_run Let_def split: option.split)
    moreover have "disk_ok ?u" using w by (simp add: disk_ok_def)
    moreover have fok: "delivery_ok ?f" "later d ?f" using dok(1) no st by (simp_all add: delivery_ok_def later_def)
    moreover have "webhook_ok ?m (w\<lparr>now_ix := now_ix w, http_log := http_log w @ [], io_ix := Suc (Suc (Suc (io_ix w))),
        webhook_deliveries := upsert wd_ID ?f (webhook_deliveries w)\<rparr>)"
      by (rule store_ok [OF ok, of _ d]) (use d fok dok in simp_all)
    moreover have "retried d ?f" using fok by (simp add: retried_def)
    ultimately show ?thesis by (intro exI [of _ ?f] exI [of _ ?u]) simp
  qed
qed

definition batch :: "int \<Rightarrow> 'a list \<Rightarrow> 'a list" where
  "batch max1 xs = (if 0 < max1 then take (nat max1) xs else xs)"

lemma retry_loop_ok:
  assumes "disk_ok w" and "ws_maxAttempts S < 2 ^ 63" and "webhook_ok (ws_maxAttempts S) w"
    and "\<forall>d \<in> set ds. lookup wd_ID (wd_ID d) (webhook_deliveries w) = Some d"
    and "distinct (map wd_ID ds)"
  shows "\<exists>fs t. retry_loop S now max1 ds out w = (Inr (out @ fs, None), t) \<and> disk_ok t \<and>
    webhook_ok (ws_maxAttempts S) t \<and> w_env t = w_env w \<and> id_ix t = id_ix w \<and>
    list_all2 later (webhook_deliveries w) (webhook_deliveries t) \<and>
    list_all2 retried (if 0 < max1 then take (nat (max1 - int (length out))) (filter (retry_due now) ds)
       else filter (retry_due now) ds) fs"
  using assms(1,3-5)
proof (induction ds arbitrary: w out)
  case Nil
  then show ?case by (intro exI [of _ "[]"] exI [of _ w]) (simp add: list_all2_refl)
next
  case (Cons d ds)
  show ?case
  proof (cases "max1 > 0 \<and> int (length out) \<ge> max1")
    case True
    with Cons.prems show ?thesis by (intro exI [of _ "[]"] exI [of _ w]) (simp add: list_all2_refl)
  next
    case room: False
    show ?thesis
    proof (cases "retry_due now d")
      case False
      then have "retry_loop S now max1 (d # ds) out w = retry_loop S now max1 ds out w" using room by auto
      moreover from False have "filter (retry_due now) (d # ds) = filter (retry_due now) ds" by simp
      moreover note Cons.IH [OF Cons.prems(1,2), of out] Cons.prems(3,4)
      ultimately show ?thesis by (metis (no_types, lifting) distinct.simps(2) list.set_intros(2) list.simps(9))
    next
      case True
      have d: "lookup wd_ID (wd_ID d) (webhook_deliveries w) = Some d" using Cons.prems(3) by simp
      from retry_item [OF Cons.prems(1) assms(2) Cons.prems(2) d True room, of ds] obtain f u
        where u: "retry_loop S now max1 (d # ds) out w = retry_loop S now max1 ds (out @ [f]) u" "disk_ok u"
          "webhook_ok (ws_maxAttempts S) u" "w_env u = w_env w" "id_ix u = id_ix w"
          "webhook_deliveries u = upsert wd_ID f (webhook_deliveries w)" "retried d f" by blast
      have id: "wd_ID f = wd_ID d" and lt: "later d f" using u(7) by (simp_all add: retried_def later_def)
      have rest: "\<forall>x \<in> set ds. lookup wd_ID (wd_ID x) (webhook_deliveries u) = Some x"
      proof
        fix x assume x: "x \<in> set ds"
        have "wd_ID d \<notin> wd_ID ` set ds" using Cons.prems(4) by simp
        moreover have "wd_ID x \<in> wd_ID ` set ds" using x by (rule imageI)
        ultimately have "wd_ID x \<noteq> wd_ID f" using id by metis
        with x Cons.prems(3) show "lookup wd_ID (wd_ID x) (webhook_deliveries u) = Some x"
          by (simp add: u(6) lookup_upsert)
      qed
      have "distinct (map wd_ID ds)" using Cons.prems(4) by simp
      from Cons.IH [OF u(2,3) rest this, of "out @ [f]"] obtain fs t
        where t: "retry_loop S now max1 ds (out @ [f]) u = (Inr ((out @ [f]) @ fs, None), t)" "disk_ok t"
          "webhook_ok (ws_maxAttempts S) t" "w_env t = w_env u" "id_ix t = id_ix u"
          "list_all2 later (webhook_deliveries u) (webhook_deliveries t)"
          "list_all2 retried (if 0 < max1 then take (nat (max1 - int (length (out @ [f])))) (filter (retry_due now) ds)
             else filter (retry_due now) ds) fs" by blast
      have dist: "distinct (map wd_ID (webhook_deliveries w))" using Cons.prems(2) by (simp add: webhook_ok_def)
      have "list_all2 later (webhook_deliveries w) (webhook_deliveries u)"
        unfolding u(6) by (rule later_upsert [OF dist _ lt]) (simp add: id d)
      from later_all_trans [OF this t(6)] have l: "list_all2 later (webhook_deliveries w) (webhook_deliveries t)" .
      have "list_all2 retried (if 0 < max1 then take (nat (max1 - int (length out))) (filter (retry_due now) (d # ds))
             else filter (retry_due now) (d # ds)) (f # fs)"
      proof (cases "0 < max1")
        case True
        then have "nat (max1 - int (length out)) = Suc (nat (max1 - int (length (out @ [f]))))" using room by simp
        with t(7) True u(7) \<open>retry_due now d\<close> show ?thesis by simp
      next
        case False
        with t(7) u(7) \<open>retry_due now d\<close> show ?thesis by simp
      qed
      with u t l show ?thesis by (intro exI [of _ "f # fs"] exI [of _ t]) (simp del: retry_loop.simps)
    qed
  qed
qed


section \<open>Any sequence of dispatches and retries\<close>

text \<open>
  The life of the webhook component: events are dispatched, the scheduler or a user retries, and
  users manage the endpoints.
\<close>

inductive webhook_step :: "WebhookService \<Rightarrow> world \<Rightarrow> world \<Rightarrow> bool" for S where
  Dispatch: "DispatchExecutionEvent S evt w = (r, t) \<Longrightarrow> webhook_step S w t"
| Retry: "RetryFailedDeliveries S now max1 w = (r, t) \<Longrightarrow> webhook_step S w t"
| Create: "CreateEndpoint S u inp w = (r, t) \<Longrightarrow> webhook_step S w t"
| Status: "SetEndpointStatusForUser u i st w = (r, t) \<Longrightarrow> webhook_step S w t"
| Delete: "DeleteEndpointForUser u i w = (r, t) \<Longrightarrow> webhook_step S w t"

text \<open>What managing endpoints leaves alone.\<close>

definition only_endpoints :: "world \<Rightarrow> world \<Rightarrow> bool" where
  "only_endpoints w t \<longleftrightarrow> webhook_deliveries t = webhook_deliveries w \<and> http_log t = http_log w \<and>
     w_env t = w_env w \<and> id_ix w \<le> id_ix t"

interpretation endpoints: state_order always only_endpoints
  by unfold_locales (auto simp: only_endpoints_def)

named_theorems managing \<open>operations on endpoints\<close>
lemmas [managing] = endpoints.intros

lemma managing_basic [managing]:
  "evolves always only_endpoints time_now" "evolves always only_endpoints (newID p)"
  "evolves always only_endpoints (Webhook_GetEndpointByID i)" "evolves always only_endpoints (repo_find f q)"
  by (simp_all add: evolves_def time_now_def newID_def only_endpoints_def Webhook_GetEndpointByID_def repo_find_def
      bindE_def Load_def disk_def split: option.split)

lemma managing_write [managing]:
  "evolves always only_endpoints (Webhook_CreateEndpoint e)" "evolves always only_endpoints (Webhook_UpdateEndpoint e)"
  "evolves always only_endpoints (Webhook_DeleteEndpoint i)"
  by (simp_all add: evolves_def only_endpoints_def Webhook_CreateEndpoint_def Webhook_UpdateEndpoint_def
      Webhook_DeleteEndpoint_def repo_defs write_eq split: option.split)

lemma managing_secret [managing]: "evolves always only_endpoints generateWebhookSecret"
  by (simp add: evolves_def only_endpoints_def generateWebhookSecret_def newID_def split: option.split)

lemma managing_ops:
  "evolves always only_endpoints (CreateEndpoint S u inp)"
  "evolves always only_endpoints (SetEndpointStatusForUser u i st)"
  "evolves always only_endpoints (DeleteEndpointForUser u i)"
  unfolding CreateEndpoint_def SetEndpointStatusForUser_def DeleteEndpointForUser_def GetEndpointForUser_def
    Webhook_GetEndpoint_def Let_def
  by (intro managing)+

lemma only_endpoints_ok:
  assumes "only_endpoints w t" and "webhook_ok m w"
  shows "webhook_ok m t"
proof -
  have "minted w i \<Longrightarrow> minted t i" for i
    using assms(1) unfolding minted_def only_endpoints_def by (metis order_less_le_trans)
  moreover have "sent_for i t = sent_for i w" for i using assms(1) by (simp add: sent_for_def only_endpoints_def)
  ultimately show ?thesis using assms by (simp add: webhook_ok_def only_endpoints_def)
qed

lemma webhook_step_ok:
  assumes "webhook_step S w t" and "disk_ok w" and "1 \<le> ws_maxAttempts S" "ws_maxAttempts S < 2 ^ 63"
    and "webhook_ok (ws_maxAttempts S) w" and "inj (id_text (w_env w))"
  shows "webhook_ok (ws_maxAttempts S) t \<and> w_env t = w_env w \<and> list_all2 later (webhook_deliveries w)
    (take (length (webhook_deliveries w)) (webhook_deliveries t))"
  using assms(1)
proof cases
  case (Dispatch evt r)
  let ?es = "filter (\<lambda>e. IsEnabled e \<and> interested evt e) (webhooks w)"
  have w1: "disk_ok (io_skip 1 w)" "webhook_ok (ws_maxAttempts S) (io_skip 1 w)" "inj (id_text (w_env (io_skip 1 w)))"
    using assms by (simp_all add: disk_ok_def webhook_ok_def sent_for_def minted_def)
  have "DispatchExecutionEvent S evt w = mapE (\<lambda>e. deliver S e evt) ?es (io_skip 1 w)"
    using assms(2) by (simp add: DispatchExecutionEvent_def Webhook_ListEnabledEndpoints_def repo_filter_ok
        IsEnabled_def conj_commute conj_left_commute)
  with deliver_each [OF w1(1) assms(3) w1(2,3), of evt ?es] Dispatch show ?thesis
    by (auto simp: list_all2_refl)
next
  case (Retry now max1 r)
  have dist: "distinct (map wd_ID (webhook_deliveries w))" using assms(5) by (simp add: webhook_ok_def)
  have w1: "disk_ok (io_skip 1 w)" "webhook_ok (ws_maxAttempts S) (io_skip 1 w)"
    "\<forall>d \<in> set (webhook_deliveries w). lookup wd_ID (wd_ID d) (webhook_deliveries (io_skip 1 w)) = Some d"
    using assms lookup_distinct [OF dist] by (simp_all add: disk_ok_def webhook_ok_def sent_for_def minted_def)
  have "RetryFailedDeliveries S now max1 w = retry_loop S now max1 (webhook_deliveries w) [] (io_skip 1 w)"
    using assms(2) by (simp add: RetryFailedDeliveries_def Webhook_ListDeliveries_def repo_filter_ok tryE_run)
  with retry_loop_ok [OF w1(1) assms(4) w1(2,3) dist, of now max1 "[]"] Retry
  have t: "webhook_ok (ws_maxAttempts S) t" "w_env t = w_env w" "list_all2 later (webhook_deliveries w) (webhook_deliveries t)"
    by auto
  from list_all2_lengthD [OF t(3)] have "take (length (webhook_deliveries w)) (webhook_deliveries t) = webhook_deliveries t"
    by simp
  with t show ?thesis by simp
next
  case (Create u inp r)
  then have "only_endpoints w t" using managing_ops(1) by (auto dest: evolvesD)
  with assms(5) only_endpoints_ok show ?thesis by (auto simp: only_endpoints_def list_all2_refl)
next
  case (Status u i st r)
  then have "only_endpoints w t" using managing_ops(2) by (auto dest: evolvesD)
  with assms(5) only_endpoints_ok show ?thesis by (auto simp: only_endpoints_def list_all2_refl)
next
  case (Delete u i r)
  then have "only_endpoints w t" using managing_ops(3) by (auto dest: evolvesD)
  with assms(5) only_endpoints_ok show ?thesis by (auto simp: only_endpoints_def list_all2_refl)
qed


end
