(* ===== verification/Witnesses.thy ===== *)
theory Witnesses
  imports LocalSystem WebhookSpec
begin

text \<open>
  The properties of the execution core applied to the concrete data of \<open>Sample\<close>: their
  hypotheses hold for a store with one plugin and one task.
\<close>

definition sample_service :: ExecutionService where
  "sample_service = \<lparr>es_audit = True, es_queue = True, es_events = True\<rparr>"

definition sample_runtime :: RuntimeService where
  "sample_runtime = \<lparr>rt_runner = NewProcessRunner [], rt_container = None, rt_maxOutputBytes = 65536,
     rt_secretProvider = None\<rparr>"

definition sample_worker :: ExecutionWorker where
  "sample_worker = \<lparr>wk_executions = sample_service, wk_runtime = sample_runtime, wk_events = True,
     wk_attempts = True, wk_workerID = ''w1''\<rparr>"

lemma sample_service_simps [simp]:
  "es_audit sample_service" "es_queue sample_service" "es_events sample_service"
  by (simp_all add: sample_service_def)

lemma sample_may_view: "may_view sample_user (sample_task i s)"
  by (simp add: may_view_def sample_user_def sample_task_def CurrentUser_Scope_def Execution_Scope_def
      SameScope_def Normalize_def mk_scope_def DefaultTenantID_def DefaultProjectID_def)

lemma sample_env_inj [simp]: "inj (id_text sample_env)"
  using sample_ids_inj by simp

lemma sample_runnable: "runnable_plugins (sample_world es) [''p1'']"
  by (simp add: runnable_plugins_def lookup_def sample_plugin_def CanExecute_def IsExecutablePluginStatus_def
      SameScope_def Plugin_Scope_def Normalize_def NewDefaultScope_def mk_scope_def)

lemma sample_input_hash: "input_hash (w_env (sample_world es)) (Some o1) = Inr (trim_space ''text'')"
  by (simp add: input_hash_def sample_env_def)

lemma sample_request_match: "request_match u [] es = None"
  by (simp add: request_match_def)

lemma sample_fresh: "fresh_id (sample_world [])"
  by (simp add: fresh_id_def lookup_def)

lemma sample_queued: "lookup ex_ID ''t'' [sample_task ''t'' s] = Some (sample_task ''t'' s)"
  by (simp add: lookup_def)

section \<open>Creating, cancelling, recovering\<close>

theorem CreateExecution_accepted_witness:
  "\<exists>e t. CreateExecution sample_service CtxLive sample_user [''p1''] (Some []) [] ''rq'' (sample_world []) = (Inr e, t) \<and>
    executions t = [e] \<and> queue_ch t = [ex_ID e] \<and> ex_Status e = ExecutionStatusQueued"
  using CreateExecution_accepted [where S = sample_service and u = sample_user and key = "[]" and rq = "''rq''",
      OF sample_disk_ok _ sample_runnable _ sample_input_hash] sample_fresh
  by (fastforce simp: sample_request_match)

theorem CreateExecution_queue_full_witness:
  "\<exists>e t. CreateExecution sample_service CtxLive sample_user [''p1''] (Some []) [] ''rq''
      ((sample_world [])\<lparr>queue_size := 0\<rparr>) = (Inl (NewAppError CodeQueueFull ''execution queue is full''), t) \<and>
    executions t = [e] \<and> ex_Status e = ExecutionStatusFailed"
proof -
  let ?w = "(sample_world [])\<lparr>queue_size := 0\<rparr>"
  have "disk_ok ?w" "runnable_plugins ?w [''p1'']" "input_hash (w_env ?w) (Some []) = Inr (trim_space ''text'')" "fresh_id ?w"
    using sample_disk_ok [of "[]"] sample_runnable [of "[]"] sample_fresh
    by (simp_all add: disk_ok_def runnable_plugins_def fresh_id_def input_hash_def sample_env_def)
  from CreateExecution_queue_full [where S = sample_service and u = sample_user and key = "[]" and rq = "''rq''",
      OF this(1) _ this(2) _ this(3) _ this(4)]
  show ?thesis by (fastforce simp: sample_request_match)
qed

theorem CancelExecution_spec_witness:
  "\<exists>t n. CancelExecution sample_service sample_user ''t'' ''rq'' (sample_world [sample_task ''t'' ExecutionStatusQueued]) =
     (Inr (stamp_status ExecutionStatusCanceled ''canceled'' n (sample_task ''t'' ExecutionStatusQueued)), t)"
  using CancelExecution_spec [of "sample_world [sample_task ''t'' ExecutionStatusQueued]" "''t''"
      "sample_task ''t'' ExecutionStatusQueued" sample_service sample_user "''rq''"]
  by (fastforce simp: sample_queued sample_may_view IsFinalExecutionStatus_def IsValidExecutionStatus_def)

theorem RecoverIncompleteExecutions_complete_witness:
  "\<exists>t. RecoverIncompleteExecutions sample_service CtxLive ''rq''
      (sample_world [sample_task ''a'' ExecutionStatusQueued, sample_task ''b'' ExecutionStatusRunning]) = (Inr (1, None), t) \<and>
    queue_ch t = [''a'']"
  using RecoverIncompleteExecutions_complete [of
      "sample_world [sample_task ''a'' ExecutionStatusQueued, sample_task ''b'' ExecutionStatusRunning]" sample_service "''rq''"]
  by (auto simp: waiting_def)

section \<open>The worker\<close>

theorem HandleExecution_completes_witness:
  "\<exists>rs t. HandleExecution sample_worker ''t'' (sample_world [sample_task ''t'' ExecutionStatusQueued]) = (Inr (), t) \<and>
    execution_results t = rs \<and> map rs_PluginID rs = [''p1'']"
  using HandleExecution_completes [of "sample_world [sample_task ''t'' ExecutionStatusQueued]" "''t''"
      "sample_task ''t'' ExecutionStatusQueued" sample_worker]
  by (auto simp: sample_queued sample_runnable)

theorem HandleExecution_ends_witness:
  "\<exists>t f. HandleExecution sample_worker ''t'' (sample_world [sample_task ''t'' ExecutionStatusQueued]) = (Inr (), t) \<and>
    lookup ex_ID ''t'' (executions t) = Some f \<and> IsFinalExecutionStatus (ex_Status f)"
  using HandleExecution_ends [of "sample_world [sample_task ''t'' ExecutionStatusQueued]" "''t''"
      "sample_task ''t'' ExecutionStatusQueued" sample_worker]
  by (auto simp: sample_queued)

theorem HandleExecution_canceled_witness:
  "\<exists>t. HandleExecution sample_worker ''t'' (sample_world [sample_task ''t'' ExecutionStatusCanceled]) = (Inr (), t) \<and>
    cmd_log t = []"
  using HandleExecution_canceled [of "sample_world [sample_task ''t'' ExecutionStatusCanceled]" "''t''"
      "sample_task ''t'' ExecutionStatusCanceled" sample_worker]
  by (auto simp: sample_queued)

theorem HandleExecution_duplicate_fails_witness:
  "\<exists>t f. HandleExecution sample_worker ''t'' (sample_world [sample_task ''t'' ExecutionStatusRunning]) = (Inr (), t) \<and>
    lookup ex_ID ''t'' (executions t) = Some f \<and> ex_Status f = ExecutionStatusFailed"
  using HandleExecution_duplicate_fails [of "sample_world [sample_task ''t'' ExecutionStatusRunning]" "''t''"
      "sample_task ''t'' ExecutionStatusRunning" sample_worker]
  by (auto simp: sample_queued)

section \<open>Idempotency\<close>

text \<open>A request that is repeated right after it was accepted.\<close>

abbreviation first_request :: "Execution prog_w" where
  "first_request \<equiv> CreateExecution sample_service CtxLive sample_user [''p1''] (Some []) ''key'' ''rq''"

theorem CreateExecution_idempotent_witness:
  "\<exists>e t x. first_request (sample_world []) = (Inr e, t) \<and> first_request t = (Inr e, x) \<and> executions x = executions t"
proof -
  let ?w = "sample_world []"
  have m: "request_match sample_user ''key'' (executions ?w) = None" by (simp add: request_match_def)
  from create_accepted [where S = sample_service and u = sample_user and key = "''key''" and rq = "''rq''" and inp = "Some []",
      OF sample_disk_ok _ sample_runnable _ sample_input_hash m sample_fresh]
  obtain e t where e: "first_request ?w = (Inr e, t)" "ex_InputHash e = trim_space ''text''"
    "ex_PluginIDsHash e = HashStrings (w_env ?w) [''p1'']" by auto
  have ok: "tasks_ok ?w" by (simp add: tasks_ok_def keys_unique_def ids_minted_def)
  have o: "task_order ?w t" using evolvesD [OF CreateExecution_order _ e(1)] by simp
  then have t: "disk_ok t" "runnable_plugins t [''p1'']" "input_hash (w_env t) (Some []) = Inr (trim_space ''text'')"
    using disk_ok_of [OF o] sample_runnable [of "[]"] sample_input_hash [of "[]"]
    by (simp_all add: task_order_def runnable_plugins_def)
  have env: "w_env t = w_env ?w" using o by (simp add: task_order_def)
  have l: "lookup ex_ID (ex_ID e) (executions t) = Some e"
    using CreateExecution_returns [OF e(1) ok sample_ids_inj] by simp
  from CreateExecution_idempotent [where S' = sample_service and c' = CtxLive and rq' = "''rq''",
      OF e(1) _ ok sample_ids_inj tasks.R_refl t(1) _ t(2) _ t(3)] obtain x
    where "first_request t = (Inr e, x)" "executions x = executions t"
    using l e(2,3) env by auto
  with e(1) show ?thesis by blast
qed

section \<open>Runs of the whole system\<close>

definition idle :: "nat \<Rightarrow> worker_state" where "idle = (\<lambda>_. Idle)"

lemma cancel_step: "reaches W (w, ws) (snd (CancelExecution (wk_executions W) u i rq w), ws)"
  by (rule one_step [OF sys_step.Cancel zero_steps], rule prod.collapse [symmetric])

lemma create_step: "reaches W (w, ws) (snd (CreateExecution (wk_executions W) c u ids inp key rq w), ws)"
  by (rule one_step [OF sys_step.Create zero_steps], rule prod.collapse [symmetric])




section \<open>Running a plugin\<close>

lemma sample_words [simp]: "trim_space ''python3'' = ''python3''" "trim_space ''python'' = ''python''"
  "trim_space ''node'' = ''node''" "trim_space [] = []" "contains ''main.py'' [CHR 0x00] = False"
  "contains ''python3'' [CHR 0x00] = False" "contains_any ''python3'' [CHR ''/'', CHR 0x5C] = False"
  by code_simp+

lemma sample_words_any [simp]: "\<not> contains_any ''python3'' [CHR ''/'', CHR 0x5C]"
  by code_simp

lemma sample_runner [simp]: "pr_allowedCommands (NewProcessRunner []) = [''python3'', ''python'', ''node'']"
  by (simp add: NewProcessRunner_def)

lemma sample_command: "buildSafeCommand sample_env (NewProcessRunner []) sample_plugin = Inr (''python3'', [''main.py''])"
  by (simp add: buildSafeCommand_def sample_plugin_def sample_env_def ensureDir_def sanitizeArgs_def Let_def
      del: contains.simps)

lemma sample_policy: "validateProcessPolicy sample_plugin = None"
  by (simp add: validateProcessPolicy_def sample_plugin_def)

lemma sample_prepare: "preparePluginForRuntime sample_runtime sample_plugin = Inr sample_plugin"
  by (simp add: preparePluginForRuntime_def sample_plugin_def)

lemma sample_output: "decode_output (JObj [(''success'', JBool True)]) = Some \<lparr>out_Success = True, out_Data = None, out_Error = [], out_Metrics = None\<rparr>"
  by (simp add: decode_output_def decode_field_def to_lower_def lower_char_def)

lemma sample_process: "w_env w = sample_env \<Longrightarrow>
  \<exists>x t. RunProcessPlugin (NewProcessRunner []) sample_plugin i 65536 w = (Inr (x, None), t) \<and> \<not> po_Timeout x"
  by (simp add: RunProcessPlugin_def sample_policy sample_command run_limited_def Let_def)
   (simp add: sample_env_def newLimitedBuffer_def buffer_Write_def)

lemma sample_run:
  assumes "w_env w = sample_env"
  shows "\<exists>q t. run_prepared sample_runtime e sample_plugin rq res w = (Inr q, t) \<and> rs_Status q = PluginResultSuccess"
proof -
  obtain x t where x: "RunProcessPlugin (NewProcessRunner []) sample_plugin (plugin_stdin sample_env e sample_plugin rq) 65536 w
      = (Inr (x, None), t)" "\<not> po_Timeout x" using sample_process [OF assms] by blast
  have "pl_EntryType sample_plugin = ''process''" by (simp add: sample_plugin_def)
  moreover have "rt_runner sample_runtime = NewProcessRunner []" "rt_maxOutputBytes sample_runtime = 65536"
    by (simp_all add: sample_runtime_def)
  moreover have "json_parse sample_env s = Some (JObj [(''success'', JBool True)])" for s by (simp add: sample_env_def)
  ultimately show ?thesis using x assms
    by (simp add: run_prepared_def sample_prepare classify_def sample_output Let_def)
qed

theorem RunOnePlugin_success_sound_witness:
  "\<exists>q t c. RunOnePluginWithEvents sample_runtime (sample_task ''t'' ExecutionStatusRunning) sample_plugin ''rq'' False
     (sample_world []) = (Inr q, t) \<and> cmd_log t = [c] \<and> succeeded sample_env 65536 0 c q"
proof -
  let ?e = "sample_task ''t'' ExecutionStatusRunning"
  let ?r = "RunOnePluginWithEvents sample_runtime ?e sample_plugin ''rq'' False (sample_world [])"
  have "\<exists>q t. ?r = (Inr q, t) \<and> rs_Status q = PluginResultSuccess"
  proof -
    let ?w = "snd (IncPluginStarted (pl_Name sample_plugin) (sample_world []\<lparr>now_ix := 1, id_ix := 11\<rparr>))"
    have "w_env ?w = sample_env" by (simp add: inc_defs add_metric_run)
    then obtain q t where "run_prepared sample_runtime ?e sample_plugin ''rq''
        \<lparr>rs_TenantID = [], rs_ProjectID = [], rs_ID = ''result_'' @ id_text sample_env 10, rs_ExecutionID = ''t'', rs_PluginID = pl_ID sample_plugin,
         rs_PluginName = pl_Name sample_plugin, rs_Status = PluginResultRaw [], rs_OutputJSON = None, rs_ErrorMessage = [],
         rs_StdoutPreview = [], rs_StderrPreview = [], rs_ExitCode = - 1, rs_DurationMS = 0, rs_StartedAt = clock sample_env 0,
         rs_FinishedAt = 0\<rparr> ?w = (Inr q, t)" "rs_Status q = PluginResultSuccess" using sample_run by blast
    moreover have "now_ix (sample_world []) = 0" by (simp add: sample_world_def)
    ultimately show ?thesis
      by (simp add: RunOnePluginWithEvents_def time_now_run newID_run inc_defs add_metric_run Let_def)
  qed
  then obtain q t where r: "?r = (Inr q, t)" "rs_Status q = PluginResultSuccess" by blast
  from RunOnePlugin_success_sound [OF r] r(1) show ?thesis
    by (auto simp: output_limit_def sample_runtime_def)
qed


section \<open>Webhooks\<close>

definition sample_endpoint :: WebhookEndpoint where
  "sample_endpoint = \<lparr>we_TenantID = [], we_ProjectID = [], we_ID = ''wh1'', we_Name = ''hook'', we_URL = ''https://example.org'',
     we_Secret = ''s'', we_Events = [''*''], we_Status = WebhookStatusEnabled, we_CreatedBy = ''u1'', we_CreatedAt = 0,
     we_UpdatedAt = 0\<rparr>"

definition sample_event :: ExecutionEvent where
  "sample_event = \<lparr>ev_TenantID = [], ev_ProjectID = [], ev_ID = ''e1'', ev_ExecutionID = ''t'', ev_PluginID = [],
     ev_Type = ExecutionEventFinished, ev_Status = [], ev_Message = [], ev_Detail = None, ev_RequestID = [], ev_CreatedAt = 0\<rparr>"

definition sample_hooks :: world where
  "sample_hooks = (sample_world [])\<lparr>webhooks := [sample_endpoint]\<rparr>"

lemma sample_hooks_ok: "disk_ok sample_hooks" "webhook_ok 5 sample_hooks" "inj (id_text (w_env sample_hooks))"
  "webhook_deliveries sample_hooks = []" "http_log sample_hooks = []" "webhooks sample_hooks = [sample_endpoint]"
  using sample_disk_ok [of "[]"]
  by (simp_all add: sample_hooks_def disk_ok_def webhook_ok_def) (simp_all add: sample_world_def)

lemma sample_service_limit: "ws_maxAttempts NewWebhookService = 5"
  by (simp add: NewWebhookService_def)

theorem isBlockedWebhookHost_quad_witness:
  "isBlockedWebhookHost sample_env (quad 172 31 0 9) \<and> \<not> isBlockedWebhookHost sample_env (quad 172 32 0 9)"
  using isBlockedWebhookHost_quad [of 172 31 0 9 sample_env] isBlockedWebhookHost_quad [of 172 32 0 9 sample_env] by simp




end
