(* ===== verification/PoolRuns.thy ===== *)
theory PoolRuns
  imports DurablePool
begin

text \<open>
  A running pool of durable workers (\<^verbatim>\<open>internal/worker/durable_pool.go\<close>): the loops that lease and handle, the
  one that reclaims, their heartbeats, the shutdown, and other processes at the same table, in any
  interleaving. A handler is a step of its own: what it does to the tables in between are steps
  of the environment, and it may end with any result.
\<close>

section \<open>The pool as a transition system\<close>

text \<open>
  A lease loop has left (\<open>None\<close>) or still has some tasks to handle, the first of them in work; an idle
  loop has none. \<open>pr_active\<close> is the counter behind \<^verbatim>\<open>ActiveCount\<close>.
\<close>

record pool_run =
  pr_world :: world
  pr_loops :: "TaskRef list option list"
  pr_reclaiming :: bool
  pr_canceled :: bool
  pr_active :: int

definition Start_pool :: "DurableWorkerOptions \<Rightarrow> world \<Rightarrow> pool_run" where
  "Start_pool p w = \<lparr>pr_world = w, pr_loops = replicate (nat (dw_WorkerCount p)) (Some []), pr_reclaiming = True,
     pr_canceled = False, pr_active = 0\<rparr>"

text \<open>The two halves of a round of the lease loop: taking tasks, and settling one after its handler.\<close>

definition lease_tick :: "DurableWorkerOptions \<Rightarrow> world \<Rightarrow> TaskRef list \<times> world" where
  "lease_tick p w = (case dq_LeaseNext pg_queue \<lparr>lo_WorkerID = dw_WorkerID p, lo_MaxItems = 1,
       lo_LeaseDuration = dw_LeaseDuration p, lo_VisibilityTimeout = dw_LeaseDuration p\<rparr> w of
     (Inl _, t) \<Rightarrow> ([], t)
   | (Inr refs, t) \<Rightarrow> (refs, if length refs = 0 then t else snd (IncQueueLease (int (length refs)) t)))"

definition settle :: "DurableWorkerOptions \<Rightarrow> TaskRef \<Rightarrow> go_error + unit \<Rightarrow> unit prog_w" where
  "settle p ref r = (case r of
     Inr _ \<Rightarrow> tryE (dq_Ack pg_queue (tr_TaskID ref) (tr_LeaseID ref) (dw_WorkerID p)) (\<lambda>a. case a of
         Inr _ \<Rightarrow> IncQueueAck | Inl _ \<Rightarrow> retE ())
   | Inl err \<Rightarrow> bindE IncWorkerHandlerError (\<lambda>_. bindE (getE w_env) (\<lambda>v.
       tryE (dq_Nack pg_queue (tr_TaskID ref) (tr_LeaseID ref) (dw_WorkerID p) (give_back v p ref err)) (\<lambda>_. IncQueueNack))))"

lemma handleOne_settle: "handleOne pg_queue p h ref = tryE (h ref) (settle p ref)"
  unfolding handleOne_def settle_def [abs_def] by (rule refl)

lemma leaseLoop_tick_eq:
  "leaseLoop_tick pg_queue p h w = (case lease_tick p w of (refs, t) \<Rightarrow> eachE (handleOne pg_queue p h) refs t)"
  by (simp add: leaseLoop_tick_def lease_tick_def tryE_run IncQueueLease_def add_metric_run bindE_def split: prod.split sum.split)

inductive pool_step :: "DurableWorkerOptions \<Rightarrow> pool_run \<Rightarrow> pool_run \<Rightarrow> bool" for p where
  Lease: "i < length (pr_loops s) \<Longrightarrow> pr_loops s ! i = Some [] \<Longrightarrow> lease_tick p (pr_world s) = (refs, t) \<Longrightarrow>
    pool_step p s (s\<lparr>pr_world := t, pr_loops := (pr_loops s)[i := Some refs],
      pr_active := pr_active s + (if refs = [] then 0 else 1)\<rparr>)"
| Beat: "i < length (pr_loops s) \<Longrightarrow> pr_loops s ! i = Some (ref # rest) \<Longrightarrow>
    heartbeatLoop_tick pg_queue p ref (pr_world s) = (r, t) \<Longrightarrow> pool_step p s (s\<lparr>pr_world := t\<rparr>)"
| Settle: "i < length (pr_loops s) \<Longrightarrow> pr_loops s ! i = Some (ref # rest) \<Longrightarrow> settle p ref res (pr_world s) = (r, t) \<Longrightarrow>
    pool_step p s (s\<lparr>pr_world := t, pr_loops := (pr_loops s)[i := Some rest],
      pr_active := pr_active s - 1 + (if rest = [] then 0 else 1)\<rparr>)"
| Reclaim: "pr_reclaiming s \<Longrightarrow> reclaimLoop_tick pg_queue (pr_world s) = (r, t) \<Longrightarrow> pool_step p s (s\<lparr>pr_world := t\<rparr>)"
| Cancel: "pool_step p s (s\<lparr>pr_canceled := True\<rparr>)"
| Leave: "pr_canceled s \<Longrightarrow> i < length (pr_loops s) \<Longrightarrow> pr_loops s ! i = Some [] \<Longrightarrow>
    pool_step p s (s\<lparr>pr_loops := (pr_loops s)[i := None]\<rparr>)"
| LeaveReclaim: "pr_canceled s \<Longrightarrow> pool_step p s (s\<lparr>pr_reclaiming := False\<rparr>)"
| Env: "queue_step (pr_world s) t \<Longrightarrow> pool_step p s (s\<lparr>pr_world := t\<rparr>)"

text \<open>\<^verbatim>\<open>Stop\<close> returns when every loop has left.\<close>

definition stopped :: "pool_run \<Rightarrow> bool" where
  "stopped s \<longleftrightarrow> (\<forall>l \<in> set (pr_loops s). l = None) \<and> \<not> pr_reclaiming s"

section \<open>The invariant\<close>

definition refs_of :: "TaskRef list option list \<Rightarrow> TaskRef list" where
  "refs_of ls = concat (map (case_option [] id) ls)"

definition busy :: "TaskRef list option \<Rightarrow> bool" where
  "busy l \<longleftrightarrow> (case l of Some (_ # _) \<Rightarrow> True | _ \<Rightarrow> False)"

text \<open>Every task a loop has was leased under an identifier of its own, and the counter counts the busy loops.\<close>

definition pool_inv :: "pool_run \<Rightarrow> bool" where
  "pool_inv s \<longleftrightarrow> queue_inv (pr_world s) \<and> distinct (map tr_LeaseID (refs_of (pr_loops s))) \<and>
     (\<forall>f \<in> set (refs_of (pr_loops s)). tr_LeaseID f \<noteq> [] \<and> minted (pr_world s) (tr_LeaseID f)) \<and>
     pr_active s = int (length (filter busy (pr_loops s)))"

lemma busy_simps [simp]: "\<not> busy None" "busy (Some xs) \<longleftrightarrow> xs \<noteq> []"
  by (auto simp: busy_def split: list.split)

lemma refs_of_app: "refs_of (xs @ l # ys) = refs_of xs @ case_option [] id l @ refs_of ys"
  by (simp add: refs_of_def)

lemma busy_app: "length (filter busy (xs @ l # ys)) = length (filter busy xs) + (if busy l then 1 else 0) + length (filter busy ys)"
  by simp

lemma loop_split:
  assumes "i < length ls"
  obtains xs ys where "ls = xs @ ls ! i # ys" and "i = length xs"
  using that [OF id_take_nth_drop [OF assms]] assms by simp

text \<open>The identifiers of a lease are new, and differ.\<close>

lemma LeaseNext_fresh:
  assumes w: "queue_inv w" and run: "LeaseNext opts w = (Inr refs, t)"
  shows "distinct (map tr_LeaseID refs) \<and> (\<forall>f \<in> set refs. tr_LeaseID f \<noteq> [] \<and> \<not> minted w (tr_LeaseID f) \<and> minted t (tr_LeaseID f))"
proof -
  obtain n d now where "lease_statement n (lo_WorkerID opts) d now (w\<lparr>now_ix := Suc (now_ix w)\<rparr>) = (Inr refs, t)"
    using run by (auto simp: LeaseNext_eq time_now_run)
  then obtain p where t: "task_queue t = lease_rows p (lo_WorkerID opts) (now + whole_seconds d) (pg_uuid (w_env w)) (id_ix w) (task_queue w)"
      and refs: "refs = map task_ref (filter p (task_queue t))" and ids: "id_ix t = id_ix w + length (filter p (task_queue w))" "w_env t = w_env w"
    by (auto simp: lease_statement_def disk_def Let_def split: option.splits)
  have fresh: "qr_LeaseID r \<noteq> [] \<and> \<not> minted w (qr_LeaseID r) \<and> minted t (qr_LeaseID r)" if "r \<in> set (task_queue t)" "p r" for r
  proof -
    from lease_rows_leases [OF that(1) [unfolded t]] that(2) obtain j q
      where "id_ix w \<le> j" "j < id_ix t" "r = lease_row (lo_WorkerID opts) (now + whole_seconds d) (pg_uuid (w_env w) j) q"
      using ids(1) by auto
    with w ids(2) show ?thesis by (auto simp: minted_def)
  qed
  have "queue_inv t" using evolvesD [OF LeaseNext_order w run] by simp
  then have "distinct (map qr_LeaseID (filter p (task_queue t)))"
    using fresh by (intro distinct_leases_filter) (auto simp: queue_ok_def)
  then show ?thesis using refs fresh by (auto simp: comp_def)
qed

lemma metric_order: "evolves queue_inv lease_order (add_metric m n)"
  by (rule evolvesI) (simp only: add_metric_run snd_conv, rule queue_same, simp_all)

lemmas pool_orders = metric_order LeaseNext_order Heartbeat_order Ack_order Nack_order ReclaimExpiredLeases_order leases_now

lemma settle_order: "evolves queue_inv lease_order (settle p ref r)"
  unfolding settle_def pg_queue_def DurableExecutionQueue.simps IncQueueAck_def IncQueueNack_def IncWorkerHandlerError_def
  by (cases r) (auto intro!: leases.intros pool_orders)

lemma heartbeat_order: "evolves queue_inv lease_order (heartbeatLoop_tick pg_queue p ref)"
  unfolding heartbeatLoop_tick_def pg_queue_def DurableExecutionQueue.simps IncWorkerHeartbeat_def
  by (auto intro!: leases.intros pool_orders split: sum.split)

lemma reclaim_order: "evolves queue_inv lease_order (reclaimLoop_tick pg_queue)"
  unfolding reclaimLoop_tick_def pg_queue_def DurableExecutionQueue.simps IncQueueReclaimed_def
  by (auto intro!: leases.intros pool_orders split: sum.split)

lemma lease_tick_fresh:
  assumes w: "queue_inv w" and run: "lease_tick p w = (refs, t)"
  shows "queue_inv t \<and> lease_order w t \<and> distinct (map tr_LeaseID refs) \<and>
    (\<forall>f \<in> set refs. tr_LeaseID f \<noteq> [] \<and> \<not> minted w (tr_LeaseID f) \<and> minted t (tr_LeaseID f))"
proof -
  let ?o = "\<lparr>lo_WorkerID = dw_WorkerID p, lo_MaxItems = 1, lo_LeaseDuration = dw_LeaseDuration p, lo_VisibilityTimeout = dw_LeaseDuration p\<rparr>"
  obtain r u where l: "LeaseNext ?o w = (r, u)" by (cases "LeaseNext ?o w")
  from evolvesD [OF LeaseNext_order w l] have u: "queue_inv u" "lease_order w u" by simp_all
  show ?thesis
  proof (cases r)
    case (Inl e)
    with l run u show ?thesis by (auto simp: lease_tick_def pg_queue_def)
  next
    case (Inr fs)
    from LeaseNext_fresh [OF w l [unfolded Inr]] have fs: "distinct (map tr_LeaseID fs)"
      "\<And>f. f \<in> set fs \<Longrightarrow> tr_LeaseID f \<noteq> [] \<and> \<not> minted w (tr_LeaseID f) \<and> minted u (tr_LeaseID f)" by blast+
    have refs: "refs = fs" "t = u \<or> t = snd (add_metric QueueLeaseTotal (int (length fs)) u)"
      using l run Inr by (auto simp: lease_tick_def pg_queue_def IncQueueLease_def split: if_splits)
    then have t: "w_env t = w_env u" "id_ix t = id_ix u" "task_queue t = task_queue u" by (auto simp: add_metric_run)
    then have "queue_inv t" "lease_order u t" using queue_same [of t u] u(1) by simp_all
    moreover from this u w have "lease_order w t" by (blast intro: leases.R_trans)
    ultimately show ?thesis using fs t refs(1) by (simp add: minted_def)
  qed
qed

lemma pool_inv_world:
  assumes "pool_inv s" and "queue_inv t" and "lease_order (pr_world s) t"
  shows "pool_inv (s\<lparr>pr_world := t\<rparr>)"
  using assms minted_mono by (auto simp: pool_inv_def)

lemma pool_step_inv: "pool_step p s t \<Longrightarrow> pool_inv s \<Longrightarrow> pool_inv t"
proof (induction rule: pool_step.induct)
  case (Lease i s refs t)
  from Lease.prems have s: "queue_inv (pr_world s)" "distinct (map tr_LeaseID (refs_of (pr_loops s)))"
    "\<And>f. f \<in> set (refs_of (pr_loops s)) \<Longrightarrow> tr_LeaseID f \<noteq> [] \<and> minted (pr_world s) (tr_LeaseID f)"
    "pr_active s = int (length (filter busy (pr_loops s)))" by (simp_all add: pool_inv_def)
  note t = lease_tick_fresh [OF s(1) Lease.hyps(3)]
  obtain xs ys where l: "pr_loops s = xs @ Some [] # ys" "i = length xs"
    using loop_split [OF Lease.hyps(1)] Lease.hyps(2) by metis
  have old: "minted (pr_world s) (tr_LeaseID f)" "minted t (tr_LeaseID f)" "tr_LeaseID f \<noteq> []"
    if "f \<in> set (refs_of xs) \<union> set (refs_of ys)" for f
    using that s(3) [of f] t minted_mono by (auto simp: l(1) refs_of_app)
  have "tr_LeaseID f \<noteq> tr_LeaseID g" if "f \<in> set refs" "g \<in> set (refs_of xs) \<union> set (refs_of ys)" for f g
    using t old(1) [OF that(2)] that(1) by metis
  then have "tr_LeaseID ` set refs \<inter> tr_LeaseID ` (set (refs_of xs) \<union> set (refs_of ys)) = {}" by blast
  then have "distinct (map tr_LeaseID (refs_of (xs @ Some refs # ys)))"
    using s(2) t by (auto simp: l(1) refs_of_app image_Un)
  then show ?case
    using t old s(4) by (auto simp: pool_inv_def l refs_of_app)
next
  case (Beat i s ref rest r t)
  then have "queue_inv t \<and> lease_order (pr_world s) t" using evolvesD [OF heartbeat_order _ Beat.hyps(3)] by (simp add: pool_inv_def)
  with Beat.prems show ?case using pool_inv_world by blast
next
  case (Settle i s ref rest res r t)
  then have w: "queue_inv t \<and> lease_order (pr_world s) t" using evolvesD [OF settle_order _ Settle.hyps(3)] by (simp add: pool_inv_def)
  obtain xs ys where l: "pr_loops s = xs @ Some (ref # rest) # ys" "i = length xs"
    using loop_split [OF Settle.hyps(1)] Settle.hyps(2) by metis
  from Settle.prems w have "pool_inv (s\<lparr>pr_world := t\<rparr>)" using pool_inv_world by blast
  then show ?case by (auto simp: pool_inv_def l refs_of_app)
next
  case (Reclaim s r t)
  then have "queue_inv t \<and> lease_order (pr_world s) t" using evolvesD [OF reclaim_order _ Reclaim.hyps(2)] by (simp add: pool_inv_def)
  with Reclaim.prems show ?case using pool_inv_world by blast
next
  case (Leave s i)
  obtain xs ys where "pr_loops s = xs @ Some [] # ys" "i = length xs"
    using loop_split [OF Leave.hyps(2)] Leave.hyps(3) by metis
  with Leave.prems show ?case by (simp add: pool_inv_def refs_of_app)
next
  case (Env s t)
  then show ?case using queue_step_order [OF Env.hyps] pool_inv_world by (simp add: pool_inv_def)
qed (simp_all add: pool_inv_def)

lemma pool_start: "queue_inv w \<Longrightarrow> pool_inv (Start_pool p w)"
  by (simp add: pool_inv_def Start_pool_def refs_of_def)

lemma pool_run_inv: "(pool_step p)\<^sup>*\<^sup>* s t \<Longrightarrow> pool_inv s \<Longrightarrow> pool_inv t"
  by (induction rule: rtranclp_induct) (auto intro: pool_step_inv)

section \<open>One holder, and shutting down\<close>

lemma two_refs:
  assumes "i \<noteq> j" and "i < length ls" and "j < length ls" and "ls ! i = Some (f # fs)" and "ls ! j = Some (g # gs)"
    and "distinct (map tr_LeaseID (refs_of ls))"
  shows "tr_LeaseID f \<noteq> tr_LeaseID g"
proof -
  have *: "tr_LeaseID f \<noteq> tr_LeaseID g"
    if "i < j" "j < length ls" "ls ! i = Some (f # fs)" "ls ! j = Some (g # gs)" for i j f g fs gs
  proof -
    have ls: "ls = take i ls @ ls ! i # drop (Suc i) ls" using that by (intro id_take_nth_drop) simp
    have "Some (g # gs) \<in> set (drop (Suc i) ls)"
      using that by (auto simp: in_set_conv_nth intro!: exI [of _ "j - Suc i"])
    then have "g \<in> set (refs_of (drop (Suc i) ls))" by (force simp: refs_of_def)
    moreover have "refs_of ls = refs_of (take i ls) @ (f # fs) @ refs_of (drop (Suc i) ls)"
      using refs_of_app [of "take i ls" "ls ! i" "drop (Suc i) ls"] ls that(3) by simp
    ultimately show ?thesis using assms(6) by auto
  qed
  from assms show ?thesis using * [of i j f fs g gs] * [of j i g gs f fs] by (cases "i < j") auto
qed


text \<open>
  Shutting down: once canceled, the pool can come to a stop from every state, when the handlers
  at work end; and a pool that stopped has no task in work.
\<close>

lemma pool_can_stop:
  assumes "pr_canceled s"
  shows "\<exists>t. (pool_step p)\<^sup>*\<^sup>* s t \<and> stopped t"
  using assms
proof (induction "length (refs_of (pr_loops s)) + length (filter (\<lambda>l. l \<noteq> None) (pr_loops s)) + (if pr_reclaiming s then 1 else 0)"
    arbitrary: s rule: less_induct)
  case less
  have go: ?case if "pool_step p s t" "pr_canceled t" "length (refs_of (pr_loops t)) + length (filter (\<lambda>l. l \<noteq> None) (pr_loops t)) +
      (if pr_reclaiming t then 1 else 0) < length (refs_of (pr_loops s)) + length (filter (\<lambda>l. l \<noteq> None) (pr_loops s)) +
      (if pr_reclaiming s then 1 else 0)" for t
    using less.hyps [OF that(3,2)] that(1) by (meson converse_rtranclp_into_rtranclp)
  show ?case
  proof (cases "\<exists>i < length (pr_loops s). pr_loops s ! i \<noteq> None")
    case True
    then obtain i refs where i: "i < length (pr_loops s)" "pr_loops s ! i = Some refs" by auto
    obtain xs ys where l: "pr_loops s = xs @ Some refs # ys" "i = length xs"
      using loop_split [OF i(1)] i(2) by metis
    show ?thesis
    proof (cases refs)
      case Nil
      with i have "pool_step p s (s\<lparr>pr_loops := (pr_loops s)[i := None]\<rparr>)" using less.prems by (intro pool_step.Leave) simp_all
      from go [OF this] show ?thesis by (simp add: less.prems l refs_of_app Nil)
    next
      case (Cons ref rest)
      obtain r t where t: "settle p ref (Inr ()) (pr_world s) = (r, t)" by (cases "settle p ref (Inr ()) (pr_world s)")
      from pool_step.Settle [OF i(1) _ t] i(2) Cons
      have "pool_step p s (s\<lparr>pr_world := t, pr_loops := (pr_loops s)[i := Some rest], pr_active := pr_active s - 1 + (if rest = [] then 0 else 1)\<rparr>)"
        by simp
      from go [OF this] show ?thesis by (simp add: less.prems l refs_of_app Cons)
    qed
  next
    case False
    then have gone: "\<forall>l \<in> set (pr_loops s). l = None" by (auto simp: in_set_conv_nth)
    show ?thesis
    proof (cases "pr_reclaiming s")
      case True
      have "pool_step p s (s\<lparr>pr_reclaiming := False\<rparr>)" using less.prems by (rule pool_step.LeaveReclaim)
      from go [OF this] show ?thesis using less.prems True by simp
    next
      case False
      with gone have "stopped s" by (simp add: stopped_def)
      then show ?thesis by blast
    qed
  qed
qed

lemma stopped_idle: "pool_inv s \<Longrightarrow> stopped s \<Longrightarrow> pr_active s = 0 \<and> refs_of (pr_loops s) = []"
  by (auto simp: pool_inv_def stopped_def refs_of_def filter_empty_conv)

end
