(* ===== verification/ProductionWitnesses.thy ===== *)
theory ProductionWitnesses
  imports EnterpriseRuns Witnesses PoolRuns
begin

text \<open>
  The properties of the production mode applied to concrete data: a store with one queued task
  and its queue row, and a worker that leases it.
\<close>

definition sample_row :: QueueRow where
  "sample_row = ready_row DefaultTenantID DefaultProjectID ''t'' 0 0"

definition sample_production :: world where
  "sample_production = (sample_world [sample_task ''t'' ExecutionStatusQueued])\<lparr>task_queue := [sample_row]\<rparr>"

definition sample_lease :: LeaseOptions where
  "sample_lease = \<lparr>lo_WorkerID = ''w'', lo_MaxItems = 1, lo_LeaseDuration = 30 * second, lo_VisibilityTimeout = 30 * second\<rparr>"

definition sample_pool :: DurableWorkerOptions where
  "sample_pool = NewDurableWorkerPool \<lparr>dw_WorkerID = ''w'', dw_WorkerCount = 1, dw_LeaseDuration = 30 * second,
     dw_HeartbeatInterval = 0, dw_PollInterval = 0, dw_ReclaimInterval = 0, dw_MaxAttempts = 3, dw_MaxBackoff = 0\<rparr>"

lemma sample_pool_simps [simp]: "dw_WorkerID sample_pool = ''w''" "dw_MaxAttempts sample_pool = 3"
  "dw_LeaseDuration sample_pool = 30 * second" "dw_MaxBackoff sample_pool = 60 * second"
  by (simp_all add: sample_pool_def NewDurableWorkerPool_def Let_def second_def)

lemma sample_row_simps [simp]: "qr_TaskID sample_row = ''t''" "qr_LeaseID sample_row = []" "qr_Status sample_row = QueueReady"
  "qr_WorkerID sample_row = []" "qr_AttemptNo sample_row = 0" "qr_AvailableAt sample_row = 0" "qr_LeaseUntil sample_row = None"
  by (simp_all add: sample_row_def ready_row_def)

lemma sample_production_simps [simp]:
  "executions sample_production = [sample_task ''t'' ExecutionStatusQueued]" "task_queue sample_production = [sample_row]"
  "w_env sample_production = sample_env" "now_ix sample_production = 0" "id_ix sample_production = 10" "io_ix sample_production = 0"
  by (simp_all add: sample_production_def sample_world_def)

lemma sample_env_simps [simp]: "clock sample_env = int" "io_fault sample_env = (\<lambda>_. None)" "row_locked sample_env = (\<lambda>_ _. False)"
  "pg_uuid sample_env = (\<lambda>n. CHR ''b'' # replicate n CHR ''b'')"
  by (simp_all add: sample_env_def)

lemma sample_production_ok: "disk_ok sample_production" "queue_inv sample_production"
  by (auto simp: disk_ok_def queue_ok_def leases_distinct_def row_ok_def uuids_ok_def inj_def)

section \<open>The queue\<close>

theorem LeaseNext_spec_witness:
  "\<exists>refs t. LeaseNext sample_lease sample_production = (Inr refs, t) \<and> map ref_key refs = [row_key sample_row]"
proof -
  obtain r t where run: "LeaseNext sample_lease sample_production = (r, t)" by (cases "LeaseNext sample_lease sample_production")
  have "0 < lo_MaxItems sample_lease" by (simp add: sample_lease_def)
  from LeaseNext_spec [OF sample_production_ok(2,1) this run]
  have "\<exists>refs. r = Inr refs \<and> length refs = 1 \<and> ref_key ` set refs = {row_key sample_row}"
    by (auto simp: ready_rows_def sample_lease_def Let_def)
  then obtain refs where "r = Inr refs" "length refs = 1" "ref_key ` set refs = {row_key sample_row}" by blast
  with run show ?thesis by (auto simp: length_Suc_conv)
qed

definition sample_taken :: QueueRow where
  "sample_taken = lease_row ''w'' (whole_seconds (30 * second)) (CHR ''b'' # replicate 10 CHR ''b'') sample_row"

definition sample_leased :: world where
  "sample_leased = sample_production\<lparr>now_ix := 1, io_ix := 1, task_queue := [sample_taken], id_ix := 11\<rparr>"

lemma sample_lease_run: "LeaseNext sample_lease sample_production = (Inr [task_ref sample_taken], sample_leased)"
  by (simp add: LeaseNext_eq sample_lease_def time_now_run lease_statement_def disk_def Let_def ready_rows_def
      sample_taken_def sample_leased_def second_def)

definition sample_nack :: NackOptions where
  "sample_nack = \<lparr>no_Retryable = True, no_Backoff = second, no_Reason = ''failed'', no_DLQ = False, no_MaxAttempts = 3, no_NextVisible = 0\<rparr>"

theorem lost_lease_is_void_witness:
  "let w2 = snd (Nack ''t'' (qr_LeaseID sample_taken) ''w'' sample_nack sample_leased)
   in task_queue (snd (Ack ''t'' (qr_LeaseID sample_taken) ''w'' w2)) = task_queue w2"
proof -
  let ?w2 = "snd (Nack ''t'' (qr_LeaseID sample_taken) ''w'' sample_nack sample_leased)"
  have "queue_step sample_leased ?w2" by (rule queue_step.Nack [OF prod.collapse [symmetric]])
  then have r: "queue_step\<^sup>*\<^sup>* sample_leased ?w2" by blast
  have t: "qr_TaskID sample_taken = ''t''" by (simp add: sample_taken_def lease_row_def)
  have "\<not> held ?w2 (tr_LeaseID (task_ref sample_taken))"
    by (simp add: Nack_def sample_nack_def time_now_run bindE_def statement_def disk_def sample_leased_def set_where_def
        holds_lease_def held_def Let_def) (simp add: sample_taken_def lease_row_def)
  from lost_lease_is_void [OF sample_production_ok(2) sample_lease_run _ r this rtranclp.rtrancl_refl, of "''w''"]
  show ?thesis by (simp add: Let_def t)
qed

section \<open>The pool\<close>

lemma sample_holds: "holds_lease ''t'' (qr_LeaseID sample_taken) ''w'' sample_taken"
  by (simp add: holds_lease_def sample_taken_def lease_row_def)

lemma sample_leased_ok: "disk_ok sample_leased"
  by (simp add: sample_leased_def disk_ok_def)

lemma sample_leased_rows: "table_rows sample_leased (row_key sample_row) = Some sample_taken"
  by (simp add: table_rows_def sample_leased_def sample_taken_def)

lemma sample_ref [simp]: "qr_TaskID sample_taken = ''t''"
  by (simp add: sample_taken_def lease_row_def)

theorem handleOne_settles_witness:
  "\<exists>t q. handleOne pg_queue sample_pool (\<lambda>_. retE ()) (task_ref sample_taken) sample_leased = (Inr (), t) \<and>
     table_rows t (row_key sample_row) = Some q \<and> qr_Status q = QueueAcked"
proof -
  have "(\<lambda>_. retE ()) (task_ref sample_taken) sample_leased = (Inr (), sample_leased)" by simp
  from handleOne_settles [where h = "\<lambda>_. retE ()" and p = sample_pool and ref = "task_ref sample_taken", OF this sample_leased_ok]
  show ?thesis
    using sample_holds
    by (elim exE conjE, drule_tac x = "row_key sample_row" in spec) (auto simp: sample_leased_rows sample_ref)
qed

theorem backoff_capped_witness: "backoff sample_env sample_pool 4 = 8 * second"
  using backoff_capped [of 4 sample_env sample_pool] by (simp add: second_def)


theorem crashing_task_never_dies_witness:
  "waits_alone 7 ((crash_round sample_pool ^^ 7) (sample_production\<lparr>w_env := sample_env\<lparr>clock := \<lambda>n. 60 * second * int n\<rparr>\<rparr>))"
proof -
  let ?w = "sample_production\<lparr>w_env := sample_env\<lparr>clock := \<lambda>n. 60 * second * int n\<rparr>\<rparr>"
  have "whole_seconds (30 * second) = 30 * second" by (simp add: whole_seconds_def second_def go_div_def)
  then have "slow_clock (w_env ?w) (dw_LeaseDuration sample_pool)"
    by (simp add: slow_clock_def second_def)
  moreover have "waits_alone 0 ?w" by (simp add: waits_alone_def)
  ultimately show ?thesis using crashing_task_never_dies [of ?w sample_pool 0 7] by (simp add: second_def)
qed

text \<open>Two loops that each take one of two tasks.\<close>

definition sample_two :: world where
  "sample_two = sample_production\<lparr>task_queue := [sample_row, sample_row\<lparr>qr_TaskID := ''u''\<rparr>]\<rparr>"

definition sample_second :: world where
  "sample_second = snd (lease_tick (sample_pool\<lparr>dw_WorkerCount := 2\<rparr>) sample_two)"


section \<open>Access\<close>

definition sample_account :: User where
  "sample_account = \<lparr>us_TenantID = [], us_ProjectID = [], us_ID = ''u1'', us_Username = ''ann'', us_Role = RoleUser,
     us_TokenHash = ''token'', us_PasswordHash = ''pw'', us_CreatedAt = 0, us_UpdatedAt = 0\<rparr>"

theorem Login_sound_witness:
  "\<exists>tok t. Login json_auth ''ann'' ''pw'' [] (sample_production\<lparr>users := [sample_account]\<rparr>) = (Inr (tok, toCurrentUser sample_account), t) \<and> tok = []"
proof -
  have "\<exists>tok t. Login json_auth ''ann'' ''pw'' [] (sample_production\<lparr>users := [sample_account]\<rparr>) = (Inr (tok, toCurrentUser sample_account), t)"
    by (simp add: Login_def json_auth_def Auth_GetUserByUsername_def repo_find_def Load_def disk_def bindE_def guardE_def hashSecret_def)
       (simp add: sample_account_def sample_env_def)
  then obtain tok t where run: "Login json_auth ''ann'' ''pw'' [] (sample_production\<lparr>users := [sample_account]\<rparr>) = (Inr (tok, toCurrentUser sample_account), t)"
    by blast
  from Login_sound [OF run] run show ?thesis by auto
qed

section \<open>The handler\<close>

definition sample_handler :: MetadataExecutionHandler where
  "sample_handler = NewMetadataExecutionHandler json_plugin_store sample_runtime True ''w''"

lemma sample_handler_reads: "reads_plugins (mh_plugins sample_handler)"
  using json_reads_plugins by (simp add: sample_handler_def NewMetadataExecutionHandler_def)

theorem HandleLeasedExecution_never_finishes_witness:
  "fst (HandleLeasedExecution sample_handler (task_ref sample_taken) sample_leased) \<noteq> Inr ()"
  using HandleLeasedExecution_never_finishes [where ref = "task_ref sample_taken" and w = sample_leased,
      OF sample_handler_reads prod.collapse [symmetric]]
  by (auto simp: sample_leased_def)

theorem durable_task_never_acknowledged_witness:
  "\<exists>t q. handleOne pg_queue sample_pool (HandleLeasedExecution sample_handler) (task_ref sample_taken) sample_leased = (Inr (), t) \<and>
     table_rows t (row_key sample_row) = Some q \<and> qr_Status q = QueueReady"
proof -
  have l: "lookup ex_ID (tr_TaskID (task_ref sample_taken)) (executions sample_leased) = Some (sample_task ''t'' ExecutionStatusQueued)"
    "distinct (map ex_ID (executions sample_leased))"
    using sample_ref by (simp_all add: sample_leased_def lookup_def)
  have h: "holds_lease (tr_TaskID (task_ref sample_taken)) (tr_LeaseID (task_ref sample_taken)) (dw_WorkerID sample_pool) sample_taken"
    using sample_holds sample_ref by simp
  have "qr_AttemptNo sample_taken = 1" by (simp add: sample_taken_def)
  with durable_task_never_acknowledged [OF sample_handler_reads sample_leased_ok l(1) _ l(2) sample_leased_rows h]
  show ?thesis by auto
qed

section \<open>Requests\<close>

theorem EnterpriseGetExecution_spec_witness:
  "\<exists>t. EnterpriseGetExecution (NewEnterpriseExecutionService json_plugin_store) sample_user ''t'' sample_production =
     (Inr (sample_task ''t'' ExecutionStatusQueued), t)"
proof -
  have "lookup ex_ID ''t'' (executions sample_production) = Some (sample_task ''t'' ExecutionStatusQueued)" by (simp add: lookup_def)
  moreover have "CanViewExecution sample_user (sample_task ''t'' ExecutionStatusQueued)" "cu_ID sample_user \<noteq> []"
      "IsValidRole (cu_Role sample_user)"
    by (simp_all add: CanViewExecution_def sample_user_def sample_task_def CurrentUser_Scope_def Execution_Scope_def SameScope_def
        Normalize_def mk_scope_def DefaultTenantID_def DefaultProjectID_def IsValidRole_def)
  ultimately show ?thesis
    using EnterpriseGetExecution_spec [OF sample_production_ok(1), where S = "NewEnterpriseExecutionService json_plugin_store" and user = sample_user]
    by (fastforce simp: NewEnterpriseExecutionService_def)
qed

lemma sample_no_split: "production_inv (sample_world [])"
  by (simp add: production_inv_def no_split_brain_def ids_minted_def) (simp add: sample_world_def)

theorem EnterpriseCreateExecution_sound_witness:
  "\<exists>r t. EnterpriseCreateExecution (NewEnterpriseExecutionService json_plugin_store) sample_user [''p1''] (Some []) [] ''rq''
      (sample_world []) = (r, t) \<and>
    (case r of Inl _ \<Rightarrow> same_tables (sample_world []) t
     | Inr e \<Rightarrow> requested sample_user [''p1''] (Some []) [] e \<and> request_stored e (sample_world []) t)"
proof -
  obtain r t where run: "EnterpriseCreateExecution (NewEnterpriseExecutionService json_plugin_store) sample_user [''p1''] (Some []) [] ''rq''
      (sample_world []) = (r, t)" by (meson surj_pair)
  from EnterpriseCreateExecution_sound [OF json_reads_plugins sample_ids_inj sample_no_split run] run show ?thesis
    by (cases r) auto
qed

theorem tasks_and_rows_together_witness:
  "no_split_brain (snd (EnterpriseCreateExecution (NewEnterpriseExecutionService json_plugin_store) sample_user [''p1''] (Some []) [] ''rq''
      (sample_world [])))"
proof -
  let ?t = "snd (EnterpriseCreateExecution (NewEnterpriseExecutionService json_plugin_store) sample_user [''p1''] (Some []) [] ''rq'' (sample_world []))"
  have "production_step json_plugin_store (sample_world []) ?t" by (rule production_step.Create [OF prod.collapse [symmetric]])
  then have "(production_step json_plugin_store)\<^sup>*\<^sup>* (sample_world []) ?t" by blast
  then show ?thesis by (rule tasks_and_rows_together [OF json_reads_plugins sample_ids_inj sample_no_split])
qed

section \<open>The closing transaction\<close>

theorem AppendResultAndFinalize_overwrites_witness:
  "\<exists>t. AppendResultAndFinalize ''t'' [] ExecutionStatusSuccess sample_event
      (task_audit (sample_task ''t'' ExecutionStatusCanceled) ''a1'' ''w'' ''worker'' AuditExecutionFinished [] [] None 0)
      (sample_world [sample_task ''t'' ExecutionStatusCanceled]) = (Inr (), t) \<and>
    map ex_Status (executions t) = [ExecutionStatusSuccess]"
proof -
  let ?a = "task_audit (sample_task ''t'' ExecutionStatusCanceled) ''a1'' ''w'' ''worker'' AuditExecutionFinished [] [] None 0"
  let ?w = "sample_world [sample_task ''t'' ExecutionStatusCanceled]"
  have "\<exists>t. AppendResultAndFinalize ''t'' [] ExecutionStatusSuccess sample_event ?a ?w = (Inr (), t)"
    by (simp add: AppendResultAndFinalize_def WithTx_ok [OF sample_disk_ok] finish_execution_def statement_def disk_def bindE_def
        insertEvent_def insertEvent_stmt_def insertAudit_def insertAudit_stmt_def jsonb_def event_violation_def audit_violation_def
        violation_def unencodable_def finish_tx_def has_execution_def task_audit_def set_where_def sample_event_def)
       (simp add: sample_world_def sample_env_def set_where_def disk_def)
  then obtain t where run: "AppendResultAndFinalize ''t'' [] ExecutionStatusSuccess sample_event ?a ?w = (Inr (), t)" by blast
  from AppendResultAndFinalize_overwrites [OF run] run show ?thesis by auto
qed

end
