(* ===== verification/Base64.thy ===== *)
theory Base64
  imports Model
begin

text \<open>
  \<^verbatim>\<open>encoding/base64\<close>'s standard encoding, with padding, as the manifest service and the encrypted
  secrets use it: the encoder by groups of three bytes, the decoder by groups of four characters,
  which skips line ends and reports the position of the first corrupt byte. Decoding inverts
  encoding.
\<close>

section \<open>Encoding\<close>

definition b64_alphabet :: string where
  "b64_alphabet = ''ABCDEFGHIJKLMNOPQRSTUVWXYZabcdefghijklmnopqrstuvwxyz0123456789+/''"

definition b64_char :: "nat \<Rightarrow> char" where
  "b64_char n = b64_alphabet ! (n mod 64)"

abbreviation byte :: "char \<Rightarrow> nat" where "byte c \<equiv> of_char c"

fun base64_encode :: "string \<Rightarrow> string" where
  "base64_encode [] = []"
| "base64_encode [a] = (let n = 16 * byte a in [b64_char (n div 64), b64_char n, CHR ''='', CHR ''=''])"
| "base64_encode [a, b] = (let n = 1024 * byte a + 4 * byte b
     in [b64_char (n div 4096), b64_char (n div 64), b64_char n, CHR ''=''])"
| "base64_encode (a # b # c # s) = (let n = 65536 * byte a + 256 * byte b + byte c
     in [b64_char (n div 262144), b64_char (n div 4096), b64_char (n div 64), b64_char n] @ base64_encode s)"

section \<open>Decoding\<close>

definition b64_value :: "char \<Rightarrow> nat option" where
  "b64_value c = (let n = byte c in
     if 65 \<le> n \<and> n \<le> 90 then Some (n - 65) else if 97 \<le> n \<and> n \<le> 122 then Some (n - 71)
     else if 48 \<le> n \<and> n \<le> 57 then Some (n + 4) else if n = 43 then Some 62 else if n = 47 then Some 63 else None)"

definition line_end :: "char \<Rightarrow> bool" where
  "line_end c \<longleftrightarrow> c = CHR 0x0A \<or> c = CHR 0x0D"

text \<open>The rest of the input and the position in it, after line ends.\<close>

definition skip_line_ends :: "string \<Rightarrow> nat \<Rightarrow> string \<times> nat" where
  "skip_line_ends s si = (let t = dropWhile line_end s in (t, si + (length s - length t)))"

text \<open>After the padding only line ends may follow.\<close>

definition b64_end :: "nat list \<Rightarrow> string \<Rightarrow> nat \<Rightarrow> nat + (nat list \<times> string \<times> nat)" where
  "b64_end d s si = (case skip_line_ends s si of (t, ti) \<Rightarrow> if t \<noteq> [] then Inl ti else Inr (d, [], ti))"

definition b64_padding :: "nat list \<Rightarrow> string \<Rightarrow> nat \<Rightarrow> nat + (nat list \<times> string \<times> nat)" where
  "b64_padding d s si =
     (if length d < 2 then Inl (si - 1)
      else if length d = 2 then
        (case skip_line_ends s si of
           ([], ti) \<Rightarrow> Inl ti
         | (c # t, ti) \<Rightarrow> if c \<noteq> CHR ''='' then Inl (ti - 1) else b64_end d t (Suc ti))
      else b64_end d s si)"

text \<open>One group: the values collected (fewer than four at the end of the input), or the corrupt position.\<close>

fun b64_quantum :: "nat list \<Rightarrow> string \<Rightarrow> nat \<Rightarrow> nat + (nat list \<times> string \<times> nat)" where
  "b64_quantum d [] si = (if length d = 4 \<or> d = [] then Inr (d, [], si) else Inl (si - length d))"
| "b64_quantum d (c # s) si =
     (if length d = 4 then Inr (d, c # s, si)
      else case b64_value c of
        Some x \<Rightarrow> b64_quantum (d @ [x]) s (Suc si)
      | None \<Rightarrow> if line_end c then b64_quantum d s (Suc si)
          else if c \<noteq> CHR ''='' then Inl si
          else b64_padding d s (Suc si))"

definition b64_bytes :: "nat list \<Rightarrow> string" where
  "b64_bytes d = (case d of
       [x, y] \<Rightarrow> [char_of (4 * x + y div 16)]
     | [x, y, z] \<Rightarrow> (let n = 1024 * x + 16 * y + z div 4 in [char_of (n div 256), char_of n])
     | [x, y, z, u] \<Rightarrow> (let n = 262144 * x + 4096 * y + 64 * z + u
         in [char_of (n div 65536), char_of (n div 256), char_of n])
     | _ \<Rightarrow> [])"

text \<open>Every group takes at least one character of the input, so the length is fuel enough.\<close>

fun b64_loop :: "nat \<Rightarrow> string \<Rightarrow> nat \<Rightarrow> nat + string" where
  "b64_loop 0 s si = Inr []"
| "b64_loop (Suc f) s si = (if s = [] then Inr []
     else case b64_quantum [] s si of Inl e \<Rightarrow> Inl e
       | Inr (d, t, ti) \<Rightarrow> map_sum id (\<lambda>r. b64_bytes d @ r) (b64_loop f t ti))"

definition base64_decode :: "string \<Rightarrow> go_error + string" where
  "base64_decode s = (case b64_loop (length s) s 0 of
     Inl pos \<Rightarrow> Inl (PlainError (''illegal base64 data at input byte '' @ show_int (int pos))) | Inr r \<Rightarrow> Inr r)"

section \<open>Round trip\<close>

lemma b64_values: "map b64_value b64_alphabet = map Some [0..<64]"
  by (simp add: b64_alphabet_def b64_value_def upt_rec)

lemma b64_value_char: "b64_value (b64_char n) = Some (n mod 64)"
proof -
  have "length b64_alphabet = 64" by (simp add: b64_alphabet_def)
  then have "b64_value (b64_alphabet ! (n mod 64)) = map b64_value b64_alphabet ! (n mod 64)" by simp
  also have "\<dots> = Some (n mod 64)" unfolding b64_values by simp
  finally show ?thesis by (simp add: b64_char_def)
qed

lemma byte_less: "byte c < 256" by (rule nat_of_char_less_256)

lemma not_line_end: "\<not> line_end (CHR ''='')" "b64_value (CHR ''='') = None"
  by (simp_all add: line_end_def b64_value_def)

lemma quantum_four:
  "b64_quantum [] (b64_char x # b64_char y # b64_char z # b64_char u # s) si =
     Inr ([x mod 64, y mod 64, z mod 64, u mod 64], s, si + 4)"
  by (cases s) (simp_all add: b64_value_char)

lemma quantum_three:
  "b64_quantum [] [b64_char x, b64_char y, b64_char z, CHR ''=''] si = Inr ([x mod 64, y mod 64, z mod 64], [], si + 4)"
  by (simp add: b64_value_char not_line_end b64_padding_def b64_end_def skip_line_ends_def)

lemma quantum_two:
  "b64_quantum [] [b64_char x, b64_char y, CHR ''='', CHR ''=''] si = Inr ([x mod 64, y mod 64], [], si + 4)"
  by (simp add: b64_value_char not_line_end b64_padding_def b64_end_def skip_line_ends_def)

text \<open>A number from its digits, in one base and the other.\<close>

lemma sextets: "64 * (n div 64) + n mod 64 = (n :: nat)" by simp

lemma octets:
  assumes "b < (256 :: nat)" and "c < 256"
  shows "(65536 * a + 256 * b + c) div 65536 = a" and "(65536 * a + 256 * b + c) div 256 = 256 * a + b"
    and "(256 * a + b) div 256 = a" and "(256 * a + b) mod 256 = b"
  using assms by (simp_all add: div_nat_eqI)

lemma char_of_mod: "(char_of (m mod 256) :: char) = char_of (m :: nat)" by simp

lemma char_of_octet: "char_of (256 * m + byte c) = c"
proof -
  have "(256 * m + byte c) mod 256 = byte c" using byte_less [of c] by simp
  then have "(char_of (256 * m + byte c) :: char) = char_of (byte c)" by (metis char_of_mod)
  then show ?thesis by simp
qed

lemma b64_bytes_three:
  assumes n: "n = 65536 * byte a + 256 * byte b + byte c"
  shows "b64_bytes [n div 262144 mod 64, n div 4096 mod 64, n div 64 mod 64, n mod 64] = [a, b, c]"
proof -
  note l = byte_less [of a] byte_less [of b] byte_less [of c]
  have "n div 262144 < 64" by (rule less_mult_imp_div_less) (use n l in linarith)
  then have "n div 262144 mod 64 = n div 262144" by simp
  moreover have "n div 4096 div 64 = n div 262144" "n div 64 div 64 = n div 4096" by (simp_all add: div_mult2_eq [symmetric])
  ultimately have "262144 * (n div 262144 mod 64) + 4096 * (n div 4096 mod 64) + 64 * (n div 64 mod 64) + n mod 64 = n"
    using sextets [of n] sextets [of "n div 64"] sextets [of "n div 4096"] by linarith
  then have "b64_bytes [n div 262144 mod 64, n div 4096 mod 64, n div 64 mod 64, n mod 64] =
      [char_of (n div 65536), char_of (n div 256), char_of n]"
    by (simp only: b64_bytes_def list.case Let_def)
  moreover have "n = 256 * (256 * byte a + byte b) + byte c" using n by simp
  ultimately show ?thesis
    using octets [OF l(2,3), of "byte a"] by (simp only: n char_of_octet char_of_char)
qed

lemma b64_bytes_two:
  assumes n: "n = 1024 * byte a + 4 * byte b"
  shows "b64_bytes [n div 4096 mod 64, n div 64 mod 64, n mod 64] = [a, b]"
proof -
  note l = byte_less [of a] byte_less [of b]
  have "n div 4096 < 64" by (rule less_mult_imp_div_less) (use n l in linarith)
  then have "n div 4096 mod 64 = n div 4096" by simp
  moreover have "n div 64 div 64 = n div 4096" by (simp add: div_mult2_eq [symmetric])
  ultimately have e: "4096 * (n div 4096 mod 64) + 64 * (n div 64 mod 64) + n mod 64 = n"
    using sextets [of n] sextets [of "n div 64"] by linarith
  have "n mod 64 = 4 * ((256 * byte a + byte b) mod 16)" using mult_mod_right [of 4 "256 * byte a + byte b" 16] n by simp
  then have m: "n mod 64 = 4 * (n mod 64 div 4)" by simp
  have "1024 * (n div 4096 mod 64) + 16 * (n div 64 mod 64) + n mod 64 div 4 = 256 * byte a + byte b"
    using e m n by linarith
  then show ?thesis using octets [OF l(2,2), of "byte a"]
    by (simp only: b64_bytes_def list.case Let_def char_of_octet char_of_char)
qed

lemma b64_bytes_one:
  assumes "n = 16 * byte a"
  shows "b64_bytes [n div 64 mod 64, n mod 64] = [a]"
proof -
  have "byte a div 4 < 64" by (rule less_mult_imp_div_less) (use byte_less [of a] in linarith)
  moreover have "n div 64 = byte a div 4" "n mod 64 = 16 * (byte a mod 4)"
    using assms mult_mod_right [of 16 "byte a" 4] by simp_all
  ultimately have "4 * (n div 64 mod 64) + n mod 64 div 16 = byte a" by simp
  then show ?thesis by (simp only: b64_bytes_def list.case char_of_char)
qed

lemma b64_loop_Nil [simp]: "b64_loop f [] si = Inr []"
  by (cases f) simp_all

lemma b64_loop_step:
  "b64_quantum [] (c # s) si = Inr (d, t, ti) \<Longrightarrow> b64_loop f t ti = Inr r \<Longrightarrow>
   b64_loop (Suc f) (c # s) si = Inr (b64_bytes d @ r)"
  by simp

lemma b64_loop_encode: "length (base64_encode s) \<le> f \<Longrightarrow> b64_loop f (base64_encode s) si = Inr s"
proof (induction s arbitrary: f si rule: base64_encode.induct)
  case 1
  then show ?case by simp
next
  case (2 a)
  then obtain g where "f = Suc g" by (cases f) (auto simp: Let_def)
  with b64_loop_step [OF quantum_two b64_loop_Nil, of g] show ?case
    using b64_bytes_one [OF refl] by (simp only: base64_encode.simps Let_def) simp
next
  case (3 a b)
  then obtain g where "f = Suc g" by (cases f) (auto simp: Let_def)
  with b64_loop_step [OF quantum_three b64_loop_Nil, of g] show ?case
    using b64_bytes_two [OF refl] by (simp only: base64_encode.simps Let_def) simp
next
  case (4 a b c s)
  then obtain g where g: "f = Suc g" by (cases f) (auto simp: Let_def)
  with 4 have "b64_loop g (base64_encode s) i = Inr s" for i by (simp add: Let_def)
  with b64_loop_step [OF quantum_four, of g] g show ?case
    using b64_bytes_three [OF refl] by (simp only: base64_encode.simps Let_def append_Cons append_Nil)
qed

lemma base64_roundtrip [simp]: "base64_decode (base64_encode s) = Inr s"
  by (simp add: base64_decode_def b64_loop_encode)

lemma base64_encode_Nil [simp]: "base64_encode s = [] \<longleftrightarrow> s = []"
  by (cases s rule: base64_encode.cases) (simp_all add: Let_def)

end
