(* ===== verification/EncryptedSecrets.thy ===== *)
theory EncryptedSecrets
  imports Secrets Base64
begin

text \<open>
  \<^verbatim>\<open>internal/secrets/encrypted_provider.go\<close>: secrets kept as ciphertext. The cipher
  (\<^verbatim>\<open>crypto/cipher\<close>'s AEAD interface), its construction from a key and the digest are parameters;
  what the code relies on of an AEAD is \<open>aead_laws\<close>. \<^verbatim>\<open>Open\<close> panics on a nonce of the wrong
  length, so resolving a secret has the outcome \<open>None\<close> for a panic.
\<close>

section \<open>The cipher\<close>

record aead =
  NonceSize :: nat
  Seal :: "string \<Rightarrow> string \<Rightarrow> string \<Rightarrow> string"         \<comment> \<open>nonce, plaintext, additional data\<close>
  Open :: "string \<Rightarrow> string \<Rightarrow> string \<Rightarrow> string option"  \<comment> \<open>for a nonce of the right length\<close>

record crypto =
  sum256 :: "string \<Rightarrow> string"
  new_gcm :: "string \<Rightarrow> go_error + aead"        \<comment> \<open>\<open>aes.NewCipher\<close> and \<open>cipher.NewGCM\<close>\<close>

text \<open>
  The documented contract: what was sealed opens again under the same nonce and additional data,
  and under no other additional data; a ciphertext carries an authentication tag, so is not empty.
\<close>

definition aead_laws :: "aead \<Rightarrow> bool" where
  "aead_laws a \<longleftrightarrow> 0 < NonceSize a \<and> (\<forall>n p d. length n = NonceSize a \<longrightarrow> Seal a n p d \<noteq> [] \<and>
     Open a n (Seal a n p d) d = Some p \<and> (\<forall>e. e \<noteq> d \<longrightarrow> Open a n (Seal a n p d) e = None))"

section \<open>The provider\<close>

record EncryptedRecord =
  er_TenantID :: string
  er_ProjectID :: string
  er_Ref :: string
  er_NonceB64 :: string
  er_CipherB64 :: string
  er_KeyVersion :: string

record EncryptedProvider =
  ep_aead :: aead
  ep_records :: "string \<Rightarrow> EncryptedRecord option"

definition normalizeMasterKey :: "crypto \<Rightarrow> string \<Rightarrow> string" where
  "normalizeMasterKey c masterKey = (if length masterKey = 32 then masterKey else sum256 c masterKey)"

definition NewEncryptedProvider :: "crypto \<Rightarrow> string \<Rightarrow> go_error + EncryptedProvider" where
  "NewEncryptedProvider c masterKey =
     (if length masterKey = 0 then Inl (PlainError ''master key is required'')
      else case new_gcm c (normalizeMasterKey c masterKey) of
        Inl err \<Rightarrow> Inl err
      | Inr a \<Rightarrow> Inr \<lparr>ep_aead = a, ep_records = (\<lambda>_. None)\<rparr>)"

definition secret_aad :: "ResourceScope \<Rightarrow> string \<Rightarrow> string" where
  "secret_aad scope ref = sc_TenantID scope @ ''/'' @ sc_ProjectID scope @ ''/'' @ ref"

text \<open>\<open>rnd n\<close> is \<^verbatim>\<open>io.ReadFull\<close> of \<open>n\<close> random bytes.\<close>

definition PutEncrypted :: "(nat \<Rightarrow> go_error + string) \<Rightarrow> ResourceScope \<Rightarrow> string \<Rightarrow> string \<Rightarrow> EncryptedProvider
    \<Rightarrow> (go_error + EncryptedRecord) \<times> EncryptedProvider" where
  "PutEncrypted rnd scope ref plaintext p =
     (if trim_space ref = [] then (Inl (PlainError ''secret ref is required''), p)
      else if length plaintext = 0 then (Inl (PlainError ''secret value is empty''), p)
      else let scope = Normalize scope in
        case rnd (NonceSize (ep_aead p)) of
          Inl err \<Rightarrow> (Inl err, p)
        | Inr nonce \<Rightarrow>
            let ciphertext = Seal (ep_aead p) nonce plaintext (secret_aad scope ref);
                rec = \<lparr>er_TenantID = sc_TenantID scope, er_ProjectID = sc_ProjectID scope, er_Ref = ref,
                  er_NonceB64 = base64_encode nonce, er_CipherB64 = base64_encode ciphertext,
                  er_KeyVersion = ''local-aesgcm-v1''\<rparr>
            in (Inr rec, p\<lparr>ep_records := (ep_records p)(secret_key scope ref \<mapsto> rec)\<rparr>))"

definition ImportRecord :: "EncryptedRecord \<Rightarrow> EncryptedProvider \<Rightarrow> (go_error + unit) \<times> EncryptedProvider" where
  "ImportRecord rec p = (let scope = Normalize (mk_scope (er_TenantID rec) (er_ProjectID rec)) in
     if trim_space (er_Ref rec) = [] \<or> er_NonceB64 rec = [] \<or> er_CipherB64 rec = []
     then (Inl (PlainError ''encrypted secret record is incomplete''), p)
     else (Inr (), p\<lparr>ep_records := (ep_records p)(secret_key scope (er_Ref rec) \<mapsto> rec)\<rparr>))"

definition Encrypted_Resolve :: "EncryptedProvider \<Rightarrow> Reference \<Rightarrow> (go_error + string) option" where
  "Encrypted_Resolve p ref = (let scope = Normalize (mk_scope (rf_TenantID ref) (rf_ProjectID ref)) in
     case ep_records p (secret_key scope (rf_Ref ref)) of
       None \<Rightarrow> Some (Inl (PlainError (''secret reference not found: '' @ rf_Ref ref)))
     | Some rec \<Rightarrow> (case base64_decode (er_NonceB64 rec) of Inl err \<Rightarrow> Some (Inl err)
       | Inr nonce \<Rightarrow> (case base64_decode (er_CipherB64 rec) of Inl err \<Rightarrow> Some (Inl err)
         | Inr ciphertext \<Rightarrow>
             if length nonce \<noteq> NonceSize (ep_aead p) then None
             else case Open (ep_aead p) nonce ciphertext (secret_aad scope (rf_Ref ref)) of
                 None \<Rightarrow> Some (Inl (PlainError ''secret decrypt failed''))
               | Some plaintext \<Rightarrow> Some (Inr plaintext))))"

section \<open>Round trips\<close>

definition ref_in :: "ResourceScope \<Rightarrow> string \<Rightarrow> Reference" where
  "ref_in scope ref = \<lparr>rf_TenantID = sc_TenantID scope, rf_ProjectID = sc_ProjectID scope, rf_Name = [],
     rf_Provider = ''default'', rf_Ref = ref\<rparr>"

lemma secret_key_Normalize [simp]: "secret_key (Normalize s) ref = secret_key s ref"
  by (simp add: secret_key_def)

lemma resolve_sealed:
  assumes "aead_laws (ep_aead p)" and "length nonce = NonceSize (ep_aead p)"
    and "ep_records p (secret_key scope ref) = Some rec"
    and "er_NonceB64 rec = base64_encode nonce"
    and "er_CipherB64 rec = base64_encode (Seal (ep_aead p) nonce plaintext aad)"
  shows "Encrypted_Resolve p (ref_in scope ref) =
     Some (if aad = secret_aad (Normalize scope) ref then Inr plaintext else Inl (PlainError ''secret decrypt failed''))"
  using assms by (auto simp: Encrypted_Resolve_def ref_in_def aead_laws_def Let_def)

lemma PutEncrypted_ok:
  assumes "PutEncrypted rnd scope ref plaintext p = (Inr rec, q)"
  obtains nonce where "rnd (NonceSize (ep_aead p)) = Inr nonce" and "trim_space ref \<noteq> []" and "plaintext \<noteq> []"
    and "rec = \<lparr>er_TenantID = sc_TenantID (Normalize scope), er_ProjectID = sc_ProjectID (Normalize scope), er_Ref = ref,
       er_NonceB64 = base64_encode nonce,
       er_CipherB64 = base64_encode (Seal (ep_aead p) nonce plaintext (secret_aad (Normalize scope) ref)),
       er_KeyVersion = ''local-aesgcm-v1''\<rparr>"
    and "q = p\<lparr>ep_records := (ep_records p)(secret_key scope ref \<mapsto> rec)\<rparr>"
  using assms by (auto simp: PutEncrypted_def Let_def split: if_splits sum.splits)

text \<open>
  C24. A secret that was stored resolves to its value, in the provider it was stored in and in any
  provider of the same key its record is imported into; every secret under another key is untouched;
  and a record whose tenant was changed on the way does not decrypt under its new owner.
\<close>

theorem encrypted_secret_roundtrip:
  assumes laws: "aead_laws (ep_aead p)" and rnd: "\<forall>n b. rnd n = Inr b \<longrightarrow> length b = n"
    and put: "PutEncrypted rnd scope ref plaintext p = (Inr rec, q)"
    and other: "ep_aead r = ep_aead p"
  shows "Encrypted_Resolve q (ref_in scope ref) = Some (Inr plaintext) \<and>
    (\<forall>r'. ImportRecord rec r = (Inr (), r') \<longrightarrow> Encrypted_Resolve r' (ref_in scope ref) = Some (Inr plaintext)) \<and>
    (\<exists>r'. ImportRecord rec r = (Inr (), r')) \<and>
    (\<forall>s x. secret_key s x \<noteq> secret_key scope ref \<longrightarrow> Encrypted_Resolve q (ref_in s x) = Encrypted_Resolve p (ref_in s x)) \<and>
    (\<forall>owner r'. secret_aad (Normalize owner) ref \<noteq> secret_aad (Normalize scope) ref \<and>
       ImportRecord (rec\<lparr>er_TenantID := sc_TenantID owner, er_ProjectID := sc_ProjectID owner\<rparr>) r = (Inr (), r') \<longrightarrow>
       Encrypted_Resolve r' (ref_in owner ref) = Some (Inl (PlainError ''secret decrypt failed'')))"
proof -
  obtain nonce where n: "rnd (NonceSize (ep_aead p)) = Inr nonce" "trim_space ref \<noteq> []"
    and rec: "rec = \<lparr>er_TenantID = sc_TenantID (Normalize scope), er_ProjectID = sc_ProjectID (Normalize scope), er_Ref = ref,
       er_NonceB64 = base64_encode nonce,
       er_CipherB64 = base64_encode (Seal (ep_aead p) nonce plaintext (secret_aad (Normalize scope) ref)),
       er_KeyVersion = ''local-aesgcm-v1''\<rparr>"
    and q: "q = p\<lparr>ep_records := (ep_records p)(secret_key scope ref \<mapsto> rec)\<rparr>"
    using put by (rule PutEncrypted_ok)
  from rnd n have l: "length nonce = NonceSize (ep_aead p)" by blast
  with laws have ne: "nonce \<noteq> []" "Seal (ep_aead p) nonce plaintext (secret_aad (Normalize scope) ref) \<noteq> []"
    by (auto simp: aead_laws_def)
  have import: "ImportRecord (rec\<lparr>er_TenantID := t, er_ProjectID := j\<rparr>) r =
      (Inr (), r\<lparr>ep_records := (ep_records r)(secret_key (mk_scope t j) ref \<mapsto> rec\<lparr>er_TenantID := t, er_ProjectID := j\<rparr>)\<rparr>)" for t j
    using n(2) ne by (simp add: ImportRecord_def rec Let_def)
  have same: "ImportRecord rec r = (Inr (), r\<lparr>ep_records := (ep_records r)(secret_key scope ref \<mapsto> rec)\<rparr>)"
    using n(2) ne by (simp add: ImportRecord_def rec Let_def)
  have "Encrypted_Resolve q (ref_in scope ref) = Some (Inr plaintext)"
    using resolve_sealed [of q nonce scope ref rec plaintext "secret_aad (Normalize scope) ref"] laws l by (simp add: q rec)
  moreover have "Encrypted_Resolve (r\<lparr>ep_records := (ep_records r)(secret_key scope ref \<mapsto> rec)\<rparr>) (ref_in scope ref) = Some (Inr plaintext)"
    using resolve_sealed [of "r\<lparr>ep_records := (ep_records r)(secret_key scope ref \<mapsto> rec)\<rparr>" nonce scope ref rec plaintext
      "secret_aad (Normalize scope) ref"] laws l other by (simp add: rec)
  moreover have "Encrypted_Resolve q (ref_in s x) = Encrypted_Resolve p (ref_in s x)" if "secret_key s x \<noteq> secret_key scope ref" for s x
    using that by (auto simp: Encrypted_Resolve_def ref_in_def q Let_def split: option.split sum.split)
  moreover have "Encrypted_Resolve r' (ref_in owner ref) = Some (Inl (PlainError ''secret decrypt failed''))"
    if "secret_aad (Normalize owner) ref \<noteq> secret_aad (Normalize scope) ref"
      "ImportRecord (rec\<lparr>er_TenantID := sc_TenantID owner, er_ProjectID := sc_ProjectID owner\<rparr>) r = (Inr (), r')" for owner r'
  proof -
    from that(2) import have r': "r' = r\<lparr>ep_records := (ep_records r)(secret_key owner ref \<mapsto>
        rec\<lparr>er_TenantID := sc_TenantID owner, er_ProjectID := sc_ProjectID owner\<rparr>)\<rparr>" by simp
    show ?thesis
      using resolve_sealed [of r' nonce owner ref _ plaintext "secret_aad (Normalize scope) ref"] laws l other that(1)
      by (simp add: r' rec)
  qed
  ultimately show ?thesis using same by auto
qed

section \<open>A toy cipher for concrete runs\<close>

text \<open>The identity, with the additional data and its length as the tag: it has the laws, and no secrecy.\<close>

definition toy_tag :: "string \<Rightarrow> string" where
  "toy_tag d = replicate (length d) CHR ''l'' @ CHR ''.'' # d"

definition toy_aead :: aead where
  "toy_aead = \<lparr>NonceSize = 2, Seal = (\<lambda>n p d. toy_tag d @ p),
     Open = (\<lambda>n c d. if has_prefix c (toy_tag d) then Some (drop (length (toy_tag d)) c) else None)\<rparr>"

lemma replicate_end:
  "x \<noteq> y \<Longrightarrow> replicate m x @ y # u = replicate n x @ y # v \<longleftrightarrow> m = n \<and> u = v"
proof (induction m arbitrary: n)
  case 0
  then show ?case by (cases n) auto
next
  case (Suc m)
  then show ?case by (cases n) auto
qed

lemma toy_laws: "aead_laws toy_aead"
proof -
  have "d = e" if t: "toy_tag d @ p = toy_tag e @ s" for d e p s
  proof -
    from t have "length d = length e \<and> d @ p = e @ s" using replicate_end [of "CHR ''l''" "CHR ''.''"] by (simp add: toy_tag_def)
    then show ?thesis by (metis append_eq_append_conv)
  qed
  then have "has_prefix (toy_tag d @ p) (toy_tag e) \<longleftrightarrow> d = e" for d e p unfolding has_prefix_iff by blast
  moreover have "toy_tag d \<noteq> []" for d by (simp add: toy_tag_def)
  ultimately show ?thesis by (simp add: aead_laws_def toy_aead_def)
qed

definition toy_provider :: EncryptedProvider where
  "toy_provider = \<lparr>ep_aead = toy_aead, ep_records = (\<lambda>_. None)\<rparr>"

theorem encrypted_secret_roundtrip_witness:
  "\<exists>rec q. PutEncrypted (\<lambda>n. Inr (replicate n CHR ''r'')) (mk_scope ''acme'' ''p'') ''token'' ''s3cret'' toy_provider = (Inr rec, q) \<and>
     Encrypted_Resolve q (ref_in (mk_scope ''acme'' ''p'') ''token'') = Some (Inr ''s3cret'')"
proof -
  have "trim_space ''token'' = ''token''" by code_simp
  then obtain rec q where put: "PutEncrypted (\<lambda>n. Inr (replicate n CHR ''r'')) (mk_scope ''acme'' ''p'') ''token'' ''s3cret'' toy_provider = (Inr rec, q)"
    by (simp add: PutEncrypted_def Let_def)
  have "aead_laws (ep_aead toy_provider)" by (simp add: toy_provider_def toy_laws)
  from encrypted_secret_roundtrip [OF this _ put refl] put show ?thesis by auto
qed

section \<open>What the record format allows\<close>

text \<open>
  Importing does not check the length of the nonce, so a record that was accepted can make every
  later resolution of its reference panic.
\<close>

lemma imported_nonce_panics:
  fixes scope :: ResourceScope and v :: string
  assumes "length nonce \<noteq> NonceSize (ep_aead p)" and "nonce \<noteq> []" and "c \<noteq> []" and "trim_space ref \<noteq> []"
  defines "rec \<equiv> \<lparr>er_TenantID = sc_TenantID scope, er_ProjectID = sc_ProjectID scope, er_Ref = ref,
    er_NonceB64 = base64_encode nonce, er_CipherB64 = base64_encode c, er_KeyVersion = v\<rparr>"
  shows "\<exists>q. ImportRecord rec p = (Inr (), q) \<and> Encrypted_Resolve q (ref_in scope ref) = None"
  using assms by (simp add: ImportRecord_def Encrypted_Resolve_def ref_in_def Let_def)

text \<open>
  The key of the map is the additional data, so two scopes that share a key also decrypt each
  other's secrets.
\<close>

lemma shared_key_decrypts:
  assumes "secret_key a r = secret_key b s"
  shows "map_option (map_sum (\<lambda>_. ()) id) (Encrypted_Resolve p (ref_in a r)) = map_option (map_sum (\<lambda>_. ()) id) (Encrypted_Resolve p (ref_in b s))"
proof -
  have "secret_aad (Normalize a) r = secret_aad (Normalize b) s"
    using assms by (simp add: secret_key_def secret_aad_def Let_def)
  with assms show ?thesis
    by (auto simp: Encrypted_Resolve_def ref_in_def Let_def split: option.split sum.split)
qed

end
