(* ===== verification/Manifest.thy ===== *)
theory Manifest
  imports Runtime Base64
begin

text \<open>
  Plugin manifests: \<^verbatim>\<open>internal/model/manifest.go\<close> (the two shapes of a manifest and the
  effective values) and \<^verbatim>\<open>internal/service/manifest.go\<close> (reading, validating and verifying
  one, and the plugin made from it). Files are the environment's; a Go map of strings is an
  association list with distinct keys.
\<close>

section \<open>Data\<close>

record ManifestMetadata =
  me_Name :: string
  me_DisplayName :: string
  me_Version :: string
  me_Description :: string
  me_License :: string

record ManifestRuntime =
  mr_Type :: string
  mr_Protocol :: string
  mr_Entrypoint :: string
  mr_Command :: string
  mr_Args :: "string list"
  mr_Image :: string
  mr_Env :: "(string \<times> string) list"
  mr_SecretRefs :: "(string \<times> string) list"
  mr_TimeoutSeconds :: int

record ManifestCompat =
  mc_CoreAPI :: string
  mc_ProtocolVersion :: int
  mc_SDK :: "jobj option"

record ManifestFSRule =
  fr_Path :: string
  fr_Mode :: string

record ManifestProcess =
  mp_AllowSubprocess :: bool
  mp_AllowedCommands :: "string list"

record ManifestPermissions =
  mq_Network :: string
  mq_FS :: "ManifestFSRule list"
  mq_Process :: ManifestProcess

record ManifestResources =
  mz_CPU :: string
  mz_Memory :: string
  mz_PIDs :: int
  mz_TempDisk :: string

record ManifestSecurity =
  ms_Checksum :: string
  ms_Signature :: string
  ms_Attestation :: string
  ms_SBOM :: string

record PluginManifest =
  pm_APIVersion :: string
  pm_Kind :: string
  pm_Metadata :: ManifestMetadata
  pm_Runtime :: ManifestRuntime
  pm_Compat :: ManifestCompat
  pm_Capabilities :: "string list"
  pm_Permissions :: ManifestPermissions
  pm_Resources :: ManifestResources
  pm_Security :: ManifestSecurity
  pm_Name :: string
  pm_Version :: string
  pm_Description :: string
  pm_EntryType :: string
  pm_Command :: string
  pm_Args :: "string list"
  pm_TimeoutSeconds :: int
  pm_InputSchema :: "jobj option"
  pm_OutputSchema :: "jobj option"

section \<open>Effective values\<close>

definition EffectiveName :: "PluginManifest \<Rightarrow> string" where
  "EffectiveName m = (if me_Name (pm_Metadata m) \<noteq> [] then me_Name (pm_Metadata m) else pm_Name m)"

definition EffectiveVersion :: "PluginManifest \<Rightarrow> string" where
  "EffectiveVersion m = (if me_Version (pm_Metadata m) \<noteq> [] then me_Version (pm_Metadata m) else pm_Version m)"

definition ManifestIdentity :: "PluginManifest \<Rightarrow> string" where
  "ManifestIdentity m = EffectiveName m @ ''@'' @ EffectiveVersion m"

definition EffectiveDescription :: "PluginManifest \<Rightarrow> string" where
  "EffectiveDescription m = (if me_Description (pm_Metadata m) \<noteq> [] then me_Description (pm_Metadata m) else pm_Description m)"

definition EffectiveEntryType :: "PluginManifest \<Rightarrow> string" where
  "EffectiveEntryType m = (if mr_Type (pm_Runtime m) \<noteq> [] then mr_Type (pm_Runtime m)
     else if pm_EntryType m \<noteq> [] then pm_EntryType m else ''process'')"

definition EffectiveCommand :: "PluginManifest \<Rightarrow> string" where
  "EffectiveCommand m = (if mr_Entrypoint (pm_Runtime m) \<noteq> [] then mr_Entrypoint (pm_Runtime m)
     else if mr_Command (pm_Runtime m) \<noteq> [] then mr_Command (pm_Runtime m) else pm_Command m)"

definition EffectiveArgs :: "PluginManifest \<Rightarrow> string list" where
  "EffectiveArgs m = (if length (mr_Args (pm_Runtime m)) > 0 then mr_Args (pm_Runtime m) else pm_Args m)"

definition EffectiveTimeoutSeconds :: "PluginManifest \<Rightarrow> int" where
  "EffectiveTimeoutSeconds m = (if mr_TimeoutSeconds (pm_Runtime m) > 0 then mr_TimeoutSeconds (pm_Runtime m)
     else pm_TimeoutSeconds m)"

section \<open>Decoding\<close>

text \<open>
  \<^verbatim>\<open>json.Unmarshal\<close> into a struct: keys match without regard to (ASCII) case, \<^verbatim>\<open>null\<close> leaves a
  field (clears a slice or a map), a later duplicate overwrites, a nested struct or a map is
  added to, unknown keys are ignored, a value of the wrong type is an error. A \<^verbatim>\<open>null\<close> in an
  array is the zero value.
\<close>

type_synonym 'a decoder = "jval \<Rightarrow> 'a \<Rightarrow> 'a option"

definition dec_struct :: "(string \<times> 'a decoder) list \<Rightarrow> 'a decoder" where
  "dec_struct table v r = (case v of
       JNull \<Rightarrow> Some r
     | JObj kvs \<Rightarrow> foldl (\<lambda>q (k, x). case q of None \<Rightarrow> None
         | Some r \<Rightarrow> (case map_of table (to_lower k) of None \<Rightarrow> Some r | Some d \<Rightarrow> d x r)) (Some r) kvs
     | _ \<Rightarrow> None)"

definition dec_string :: "string decoder" where
  "dec_string v s = (case v of JNull \<Rightarrow> Some s | JStr t \<Rightarrow> Some t | _ \<Rightarrow> None)"

definition dec_bool :: "bool decoder" where
  "dec_bool v b = (case v of JNull \<Rightarrow> Some b | JBool c \<Rightarrow> Some c | _ \<Rightarrow> None)"

definition dec_int :: "int decoder" where
  "dec_int v n = (case v of JNull \<Rightarrow> Some n | JNum t \<Rightarrow> parse_int t | _ \<Rightarrow> None)"

fun dec_all :: "'a \<Rightarrow> 'a decoder \<Rightarrow> jval list \<Rightarrow> 'a list option" where
  "dec_all zero d [] = Some []"
| "dec_all zero d (v # vs) = (case d v zero of None \<Rightarrow> None
     | Some x \<Rightarrow> map_option (\<lambda>xs. x # xs) (dec_all zero d vs))"

definition dec_list :: "'a \<Rightarrow> 'a decoder \<Rightarrow> 'a list decoder" where
  "dec_list zero d v r = (case v of JNull \<Rightarrow> Some [] | JArr vs \<Rightarrow> dec_all zero d vs | _ \<Rightarrow> None)"

definition put_pair :: "(string \<times> 'v) list \<Rightarrow> string \<times> 'v \<Rightarrow> (string \<times> 'v) list" where
  "put_pair m kv = (if fst kv \<in> fst ` set m then map (\<lambda>p. if fst p = fst kv then kv else p) m else m @ [kv])"

definition dec_string_map :: "(string \<times> string) list decoder" where
  "dec_string_map v m = (case v of JNull \<Rightarrow> Some []
     | JObj kvs \<Rightarrow> map_option (\<lambda>xs. foldl put_pair m (zip (map fst kvs) xs)) (dec_all [] dec_string (map snd kvs))
     | _ \<Rightarrow> None)"

definition dec_any_map :: "jobj option decoder" where
  "dec_any_map v m = (case v of JNull \<Rightarrow> Some None | JObj kvs \<Rightarrow> Some (merge_map m kvs) | _ \<Rightarrow> None)"

text \<open>A decoder of a field, from one of its value.\<close>

definition into :: "('r \<Rightarrow> 'f) \<Rightarrow> (('f \<Rightarrow> 'f) \<Rightarrow> 'r \<Rightarrow> 'r) \<Rightarrow> 'f decoder \<Rightarrow> 'r decoder" where
  "into get upd d v r = map_option (\<lambda>x. upd (\<lambda>_. x) r) (d v (get r))"

definition dec_metadata :: "ManifestMetadata decoder" where
  "dec_metadata = dec_struct
     [(''name'', into me_Name me_Name_update dec_string),
      (''displayname'', into me_DisplayName me_DisplayName_update dec_string),
      (''version'', into me_Version me_Version_update dec_string),
      (''description'', into me_Description me_Description_update dec_string),
      (''license'', into me_License me_License_update dec_string)]"

definition dec_runtime :: "ManifestRuntime decoder" where
  "dec_runtime = dec_struct
     [(''type'', into mr_Type mr_Type_update dec_string),
      (''protocol'', into mr_Protocol mr_Protocol_update dec_string),
      (''entrypoint'', into mr_Entrypoint mr_Entrypoint_update dec_string),
      (''command'', into mr_Command mr_Command_update dec_string),
      (''args'', into mr_Args mr_Args_update (dec_list [] dec_string)),
      (''image'', into mr_Image mr_Image_update dec_string),
      (''env'', into mr_Env mr_Env_update dec_string_map),
      (''secretrefs'', into mr_SecretRefs mr_SecretRefs_update dec_string_map),
      (''timeoutseconds'', into mr_TimeoutSeconds mr_TimeoutSeconds_update dec_int)]"

definition dec_compat :: "ManifestCompat decoder" where
  "dec_compat = dec_struct
     [(''coreapi'', into mc_CoreAPI mc_CoreAPI_update dec_string),
      (''protocolversion'', into mc_ProtocolVersion mc_ProtocolVersion_update dec_int),
      (''sdk'', into mc_SDK mc_SDK_update dec_any_map)]"

definition dec_fs_rule :: "ManifestFSRule decoder" where
  "dec_fs_rule = dec_struct
     [(''path'', into fr_Path fr_Path_update dec_string), (''mode'', into fr_Mode fr_Mode_update dec_string)]"

definition dec_process :: "ManifestProcess decoder" where
  "dec_process = dec_struct
     [(''allowsubprocess'', into mp_AllowSubprocess mp_AllowSubprocess_update dec_bool),
      (''allowedcommands'', into mp_AllowedCommands mp_AllowedCommands_update (dec_list [] dec_string))]"

definition dec_permissions :: "ManifestPermissions decoder" where
  "dec_permissions = dec_struct
     [(''network'', into mq_Network mq_Network_update dec_string),
      (''fs'', into mq_FS mq_FS_update (dec_list \<lparr>fr_Path = [], fr_Mode = []\<rparr> dec_fs_rule)),
      (''process'', into mq_Process mq_Process_update dec_process)]"

definition dec_resources :: "ManifestResources decoder" where
  "dec_resources = dec_struct
     [(''cpu'', into mz_CPU mz_CPU_update dec_string), (''memory'', into mz_Memory mz_Memory_update dec_string),
      (''pids'', into mz_PIDs mz_PIDs_update dec_int), (''tempdisk'', into mz_TempDisk mz_TempDisk_update dec_string)]"

definition dec_security :: "ManifestSecurity decoder" where
  "dec_security = dec_struct
     [(''checksum'', into ms_Checksum ms_Checksum_update dec_string),
      (''signature'', into ms_Signature ms_Signature_update dec_string),
      (''attestation'', into ms_Attestation ms_Attestation_update dec_string),
      (''sbom'', into ms_SBOM ms_SBOM_update dec_string)]"

definition zero_manifest :: PluginManifest where
  "zero_manifest = \<lparr>pm_APIVersion = [], pm_Kind = [],
     pm_Metadata = \<lparr>me_Name = [], me_DisplayName = [], me_Version = [], me_Description = [], me_License = []\<rparr>,
     pm_Runtime = \<lparr>mr_Type = [], mr_Protocol = [], mr_Entrypoint = [], mr_Command = [], mr_Args = [], mr_Image = [],
       mr_Env = [], mr_SecretRefs = [], mr_TimeoutSeconds = 0\<rparr>,
     pm_Compat = \<lparr>mc_CoreAPI = [], mc_ProtocolVersion = 0, mc_SDK = None\<rparr>, pm_Capabilities = [],
     pm_Permissions = \<lparr>mq_Network = [], mq_FS = [], mq_Process = \<lparr>mp_AllowSubprocess = False, mp_AllowedCommands = []\<rparr>\<rparr>,
     pm_Resources = \<lparr>mz_CPU = [], mz_Memory = [], mz_PIDs = 0, mz_TempDisk = []\<rparr>,
     pm_Security = \<lparr>ms_Checksum = [], ms_Signature = [], ms_Attestation = [], ms_SBOM = []\<rparr>,
     pm_Name = [], pm_Version = [], pm_Description = [], pm_EntryType = [], pm_Command = [], pm_Args = [],
     pm_TimeoutSeconds = 0, pm_InputSchema = None, pm_OutputSchema = None\<rparr>"

definition dec_manifest :: "PluginManifest decoder" where
  "dec_manifest = dec_struct
     [(''apiversion'', into pm_APIVersion pm_APIVersion_update dec_string),
      (''kind'', into pm_Kind pm_Kind_update dec_string),
      (''metadata'', into pm_Metadata pm_Metadata_update dec_metadata),
      (''runtime'', into pm_Runtime pm_Runtime_update dec_runtime),
      (''compat'', into pm_Compat pm_Compat_update dec_compat),
      (''capabilities'', into pm_Capabilities pm_Capabilities_update (dec_list [] dec_string)),
      (''permissions'', into pm_Permissions pm_Permissions_update dec_permissions),
      (''resources'', into pm_Resources pm_Resources_update dec_resources),
      (''security'', into pm_Security pm_Security_update dec_security),
      (''name'', into pm_Name pm_Name_update dec_string),
      (''version'', into pm_Version pm_Version_update dec_string),
      (''description'', into pm_Description pm_Description_update dec_string),
      (''entry_type'', into pm_EntryType pm_EntryType_update dec_string),
      (''command'', into pm_Command pm_Command_update dec_string),
      (''args'', into pm_Args pm_Args_update (dec_list [] dec_string)),
      (''timeout_seconds'', into pm_TimeoutSeconds pm_TimeoutSeconds_update dec_int),
      (''input_schema'', into pm_InputSchema pm_InputSchema_update dec_any_map),
      (''output_schema'', into pm_OutputSchema pm_OutputSchema_update dec_any_map)]"

section \<open>Validation\<close>

definition manifest_invalid :: "string \<Rightarrow> go_error" where
  "manifest_invalid msg = NewAppError CodeManifestInvalid msg"

definition validate_protocol :: "PluginManifest \<Rightarrow> go_error option" where
  "validate_protocol m = (if mr_Protocol (pm_Runtime m) \<noteq> [] \<and> mr_Protocol (pm_Runtime m) \<noteq> ''stdio-json''
     then Some (manifest_invalid ''only stdio-json protocol is supported in this runtime'') else None)"

definition validate_entry :: "PluginManifest \<Rightarrow> go_error option" where
  "validate_entry m =
     (if EffectiveEntryType m = ''process'' then
        (if EffectiveCommand m = [] then Some (manifest_invalid ''process manifest requires command'') else validate_protocol m)
      else if EffectiveEntryType m = ''container'' then
        (if trim_space (mr_Image (pm_Runtime m)) = [] then Some (manifest_invalid ''container manifest requires runtime.image'')
         else validate_protocol m)
      else Some (manifest_invalid ''only process and container runtime types are supported''))"

definition ValidateManifest :: "PluginManifest \<Rightarrow> go_error option" where
  "ValidateManifest m =
     (if pm_APIVersion m \<noteq> [] \<and> pm_APIVersion m \<noteq> ''plugin.exec/v1'' then
        Some (manifest_invalid ''unsupported manifest apiVersion'')
      else if pm_Kind m \<noteq> [] \<and> pm_Kind m \<noteq> ''Plugin'' then Some (manifest_invalid ''unsupported manifest kind'')
      else if EffectiveName m = [] \<or> EffectiveVersion m = [] then
        Some (manifest_invalid ''manifest requires name and version'')
      else case validate_entry m of Some e \<Rightarrow> Some e | None \<Rightarrow>
        if EffectiveTimeoutSeconds m \<le> 0 then Some (manifest_invalid ''timeout_seconds must be positive'')
        else if mq_Network (pm_Permissions m) = [] then None
        else if mq_Network (pm_Permissions m) \<in> {''none'', ''egress'', ''host''} then None
        else Some (manifest_invalid ''unsupported network permission''))"

section \<open>Integrity\<close>

definition isReleaseChecksum :: "string \<Rightarrow> bool" where
  "isReleaseChecksum checksum =
     (let checksum = trim_space (trim_prefix checksum ''sha256:'')
      in length checksum = 64 \<and> hex_decodes checksum)"

text \<open>The errors of \<^verbatim>\<open>filepath.Abs\<close> and \<^verbatim>\<open>Rel\<close>: a missing working directory.\<close>

definition getwd_error :: go_error where "getwd_error = PlainError ''getwd''"

definition safeJoinPluginPath :: "env \<Rightarrow> string \<Rightarrow> string \<Rightarrow> go_error + string" where
  "safeJoinPluginPath v root relPath =
     (let clean = Clean relPath; escape = manifest_invalid ''entrypoint path cannot escape plugin directory'' in
      if contains clean [CHR 0x00] \<or> is_abs clean \<or> has_prefix clean ''..'' then Inl escape
      else let full = Join [root, clean] in
        case Abs (work_dir v) root of None \<Rightarrow> Inl getwd_error | Some absRoot \<Rightarrow>
        case Abs (work_dir v) full of None \<Rightarrow> Inl getwd_error | Some absFull \<Rightarrow>
        case Rel absRoot absFull of None \<Rightarrow> Inl escape | Some rel \<Rightarrow>
          if has_prefix rel ''..'' \<or> is_abs rel then Inl escape else Inr full)"

definition checksumTarget :: "env \<Rightarrow> PluginManifest \<Rightarrow> string \<Rightarrow> go_error + string" where
  "checksumTarget v m dir =
     (if EffectiveEntryType m = ''container'' then
        Inl (manifest_invalid ''container signatures require image attestations; file checksum is only supported for process plugins'')
      else let cmd = EffectiveCommand m in
        if contains_any cmd [CHR ''/'', CHR 0x5C] \<and> \<not> is_abs cmd then safeJoinPluginPath v dir cmd
        else case EffectiveArgs m of
            a # _ \<Rightarrow> if a \<noteq> [] \<and> \<not> has_prefix a ''-'' \<and> \<not> is_abs a then safeJoinPluginPath v dir a
              else Inl (manifest_invalid ''security.checksum requires a relative entrypoint file'')
          | [] \<Rightarrow> Inl (manifest_invalid ''security.checksum requires a relative entrypoint file''))"

definition VerifyChecksum :: "env \<Rightarrow> PluginManifest \<Rightarrow> string \<Rightarrow> go_error option" where
  "VerifyChecksum v m dir =
     (let want = trim_space (ms_Checksum (pm_Security m)) in
      if want = [] then None
      else let want = trim_prefix want ''sha256:'' in
      if length want \<noteq> 64 then None
      else case checksumTarget v m dir of Inl err \<Rightarrow> Some err | Inr target \<Rightarrow>
      case read_file v target of
        Inl err \<Rightarrow> Some (NewDetailedError CodeManifestInvalid ''cannot read checksum target'' (error_text err))
      | Inr b \<Rightarrow> if to_lower (sha256_hex v b) \<noteq> to_lower want
          then Some (NewDetailedError CodeManifestInvalid ''plugin checksum mismatch'' (''target='' @ Base_name target)) else None)"

type_synonym ManifestService = "string list"   \<comment> \<open>the trusted keys\<close>

definition VerifySignature :: "env \<Rightarrow> ManifestService \<Rightarrow> PluginManifest \<Rightarrow> string \<Rightarrow> go_error option" where
  "VerifySignature v trusted m dir =
     (let sigText = trim_space (ms_Signature (pm_Security m)) in
      if sigText = [] \<or> sigText = ''dev-local'' then None
      else if \<not> has_prefix sigText ''ed25519:'' then Some (manifest_invalid ''unsupported plugin signature format'')
      else if length trusted = 0 then
        Some (manifest_invalid ''plugin signature provided but no trusted public keys configured'')
      else case checksumTarget v m dir of Inl err \<Rightarrow> Some err | Inr target \<Rightarrow>
      case read_file v target of
        Inl err \<Rightarrow> Some (NewDetailedError CodeManifestInvalid ''cannot read signature target'' (error_text err))
      | Inr payload \<Rightarrow> (case base64_decode (trim_prefix sigText ''ed25519:'') of
          Inl err \<Rightarrow> Some (NewDetailedError CodeManifestInvalid ''invalid plugin signature encoding'' (error_text err))
        | Inr sig \<Rightarrow> if list_ex (\<lambda>key. ed25519_verify v key payload sig) trusted then None
            else Some (manifest_invalid ''plugin signature verification failed'')))"

definition VerifyIntegrity :: "env \<Rightarrow> ManifestService \<Rightarrow> PluginManifest \<Rightarrow> string \<Rightarrow> go_error option" where
  "VerifyIntegrity v trusted m dir = (case VerifyChecksum v m dir of Some err \<Rightarrow> Some err
     | None \<Rightarrow> VerifySignature v trusted m dir)"

definition parseTrustedEd25519Keys :: "string list \<Rightarrow> string list" where
  "parseTrustedEd25519Keys items = List.map_filter (\<lambda>item.
     let item = trim_space (trim_prefix item ''ed25519:'') in
     if item = [] then None
     else case base64_decode item of Inl _ \<Rightarrow> None | Inr b \<Rightarrow> if length b \<noteq> 32 then None else Some b) items"

definition NewManifestService :: "string list \<Rightarrow> ManifestService" where
  "NewManifestService trustedPublicKeys = parseTrustedEd25519Keys trustedPublicKeys"

section \<open>Reading a manifest and building the plugin\<close>

definition LoadManifest :: "env \<Rightarrow> ManifestService \<Rightarrow> string \<Rightarrow> go_error + (PluginManifest \<times> string)" where
  "LoadManifest v trusted path =
     (case read_file v path of Inl err \<Rightarrow> Inl err | Inr b \<Rightarrow>
      case Option.bind (json_parse v b) (\<lambda>x. dec_manifest x zero_manifest) of
        None \<Rightarrow> Inl (NewDetailedError CodeManifestInvalid ''invalid manifest json'' (json_error v b))
      | Some m \<Rightarrow> case ValidateManifest m of Some err \<Rightarrow> Inl err | None \<Rightarrow>
      case VerifyIntegrity v trusted m (Dir_name path) of Some err \<Rightarrow> Inl err | None \<Rightarrow> Inr (m, b))"

text \<open>The fields the service sets; the others are zero until the plugin service fills them.\<close>

definition zero_plugin :: Plugin where
  "zero_plugin = \<lparr>pl_TenantID = [], pl_ProjectID = [], pl_ID = [], pl_Name = [], pl_Version = [], pl_Description = [],
     pl_EntryType = [], pl_Command = [], pl_Args = [], pl_Image = [], pl_Env = [], pl_SecretRefs = [], pl_WorkDir = [],
     pl_TimeoutSeconds = 0, pl_MemoryLimit = [], pl_CPULimit = [], pl_PIDsLimit = 0, pl_Status = PluginStatusRaw [],
     pl_ErrorMessage = [], pl_APIVersion = [], pl_Protocol = [], pl_Capabilities = [], pl_NetworkPolicy = [],
     pl_Checksum = [], pl_ChecksumVerified = False, pl_CreatedAt = 0, pl_UpdatedAt = 0\<rparr>"

definition BuildPluginFromManifest :: "PluginManifest \<Rightarrow> string \<Rightarrow> Plugin" where
  "BuildPluginFromManifest m dir = zero_plugin\<lparr>
     pl_TenantID := DefaultTenantID, pl_ProjectID := DefaultProjectID, pl_Name := EffectiveName m,
     pl_Version := EffectiveVersion m, pl_Description := EffectiveDescription m, pl_EntryType := EffectiveEntryType m,
     pl_Command := EffectiveCommand m, pl_Args := EffectiveArgs m, pl_Image := trim_space (mr_Image (pm_Runtime m)),
     pl_Env := mr_Env (pm_Runtime m), pl_SecretRefs := mr_SecretRefs (pm_Runtime m), pl_WorkDir := dir,
     pl_TimeoutSeconds := EffectiveTimeoutSeconds m, pl_MemoryLimit := mz_Memory (pm_Resources m),
     pl_CPULimit := mz_CPU (pm_Resources m), pl_PIDsLimit := mz_PIDs (pm_Resources m), pl_APIVersion := pm_APIVersion m,
     pl_Protocol := mr_Protocol (pm_Runtime m), pl_Capabilities := pm_Capabilities m,
     pl_NetworkPolicy := mq_Network (pm_Permissions m), pl_Checksum := ms_Checksum (pm_Security m),
     pl_ChecksumVerified := isReleaseChecksum (ms_Checksum (pm_Security m))\<rparr>"

definition HashManifest :: "env \<Rightarrow> string \<Rightarrow> string" where
  "HashManifest v b = sha256_hex v b"

definition ManifestPath :: "string \<Rightarrow> string" where
  "ManifestPath pluginDir = Join [pluginDir, ''manifest.json'']"

section \<open>What a manifest that was loaded guarantees\<close>

text \<open>A file below a directory: its absolute path extends the directory's by components.\<close>

definition below_dir :: "env \<Rightarrow> string \<Rightarrow> string \<Rightarrow> bool" where
  "below_dir v dir file \<longleftrightarrow> (case (Abs (work_dir v) dir, Abs (work_dir v) file) of
     (Some d, Some f) \<Rightarrow> take (length (comps d)) (comps f) = comps d | _ \<Rightarrow> False)"

lemma safeJoinPluginPath_below: "safeJoinPluginPath v root rel = Inr full \<Longrightarrow> below_dir v root full"
  by (auto simp: safeJoinPluginPath_def Let_def below_dir_def split: if_splits option.splits dest!: Rel_below)

lemma checksumTarget_below: "checksumTarget v m dir = Inr target \<Longrightarrow> below_dir v dir target"
  by (auto simp: checksumTarget_def Let_def split: if_splits list.splits dest: safeJoinPluginPath_below)

definition valid_manifest :: "PluginManifest \<Rightarrow> bool" where
  "valid_manifest m \<longleftrightarrow> pm_APIVersion m \<in> {[], ''plugin.exec/v1''} \<and> pm_Kind m \<in> {[], ''Plugin''} \<and>
     EffectiveName m \<noteq> [] \<and> EffectiveVersion m \<noteq> [] \<and> 0 < EffectiveTimeoutSeconds m \<and>
     mr_Protocol (pm_Runtime m) \<in> {[], ''stdio-json''} \<and>
     mq_Network (pm_Permissions m) \<in> {[], ''none'', ''egress'', ''host''} \<and>
     (EffectiveEntryType m = ''process'' \<and> EffectiveCommand m \<noteq> [] \<or>
      EffectiveEntryType m = ''container'' \<and> trim_space (mr_Image (pm_Runtime m)) \<noteq> [])"

lemma ValidateManifest_iff: "ValidateManifest m = None \<longleftrightarrow> valid_manifest m"
  by (auto simp: ValidateManifest_def validate_entry_def validate_protocol_def valid_manifest_def split: option.split)


section \<open>A digest that is never checked\<close>

definition spaced_checksum :: string where
  "spaced_checksum = ''sha256: '' @ replicate 64 CHR ''0''"

lemma spaced_checksum_facts:
  "trim_space spaced_checksum = spaced_checksum" "isReleaseChecksum spaced_checksum" "spaced_checksum \<noteq> []"
  "length (trim_prefix spaced_checksum ''sha256:'') = 65"
  by code_simp+

text \<open>
  A blank after the prefix switches the check off without the plugin losing its mark: with such
  a checksum no file is read and nothing is compared, whatever the manifest and the directory, and
  the plugin built from the manifest is recorded as verified. The check trims before it removes the
  prefix, the mark the other way round.
\<close>

theorem checksum_gap:
  "let m' = m\<lparr>pm_Security := (pm_Security m)\<lparr>ms_Checksum := spaced_checksum\<rparr>\<rparr>
   in VerifyChecksum v m' dir = None \<and> pl_ChecksumVerified (BuildPluginFromManifest m' dir)"
  by (simp add: VerifyChecksum_def BuildPluginFromManifest_def spaced_checksum_facts Let_def)

end
