(* ===== verification/Registry.thy ===== *)
theory Registry
  imports Manifest Postgres
begin

text \<open>
  \<^verbatim>\<open>internal/service/registry.go\<close>: synchronising the plugin store with a directory of
  plugins. Every sub-directory with a manifest that loads gives a plugin; what is in the store and
  was not seen is marked as removed. The service runs over any plugin store and any
  \<^verbatim>\<open>repository.RegistryStore\<close>.
\<close>

section \<open>The service\<close>

record RegistryStore =
  gs_UpsertRegistryRecord :: "PluginRegistryRecord \<Rightarrow> unit prog_w"
  gs_GetByPluginID :: "string \<Rightarrow> PluginRegistryRecord option prog_w"
  gs_ListRegistryRecords :: "PluginRegistryRecord list prog_w"

definition json_registry :: RegistryStore where
  "json_registry = \<lparr>gs_UpsertRegistryRecord = Registry_Upsert, gs_GetByPluginID = Registry_GetByPluginID,
     gs_ListRegistryRecords = Registry_List\<rparr>"

definition pg_registry :: RegistryStore where
  "pg_registry = \<lparr>gs_UpsertRegistryRecord = PgRegistry_Upsert, gs_GetByPluginID = PgRegistry_GetByPluginID,
     gs_ListRegistryRecords = PgRegistry_List\<rparr>"

record RegistryService =
  gy_manifest :: ManifestService
  gy_registry :: RegistryStore
  gy_pluginRepo :: "world PluginStore"   \<comment> \<open>of the plugin service and of the registry service\<close>

definition zero_sync :: RegistrySyncResult where
  "zero_sync = \<lparr>sy_Created = 0, sy_Updated = 0, sy_Removed = 0, sy_Errors = []\<rparr>"

text \<open>A lookup whose error is dropped: the zero plugin, and not found.\<close>

definition find_plugin :: "world PluginStore \<Rightarrow> string \<Rightarrow> string \<Rightarrow> (Plugin \<times> bool) prog_w" where
  "find_plugin S name version = tryE (ps_GetByNameVersion S name version) (\<lambda>r. retE (case r of
     Inr (Some p) \<Rightarrow> (p, True) | _ \<Rightarrow> (zero_plugin, False)))"

definition sync_record :: "env \<Rightarrow> Plugin \<Rightarrow> string \<Rightarrow> string \<Rightarrow> time \<Rightarrow> PluginRegistryRecord" where
  "sync_record v saved dir b now = \<lparr>rg_ID = ''registry_'' @ pl_ID saved, rg_PluginID = pl_ID saved, rg_Name = pl_Name saved,
     rg_Version = pl_Version saved, rg_SourcePath = dir, rg_ManifestHash = HashManifest v b, rg_LastSeenAt = now, rg_SyncedAt = now\<rparr>"

text \<open>One directory: the result so far, and the identifiers seen.\<close>

definition sync_dir :: "RegistryService \<Rightarrow> string \<Rightarrow> string \<Rightarrow> RegistrySyncResult \<times> string list
    \<Rightarrow> (RegistrySyncResult \<times> string list) prog_w" where
  "sync_dir S root name acc = (case acc of (res, seen) \<Rightarrow> bindE (getE w_env) (\<lambda>v.
     let dir = Join [root, name] in
     case LoadManifest v (gy_manifest S) (ManifestPath dir) of
       Inl err \<Rightarrow> retE (res\<lparr>sy_Errors := sy_Errors res @ [name @ '': '' @ error_text err]\<rparr>, seen)
     | Inr (m, b) \<Rightarrow>
         let p = BuildPluginFromManifest m dir in
         bindE (find_plugin (gy_pluginRepo S) (pl_Name p) (pl_Version p)) (\<lambda>(existed, ok).
         tryE (UpsertFromManifest (gy_pluginRepo S) p) (\<lambda>r. case r of
           Inl err \<Rightarrow> retE (res\<lparr>sy_Errors := sy_Errors res @ [error_text err]\<rparr>, seen)
         | Inr _ \<Rightarrow>
             bindE (find_plugin (gy_pluginRepo S) (pl_Name p) (pl_Version p)) (\<lambda>(saved, _).
             bindE time_now (\<lambda>now.
             tryE (gs_UpsertRegistryRecord (gy_registry S) (sync_record v saved dir b now)) (\<lambda>_.
             retE ((if ok \<and> pl_ID existed \<noteq> [] then res\<lparr>sy_Updated := sy_Updated res + 1\<rparr>
                    else res\<lparr>sy_Created := sy_Created res + 1\<rparr>), seen @ [pl_ID saved])))))))) "

fun sync_dirs :: "RegistryService \<Rightarrow> string \<Rightarrow> (string \<times> bool) list \<Rightarrow> RegistrySyncResult \<times> string list
    \<Rightarrow> (RegistrySyncResult \<times> string list) prog_w" where
  "sync_dirs S root [] acc = retE acc"
| "sync_dirs S root ((name, is_dir) # es) acc =
     (if \<not> is_dir then sync_dirs S root es acc
      else bindE (sync_dir S root name acc) (sync_dirs S root es))"

text \<open>What was not seen is marked as removed; an error of the update is dropped.\<close>

fun remove_unseen :: "world PluginStore \<Rightarrow> string list \<Rightarrow> Plugin list \<Rightarrow> RegistrySyncResult \<Rightarrow> RegistrySyncResult prog_w" where
  "remove_unseen S seen [] res = retE res"
| "remove_unseen S seen (p # ps) res =
     (if pl_Status p \<noteq> PluginStatusRemoved \<and> pl_ID p \<notin> set seen then
        bindE time_now (\<lambda>now.
        tryE (ps_Update S (p\<lparr>pl_Status := PluginStatusRemoved, pl_UpdatedAt := now\<rparr>)) (\<lambda>_.
        remove_unseen S seen ps (res\<lparr>sy_Removed := sy_Removed res + 1\<rparr>)))
      else remove_unseen S seen ps res)"

definition ReloadPlugins :: "RegistryService \<Rightarrow> string \<Rightarrow> RegistrySyncResult prog_w" where
  "ReloadPlugins S root = bindE (getE w_env) (\<lambda>v. case read_dir v root of
      Inl err \<Rightarrow> failE err
    | Inr entries \<Rightarrow> bindE (sync_dirs S root entries (zero_sync, [])) (\<lambda>(res, seen).
        tryE (ps_List (gy_pluginRepo S)) (\<lambda>r.
          remove_unseen (gy_pluginRepo S) seen (case r of Inr ps \<Rightarrow> ps | Inl _ \<Rightarrow> []) res)))"

definition ScanAndSync :: "RegistryService \<Rightarrow> string \<Rightarrow> RegistrySyncResult prog_w" where
  "ScanAndSync S root = ReloadPlugins S root"

end
