(* ===== verification/Http.thy ===== *)
theory Http
  imports Registry Access Webhook Execution
begin

text \<open>
  The HTTP side of the server: \<^verbatim>\<open>internal/response\<close> (envelopes), \<^verbatim>\<open>internal/validator/request.go\<close>,
  \<^verbatim>\<open>internal/handler/pagination.go\<close> and \<^verbatim>\<open>internal/middleware\<close>. A request carries the path without
  percent escapes, its headers and query values as lookups, and its body as the first JSON value it
  holds. A handler answers a request in the context the middleware has set up; \<open>None\<close> stands for a
  panic, which the recovery middleware turns into an error.
\<close>

section \<open>Requests and replies\<close>

record http_req =
  hq_Method :: string
  hq_Path :: string
  hq_Header :: "string \<Rightarrow> string"   \<comment> \<open>\<open>r.Header.Get\<close>: empty if absent\<close>
  hq_Query :: "string \<Rightarrow> string"    \<comment> \<open>\<open>r.URL.Query().Get\<close>\<close>
  hq_Body :: "jval option"
  hq_Ctx :: ctx

record req_ctx =
  rc_RequestID :: string
  rc_TraceID :: string
  rc_Flusher :: bool                \<comment> \<open>the writer of the reply is an \<open>http.Flusher\<close>\<close>
  rc_User :: "CurrentUser option"

datatype payload = PNone
  | PToken string CurrentUser | PUser CurrentUser
  | PExecution Execution | PExecutions "Execution list"
  | PResults "ExecutionResult list" | PSummary ExecutionSummary
  | PEvents "ExecutionEvent list" | PAttempts "ExecutionAttempt list"
  | PPlugin Plugin | PPlugins "Plugin list" | PSync RegistrySyncResult
  | PAudit "AuditLog list"
  | PWebhook WebhookEndpoint | PWebhookSecret WebhookEndpoint string | PWebhooks "WebhookEndpoint list"
  | PDeliveries "WebhookDelivery list" | PDeleted
  | PLive time | PReady bool string | PText jobj
  | PPage int int int payload          \<comment> \<open>page, page size, total, items\<close>

record envelope =
  re_Status :: nat
  re_Code :: code
  re_Message :: string
  re_Data :: payload
  re_Error :: "(code \<times> string \<times> string) option"
  re_RequestID :: string

text \<open>
  A reply is an envelope, a stream of events with those sent first, a redirection, a text page, or a
  file with its status (the file server of the library is not modelled beyond whether the file exists).
\<close>

datatype reply = Reply envelope | Stream "ExecutionEvent list" | Redirect string | TextPage | FileReply nat string | NotFound

definition Success :: "string \<Rightarrow> payload \<Rightarrow> reply" where
  "Success requestID d = Reply \<lparr>re_Status = 200, re_Code = CodeOK, re_Message = ''ok'', re_Data = d, re_Error = None, re_RequestID = requestID\<rparr>"

definition Created :: "string \<Rightarrow> payload \<Rightarrow> reply" where
  "Created requestID d = Reply \<lparr>re_Status = 201, re_Code = CodeOK, re_Message = ''created'', re_Data = d, re_Error = None, re_RequestID = requestID\<rparr>"

definition Fail :: "string \<Rightarrow> go_error \<Rightarrow> reply" where
  "Fail requestID err =
     (let app = (case err of AppError c m d \<Rightarrow> (c, m, d) | PlainError _ \<Rightarrow> (CodeInternalError, ''internal error'', []))
      in Reply \<lparr>re_Status = HTTPStatusFromError err, re_Code = fst app, re_Message = fst (snd app), re_Data = PNone,
           re_Error = Some app, re_RequestID = requestID\<rparr>)"

definition Page :: "string \<Rightarrow> payload \<Rightarrow> reply" where
  "Page requestID d = Success requestID d"

section \<open>Handlers\<close>

type_synonym handler = "http_req \<Rightarrow> req_ctx \<Rightarrow> world \<Rightarrow> reply option \<times> world"

definition reply_with :: "reply \<Rightarrow> world \<Rightarrow> reply option \<times> world" where
  "reply_with r w = (Some r, w)"

text \<open>\<open>x, err := m; if err != nil { response.Fail; return }; k x\<close>\<close>

definition orFail :: "req_ctx \<Rightarrow> 'a prog_w \<Rightarrow> ('a \<Rightarrow> world \<Rightarrow> reply option \<times> world) \<Rightarrow> world \<Rightarrow> reply option \<times> world" where
  "orFail c m k w = (case m w of (Inl err, t) \<Rightarrow> (Some (Fail (rc_RequestID c) err), t) | (Inr x, t) \<Rightarrow> k x t)"

definition login_required :: go_error where
  "login_required = NewAppError CodeUnauthorized ''login required''"

text \<open>\<open>user, ok := CurrentUserFromContext; if !ok { Fail; return }; k user\<close>\<close>

definition withUser :: "req_ctx \<Rightarrow> (CurrentUser \<Rightarrow> world \<Rightarrow> reply option \<times> world) \<Rightarrow> world \<Rightarrow> reply option \<times> world" where
  "withUser c k w = (case rc_User c of None \<Rightarrow> (Some (Fail (rc_RequestID c) login_required), w) | Some u \<Rightarrow> k u w)"

text \<open>\<open>user, _ := CurrentUserFromContext\<close>\<close>

definition zero_user :: CurrentUser where
  "zero_user = \<lparr>cu_TenantID = [], cu_ProjectID = [], cu_ID = [], cu_Username = [], cu_Role = RoleRaw []\<rparr>"

definition user_or_zero :: "req_ctx \<Rightarrow> CurrentUser" where
  "user_or_zero c = (case rc_User c of None \<Rightarrow> zero_user | Some u \<Rightarrow> u)"

section \<open>Bodies\<close>

record CreateExecutionRequest =
  cr_PluginIDs :: "string list"
  cr_Input :: "jobj option"

record LoginRequest =
  lr_Username :: string
  lr_Password :: string
  lr_Token :: string

definition ValidateCreateExecutionRequest :: "CreateExecutionRequest \<Rightarrow> bool" where
  "ValidateCreateExecutionRequest req \<longleftrightarrow> length (cr_PluginIDs req) > 0 \<and> cr_Input req \<noteq> None"

definition ValidateLoginRequest :: "LoginRequest \<Rightarrow> bool" where
  "ValidateLoginRequest req \<longleftrightarrow> lr_Token req \<noteq> [] \<or> (lr_Username req \<noteq> [] \<and> lr_Password req \<noteq> [])"

definition dec_create_execution :: "CreateExecutionRequest decoder" where
  "dec_create_execution = dec_struct
     [(''plugin_ids'', into cr_PluginIDs cr_PluginIDs_update (dec_list [] dec_string)),
      (''input'', into cr_Input cr_Input_update dec_any_map)]"

definition dec_login :: "LoginRequest decoder" where
  "dec_login = dec_struct
     [(''username'', into lr_Username lr_Username_update dec_string),
      (''password'', into lr_Password lr_Password_update dec_string),
      (''token'', into lr_Token lr_Token_update dec_string)]"

definition dec_webhook :: "CreateWebhookInput decoder" where
  "dec_webhook = dec_struct
     [(''name'', into ci_Name ci_Name_update dec_string), (''url'', into ci_URL ci_URL_update dec_string),
      (''secret'', into ci_Secret ci_Secret_update dec_string),
      (''events'', into ci_Events ci_Events_update (dec_list [] dec_string))]"

definition decode_body :: "'a decoder \<Rightarrow> 'a \<Rightarrow> http_req \<Rightarrow> 'a option" where
  "decode_body d zero r = Option.bind (hq_Body r) (\<lambda>v. d v zero)"

section \<open>Pagination\<close>

text \<open>
  \<^verbatim>\<open>n, _ := strconv.Atoi(s)\<close>: 0 for a text that is not a number, the nearest bound for one out of
  range.
\<close>

definition atoi_or_bound :: "string \<Rightarrow> int" where
  "atoi_or_bound s =
     (case (if has_prefix s ''-'' then map_option uminus (parse_digits (drop 1 s))
        else if has_prefix s ''+'' then parse_digits (drop 1 s) else parse_digits s) of
        None \<Rightarrow> 0 | Some n \<Rightarrow> max (- (2 ^ 63)) (min n (2 ^ 63 - 1)))"

definition PageQueryFromRequest :: "http_req \<Rightarrow> PageQuery" where
  "PageQueryFromRequest r = NormalizePageQuery
     \<lparr>pq_Page = atoi_or_bound (hq_Query r ''page''), pq_PageSize = atoi_or_bound (hq_Query r ''page_size'')\<rparr>"

text \<open>The slice expression panics on a negative or reversed range; the arithmetic wraps.\<close>

definition go_slice :: "'a list \<Rightarrow> int \<Rightarrow> int \<Rightarrow> 'a list option" where
  "go_slice xs i j = (if 0 \<le> i \<and> i \<le> j \<and> j \<le> int (length xs) then Some (take (nat (j - i)) (drop (nat i) xs)) else None)"

definition PageItems :: "'a list \<Rightarrow> PageQuery \<Rightarrow> (int \<times> int \<times> int \<times> 'a list) option" where
  "PageItems items q =
     (let q = NormalizePageQuery q;
          total = int (length items);
          start = wrap64 (wrap64 (pq_Page q - 1) * pq_PageSize q);
          start = (if start > total then total else start);
          end_ix = wrap64 (start + pq_PageSize q);
          end_ix = (if end_ix > total then total else end_ix)
      in map_option (\<lambda>s. (pq_Page q, pq_PageSize q, total, s)) (go_slice items start end_ix))"

text \<open>The reply of the listing handlers: a page if the query asks for one, else everything.\<close>

definition paged :: "http_req \<Rightarrow> req_ctx \<Rightarrow> ('a list \<Rightarrow> payload) \<Rightarrow> 'a list \<Rightarrow> reply option" where
  "paged r c mk items =
     (if hq_Query r ''page'' \<noteq> [] \<or> hq_Query r ''page_size'' \<noteq> [] then
        map_option (\<lambda>(p, n, total, s). Page (rc_RequestID c) (PPage p n total (mk s))) (PageItems items (PageQueryFromRequest r))
      else Some (Success (rc_RequestID c) (mk items)))"

section \<open>Middleware\<close>

definition is_hex_id_char :: "char \<Rightarrow> bool" where
  "is_hex_id_char c \<longleftrightarrow> is_hex_char c \<or> c = CHR ''-'' \<or> c = CHR ''_''"

definition isSafeTraceID :: "string \<Rightarrow> bool" where
  "isSafeTraceID v \<longleftrightarrow> 16 \<le> length v \<and> length v \<le> 64 \<and> list_all is_hex_id_char v"

definition TraceIDFromHeaders :: "http_req \<Rightarrow> string" where
  "TraceIDFromHeaders r =
     (let v = trim_space (hq_Header r ''Trace-ID'') in
      if isSafeTraceID v then v
      else let parts = split_on CHR ''-'' (trim_space (hq_Header r ''traceparent'')) in
        if 4 \<le> length parts \<and> isSafeTraceID (parts ! 1) then parts ! 1 else [])"

text \<open>The random text of \<open>n\<close> bytes in hexadecimal; an error of the generator is dropped.\<close>

definition random_hex :: "(nat \<Rightarrow> nat \<Rightarrow> string) \<Rightarrow> nat \<Rightarrow> world \<Rightarrow> string \<times> world" where
  "random_hex rnd n w = (rnd n (id_ix w), w\<lparr>id_ix := Suc (id_ix w)\<rparr>)"

definition RequestID_middleware :: "(nat \<Rightarrow> nat \<Rightarrow> string) \<Rightarrow> (http_req \<Rightarrow> req_ctx \<Rightarrow> world \<Rightarrow> 'a \<times> world) \<Rightarrow> http_req \<Rightarrow> req_ctx \<Rightarrow> world \<Rightarrow> 'a \<times> world" where
  "RequestID_middleware rnd k r c w =
     (if hq_Header r ''X-Request-ID'' = [] then (case random_hex rnd 8 w of (i, t) \<Rightarrow> k r (c\<lparr>rc_RequestID := i\<rparr>) t)
      else k r (c\<lparr>rc_RequestID := hq_Header r ''X-Request-ID''\<rparr>) w)"

definition TraceContext_middleware :: "(nat \<Rightarrow> nat \<Rightarrow> string) \<Rightarrow> (http_req \<Rightarrow> req_ctx \<Rightarrow> world \<Rightarrow> 'a \<times> world) \<Rightarrow> http_req \<Rightarrow> req_ctx \<Rightarrow> world \<Rightarrow> 'a \<times> world" where
  "TraceContext_middleware rnd k r c w =
     (let i = TraceIDFromHeaders r in
      if i = [] then (case random_hex rnd 16 w of (i, t) \<Rightarrow> k r (c\<lparr>rc_TraceID := i\<rparr>) t)
      else k r (c\<lparr>rc_TraceID := i\<rparr>) w)"

text \<open>\<open>panic_text\<close> is the text of the recovered value.\<close>

definition Recovery :: "string \<Rightarrow> handler \<Rightarrow> http_req \<Rightarrow> req_ctx \<Rightarrow> world \<Rightarrow> reply \<times> world" where
  "Recovery panic_text k r c w = (case k r c w of
     (Some rep, t) \<Rightarrow> (rep, t)
   | (None, t) \<Rightarrow> (Fail (rc_RequestID c) (NewDetailedError CodeInternalError ''internal error'' panic_text), t))"

definition reply_status :: "reply \<Rightarrow> nat" where
  "reply_status rep = (case rep of Reply e \<Rightarrow> re_Status e | Redirect _ \<Rightarrow> 301 | NotFound \<Rightarrow> 404 | FileReply n _ \<Rightarrow> n | _ \<Rightarrow> 200)"

definition IncHTTP :: "string \<Rightarrow> string \<Rightarrow> nat \<Rightarrow> unit prog_w" where
  "IncHTTP meth path status = bindE (add_metric (HTTPRequestsTotal (meth @ '' '' @ path)) 1)
     (\<lambda>_. add_metric (HTTPStatusTotal (show_int (int status))) 1)"

text \<open>
  Counting follows the handler, so a request that panics is not counted. The clock is read twice. The
  writer handed on is a \<^verbatim>\<open>statusWriter\<close>, which has no \<^verbatim>\<open>Flush\<close>.
\<close>

definition Logging :: "handler \<Rightarrow> handler" where
  "Logging k r c w = (let w = w\<lparr>now_ix := Suc (now_ix w)\<rparr> in case k r (c\<lparr>rc_Flusher := False\<rparr>) w of
     (None, t) \<Rightarrow> (None, t)
   | (Some rep, t) \<Rightarrow> (Some rep, snd (IncHTTP (hq_Method r) (hq_Path r) (reply_status rep) (t\<lparr>now_ix := Suc (now_ix t)\<rparr>))))"

definition bearer_token :: "http_req \<Rightarrow> string option" where
  "bearer_token r = (let header = hq_Header r ''Authorization'' in
     if has_prefix header ''Bearer '' then Some (trim_space (trim_prefix header ''Bearer '')) else None)"

text \<open>A token that does not validate, for whatever reason, leaves the request anonymous.\<close>

definition Auth_middleware :: "AuthStore \<Rightarrow> (http_req \<Rightarrow> req_ctx \<Rightarrow> world \<Rightarrow> 'a \<times> world) \<Rightarrow> http_req \<Rightarrow> req_ctx \<Rightarrow> world \<Rightarrow> 'a \<times> world" where
  "Auth_middleware A k r c w = (case bearer_token r of
     None \<Rightarrow> k r c w
   | Some token \<Rightarrow> (case ValidateToken A token w of
       (Inr user, t) \<Rightarrow> k r (c\<lparr>rc_User := Some user\<rparr>) t
     | (Inl _, t) \<Rightarrow> k r c t))"

definition admin_required :: go_error where
  "admin_required = NewAppError CodeForbidden ''admin required''"

text \<open>\<^verbatim>\<open>AdminOnly\<close>, and \<^verbatim>\<open>admin\<close> of the router: the role \<^verbatim>\<open>admin\<close> and no other.\<close>

definition AdminOnly :: "handler \<Rightarrow> handler" where
  "AdminOnly k r c w = (case rc_User c of
     Some u \<Rightarrow> if cu_Role u \<noteq> RoleAdmin then (Some (Fail (rc_RequestID c) admin_required), w) else k r c w
   | None \<Rightarrow> (Some (Fail (rc_RequestID c) admin_required), w))"

end
