(* ===== verification/Server.thy ===== *)
theory Server
  imports Http
begin

text \<open>
  \<^verbatim>\<open>internal/handler\<close> and \<^verbatim>\<open>internal/router\<close>: every handler, the routes with their method and role
  checks, the version alias and the chain of middleware. The execution handlers run over an
  interface (\<open>ExecutionUseCase\<close>), the others over the services of the local mode.
\<close>

section \<open>The server\<close>

record ExecutionUseCase =
  uc_CreateExecution :: "ctx \<Rightarrow> CurrentUser \<Rightarrow> string list \<Rightarrow> jobj option \<Rightarrow> string \<Rightarrow> string \<Rightarrow> Execution prog_w"
  uc_ListExecutions :: "CurrentUser \<Rightarrow> Execution list prog_w"
  uc_GetExecution :: "CurrentUser \<Rightarrow> string \<Rightarrow> Execution prog_w"
  uc_CancelExecution :: "CurrentUser \<Rightarrow> string \<Rightarrow> string \<Rightarrow> Execution prog_w"

definition local_use_case :: "ExecutionService \<Rightarrow> ExecutionUseCase" where
  "local_use_case S = \<lparr>uc_CreateExecution = CreateExecution S, uc_ListExecutions = ListExecutions,
     uc_GetExecution = GetExecution, uc_CancelExecution = CancelExecution S\<rparr>"

record server =
  sv_auth :: AuthStore
  sv_executions :: ExecutionUseCase
  sv_plugins :: "world PluginStore"
  sv_registry :: RegistryService
  sv_pluginDir :: string
  sv_webhooks :: WebhookService
  sv_rand :: "nat \<Rightarrow> nat \<Rightarrow> string"   \<comment> \<open>random hexadecimal text of the middleware\<close>
  sv_panic :: string                \<comment> \<open>the text of a recovered panic\<close>
  sv_stream :: nat                  \<comment> \<open>the subscriber a stream of events registers\<close>

section \<open>Handlers\<close>

definition handle_Login :: "server \<Rightarrow> handler" where
  "handle_Login S r c w = (case decode_body dec_login \<lparr>lr_Username = [], lr_Password = [], lr_Token = []\<rparr> r of
     None \<Rightarrow> (Some (Fail (rc_RequestID c) (NewAppError CodeInvalidArgument ''invalid login request'')), w)
   | Some req \<Rightarrow>
       if \<not> ValidateLoginRequest req then (Some (Fail (rc_RequestID c) (NewAppError CodeInvalidArgument ''invalid login request'')), w)
       else orFail c (Login (sv_auth S) (lr_Username req) (lr_Password req) (lr_Token req))
         (\<lambda>(token, user). reply_with (Success (rc_RequestID c) (PToken token user))) w)"

definition handle_Me :: "server \<Rightarrow> handler" where
  "handle_Me S r c = withUser c (\<lambda>user. reply_with (Success (rc_RequestID c) (PUser user)))"

definition handle_CreateExecution :: "server \<Rightarrow> handler" where
  "handle_CreateExecution S r c = withUser c (\<lambda>user w.
     case decode_body dec_create_execution \<lparr>cr_PluginIDs = [], cr_Input = None\<rparr> r of
       None \<Rightarrow> (Some (Fail (rc_RequestID c) (NewAppError CodeInvalidArgument ''invalid execution request'')), w)
     | Some req \<Rightarrow>
         if \<not> ValidateCreateExecutionRequest req
         then (Some (Fail (rc_RequestID c) (NewAppError CodeInvalidArgument ''invalid execution request'')), w)
         else orFail c (uc_CreateExecution (sv_executions S) (hq_Ctx r) user (cr_PluginIDs req) (cr_Input req)
             (hq_Header r ''Idempotency-Key'') (rc_RequestID c))
           (\<lambda>e. reply_with (Created (rc_RequestID c) (PExecution e))) w)"

definition handle_ListExecutions :: "server \<Rightarrow> handler" where
  "handle_ListExecutions S r c = withUser c (\<lambda>user.
     orFail c (uc_ListExecutions (sv_executions S) user) (\<lambda>items w. (paged r c PExecutions items, w)))"

definition handle_GetExecution :: "server \<Rightarrow> string \<Rightarrow> handler" where
  "handle_GetExecution S i r c = withUser c (\<lambda>user.
     orFail c (uc_GetExecution (sv_executions S) user i) (\<lambda>e. reply_with (Success (rc_RequestID c) (PExecution e))))"

definition handle_CancelExecution :: "server \<Rightarrow> string \<Rightarrow> handler" where
  "handle_CancelExecution S i r c = withUser c (\<lambda>user.
     orFail c (uc_CancelExecution (sv_executions S) user i (rc_RequestID c))
       (\<lambda>e. reply_with (Success (rc_RequestID c) (PExecution e))))"

text \<open>What belongs to a task is shown to those who may see the task.\<close>

definition withTask :: "server \<Rightarrow> string \<Rightarrow> req_ctx \<Rightarrow> (Execution \<Rightarrow> world \<Rightarrow> reply option \<times> world) \<Rightarrow> world \<Rightarrow> reply option \<times> world" where
  "withTask S i c k = withUser c (\<lambda>user. orFail c (uc_GetExecution (sv_executions S) user i) k)"

definition handle_GetExecutionResults :: "server \<Rightarrow> string \<Rightarrow> handler" where
  "handle_GetExecutionResults S i r c = withTask S i c (\<lambda>_.
     orFail c (GetExecutionResults i) (\<lambda>items. reply_with (Success (rc_RequestID c) (PResults items))))"

definition handle_GetExecutionSummary :: "server \<Rightarrow> string \<Rightarrow> handler" where
  "handle_GetExecutionSummary S i r c = withTask S i c (\<lambda>e.
     orFail c (GetExecutionResults i) (\<lambda>items. reply_with (Success (rc_RequestID c) (PSummary (BuildExecutionSummary e items)))))"

definition handle_ListEvents :: "server \<Rightarrow> string \<Rightarrow> handler" where
  "handle_ListEvents S i r c = withTask S i c (\<lambda>_.
     orFail c (Event_ListByExecutionID i) (\<lambda>items. reply_with (Success (rc_RequestID c) (PEvents items))))"

definition handle_ListAttempts :: "server \<Rightarrow> string \<Rightarrow> handler" where
  "handle_ListAttempts S i r c = withTask S i c (\<lambda>_.
     orFail c (Attempt_ListByExecutionID i) (\<lambda>items. reply_with (Success (rc_RequestID c) (PAttempts items))))"

text \<open>
  The stream, if the writer can be flushed: the past events (none if they cannot be read), then a subscription. The events that
  arrive later go through a channel of sixteen places and are dropped when it is full.
\<close>

definition stream_past :: "string \<Rightarrow> world \<Rightarrow> ExecutionEvent list \<times> world" where
  "stream_past i w = (case Event_ListByExecutionID i w of (Inr past, t) \<Rightarrow> (past, t) | (Inl _, t) \<Rightarrow> ([], t))"

definition handle_StreamEvents :: "server \<Rightarrow> string \<Rightarrow> handler" where
  "handle_StreamEvents S i r c = withTask S i c (\<lambda>_ w.
     if \<not> rc_Flusher c then (Some (Fail (rc_RequestID c) (NewAppError CodeInternalError ''streaming unsupported'')), w)
     else case stream_past i w of (past, t) \<Rightarrow> (Some (Stream past), snd (Bus_Subscribe i (sv_stream S) t)))"

definition stream_offer :: "ExecutionEvent list \<Rightarrow> ExecutionEvent \<Rightarrow> ExecutionEvent list" where
  "stream_offer ch evt = (if length ch < 16 then ch @ [evt] else ch)"

definition handle_ListPlugins :: "server \<Rightarrow> handler" where
  "handle_ListPlugins S r c = orFail c (ListPlugins (sv_plugins S)) (\<lambda>items w. (paged r c PPlugins items, w))"

definition handle_GetPlugin :: "server \<Rightarrow> string \<Rightarrow> handler" where
  "handle_GetPlugin S i r c = orFail c (GetPlugin (sv_plugins S) i) (\<lambda>p. reply_with (Success (rc_RequestID c) (PPlugin p)))"

text \<open>The audit entry's own errors are dropped.\<close>

definition after_audit :: "unit prog_w \<Rightarrow> reply \<Rightarrow> world \<Rightarrow> reply option \<times> world" where
  "after_audit m rep w = (Some rep, snd (m w))"

definition handle_ReloadPlugins :: "server \<Rightarrow> handler" where
  "handle_ReloadPlugins S r c = orFail c (ReloadPlugins (sv_registry S) (sv_pluginDir S)) (\<lambda>res.
     after_audit (Audit_Record (cu_ID (user_or_zero c)) AuditPluginLoaded AuditResourceSystem ''registry'' (rc_RequestID c)
         ''plugins reloaded'' (Some [(''created'', JNum (show_int (sy_Created res))), (''updated'', JNum (show_int (sy_Updated res))),
           (''removed'', JNum (show_int (sy_Removed res)))]))
       (Success (rc_RequestID c) (PSync res)))"

definition handle_EnablePlugin :: "server \<Rightarrow> string \<Rightarrow> handler" where
  "handle_EnablePlugin S i r c = orFail c (EnablePlugin (sv_plugins S) i) (\<lambda>p.
     after_audit (Audit_Record (cu_ID (user_or_zero c)) AuditPluginStatusChanged AuditResourcePlugin i (rc_RequestID c) ''plugin enabled'' None)
       (Success (rc_RequestID c) (PPlugin p)))"

definition handle_DisablePlugin :: "server \<Rightarrow> string \<Rightarrow> handler" where
  "handle_DisablePlugin S i r c = orFail c (DisablePlugin (sv_plugins S) i) (\<lambda>p.
     after_audit (Audit_Record (cu_ID (user_or_zero c)) AuditPluginStatusChanged AuditResourcePlugin i (rc_RequestID c) ''plugin disabled'' None)
       (Success (rc_RequestID c) (PPlugin p)))"

definition handle_ListAuditLogs :: "server \<Rightarrow> handler" where
  "handle_ListAuditLogs S r c = orFail c Audit_List (\<lambda>items w. (paged r c PAudit items, w))"

definition handle_ListExecutionLogs :: "server \<Rightarrow> string \<Rightarrow> handler" where
  "handle_ListExecutionLogs S i r c = orFail c (Audit_ListByResource AuditResourceExecution i)
     (\<lambda>items. reply_with (Success (rc_RequestID c) (PAudit items)))"

definition handle_ListPluginLogs :: "server \<Rightarrow> string \<Rightarrow> handler" where
  "handle_ListPluginLogs S i r c = orFail c (Audit_ListByResource AuditResourcePlugin i)
     (\<lambda>items. reply_with (Success (rc_RequestID c) (PAudit items)))"

definition redactWebhook :: "WebhookEndpoint \<Rightarrow> WebhookEndpoint" where
  "redactWebhook endpoint = endpoint\<lparr>we_Secret := []\<rparr>"

definition redactWebhooks :: "WebhookEndpoint list \<Rightarrow> WebhookEndpoint list" where
  "redactWebhooks items = map redactWebhook items"

definition handle_CreateWebhook :: "server \<Rightarrow> handler" where
  "handle_CreateWebhook S r c = withUser c (\<lambda>user w.
     case decode_body dec_webhook \<lparr>ci_Name = [], ci_URL = [], ci_Secret = [], ci_Events = []\<rparr> r of
       None \<Rightarrow> (Some (Fail (rc_RequestID c) (NewAppError CodeInvalidArgument ''invalid webhook request'')), w)
     | Some req \<Rightarrow> orFail c (CreateEndpoint (sv_webhooks S) user req) (\<lambda>(endpoint, secret).
         reply_with (Success (rc_RequestID c) (PWebhookSecret (redactWebhook endpoint) secret))) w)"

definition handle_ListWebhooks :: "server \<Rightarrow> handler" where
  "handle_ListWebhooks S r c = withUser c (\<lambda>user. orFail c (ListEndpointsForUser user)
     (\<lambda>items. reply_with (Success (rc_RequestID c) (PWebhooks (redactWebhooks items)))))"

definition handle_GetWebhook :: "server \<Rightarrow> string \<Rightarrow> handler" where
  "handle_GetWebhook S i r c = withUser c (\<lambda>user. orFail c (GetEndpointForUser user i)
     (\<lambda>item. reply_with (Success (rc_RequestID c) (PWebhook (redactWebhook item)))))"

definition handle_SetWebhook :: "server \<Rightarrow> WebhookStatus \<Rightarrow> string \<Rightarrow> handler" where
  "handle_SetWebhook S status i r c = withUser c (\<lambda>user. orFail c (SetEndpointStatusForUser user i status)
     (\<lambda>item. reply_with (Success (rc_RequestID c) (PWebhook (redactWebhook item)))))"

definition handle_DeleteWebhook :: "server \<Rightarrow> string \<Rightarrow> handler" where
  "handle_DeleteWebhook S i r c = withUser c (\<lambda>user. orFail c (DeleteEndpointForUser user i)
     (\<lambda>_. reply_with (Success (rc_RequestID c) PDeleted)))"

definition handle_ListDeliveries :: "server \<Rightarrow> string \<Rightarrow> handler" where
  "handle_ListDeliveries S i r c = withUser c (\<lambda>user. orFail c (ListDeliveriesForUser user i)
     (\<lambda>items. reply_with (Success (rc_RequestID c) (PDeliveries items))))"

definition handle_Livez :: "server \<Rightarrow> handler" where
  "handle_Livez S r c w = (case time_now w of (Inr now, t) \<Rightarrow> (Some (Success (rc_RequestID c) (PLive now)), t)
     | (Inl _, t) \<Rightarrow> (None, t))"

definition handle_Readyz :: "server \<Rightarrow> handler" where
  "handle_Readyz S r c w = (let ready = (case stat (w_env w) (sv_pluginDir S) of Inr _ \<Rightarrow> True | Inl _ \<Rightarrow> False)
     in (Some (Success (rc_RequestID c) (PReady ready (sv_pluginDir S))), w))"

definition handle_Workerz :: "server \<Rightarrow> handler" where
  "handle_Workerz S r c = reply_with (Success (rc_RequestID c) (PText [(''ready'', JBool True),
     (''lease_model'', JStr ''durable-queue-contract''), (''heartbeat_required'', JBool True)]))"

definition handle_Dependencyz :: "server \<Rightarrow> handler" where
  "handle_Dependencyz S r c = reply_with (Success (rc_RequestID c) (PText [(''metadata_store'', JStr ''postgres-production-contract''),
     (''object_storage'', JStr ''artifact-contract''), (''policy_engine'', JStr ''opa-compatible-contract'')]))"

section \<open>Routes\<close>

definition path_part :: "string \<Rightarrow> string" where
  "path_part path = (let parts = split_on CHR ''/'' (trim_char CHR ''/'' path) in if 3 \<le> length parts then parts ! 2 else [])"

definition ExecutionIDFromPath :: "string \<Rightarrow> string" where "ExecutionIDFromPath path = path_part path"
definition PluginIDFromPath :: "string \<Rightarrow> string" where "PluginIDFromPath path = path_part path"

fun after_webhooks :: "string list \<Rightarrow> string" where
  "after_webhooks (p # q # ps) = (if p = ''webhooks'' then q else after_webhooks (q # ps))"
| "after_webhooks _ = []"

definition WebhookIDFromPath :: "string \<Rightarrow> string" where
  "WebhookIDFromPath path = after_webhooks (split_on CHR ''/'' (trim_char CHR ''/'' path))"

text \<open>\<^verbatim>\<open>strings.Replace(path, "/api/audit", "/api", 1)\<close>: the first occurrence anywhere.\<close>

fun replace_first :: "string \<Rightarrow> string \<Rightarrow> string \<Rightarrow> string" where
  "replace_first old new s = (if has_prefix s old then new @ drop (length old) s
     else case s of [] \<Rightarrow> [] | c # t \<Rightarrow> c # replace_first old new t)"

definition wants :: "string \<Rightarrow> handler \<Rightarrow> handler" where
  "wants want k r c w = (if hq_Method r \<noteq> want
     then (Some (Fail (rc_RequestID c) (NewAppError CodeInvalidArgument ''method not allowed'')), w) else k r c w)"

definition route_executions :: "server \<Rightarrow> handler" where
  "route_executions S r c w = (if hq_Method r = ''POST'' then handle_CreateExecution S r c w
     else wants ''GET'' (handle_ListExecutions S) r c w)"

definition route_execution :: "server \<Rightarrow> handler" where
  "route_execution S r =
     (let path = hq_Path r; i = ExecutionIDFromPath path in
      if has_suffix path ''/cancel'' then wants ''POST'' (handle_CancelExecution S i) r
      else if has_suffix path ''/results'' then wants ''GET'' (handle_GetExecutionResults S i) r
      else if has_suffix path ''/summary'' then wants ''GET'' (handle_GetExecutionSummary S i) r
      else if has_suffix path ''/events/stream'' then wants ''GET'' (handle_StreamEvents S i) r
      else if has_suffix path ''/events'' then wants ''GET'' (handle_ListEvents S i) r
      else if has_suffix path ''/attempts'' then wants ''GET'' (handle_ListAttempts S i) r
      else wants ''GET'' (handle_GetExecution S i) r)"

definition route_plugin :: "server \<Rightarrow> handler" where
  "route_plugin S r =
     (let path = hq_Path r; i = PluginIDFromPath path in
      if has_suffix path ''/enable'' then wants ''POST'' (AdminOnly (handle_EnablePlugin S i)) r
      else if has_suffix path ''/disable'' then wants ''POST'' (AdminOnly (handle_DisablePlugin S i)) r
      else wants ''GET'' (handle_GetPlugin S i) r)"

definition route_audit_execution :: "server \<Rightarrow> handler" where
  "route_audit_execution S r = wants ''GET'' (AdminOnly (handle_ListExecutionLogs S
     (ExecutionIDFromPath (replace_first ''/api/audit'' ''/api'' (hq_Path r))))) r"

definition route_audit_plugin :: "server \<Rightarrow> handler" where
  "route_audit_plugin S r = wants ''GET'' (AdminOnly (handle_ListPluginLogs S
     (PluginIDFromPath (replace_first ''/api/audit'' ''/api'' (hq_Path r))))) r"

definition route_webhooks :: "server \<Rightarrow> handler" where
  "route_webhooks S = AdminOnly (\<lambda>r. if hq_Method r = ''POST'' then handle_CreateWebhook S r
     else wants ''GET'' (handle_ListWebhooks S) r)"

definition route_webhook :: "server \<Rightarrow> handler" where
  "route_webhook S = AdminOnly (\<lambda>r. let path = hq_Path r; i = WebhookIDFromPath path in
     if has_suffix path ''/enable'' then wants ''POST'' (handle_SetWebhook S WebhookStatusEnabled i) r
     else if has_suffix path ''/disable'' then wants ''POST'' (handle_SetWebhook S WebhookStatusDisabled i) r
     else if has_suffix path ''/deliveries'' then wants ''GET'' (handle_ListDeliveries S i) r
     else if hq_Method r = ''DELETE'' then handle_DeleteWebhook S i r
     else wants ''GET'' (handle_GetWebhook S i) r)"

definition text_page :: handler where "text_page r c = reply_with TextPage"
definition file_page :: "string \<Rightarrow> handler" where
  "file_page name r c w = (Some (FileReply (case stat (w_env w) name of Inr _ \<Rightarrow> 200 | Inl _ \<Rightarrow> 404) name), w)"

text \<open>The file server of \<^verbatim>\<open>net/http\<close> on a directory.\<close>

definition file_server :: "string \<Rightarrow> string \<Rightarrow> handler" where
  "file_server root upath r c w =
     (let url = (if has_prefix upath ''/'' then upath else CHR ''/'' # upath);
          file = Join [root, Clean url]; page = Join [file, ''index.html''];
          found = stat (w_env w) file
      in (Some (if has_suffix url ''/index.html'' then Redirect ''./'' else case found of
           Inl _ \<Rightarrow> FileReply 404 file
         | Inr is_dir \<Rightarrow>
             if is_dir \<and> \<not> has_suffix url ''/'' then Redirect (Base_name url @ ''/'')
             else if \<not> is_dir \<and> has_suffix url ''/'' then Redirect (''../'' @ Base_name url)
             else if is_dir \<and> \<not> isl (stat (w_env w) page) then FileReply 200 page
             else FileReply 200 file), w))"

definition static_page :: handler where
  "static_page r = file_server ''web/static'' (trim_prefix (hq_Path r) ''/static/'') r"

definition index_page :: handler where
  "index_page r c = (if hq_Path r \<noteq> ''/'' then reply_with NotFound else file_page ''web/static/index.html'' r c)"

text \<open>The patterns that match one path, as they are registered, and those that match everything below (the longest wins).\<close>

definition RegisterHealthRoutes :: "server \<Rightarrow> (string \<times> handler) list" where
  "RegisterHealthRoutes S =
     map (\<lambda>p. (p, wants ''GET'' (handle_Livez S))) [''/api/health'', ''/api/v1/health'', ''/livez''] @
     map (\<lambda>p. (p, wants ''GET'' (handle_Readyz S))) [''/api/ready'', ''/api/v1/ready'', ''/readyz''] @
     [(''/workerz'', wants ''GET'' (handle_Workerz S)), (''/dependencyz'', wants ''GET'' (handle_Dependencyz S)),
      (''/metrics'', wants ''GET'' text_page)]"

definition RegisterAuthRoutes :: "server \<Rightarrow> (string \<times> handler) list" where
  "RegisterAuthRoutes S = [(''/api/auth/login'', wants ''POST'' (handle_Login S)), (''/api/auth/me'', wants ''GET'' (handle_Me S))]"

definition RegisterPluginRoutes :: "server \<Rightarrow> (string \<times> handler) list" where
  "RegisterPluginRoutes S = [(''/api/plugins'', wants ''GET'' (handle_ListPlugins S)),
     (''/api/plugins/reload'', wants ''POST'' (AdminOnly (handle_ReloadPlugins S)))]"

definition RegisterAuditRoutes :: "server \<Rightarrow> (string \<times> handler) list" where
  "RegisterAuditRoutes S = [(''/api/audit/logs'', wants ''GET'' (AdminOnly (handle_ListAuditLogs S)))]"

definition RegisterWebhookRoutes :: "server \<Rightarrow> (string \<times> handler) list" where
  "RegisterWebhookRoutes S = [(''/api/webhooks'', route_webhooks S),
     (''/api/webhooks/deliveries'', wants ''GET'' (AdminOnly (handle_ListDeliveries S [])))]"

definition exact_routes :: "server \<Rightarrow> (string \<times> handler) list" where
  "exact_routes S = RegisterHealthRoutes S @ RegisterAuthRoutes S @ RegisterPluginRoutes S @
     [(''/api/executions'', route_executions S)] @ RegisterAuditRoutes S @ RegisterWebhookRoutes S @
     [(''/openapi.json'', wants ''GET'' (file_page ''docs/openapi.json'')), (''/debug/vars'', text_page)]"

definition subtree_routes :: "server \<Rightarrow> (string \<times> handler) list" where
  "subtree_routes S =
     [(''/api/plugins/'', route_plugin S), (''/api/executions/'', route_execution S),
      (''/api/audit/executions/'', route_audit_execution S), (''/api/audit/plugins/'', route_audit_plugin S),
      (''/api/webhooks/'', route_webhook S), (''/static/'', static_page), (''/'', index_page)]"

text \<open>\<^verbatim>\<open>cleanPath\<close> of \<^verbatim>\<open>net/http\<close>: cleaned, with the trailing slash kept.\<close>

definition clean_path :: "string \<Rightarrow> string" where
  "clean_path p = (if p = [] then ''/'' else
     let p = (if has_prefix p ''/'' then p else CHR ''/'' # p); np = Clean p
     in if has_suffix p ''/'' \<and> np \<noteq> ''/'' then np @ ''/'' else np)"

definition mux :: "server \<Rightarrow> handler" where
  "mux S r =
     (let p = clean_path (hq_Path r) in
      case map_of (exact_routes S) p of
        Some h \<Rightarrow> if p \<noteq> hq_Path r then (\<lambda>c. reply_with (Redirect p)) else h r
      | None \<Rightarrow>
          if map_of (subtree_routes S) (p @ ''/'') \<noteq> None \<and> \<not> has_suffix p ''/'' then (\<lambda>c. reply_with (Redirect (p @ ''/'')))
          else if p \<noteq> hq_Path r then (\<lambda>c. reply_with (Redirect p))
          else case find (\<lambda>(q, h). has_prefix p q) (subtree_routes S) of
              Some (q, h) \<Rightarrow> h r
            | None \<Rightarrow> (\<lambda>c. reply_with NotFound))"

text \<open>The version alias rewrites the path of a copy of the request.\<close>

definition versionAlias :: "handler \<Rightarrow> handler" where
  "versionAlias k r = (if has_prefix (hq_Path r) ''/api/v1/''
     then k (r\<lparr>hq_Path := ''/api/'' @ trim_prefix (hq_Path r) ''/api/v1/''\<rparr>) else k r)"

definition no_ctx :: req_ctx where
  "no_ctx = \<lparr>rc_RequestID = [], rc_TraceID = [], rc_Flusher = True, rc_User = None\<rparr>"

text \<open>The whole server: the chain of middleware around the routes. The writer of the HTTP server can be flushed.\<close>

definition NewRouter :: "server \<Rightarrow> http_req \<Rightarrow> world \<Rightarrow> reply \<times> world" where
  "NewRouter S r w = RequestID_middleware (sv_rand S) (TraceContext_middleware (sv_rand S)
     (Recovery (sv_panic S) (Logging (Auth_middleware (sv_auth S) (versionAlias (mux S)))))) r no_ctx w"

end
