(* ===== verification/ServerSpec.thy ===== *)
theory ServerSpec
  imports Server EnterpriseSpec
begin

text \<open>
  What the HTTP interface of the local mode guarantees, for every request: what an anonymous request
  can do and see, what only an administrator can, that no reply shows a task to a user who may not
  see it or a webhook secret after its creation, and what the pages of a listing contain. The rules of
  the locale \<open>answering\<close> carry a property of handlers through the combinators they are made of.
\<close>

section \<open>Properties of handlers\<close>

definition answers :: "(world \<Rightarrow> world \<Rightarrow> bool) \<Rightarrow> (reply \<Rightarrow> bool) \<Rightarrow> (world \<Rightarrow> reply option \<times> world) \<Rightarrow> bool" where
  "answers R P k \<longleftrightarrow> (\<forall>w. R w (snd (k w)) \<and> (\<forall>rep. fst (k w) = Some rep \<longrightarrow> P rep))"

lemma answersI: "(\<And>w. R w (snd (k w)) \<and> (\<forall>rep. fst (k w) = Some rep \<longrightarrow> P rep)) \<Longrightarrow> answers R P k"
  by (simp add: answers_def)

locale answering = state_order always R for R :: "world \<Rightarrow> world \<Rightarrow> bool" +
  fixes P :: "reply \<Rightarrow> bool"
  assumes fails: "P (Fail q err)" and redirects: "P (Redirect p)" and pages: "P TextPage" and files: "P (FileReply n f)"
    and no_page: "P NotFound" and time_passes: "R w (w\<lparr>now_ix := a\<rparr>)" and id_passes: "R w (w\<lparr>id_ix := a\<rparr>)"
    and counts: "R w (w\<lparr>metrics := mm\<rparr>)"
begin

lemma say: "P rep \<Longrightarrow> answers R P (reply_with rep)"
  by (simp add: answers_def reply_with_def R_refl)

lemma say_maybe: "(\<And>rep. x = Some rep \<Longrightarrow> P rep) \<Longrightarrow> answers R P (\<lambda>w. (x, w))"
  by (simp add: answers_def R_refl)

lemma say_some: "P rep \<Longrightarrow> answers R P (\<lambda>w. (Some rep, w))"
  by (simp add: answers_def R_refl)

lemma say_fail: "answers R P (\<lambda>w. (Some (Fail q err), w))"
  by (rule say_some) (rule fails)

lemma decode: "(\<And>x. answers R P (k x)) \<Longrightarrow> answers R P (\<lambda>w. case d of None \<Rightarrow> (Some (Fail q err), w) | Some x \<Rightarrow> k x w)"
  by (cases d) (simp_all add: say_fail)

lemma choose: "answers R P a \<Longrightarrow> answers R P b \<Longrightarrow> answers R P (\<lambda>w. if g then a w else b w)"
  by (cases g) simp_all

lemma orFail_from:
  assumes m: "evolves always R m" and q: "\<And>w x t. m w = (Inr x, t) \<Longrightarrow> Q x" and k: "\<And>x. Q x \<Longrightarrow> answers R P (k x)"
  shows "answers R P (orFail c m k)"
proof (rule answersI)
  fix w
  obtain r t where e: "m w = (r, t)" by (cases "m w")
  from evolvesD [OF m _ e] have t: "R w t" by simp
  show "R w (snd (orFail c m k w)) \<and> (\<forall>rep. fst (orFail c m k w) = Some rep \<longrightarrow> P rep)"
  proof (cases r)
    case (Inl err)
    with e t show ?thesis by (simp add: orFail_def fails)
  next
    case (Inr x)
    with e q k have "answers R P (k x)" by blast
    then have "R t (snd (k x t)) \<and> (\<forall>rep. fst (k x t) = Some rep \<longrightarrow> P rep)" by (simp add: answers_def)
    with e Inr t show ?thesis by (auto simp: orFail_def intro: R_trans)
  qed
qed

lemma orFail: "evolves always R m \<Longrightarrow> (\<And>x. answers R P (k x)) \<Longrightarrow> answers R P (orFail c m k)"
  by (rule orFail_from [where Q = "\<lambda>_. True"]) simp_all

lemma withUser: "(\<And>u. rc_User c = Some u \<Longrightarrow> answers R P (k u)) \<Longrightarrow> answers R P (withUser c k)"
  by (cases "rc_User c") (simp_all add: answers_def withUser_def fails R_refl)

lemma wants: "answers R P (k r c) \<Longrightarrow> answers R P (wants m k r c)"
  by (simp add: answers_def wants_def fails R_refl)

lemma admin_only: "(\<And>u. rc_User c = Some u \<Longrightarrow> cu_Role u = RoleAdmin \<Longrightarrow> answers R P (k r c)) \<Longrightarrow> answers R P (AdminOnly k r c)"
  by (simp add: answers_def AdminOnly_def fails R_refl split: option.split)

lemma audited:
  "evolves always R m \<Longrightarrow> P rep \<Longrightarrow> answers R P (after_audit m rep)"
  by (simp add: answers_def after_audit_def evolves_def)

lemma file_pages: "answers R P (file_page f r c)"
  by (simp add: answers_def file_page_def files R_refl)

lemma file_servers: "answers R P (file_server f p r c)"
  by (simp add: answers_def file_server_def Let_def files redirects R_refl split: sum.split)

lemma live: "(\<And>now. P (Success (rc_RequestID c) (PLive now))) \<Longrightarrow> answers R P (handle_Livez S r c)"
  by (simp add: answers_def handle_Livez_def time_now_run time_passes)

text \<open>The routes, from the handlers behind them.\<close>

lemma mux:
  assumes e: "\<And>h r. h \<in> snd ` set (exact_routes S) \<Longrightarrow> answers R P (h r c)"
    and s: "\<And>h r. h \<in> snd ` set (subtree_routes S) \<Longrightarrow> answers R P (h r c)"
  shows "answers R P (mux S r c)"
proof -
  let ?p = "clean_path (hq_Path r)"
  have re: "answers R P (reply_with (Redirect q))" "answers R P (reply_with NotFound)" for q
    by (intro say redirects no_page)+
  show ?thesis
  proof (cases "map_of (exact_routes S) ?p")
    case (Some h)
    then have "h \<in> snd ` set (exact_routes S)" by (force dest: map_of_SomeD)
    with e re Some show ?thesis by (simp add: mux_def Let_def)
  next
    case None
    have "answers R P (h r c)" if "find (\<lambda>(q, h). has_prefix ?p q) (subtree_routes S) = Some (q, h)" for q h
    proof -
      from that have "(q, h) \<in> set (subtree_routes S)" unfolding find_Some_iff by (metis nth_mem)
      then show ?thesis by (intro s) (metis image_eqI snd_conv)
    qed
    then have "answers R P ((case find (\<lambda>(q, h). has_prefix ?p q) (subtree_routes S) of
        Some (q, h) \<Rightarrow> h r | None \<Rightarrow> (\<lambda>c. reply_with NotFound)) c)"
      using re(2) by (cases "find (\<lambda>(q, h). has_prefix ?p q) (subtree_routes S)") (simp_all split: prod.split)
    with re(1) show ?thesis unfolding mux_def Let_def None option.case by presburger
  qed
qed

lemma app_if: "(if g then f else h) x = (if g then f x else h x)" by simp

text \<open>All routes at once: what has to be shown of the open handlers, of those for users, and of those for administrators.\<close>

lemma routes:
  assumes "\<And>r. answers R P (handle_Login S r c)" "\<And>r. answers R P (handle_Livez S r c)" "\<And>r. answers R P (handle_Readyz S r c)"
      "\<And>r. answers R P (handle_Workerz S r c)" "\<And>r. answers R P (handle_Dependencyz S r c)"
      "\<And>r. answers R P (handle_ListPlugins S r c)" "\<And>i r. answers R P (handle_GetPlugin S i r c)"
    and "\<And>r. answers R P (handle_Me S r c)" "\<And>r. answers R P (handle_CreateExecution S r c)"
      "\<And>r. answers R P (handle_ListExecutions S r c)" "\<And>i r. answers R P (handle_GetExecution S i r c)"
      "\<And>i r. answers R P (handle_CancelExecution S i r c)" "\<And>i r. answers R P (handle_GetExecutionResults S i r c)"
      "\<And>i r. answers R P (handle_GetExecutionSummary S i r c)" "\<And>i r. answers R P (handle_StreamEvents S i r c)"
      "\<And>i r. answers R P (handle_ListEvents S i r c)" "\<And>i r. answers R P (handle_ListAttempts S i r c)"
    and admin: "\<And>u h r. rc_User c = Some u \<Longrightarrow> cu_Role u = RoleAdmin \<Longrightarrow>
      h \<in> {handle_ReloadPlugins S, handle_ListAuditLogs S, handle_CreateWebhook S, handle_ListWebhooks S} \<union>
        range (handle_EnablePlugin S) \<union> range (handle_DisablePlugin S) \<union> range (handle_ListExecutionLogs S) \<union>
        range (handle_ListPluginLogs S) \<union> range (handle_GetWebhook S) \<union> range (handle_SetWebhook S WebhookStatusEnabled) \<union>
        range (handle_SetWebhook S WebhookStatusDisabled) \<union> range (handle_DeleteWebhook S) \<union> range (handle_ListDeliveries S) \<Longrightarrow>
      answers R P (h r c)"
  shows "answers R P (mux S r c)"
proof (rule mux)
  have web: "answers R P (handle_CreateWebhook S r c)" "answers R P (handle_ListWebhooks S r c)"
    "answers R P (handle_GetWebhook S i r c)" "answers R P (handle_SetWebhook S WebhookStatusEnabled i r c)"
    "answers R P (handle_SetWebhook S WebhookStatusDisabled i r c)" "answers R P (handle_DeleteWebhook S i r c)"
    "answers R P (handle_ListDeliveries S i r c)" if "rc_User c = Some u" "cu_Role u = RoleAdmin" for u i r
    using that by (intro admin [of u]; simp)+
  have gated: "answers R P (AdminOnly (handle_ReloadPlugins S) r c)" "answers R P (AdminOnly (handle_ListAuditLogs S) r c)"
    "answers R P (AdminOnly (handle_EnablePlugin S i) r c)" "answers R P (AdminOnly (handle_DisablePlugin S i) r c)"
    "answers R P (AdminOnly (handle_ListExecutionLogs S i) r c)" "answers R P (AdminOnly (handle_ListPluginLogs S i) r c)"
    "answers R P (AdminOnly (handle_ListDeliveries S i) r c)" for i r
    by (rule admin_only, rule admin; simp)+
  note page_text = say [OF pages]
  have exact: "answers R P (route_executions S r c)" "answers R P (route_webhooks S r c)" "answers R P (text_page r c)" for r
  proof -
    show "answers R P (route_executions S r c)"
      unfolding route_executions_def [abs_def] by (intro choose wants assms(9,10))
    show "answers R P (route_webhooks S r c)"
      unfolding route_webhooks_def app_if by (rule admin_only, intro choose wants web; assumption)
    show "answers R P (text_page r c)" unfolding text_page_def by (rule page_text)
  qed
  show "answers R P (h r c)" if "h \<in> snd ` set (exact_routes S)" for h r
  proof -
    from that have "h \<in> {wants ''GET'' (handle_Livez S), wants ''GET'' (handle_Readyz S), wants ''GET'' (handle_Workerz S),
        wants ''GET'' (handle_Dependencyz S), wants ''GET'' text_page, wants ''POST'' (handle_Login S), wants ''GET'' (handle_Me S),
        wants ''GET'' (handle_ListPlugins S), wants ''POST'' (AdminOnly (handle_ReloadPlugins S)), route_executions S,
        wants ''GET'' (AdminOnly (handle_ListAuditLogs S)), route_webhooks S, wants ''GET'' (AdminOnly (handle_ListDeliveries S [])),
        wants ''GET'' (file_page ''docs/openapi.json''), text_page}"
      by (simp add: exact_routes_def RegisterHealthRoutes_def RegisterAuthRoutes_def RegisterPluginRoutes_def
          RegisterAuditRoutes_def RegisterWebhookRoutes_def)
    then show ?thesis using exact by (auto intro!: wants gated file_pages assms(1-8))
  qed
  have sub: "answers R P (route_plugin S r c)" "answers R P (route_execution S r c)" "answers R P (route_audit_execution S r c)"
    "answers R P (route_audit_plugin S r c)" "answers R P (route_webhook S r c)" "answers R P (static_page r c)"
    "answers R P (index_page r c)" for r
  proof -
    show "answers R P (route_plugin S r c)"
      unfolding route_plugin_def Let_def app_if by (intro choose wants assms(7) gated)
    show "answers R P (route_execution S r c)"
      unfolding route_execution_def Let_def app_if by (intro choose wants assms(11-17))
    show "answers R P (route_audit_execution S r c)" "answers R P (route_audit_plugin S r c)"
      unfolding route_audit_execution_def route_audit_plugin_def by (intro wants gated)+
    show "answers R P (route_webhook S r c)"
      unfolding route_webhook_def Let_def app_if by (rule admin_only, intro choose wants web; assumption)
    show "answers R P (static_page r c)" "answers R P (index_page r c)"
      unfolding static_page_def index_page_def app_if by (intro choose file_pages file_servers say no_page)+
  qed
  show "answers R P (h r c)" if "h \<in> snd ` set (subtree_routes S)" for h r
    using that sub by (auto simp: subtree_routes_def)
qed

end

text \<open>The chain of middleware: the context of the handlers has the user the token stands for.\<close>

definition session :: "server \<Rightarrow> http_req \<Rightarrow> world \<Rightarrow> CurrentUser option" where
  "session S r w = (case bearer_token r of None \<Rightarrow> None
     | Some token \<Rightarrow> (case fst (ValidateToken (sv_auth S) token w) of Inr u \<Rightarrow> Some u | Inl _ \<Rightarrow> None))"

lemma ValidateToken_json:
  "ValidateToken json_auth token w = (case io_fault (w_env w) (io_ix w) of Some e \<Rightarrow> (Inl e, w\<lparr>io_ix := Suc (io_ix w)\<rparr>)
     | None \<Rightarrow> ((case find (\<lambda>u. us_TokenHash u = hashSecret (w_env w) token) (users w) of
         None \<Rightarrow> Inl (NewAppError CodeUnauthorized ''invalid token'') | Some u \<Rightarrow> Inr (toCurrentUser u)), w\<lparr>io_ix := Suc (io_ix w)\<rparr>))"
  by (simp add: ValidateToken_def json_auth_def Auth_GetUserByTokenHash_def repo_find_def Load_def disk_def bindE_def split: option.split)

lemma session_stable [simp]:
  assumes "sv_auth S = json_auth"
  shows "session S r (w\<lparr>id_ix := a\<rparr>) = session S r w" "session S r (w\<lparr>now_ix := a\<rparr>) = session S r w"
  using assms by (auto simp: session_def ValidateToken_json split: option.split)

context answering
begin

lemma reads_disk:
  assumes "\<And>w. snd (m w) = w" and "\<And>w a. R w (w\<lparr>io_ix := a\<rparr>)"
  shows "evolves always R (disk m)"
  using assms by (simp add: evolves_def disk_def split: option.split)

lemma auth:
  assumes S: "sv_auth S = json_auth" and c: "rc_User c = None" and io: "\<And>w a. R w (w\<lparr>io_ix := a\<rparr>)"
  obtains c' u where "Auth_middleware (sv_auth S) k r c w = k r c' u" and "rc_User c' = session S r w"
    and "rc_Flusher c' = rc_Flusher c" and "R w u"
proof (cases "bearer_token r")
  case None
  with that [of c w] c R_refl show thesis by (simp add: Auth_middleware_def session_def)
next
  case (Some token)
  obtain q u where v: "ValidateToken json_auth token w = (q, u)" by (cases "ValidateToken json_auth token w")
  then have u: "R w u" using io by (auto simp: ValidateToken_json split: option.splits)
  show thesis
  proof (cases q)
    case (Inl err)
    with that [of c u] c u v Some S show thesis by (simp add: Auth_middleware_def session_def)
  next
    case (Inr user)
    with that [of "c\<lparr>rc_User := Some user\<rparr>" u] u v Some S show thesis by (simp add: Auth_middleware_def session_def)
  qed
qed

lemma router_core:
  assumes S: "sv_auth S = json_auth" and c: "rc_User c = None" and io: "\<And>w a. R w (w\<lparr>io_ix := a\<rparr>)"
    and m: "\<And>c r. rc_User c = session S r0 w \<Longrightarrow> \<not> rc_Flusher c \<Longrightarrow> answers R P (mux S r c)"
    and run: "Recovery pt (Logging (Auth_middleware (sv_auth S) (versionAlias (mux S)))) r0 c w = (rep, t)"
  shows "R w t \<and> P rep"
proof -
  let ?w = "w\<lparr>now_ix := Suc (now_ix w)\<rparr>" and ?c = "c\<lparr>rc_Flusher := False\<rparr>"
  have "rc_User ?c = None" using c by simp
  with S obtain c' u where a: "Auth_middleware (sv_auth S) (versionAlias (mux S)) r0 ?c ?w = versionAlias (mux S) r0 c' u"
    "rc_User c' = session S r0 ?w" "rc_Flusher c' = rc_Flusher ?c" "R ?w u"
    using io by (rule auth)
  from a(2,3) S have c': "rc_User c' = session S r0 w" "\<not> rc_Flusher c'" by simp_all
  from m [OF c'] have "answers R P (versionAlias (mux S) r0 c')" by (simp add: versionAlias_def)
  then have v: "R u (snd (versionAlias (mux S) r0 c' u))" "fst (versionAlias (mux S) r0 c' u) = Some x \<Longrightarrow> P x" for x
    by (simp_all add: answers_def)
  obtain q v' where q: "versionAlias (mux S) r0 c' u = (q, v')" by (cases "versionAlias (mux S) r0 c' u")
  have "R w ?w" by (rule time_passes)
  with a(4) have "R w u" by (blast intro: R_trans)
  with v(1) q have wv: "R w v'" by (auto intro: R_trans)
  show ?thesis
  proof (cases q)
    case None
    with run q a(1) wv show ?thesis by (auto simp: Recovery_def Logging_def Let_def fails)
  next
    case (Some x)
    let ?n = "reply_status x"
    have t: "t = snd (IncHTTP (hq_Method r0) (hq_Path r0) ?n (v'\<lparr>now_ix := Suc (now_ix v')\<rparr>))" "rep = x"
      using run q a(1) Some by (auto simp: Recovery_def Logging_def Let_def)
    have "R v' (v'\<lparr>now_ix := Suc (now_ix v')\<rparr>)" by (rule time_passes)
    moreover have "R v'' (snd (IncHTTP a b n v''))" for v'' a b n
      unfolding IncHTTP_def by (simp add: add_metric_run counts)
    ultimately have "R w t" unfolding t(1) using wv by (blast intro: R_trans)
    with v(2) q Some t(2) show ?thesis by simp
  qed
qed

lemma router:
  assumes S: "sv_auth S = json_auth" and io: "\<And>w a. R w (w\<lparr>io_ix := a\<rparr>)"
    and m: "\<And>c r. rc_User c = session S r0 w \<Longrightarrow> \<not> rc_Flusher c \<Longrightarrow> answers R P (mux S r c)" and run: "NewRouter S r0 w = (rep, t)"
  shows "R w t \<and> P rep"
proof -
  obtain c w' where core: "Recovery (sv_panic S) (Logging (Auth_middleware (sv_auth S) (versionAlias (mux S)))) r0 c w' = (rep, t)"
    and c: "rc_User c = None" and w': "w' = w \<or> (\<exists>a. w' = w\<lparr>id_ix := a\<rparr>)"
    using run by (auto simp: NewRouter_def RequestID_middleware_def TraceContext_middleware_def random_hex_def no_ctx_def Let_def
        split: if_splits intro: that exI [of _ "id_ix w"])
  from w' have "R w w'" by (auto intro: R_refl id_passes)
  moreover have "R w' t \<and> P rep"
    using S c io _ core by (rule router_core) (use m w' S in auto)
  ultimately show ?thesis by (blast intro: R_trans)
qed

end

definition local_mode :: "server \<Rightarrow> bool" where
  "local_mode S \<longleftrightarrow> sv_auth S = json_auth \<and> sv_plugins S = json_plugin_store \<and> (\<exists>X. sv_executions S = local_use_case X)"

section \<open>Anonymous requests\<close>

definition undisturbed :: "world \<Rightarrow> world \<Rightarrow> bool" where
  "undisturbed w t \<longleftrightarrow> same_tables w t \<and> queue_ch t = queue_ch w \<and> subscribers t = subscribers w \<and>
     bus_calls t = bus_calls w \<and> cmd_log t = cmd_log w \<and> http_log t = http_log w"

fun public_data :: "payload \<Rightarrow> bool" where
  "public_data PNone = True"
| "public_data (PLive _) = True"
| "public_data (PReady _ _) = True"
| "public_data (PText _) = True"
| "public_data (PToken _ _) = True"
| "public_data (PPlugin _) = True"
| "public_data (PPlugins _) = True"
| "public_data (PPage _ _ _ d) = public_data d"
| "public_data _ = False"

definition public :: "reply \<Rightarrow> bool" where
  "public rep \<longleftrightarrow> (case rep of Reply e \<Rightarrow> public_data (re_Data e) | Stream _ \<Rightarrow> False | _ \<Rightarrow> True)"

interpretation anon: answering undisturbed public
  by unfold_locales (auto simp: undisturbed_def same_tables_iff public_def Fail_def Let_def)

lemma undisturbed_io: "undisturbed w (w\<lparr>io_ix := a\<rparr>)"
  by (simp add: undisturbed_def same_tables_iff)

lemma undisturbed_Load: "evolves always undisturbed (Load f)"
  unfolding Load_def by (rule anon.reads_disk) (simp_all add: undisturbed_io)

lemma undisturbed_find: "evolves always undisturbed (repo_find f p)"
  unfolding repo_find_def by (intro anon.bind anon.ret undisturbed_Load)

lemma undisturbed_Login: "evolves always undisturbed (Login json_auth u p t)"
  unfolding Login_def json_auth_def Auth_GetUserByTokenHash_def Auth_GetUserByUsername_def
  by (auto intro!: anon.intros undisturbed_find split: option.split)

lemma undisturbed_GetPlugin: "evolves always undisturbed (GetPlugin json_plugin_store i)"
  unfolding GetPlugin_def json_plugin_store_def Plugin_GetByID_def
  by (auto intro!: anon.intros undisturbed_find split: option.split)

lemma undisturbed_ListPlugins: "evolves always undisturbed (ListPlugins json_plugin_store)"
  by (simp add: ListPlugins_def json_plugin_store_def Plugin_List_def undisturbed_Load)

lemma public_Success: "public (Success q d) = public_data d"
  by (simp add: public_def Success_def)

lemma PageItems_subset:
  "PageItems items q = Some (p, n, tot, s) \<Longrightarrow> set s \<subseteq> set items"
  by (auto simp: PageItems_def go_slice_def Let_def split: if_splits dest!: in_set_takeD in_set_dropD)

lemma paged_cases:
  assumes "paged r c mk items = Some rep"
  shows "rep = Success (rc_RequestID c) (mk items) \<or>
    (\<exists>p n tot s. rep = Success (rc_RequestID c) (PPage p n tot (mk s)) \<and> set s \<subseteq> set items)"
  using assms by (auto simp: paged_def Page_def dest: PageItems_subset split: if_splits)

lemma anonymous_mux:
  assumes S: "local_mode S" and c: "rc_User c = None"
  shows "answers undisturbed public (mux S r c)"
proof -
  have m: "sv_auth S = json_auth" "sv_plugins S = json_plugin_store" using S by (simp_all add: local_mode_def)
  have nobody: "answers undisturbed public (withUser c k)" for k using c by (auto intro: anon.withUser)
  show ?thesis
  proof (rule anon.routes)
    show "answers undisturbed public (handle_Login S r c)" for r
      unfolding handle_Login_def [abs_def] m
      by (intro anon.decode anon.choose anon.say_fail anon.orFail undisturbed_Login) (auto intro!: anon.say simp: public_Success)
    show "answers undisturbed public (handle_ListPlugins S r c)" "answers undisturbed public (handle_GetPlugin S i r c)" for r i
      unfolding handle_ListPlugins_def [abs_def] handle_GetPlugin_def [abs_def] m
      by (intro anon.orFail undisturbed_ListPlugins undisturbed_GetPlugin anon.say anon.say_maybe;
          auto simp: public_Success dest!: paged_cases)+
    show "answers undisturbed public (handle_Livez S r c)" for r by (rule anon.live) (simp add: public_Success)
    show "answers undisturbed public (handle_Readyz S r c)" for r
      by (simp add: answers_def handle_Readyz_def public_Success anon.R_refl)
    show "answers undisturbed public (handle_Workerz S r c)" "answers undisturbed public (handle_Dependencyz S r c)" for r
      unfolding handle_Workerz_def handle_Dependencyz_def by (rule anon.say; simp add: public_Success)+
  qed (simp_all add: c handle_Me_def handle_CreateExecution_def handle_ListExecutions_def handle_GetExecution_def
      handle_CancelExecution_def handle_GetExecutionResults_def handle_GetExecutionSummary_def handle_StreamEvents_def
      handle_ListEvents_def handle_ListAttempts_def withTask_def nobody)
qed

text \<open>
  C9. A request without a valid token changes nothing of what the server keeps: no table, not the
  queue, no subscription, and no child process or request is started; and its reply shows no task,
  result, event, attempt, audit entry, webhook or delivery.
\<close>

theorem anonymous_requests_harmless:
  assumes "local_mode S" and "session S r w = None" and "NewRouter S r w = (rep, t)"
  shows "undisturbed w t \<and> public rep"
proof (rule anon.router [OF _ undisturbed_io _ assms(3)])
  show "sv_auth S = json_auth" using assms(1) by (simp add: local_mode_def)
  show "answers undisturbed public (mux S r' c)" if "rc_User c = session S r w" for c r'
    using anonymous_mux assms(1,2) that by simp
qed

section \<open>Requests of users who are not administrators\<close>

definition setup_kept :: "world \<Rightarrow> world \<Rightarrow> bool" where
  "setup_kept w t \<longleftrightarrow> users t = users w \<and> plugins t = plugins w \<and> plugin_registry t = plugin_registry w \<and>
     webhooks t = webhooks w \<and> webhook_deliveries t = webhook_deliveries w \<and> cmd_log t = cmd_log w \<and> http_log t = http_log w"

fun unprivileged_data :: "payload \<Rightarrow> bool" where
  "unprivileged_data (PAudit _) = False"
| "unprivileged_data (PSync _) = False"
| "unprivileged_data (PWebhook _) = False"
| "unprivileged_data (PWebhookSecret _ _) = False"
| "unprivileged_data (PWebhooks _) = False"
| "unprivileged_data (PDeliveries _) = False"
| "unprivileged_data PDeleted = False"
| "unprivileged_data (PPage _ _ _ d) = unprivileged_data d"
| "unprivileged_data _ = True"

definition unprivileged :: "reply \<Rightarrow> bool" where
  "unprivileged rep \<longleftrightarrow> (case rep of Reply e \<Rightarrow> unprivileged_data (re_Data e) | _ \<Rightarrow> True)"

interpretation plain: answering setup_kept unprivileged
  by unfold_locales (auto simp: setup_kept_def unprivileged_def Fail_def Let_def)

named_theorems setting \<open>operations that leave users, plugins and webhooks alone\<close>
lemmas [setting] = plain.intros

lemma setup_io: "setup_kept w (w\<lparr>io_ix := a\<rparr>)"
  by (simp add: setup_kept_def)

lemma undisturbed_setup: "evolves always undisturbed m \<Longrightarrow> evolves always setup_kept m"
  by (erule evolves_mono) (simp add: undisturbed_def setup_kept_def same_tables_iff)

lemma setup_now [setting]: "evolves always setup_kept time_now" by (simp add: evolves_def time_now_def setup_kept_def)
lemma setup_id [setting]: "evolves always setup_kept (newID p)" by (simp add: evolves_def newID_def setup_kept_def)
lemma setup_metric [setting]: "evolves always setup_kept (add_metric m n)" by (simp add: evolves_def add_metric_def setup_kept_def)
lemma setup_Load [setting]: "evolves always setup_kept (Load f)" by (rule undisturbed_setup, rule undisturbed_Load)
lemma setup_find [setting]: "evolves always setup_kept (repo_find f p)" by (rule undisturbed_setup, rule undisturbed_find)
lemma setup_filter [setting]: "evolves always setup_kept (repo_filter f p)"
  unfolding repo_filter_def by (intro setting)

lemma setup_Save:
  assumes "\<And>w xs. setup_kept w (upd (\<lambda>_. xs) w)"
  shows "evolves always setup_kept (Save upd xs)"
  using assms by (auto simp: evolves_def Save_def disk_def setup_kept_def split: option.split)

lemma setup_writes [setting]:
  "evolves always setup_kept (Save executions_update xs)" "evolves always setup_kept (Save execution_events_update ys)"
  "evolves always setup_kept (Save audit_logs_update zs)"
  by (rule setup_Save, simp add: setup_kept_def)+

lemma setup_Publish [setting]: "evolves always setup_kept (Bus_Publish e)"
  unfolding Bus_Publish_def by (rule plain.mods) (simp add: setup_kept_def)

lemma setup_Submit [setting]: "evolves always setup_kept (Submit c i)"
proof (rule evolvesI)
  fix w show "True \<and> setup_kept w (snd (Submit c i w))" using Submit_cases [of c i w] by (auto simp: setup_kept_def)
qed

lemma setup_Record [setting]: "evolves always setup_kept (Event_Record i p ty s m q d)"
  unfolding Event_Record_def Event_Create_def repo_append_def Let_def by (intro setting)

lemma setup_Audit [setting]: "evolves always setup_kept (Audit_RecordScoped sc a act rt ri rq tr de re ms dt)"
  unfolding Audit_RecordScoped_def Audit_Create_def repo_append_def Let_def by (intro setting)

lemma setup_hashes [setting]: "evolves always setup_kept (BuildInputHash inp)" "evolves always setup_kept (BuildPluginIDsHash ids)"
  by (auto simp: evolves_def BuildInputHash_def BuildPluginIDsHash_def setup_kept_def split: sum.split)

lemma setup_checked [setting]: "evolves always setup_kept k \<Longrightarrow> evolves always setup_kept (checked r k)"
  by (cases r) (simp_all add: checked_def plain.fail)
lemma setup_when [setting]: "evolves always setup_kept k \<Longrightarrow> evolves always setup_kept (whenE g k)"
  by (cases g) (simp_all add: whenE_def plain.ret)

lemma setup_GetExecution [setting]: "evolves always setup_kept (GetExecution u i)"
  unfolding GetExecution_def Execution_GetByID_def by (intro setting)
lemma setup_ListExecutions [setting]: "evolves always setup_kept (ListExecutions u)"
  unfolding ListExecutions_def Execution_ListAll_def Execution_ListByScope_def Execution_ListByUserID_def by (intro setting)
lemma setup_UpdateStatus [setting]: "evolves always setup_kept (Execution_UpdateStatus i st msg)"
  unfolding Execution_UpdateStatus_def Execution_GetByID_def Execution_Update_def repo_update_def by (intro setting)
lemma setup_Validate [setting]: "evolves always setup_kept (ValidatePluginsExecutable json_plugin_store ids)"
  unfolding ValidatePluginsExecutable_default executable_plugin_def
  by (intro setting undisturbed_setup [OF undisturbed_GetPlugin])
lemma setup_Enqueue [setting]: "evolves always setup_kept (EnqueueNew X c i rq)"
  unfolding EnqueueNew_def MarkQueued_def GetExecutionInternal_def Execution_GetByID_def inc_defs by (intro setting)
lemma setup_Cancel [setting]: "evolves always setup_kept (CancelExecution X u i rq)"
  unfolding CancelExecution_def by (intro setting)
lemma setup_Create [setting]: "evolves always setup_kept (CreateExecution X c u ids inp key rq)"
  unfolding CreateExecution_def start_execution_def reuse_execution_def Execution_CreateWithIdempotency_def inc_defs
  by (intro setting)

lemma unprivileged_Success: "unprivileged (Success q d) = unprivileged_data d" "unprivileged (Created q d) = unprivileged_data d"
  "unprivileged (Stream es)"
  by (simp_all add: unprivileged_def Success_def Created_def)

lemma plain_mux:
  assumes S: "local_mode S" and c: "\<And>u. rc_User c = Some u \<Longrightarrow> cu_Role u \<noteq> RoleAdmin"
  shows "answers setup_kept unprivileged (mux S r c)"
proof -
  obtain X where m: "sv_auth S = json_auth" "sv_plugins S = json_plugin_store" "sv_executions S = local_use_case X"
    using S by (auto simp: local_mode_def)
  note U = unprivileged_Success
  have task: "answers setup_kept unprivileged (withTask S i c k)" if "\<And>e. answers setup_kept unprivileged (k e)" for i k
    unfolding withTask_def m local_use_case_def using that by (intro plain.withUser plain.orFail) (simp_all add: setup_GetExecution)
  show ?thesis
  proof (rule plain.routes)
    show "answers setup_kept unprivileged (handle_Login S r c)" for r
      unfolding handle_Login_def [abs_def] m
      by (intro plain.decode plain.choose plain.say_fail plain.orFail undisturbed_setup [OF undisturbed_Login])
        (auto intro!: plain.say simp: U)
    show "answers setup_kept unprivileged (handle_ListPlugins S r c)" "answers setup_kept unprivileged (handle_GetPlugin S i r c)" for r i
      unfolding handle_ListPlugins_def [abs_def] handle_GetPlugin_def [abs_def] m
      by (intro plain.orFail undisturbed_setup [OF undisturbed_ListPlugins] undisturbed_setup [OF undisturbed_GetPlugin]
          plain.say plain.say_maybe; auto simp: U dest!: paged_cases)+
    show "answers setup_kept unprivileged (handle_Livez S r c)" for r by (rule plain.live) (simp add: U)
    show "answers setup_kept unprivileged (handle_Readyz S r c)" for r
      by (simp add: answers_def handle_Readyz_def U plain.R_refl)
    show "answers setup_kept unprivileged (handle_Workerz S r c)" "answers setup_kept unprivileged (handle_Dependencyz S r c)" for r
      unfolding handle_Workerz_def handle_Dependencyz_def by (rule plain.say; simp add: U)+
    show "answers setup_kept unprivileged (handle_Me S r c)" for r
      unfolding handle_Me_def by (intro plain.withUser plain.say) (simp add: U)
    show "answers setup_kept unprivileged (handle_CreateExecution S r c)" for r
      unfolding handle_CreateExecution_def m local_use_case_def ExecutionUseCase.simps
      by (intro plain.withUser plain.decode plain.choose plain.say_fail plain.orFail setup_Create plain.say) (simp add: U)
    show "answers setup_kept unprivileged (handle_ListExecutions S r c)" for r
      unfolding handle_ListExecutions_def m local_use_case_def ExecutionUseCase.simps
      by (intro plain.withUser plain.orFail setup_ListExecutions plain.say_maybe) (auto simp: U dest!: paged_cases)
    show "answers setup_kept unprivileged (handle_GetExecution S i r c)" "answers setup_kept unprivileged (handle_CancelExecution S i r c)" for i r
      unfolding handle_GetExecution_def handle_CancelExecution_def m local_use_case_def ExecutionUseCase.simps
      by (intro plain.withUser plain.orFail setup_GetExecution setup_Cancel plain.say; simp add: U)+
    show "answers setup_kept unprivileged (handle_GetExecutionResults S i r c)"
      "answers setup_kept unprivileged (handle_GetExecutionSummary S i r c)"
      "answers setup_kept unprivileged (handle_ListEvents S i r c)" "answers setup_kept unprivileged (handle_ListAttempts S i r c)" for i r
      unfolding handle_GetExecutionResults_def handle_GetExecutionSummary_def handle_ListEvents_def handle_ListAttempts_def
        GetExecutionResults_def Result_GetByExecutionID_def Event_ListByExecutionID_def Attempt_ListByExecutionID_def
      by (intro task plain.orFail setup_filter plain.say; simp add: U)+
    show "answers setup_kept unprivileged (handle_StreamEvents S i r c)" for i r
      unfolding handle_StreamEvents_def
    proof (rule task, rule answersI)
      fix w
      obtain past t where st: "stream_past i w = (past, t)" by (cases "stream_past i w")
      have "evolves always setup_kept (Event_ListByExecutionID i)" unfolding Event_ListByExecutionID_def by (rule setup_filter)
      then have "setup_kept w t" using st evolvesD [of always setup_kept "Event_ListByExecutionID i" w]
        by (auto simp: stream_past_def split: prod.splits sum.splits)
      then have "setup_kept w (snd (Bus_Subscribe i (sv_stream S) t))" by (simp add: Bus_Subscribe_def Let_def setup_kept_def)
      then show "setup_kept w (snd (if \<not> rc_Flusher c then (Some (Fail (rc_RequestID c) (NewAppError CodeInternalError ''streaming unsupported'')), w)
            else case stream_past i w of (past, t) \<Rightarrow> (Some (Stream past), snd (Bus_Subscribe i (sv_stream S) t)))) \<and>
          (\<forall>rep. fst (if \<not> rc_Flusher c then (Some (Fail (rc_RequestID c) (NewAppError CodeInternalError ''streaming unsupported'')), w)
            else case stream_past i w of (past, t) \<Rightarrow> (Some (Stream past), snd (Bus_Subscribe i (sv_stream S) t))) = Some rep \<longrightarrow> unprivileged rep)"
        by (simp add: st U plain.fails plain.R_refl)
    qed
  qed (use c in blast)
qed


section \<open>What a user is shown\<close>

definition may_see :: "CurrentUser \<Rightarrow> Execution \<Rightarrow> bool" where
  "may_see u e \<longleftrightarrow> IsSuperAdminRole (cu_Role u) \<or>
     IsAdminRole (cu_Role u) \<and> SameScope (CurrentUser_Scope u) (Execution_Scope e) \<or> ex_UserID e = cu_ID u"

text \<open>Tasks the user may see, webhooks of the user's scope and without their secret, deliveries of the scope.\<close>

fun shown :: "CurrentUser \<Rightarrow> payload \<Rightarrow> bool" where
  "shown u (PExecution e) = may_see u e"
| "shown u (PExecutions es) = (\<forall>e \<in> set es. may_see u e)"
| "shown u (PWebhook h) = (we_Secret h = [] \<and> sameWebhookScope u (we_TenantID h) (we_ProjectID h))"
| "shown u (PWebhookSecret h s) = (we_Secret h = [] \<and> sameWebhookScope u (we_TenantID h) (we_ProjectID h))"
| "shown u (PWebhooks hs) = (\<forall>h \<in> set hs. we_Secret h = [] \<and> sameWebhookScope u (we_TenantID h) (we_ProjectID h))"
| "shown u (PDeliveries ds) = (\<forall>d \<in> set ds. sameWebhookScope u (wd_TenantID d) (wd_ProjectID d))"
| "shown u (PUser v) = (v = u)"
| "shown u (PPage _ _ _ d) = shown u d"
| "shown u _ = True"

definition discreet :: "CurrentUser \<Rightarrow> reply \<Rightarrow> bool" where
  "discreet u rep \<longleftrightarrow> (case rep of Reply e \<Rightarrow> shown u (re_Data e) | _ \<Rightarrow> True)"

abbreviation anyhow :: "world \<Rightarrow> world \<Rightarrow> bool" where "anyhow \<equiv> \<lambda>_ _. True"

interpretation seen: answering anyhow "discreet u" for u
  by unfold_locales (auto simp: discreet_def Fail_def Let_def)

lemma anyhow [simp]: "evolves always anyhow m" by (simp add: evolves_def)

lemma discreet_Success: "discreet u (Success q d) = shown u d" "discreet u (Created q d) = shown u d" "discreet u (Stream es)"
  by (simp_all add: discreet_def Success_def Created_def)

lemma GetExecution_seen: "GetExecution u i w = (Inr e, t) \<Longrightarrow> may_see u e"
  by (auto simp: GetExecution_def may_see_def elim!: progE split: option.splits)

lemma ListExecutions_seen:
  assumes "ListExecutions u w = (Inr es, t)" and "e \<in> set es"
  shows "may_see u e"
proof -
  have l: "xs = filter p (executions w)" if "repo_filter executions p w = (Inr xs, t)" for p xs
    using that by (cases rule: repo_filter_cases) auto
  show ?thesis
    using assms by (auto simp: ListExecutions_def may_see_def Execution_ListByScope_def Execution_ListByUserID_def dest!: l split: if_splits)
qed

lemma CancelExecution_seen: "CancelExecution X u i rq w = (Inr e, t) \<Longrightarrow> may_see u e"
  by (auto simp: CancelExecution_def elim!: progE dest: GetExecution_seen)

lemma CreateWithIdempotency_user:
  "Execution_CreateWithIdempotency n w = (Inr (e, c), t) \<Longrightarrow> \<not> c \<Longrightarrow> ex_UserID e = ex_UserID n"
  by (auto simp: Execution_CreateWithIdempotency_def same_idempotency_def find_Some_iff elim!: progE split: option.splits if_splits)

lemma CreateExecution_seen: "CreateExecution X c u ids inp key rq w = (Inr e, t) \<Longrightarrow> may_see u e"
  by (auto simp: CreateExecution_def start_execution_def reuse_execution_def new_execution_def Let_def may_see_def
      elim!: progE dest!: GetExecution_seen CreateWithIdempotency_user split: if_splits option.splits)

lemma redacted [simp]: "we_Secret (redactWebhook h) = []" "we_TenantID (redactWebhook h) = we_TenantID h"
  "we_ProjectID (redactWebhook h) = we_ProjectID h"
  by (simp_all add: redactWebhook_def)

abbreviation own_hook :: "CurrentUser \<Rightarrow> WebhookEndpoint \<Rightarrow> bool" where
  "own_hook u h \<equiv> sameWebhookScope u (we_TenantID h) (we_ProjectID h)"

lemma GetEndpoint_seen: "GetEndpointForUser u i w = (Inr h, t) \<Longrightarrow> own_hook u h"
  by (auto simp: GetEndpointForUser_def elim!: progE)

lemma ListEndpoints_seen: "ListEndpointsForUser u w = (Inr hs, t) \<Longrightarrow> \<forall>h \<in> set hs. own_hook u h"
  by (auto simp: ListEndpointsForUser_def elim!: progE)

lemma ListDeliveries_seen: "ListDeliveriesForUser u i w = (Inr ds, t) \<Longrightarrow> \<forall>d \<in> set ds. sameWebhookScope u (wd_TenantID d) (wd_ProjectID d)"
  by (auto simp: ListDeliveriesForUser_def elim!: progE)

lemma SetEndpoint_seen: "SetEndpointStatusForUser u i st w = (Inr h, t) \<Longrightarrow> own_hook u h"
  by (auto simp: SetEndpointStatusForUser_def Let_def elim!: progE dest!: GetEndpoint_seen)

lemma CreateEndpoint_seen: "CreateEndpoint X u inp w = (Inr (h, s), t) \<Longrightarrow> own_hook u h"
  by (auto simp: CreateEndpoint_def Let_def sameWebhookScope_def elim!: progE split: option.splits if_splits)

lemma seen_admin:
  "rc_User c = Some u \<Longrightarrow>
   h \<in> {handle_ReloadPlugins S, handle_ListAuditLogs S, handle_CreateWebhook S, handle_ListWebhooks S} \<union>
        range (handle_EnablePlugin S) \<union> range (handle_DisablePlugin S) \<union> range (handle_ListExecutionLogs S) \<union>
        range (handle_ListPluginLogs S) \<union> range (handle_GetWebhook S) \<union> range (handle_SetWebhook S WebhookStatusEnabled) \<union>
        range (handle_SetWebhook S WebhookStatusDisabled) \<union> range (handle_DeleteWebhook S) \<union> range (handle_ListDeliveries S) \<Longrightarrow>
   answers anyhow (discreet u) (h r c)"
proof -
  assume c: "rc_User c = Some u"
  note D = discreet_Success
  have user: "answers anyhow (discreet u) (withUser c k)" if "answers anyhow (discreet u) (k u)" for k
    using that c by (auto intro: seen.withUser)
  have "answers anyhow (discreet u) (handle_ReloadPlugins S r c)" "answers anyhow (discreet u) (handle_EnablePlugin S i r c)"
    "answers anyhow (discreet u) (handle_DisablePlugin S i r c)" for i
    unfolding handle_ReloadPlugins_def handle_EnablePlugin_def handle_DisablePlugin_def
    by (intro seen.orFail seen.audited anyhow; simp add: D)+
  moreover have "answers anyhow (discreet u) (handle_ListAuditLogs S r c)" "answers anyhow (discreet u) (handle_ListExecutionLogs S i r c)"
    "answers anyhow (discreet u) (handle_ListPluginLogs S i r c)" for i
    unfolding handle_ListAuditLogs_def handle_ListExecutionLogs_def handle_ListPluginLogs_def
    by (intro seen.orFail anyhow seen.say_maybe seen.say; auto simp: D dest!: paged_cases)+
  moreover have "answers anyhow (discreet u) (handle_CreateWebhook S r c)"
    unfolding handle_CreateWebhook_def
    by (intro user seen.decode, rule seen.orFail_from [where Q = "\<lambda>(h, s). own_hook u h"])
      (auto simp: D intro!: seen.say dest: CreateEndpoint_seen)
  moreover have "answers anyhow (discreet u) (handle_ListWebhooks S r c)"
    unfolding handle_ListWebhooks_def
    by (intro user, rule seen.orFail_from [where Q = "\<lambda>hs. \<forall>h \<in> set hs. own_hook u h"])
      (auto simp: D redactWebhooks_def intro!: seen.say dest: ListEndpoints_seen)
  moreover have "answers anyhow (discreet u) (handle_GetWebhook S i r c)" "answers anyhow (discreet u) (handle_SetWebhook S st i r c)" for i st
    unfolding handle_GetWebhook_def handle_SetWebhook_def
    by (intro user, rule seen.orFail_from [where Q = "own_hook u"];
        auto simp: D intro!: seen.say dest: GetEndpoint_seen SetEndpoint_seen)+
  moreover have "answers anyhow (discreet u) (handle_DeleteWebhook S i r c)" for i
    unfolding handle_DeleteWebhook_def by (intro user seen.orFail anyhow seen.say) (simp add: D)
  moreover have "answers anyhow (discreet u) (handle_ListDeliveries S i r c)" for i
    unfolding handle_ListDeliveries_def
    by (intro user, rule seen.orFail_from [where Q = "\<lambda>ds. \<forall>d \<in> set ds. sameWebhookScope u (wd_TenantID d) (wd_ProjectID d)"])
      (auto simp: D intro!: seen.say dest: ListDeliveries_seen)
  moreover assume "h \<in> {handle_ReloadPlugins S, handle_ListAuditLogs S, handle_CreateWebhook S, handle_ListWebhooks S} \<union>
        range (handle_EnablePlugin S) \<union> range (handle_DisablePlugin S) \<union> range (handle_ListExecutionLogs S) \<union>
        range (handle_ListPluginLogs S) \<union> range (handle_GetWebhook S) \<union> range (handle_SetWebhook S WebhookStatusEnabled) \<union>
        range (handle_SetWebhook S WebhookStatusDisabled) \<union> range (handle_DeleteWebhook S) \<union> range (handle_ListDeliveries S)"
  ultimately show ?thesis by auto
qed

lemma seen_mux:
  assumes S: "local_mode S" and c: "rc_User c = Some u"
  shows "answers anyhow (discreet u) (mux S r c)"
proof -
  obtain X where m: "sv_executions S = local_use_case X" using S by (auto simp: local_mode_def)
  note D = discreet_Success
  have user: "answers anyhow (discreet u) (withUser c k)" if "answers anyhow (discreet u) (k u)" for k
    using that c by (auto intro: seen.withUser)
  have task: "answers anyhow (discreet u) (withTask S i c k)" if "\<And>e. answers anyhow (discreet u) (k e)" for i k
    unfolding withTask_def using that by (intro user seen.orFail anyhow)
  show ?thesis
  proof (rule seen.routes)
    show "answers anyhow (discreet u) (handle_Login S r c)" for r
      unfolding handle_Login_def [abs_def]
      by (intro seen.decode seen.choose seen.say_fail seen.orFail anyhow) (auto intro!: seen.say simp: D)
    show "answers anyhow (discreet u) (handle_ListPlugins S r c)" "answers anyhow (discreet u) (handle_GetPlugin S i r c)" for r i
      unfolding handle_ListPlugins_def [abs_def] handle_GetPlugin_def [abs_def]
      by (intro seen.orFail anyhow seen.say seen.say_maybe; auto simp: D dest!: paged_cases)+
    show "answers anyhow (discreet u) (handle_Livez S r c)" for r by (rule seen.live) (simp add: D)
    show "answers anyhow (discreet u) (handle_Readyz S r c)" for r by (simp add: answers_def handle_Readyz_def D)
    show "answers anyhow (discreet u) (handle_Workerz S r c)" "answers anyhow (discreet u) (handle_Dependencyz S r c)" for r
      unfolding handle_Workerz_def handle_Dependencyz_def by (rule seen.say; simp add: D)+
    show "answers anyhow (discreet u) (handle_Me S r c)" for r
      unfolding handle_Me_def by (intro user seen.say) (simp add: D)
    show "answers anyhow (discreet u) (handle_CreateExecution S r c)" for r
      unfolding handle_CreateExecution_def m local_use_case_def ExecutionUseCase.simps
      by (intro user seen.decode seen.choose seen.say_fail, rule seen.orFail_from [where Q = "may_see u"])
        (auto simp: D intro!: seen.say dest: CreateExecution_seen)
    show "answers anyhow (discreet u) (handle_ListExecutions S r c)" for r
      unfolding handle_ListExecutions_def m local_use_case_def ExecutionUseCase.simps
      by (intro user, rule seen.orFail_from [where Q = "\<lambda>es. \<forall>e \<in> set es. may_see u e"])
        (auto simp: D subset_iff intro!: seen.say_maybe dest: ListExecutions_seen dest!: paged_cases)
    show "answers anyhow (discreet u) (handle_GetExecution S i r c)" "answers anyhow (discreet u) (handle_CancelExecution S i r c)" for i r
      unfolding handle_GetExecution_def handle_CancelExecution_def m local_use_case_def ExecutionUseCase.simps
      by (intro user, rule seen.orFail_from [where Q = "may_see u"];
          auto simp: D intro!: seen.say dest: GetExecution_seen CancelExecution_seen)+
    show "answers anyhow (discreet u) (handle_GetExecutionResults S i r c)" "answers anyhow (discreet u) (handle_GetExecutionSummary S i r c)"
      "answers anyhow (discreet u) (handle_ListEvents S i r c)" "answers anyhow (discreet u) (handle_ListAttempts S i r c)" for i r
      unfolding handle_GetExecutionResults_def handle_GetExecutionSummary_def handle_ListEvents_def handle_ListAttempts_def
      by (intro task seen.orFail anyhow seen.say; simp add: D)+
    show "answers anyhow (discreet u) (handle_StreamEvents S i r c)" for i r
      unfolding handle_StreamEvents_def by (rule task) (simp add: answers_def D seen.fails split: prod.split)
  qed (use c seen_admin in auto)
qed


section \<open>Streaming\<close>

abbreviation no_stream :: "reply \<Rightarrow> bool" where "no_stream rep \<equiv> (\<forall>es. rep \<noteq> Stream es)"

interpretation silent: answering anyhow no_stream
  by unfold_locales (auto simp: Fail_def Let_def)

lemma not_streams [simp]: "Success q d \<noteq> Stream es" "Created q d \<noteq> Stream es" "Fail q err \<noteq> Stream es" "paged r c mk items \<noteq> Some (Stream es)"
  by (auto simp: Success_def Created_def Fail_def Page_def paged_def Let_def)

lemma silent_orFail: "(\<And>x. answers anyhow no_stream (k x)) \<Longrightarrow> answers anyhow no_stream (orFail c m k)"
  by (intro silent.orFail anyhow)

lemma silent_Task: "(\<And>e. answers anyhow no_stream (k e)) \<Longrightarrow> answers anyhow no_stream (withTask S i c k)"
  unfolding withTask_def by (intro silent.withUser silent_orFail)

lemmas silent_rules = silent_orFail silent_Task silent.withUser silent.decode silent.choose silent.say_fail silent.audited

lemma silent_mux:
  assumes "\<not> rc_Flusher c"
  shows "answers anyhow no_stream (mux S r c)"
proof -
  note handlers = handle_Login_def handle_ListPlugins_def handle_GetPlugin_def handle_Me_def handle_CreateExecution_def
    handle_ListExecutions_def handle_GetExecution_def handle_CancelExecution_def handle_GetExecutionResults_def
    handle_GetExecutionSummary_def handle_ListEvents_def handle_ListAttempts_def handle_ReloadPlugins_def handle_EnablePlugin_def
    handle_DisablePlugin_def handle_ListAuditLogs_def handle_ListExecutionLogs_def handle_ListPluginLogs_def handle_CreateWebhook_def
    handle_ListWebhooks_def handle_GetWebhook_def handle_SetWebhook_def handle_DeleteWebhook_def handle_ListDeliveries_def
    handle_Workerz_def handle_Dependencyz_def
  show ?thesis
  proof (rule silent.routes)
    show "answers anyhow no_stream (handle_Livez S r c)" for r by (rule silent.live) simp
    show "answers anyhow no_stream (handle_Readyz S r c)" for r by (simp add: answers_def handle_Readyz_def)
    show "answers anyhow no_stream (handle_StreamEvents S i r c)" for i r
      unfolding handle_StreamEvents_def using assms by (intro silent_Task) (simp add: answers_def)
  qed (unfold handlers [abs_def], (auto intro!: silent_rules silent.say silent.say_maybe anyhow split: prod.splits)+)
qed

text \<open>
  No request gets a stream of events: the writer the logging middleware hands on cannot be
  flushed, so the streaming handler always answers that streaming is not supported.
\<close>

theorem streams_never_open:
  assumes "sv_auth S = json_auth" and "NewRouter S r w = (rep, t)"
  shows "rep \<noteq> Stream es"
proof -
  have "anyhow w t \<and> no_stream rep"
    by (rule silent.router [OF assms(1) _ _ assms(2)]) (simp_all add: silent_mux)
  then show ?thesis by simp
qed

end
