(* ===== verification/ServerPages.thy ===== *)
theory ServerPages
  imports ServerSpec Sample
begin

text \<open>
  The pages of a listing, what a stream of events can miss, and the properties of the server applied
  to concrete requests.
\<close>

section \<open>Pages\<close>

text \<open>Without wrap-around a page is a slice of the list.\<close>

lemma PageItems_slice:
  assumes "1 \<le> p" and "1 \<le> n" and "n \<le> 100" and "p * n < 2 ^ 62" and "int (length items) < 2 ^ 62"
  shows "PageItems items \<lparr>pq_Page = p, pq_PageSize = n\<rparr> =
    Some (p, n, int (length items), take (nat n) (drop (nat ((p - 1) * n)) items))"
proof -
  let ?t = "int (length items)"
  have p: "p - 1 < 2 ^ 62" "0 \<le> (p - 1) * n" "(p - 1) * n < 2 ^ 62"
  proof -
    have "(p - 1) * 1 \<le> (p - 1) * n" using assms(1,2) by (intro mult_left_mono) simp_all
    moreover have s: "(p - 1) * n < 2 ^ 62" using assms(2,4) by (simp add: algebra_simps)
    ultimately show "p - 1 < 2 ^ 62" by simp
    show "(p - 1) * n < 2 ^ 62" by (rule s)
    show "0 \<le> (p - 1) * n" using assms(1,2) by simp
  qed
  then have w1: "wrap64 (wrap64 (p - 1) * n) = (p - 1) * n" using assms(1) by (simp add: wrap64_id)
  define start where "start = min ((p - 1) * n) ?t"
  have w2: "wrap64 (start + n) = start + n"
    using p assms(2,3,5) by (intro wrap64_id) (auto simp: start_def)
  define e where "e = min (start + n) ?t"
  have norm: "NormalizePageQuery \<lparr>pq_Page = p, pq_PageSize = n\<rparr> = \<lparr>pq_Page = p, pq_PageSize = n\<rparr>"
    using assms(1-3) by (simp add: NormalizePageQuery_def)
  have s1: "(if (p - 1) * n > ?t then ?t else (p - 1) * n) = start" and e1: "(if start + n > ?t then ?t else start + n) = e"
    by (simp_all add: start_def e_def min_def)
  have "PageItems items \<lparr>pq_Page = p, pq_PageSize = n\<rparr> = map_option (\<lambda>s. (p, n, ?t, s)) (go_slice items start e)"
    unfolding PageItems_def norm Let_def PageQuery.simps w1 s1 w2 e1 ..
  moreover have "go_slice items start e = Some (take (nat (e - start)) (drop (nat start) items))"
    using p assms(2) by (simp add: go_slice_def start_def e_def)
  moreover have "take (nat (e - start)) (drop (nat start) items) = take (nat n) (drop (nat ((p - 1) * n)) items)"
  proof (cases "(p - 1) * n < ?t")
    case True
    then have s: "start = (p - 1) * n" by (simp add: start_def)
    show ?thesis
    proof (cases "start + n \<le> ?t")
      case True
      then show ?thesis by (simp add: e_def s)
    next
      case False
      then have "length (drop (nat start) items) \<le> nat n" "length (drop (nat start) items) \<le> nat (e - start)"
        using p s by (simp_all add: e_def)
      then show ?thesis using s by simp
    qed
  next
    case False
    then show ?thesis by (simp add: start_def)
  qed
  ultimately show ?thesis by simp
qed

definition page_of :: "'a list \<Rightarrow> int \<Rightarrow> int \<Rightarrow> 'a list" where
  "page_of items n p = (case PageItems items \<lparr>pq_Page = p, pq_PageSize = n\<rparr> of Some (_, _, _, s) \<Rightarrow> s | None \<Rightarrow> [])"

text \<open>
  C33. Reading a listing page by page, with any page size the server accepts, gives exactly the
  whole listing, in order and without repetition.
\<close>

theorem pages_give_the_list:
  assumes "1 \<le> n" and "n \<le> 100" and "length items \<le> k * nat n" and "int k * n < 2 ^ 62"
  shows "concat (map (\<lambda>p. page_of items n (int p)) [1..<Suc k]) = items"
proof -
  have len: "int (length items) < 2 ^ 62"
  proof -
    from assms(3) have "int (length items) \<le> int (k * nat n)" by (rule of_nat_mono)
    then have "int (length items) \<le> int k * n" using assms(1) by simp
    with assms(4) show ?thesis by linarith
  qed
  have "concat (map (\<lambda>p. page_of items n (int p)) [1..<Suc j]) = take (j * nat n) items" if "j \<le> k" for j
    using that
  proof (induction j)
    case 0
    then show ?case by simp
  next
    case (Suc j)
    have "int (Suc j) * n \<le> int k * n" using Suc.prems assms(1) by (intro mult_right_mono) simp_all
    then have b: "int (Suc j) * n < 2 ^ 62" using assms(4) by linarith
    have o: "nat ((int (Suc j) - 1) * n) = j * nat n" using assms(1) by (simp add: nat_mult_distrib)
    have "page_of items n (int (Suc j)) = take (nat n) (drop (j * nat n) items)"
      using PageItems_slice [OF _ assms(1,2) b len] o by (simp add: page_of_def)
    moreover have "take (Suc j * nat n) items = take (j * nat n) items @ take (nat n) (drop (j * nat n) items)"
      using take_add [of "j * nat n" "nat n" items] by (simp only: mult_Suc add.commute)
    ultimately show ?case using Suc by simp
  qed
  from this [of k] assms(3) show ?thesis by simp
qed

theorem pages_give_the_list_witness:
  "concat (map (\<lambda>p. page_of [''a'', ''b'', ''c''] 2 (int p)) [1..<Suc 2]) = [''a'', ''b'', ''c'']"
  by (rule pages_give_the_list) simp_all

text \<open>A page number from the query can make the multiplication wrap, and the slice panics.\<close>

lemma PageItems_panics: "PageItems items \<lparr>pq_Page = 2 ^ 62 + 1, pq_PageSize = 2\<rparr> = None"
proof -
  have w: "wrap64 (wrap64 ((2 ^ 62 + 1) - 1) * 2) = - (2 ^ 63)" by code_simp
  have v: "go_slice items (- (2 ^ 63)) e = None" for e by (simp add: go_slice_def)
  have n: "NormalizePageQuery \<lparr>pq_Page = 2 ^ 62 + 1, pq_PageSize = 2\<rparr> = \<lparr>pq_Page = 2 ^ 62 + 1, pq_PageSize = 2\<rparr>" by code_simp
  have l: "\<not> - (2 ^ 63) > int (length items)" by simp
  show ?thesis unfolding PageItems_def n Let_def PageQuery.simps w if_not_P [OF l] v by simp
qed

section \<open>Streams\<close>

text \<open>
  The stream lists the past events first and subscribes afterwards: an event published in between is
  neither among the past ones nor sent to the subscriber.
\<close>

lemma stream_gap:
  assumes "stream_past i w = (past, t)" and "e \<notin> set past" and "fn \<notin> set (bus_targets t e)" and "(fn, e) \<notin> set (bus_calls t)"
  shows "e \<notin> set past \<and> (fn, e) \<notin> set (bus_calls (snd (Bus_Subscribe i fn (snd (Bus_Publish e t)))))"
  using assms by (auto simp: Bus_Publish_def Bus_Subscribe_def Let_def)

lemma stream_offer_bounded: "length ch \<le> 16 \<Longrightarrow> length (stream_offer ch evt) \<le> 16"
  by (simp add: stream_offer_def)

section \<open>The server on concrete requests\<close>

definition sample_member :: User where
  "sample_member = \<lparr>us_TenantID = [], us_ProjectID = [], us_ID = ''u1'', us_Username = ''ann'', us_Role = RoleUser,
     us_TokenHash = ''token'', us_PasswordHash = ''pw'', us_CreatedAt = 0, us_UpdatedAt = 0\<rparr>"

definition sample_server :: server where
  "sample_server = \<lparr>sv_auth = json_auth,
     sv_executions = local_use_case \<lparr>es_audit = True, es_queue = True, es_events = True\<rparr>,
     sv_plugins = json_plugin_store,
     sv_registry = \<lparr>gy_manifest = NewManifestService [], gy_registry = json_registry, gy_pluginRepo = json_plugin_store\<rparr>,
     sv_pluginDir = ''plugins'', sv_webhooks = NewWebhookService, sv_rand = (\<lambda>_ n. replicate n CHR ''0''),
     sv_panic = [], sv_stream = 0\<rparr>"

definition sample_request :: "string \<Rightarrow> string \<Rightarrow> string \<Rightarrow> http_req" where
  "sample_request m p authorization = \<lparr>hq_Method = m, hq_Path = p,
     hq_Header = (\<lambda>h. if h = ''Authorization'' then authorization else []), hq_Query = (\<lambda>_. []), hq_Body = None,
     hq_Ctx = CtxLive\<rparr>"

definition sample_site :: world where
  "sample_site = (sample_world [sample_task ''e1'' ExecutionStatusQueued])\<lparr>users := [sample_member]\<rparr>"


lemma sample_sessions:
  "session sample_server (sample_request m p []) sample_site = None"
  "session sample_server (sample_request m p ''Bearer token'') sample_site = Some (toCurrentUser sample_member)"
proof -
  have "bearer_token (sample_request m p []) = None" "bearer_token (sample_request m p ''Bearer token'') = Some ''token''"
    by (simp_all add: bearer_token_def sample_request_def has_prefix_def trim_prefix_def) code_simp+
  then show "session sample_server (sample_request m p []) sample_site = None"
    "session sample_server (sample_request m p ''Bearer token'') sample_site = Some (toCurrentUser sample_member)"
    by (simp_all add: session_def sample_server_def ValidateToken_json sample_site_def sample_member_def sample_env_def hashSecret_def)
qed

lemma sample_local: "local_mode sample_server"
  by (auto simp: local_mode_def sample_server_def)

theorem anonymous_requests_harmless_witness:
  "\<exists>rep t. NewRouter sample_server (sample_request ''POST'' ''/api/executions'' []) sample_site = (rep, t) \<and>
     undisturbed sample_site t \<and> public rep \<and> reply_status rep = 401"
proof -
  let ?r = "sample_request ''POST'' ''/api/executions'' []"
  obtain rep t where run: "NewRouter sample_server ?r sample_site = (rep, t)" by fastforce
  have "reply_status (fst (NewRouter sample_server ?r sample_site)) = 401" by code_simp
  with run anonymous_requests_harmless [OF sample_local _ run] show ?thesis by (simp add: sample_sessions)
qed



theorem streams_never_open_witness:
  "\<exists>rep t. NewRouter sample_server (sample_request ''GET'' ''/api/executions/e1/events/stream'' ''Bearer token'') sample_site = (rep, t) \<and>
     rep \<noteq> Stream [] \<and> reply_status rep = 500"
proof -
  let ?r = "sample_request ''GET'' ''/api/executions/e1/events/stream'' ''Bearer token''"
  obtain rep t where run: "NewRouter sample_server ?r sample_site = (rep, t)" by fastforce
  have "reply_status (fst (NewRouter sample_server ?r sample_site)) = 500" by code_simp
  with run streams_never_open [OF _ run, of "[]"] show ?thesis by (simp add: sample_server_def)
qed

text \<open>A task that does not exist, a page that does not, and a method that is not allowed.\<close>

lemma refused_requests:
  "reply_status (fst (NewRouter sample_server (sample_request ''GET'' ''/api/executions/e2'' ''Bearer token'') sample_site)) = 404"
  "reply_status (fst (NewRouter sample_server (sample_request ''GET'' ''/api/nothing'' []) sample_site)) = 404"
  "reply_status (fst (NewRouter sample_server (sample_request ''PUT'' ''/api/plugins'' []) sample_site)) = 400"
  "reply_status (fst (NewRouter sample_server (sample_request ''GET'' ''/api/../api/plugins'' []) sample_site)) = 301"
  by code_simp+

end
