(* ===== verification/Config.thy ===== *)
theory Config
  imports Model
begin

text \<open>
  \<^verbatim>\<open>internal/config\<close>: the configuration read from environment variables, and the checks that
  refuse to start an unsafe one. \<open>getenv\<close> is \<^verbatim>\<open>os.Getenv\<close>: the empty string for a variable that is
  not set.
\<close>

type_synonym getenv = "string \<Rightarrow> string"

section \<open>Data\<close>

datatype Mode = ModeProduction | ModeDev | ModeTest | ModeRaw string

definition Mode_of :: "string \<Rightarrow> Mode" where
  "Mode_of s = (if s = ''production'' then ModeProduction else if s = ''dev'' then ModeDev
     else if s = ''test'' then ModeTest else ModeRaw s)"

record StorageConfig =
  st_Driver :: string
  st_Dir :: string
  st_PostgresDSN :: string
  st_PostgresDriver :: string
  st_RequireHA :: bool
  st_MaxOpenConns :: int
  st_MaxIdleConns :: int
  st_ConnMaxLifetime :: int
  st_AutoMigrate :: bool
  st_MigrationPath :: string

record ExecutionConfig =
  xc_WorkerCount :: int
  xc_QueueSize :: int
  xc_MaxOutputBytes :: int
  xc_AllowedCommands :: "string list"
  xc_ContainerRuntimeEnabled :: bool
  xc_LeaseDurationSeconds :: int
  xc_HeartbeatSeconds :: int
  xc_MaxAttempts :: int

record AuthConfig =
  ac_DemoToken :: string
  ac_AdminToken :: string
  ac_OIDCIssuerURL :: string
  ac_OIDCClientID :: string
  ac_SAMLMetadataURL :: string
  ac_AuthMode :: string

record Config =
  cf_Mode :: Mode
  cf_Addr :: string
  cf_Storage :: StorageConfig
  cf_PluginDir :: string
  cf_Execution :: ExecutionConfig
  cf_Auth :: AuthConfig
  cf_TrustedPluginPublicKeys :: "string list"

section \<open>Variables\<close>

definition getEnv :: "getenv \<Rightarrow> string \<Rightarrow> string \<Rightarrow> string" where
  "getEnv v key def = (if v key \<noteq> [] then v key else def)"

definition getEnvInt :: "getenv \<Rightarrow> string \<Rightarrow> int \<Rightarrow> int" where
  "getEnvInt v key def = (if v key \<noteq> [] then (case parse_int (v key) of Some n \<Rightarrow> n | None \<Rightarrow> def) else def)"

definition getEnvBool :: "getenv \<Rightarrow> string \<Rightarrow> bool \<Rightarrow> bool" where
  "getEnvBool v key def = (let s = trim_space (v key) in
     if s \<noteq> [] then
       (if to_lower s \<in> {''1'', ''true'', ''yes'', ''y'', ''on''} then True
        else if to_lower s \<in> {''0'', ''false'', ''no'', ''n'', ''off''} then False else def)
     else def)"

definition getEnvCSV :: "getenv \<Rightarrow> string \<Rightarrow> string list \<Rightarrow> string list" where
  "getEnvCSV v key def =
     (if v key = [] then def
      else let out = filter (\<lambda>part. part \<noteq> []) (map trim_space (split_on CHR '','' (v key)))
        in if out = [] then def else out)"

section \<open>Reading and checking\<close>

definition Default :: "getenv \<Rightarrow> Config" where
  "Default v = \<lparr>cf_Mode = Mode_of (getEnv v ''APP_MODE'' ''production''),
     cf_Addr = getEnv v ''SERVER_ADDR'' '':8080'',
     cf_Storage = \<lparr>st_Driver = getEnv v ''METADATA_STORE'' ''postgres'', st_Dir = getEnv v ''STORAGE_DIR'' ''data'',
       st_PostgresDSN = getEnv v ''POSTGRES_DSN'' [], st_PostgresDriver = getEnv v ''POSTGRES_DRIVER'' ''postgres'',
       st_RequireHA = getEnvBool v ''REQUIRE_HA_METADATA'' True,
       st_MaxOpenConns = getEnvInt v ''POSTGRES_MAX_OPEN_CONNS'' 25, st_MaxIdleConns = getEnvInt v ''POSTGRES_MAX_IDLE_CONNS'' 5,
       st_ConnMaxLifetime = getEnvInt v ''POSTGRES_CONN_MAX_LIFETIME_SECONDS'' 300,
       st_AutoMigrate = getEnvBool v ''POSTGRES_AUTO_MIGRATE'' False,
       st_MigrationPath = getEnv v ''POSTGRES_MIGRATION_PATH'' ''migrations/postgres/001_enterprise_metadata.sql''\<rparr>,
     cf_PluginDir = getEnv v ''PLUGIN_DIR'' ''plugins'',
     cf_Execution = \<lparr>xc_WorkerCount = getEnvInt v ''WORKER_COUNT'' 2, xc_QueueSize = getEnvInt v ''QUEUE_SIZE'' 64,
       xc_MaxOutputBytes = getEnvInt v ''MAX_OUTPUT_BYTES'' 65536,
       xc_AllowedCommands = getEnvCSV v ''PLUGIN_ALLOWED_COMMANDS'' [''python3'', ''python'', ''node''],
       xc_ContainerRuntimeEnabled = getEnvBool v ''PLUGIN_CONTAINER_RUNTIME_ENABLED'' True,
       xc_LeaseDurationSeconds = getEnvInt v ''WORKER_LEASE_SECONDS'' 30,
       xc_HeartbeatSeconds = getEnvInt v ''WORKER_HEARTBEAT_SECONDS'' 10, xc_MaxAttempts = getEnvInt v ''TASK_MAX_ATTEMPTS'' 3\<rparr>,
     cf_Auth = \<lparr>ac_DemoToken = getEnv v ''DEMO_TOKEN'' ''demo-token'', ac_AdminToken = getEnv v ''ADMIN_TOKEN'' ''admin-token'',
       ac_OIDCIssuerURL = getEnv v ''OIDC_ISSUER_URL'' [], ac_OIDCClientID = getEnv v ''OIDC_CLIENT_ID'' [],
       ac_SAMLMetadataURL = getEnv v ''SAML_METADATA_URL'' [], ac_AuthMode = getEnv v ''AUTH_MODE'' ''local-token''\<rparr>,
     cf_TrustedPluginPublicKeys = getEnvCSV v ''PLUGIN_TRUSTED_PUBLIC_KEYS'' []\<rparr>"

definition validate_auth :: "getenv \<Rightarrow> Config \<Rightarrow> go_error option" where
  "validate_auth v c =
     (if cf_Mode c = ModeProduction \<and> ac_AuthMode (cf_Auth c) = ''local-token'' \<and> \<not> getEnvBool v ''ALLOW_LOCAL_TOKEN_AUTH'' False then
        Some (PlainError ''local-token auth is forbidden in APP_MODE=production unless ALLOW_LOCAL_TOKEN_AUTH=true for bootstrap only'')
      else if ac_AuthMode (cf_Auth c) = ''oidc'' \<and> (ac_OIDCIssuerURL (cf_Auth c) = [] \<or> ac_OIDCClientID (cf_Auth c) = []) then
        Some (PlainError ''OIDC_ISSUER_URL and OIDC_CLIENT_ID are required when AUTH_MODE=oidc'')
      else None)"

definition Config_Validate :: "getenv \<Rightarrow> Config \<Rightarrow> go_error option" where
  "Config_Validate v c =
     (if cf_Mode c \<noteq> ModeProduction \<and> cf_Mode c \<noteq> ModeDev \<and> cf_Mode c \<noteq> ModeTest then
        Some (PlainError ''APP_MODE must be production, dev, or test'')
      else if st_Driver (cf_Storage c) = ''postgres'' then
        (if st_PostgresDSN (cf_Storage c) = [] \<and> \<not> getEnvBool v ''ALLOW_UNCONFIGURED_POSTGRES'' False then
           Some (PlainError ''POSTGRES_DSN is required when METADATA_STORE=postgres; set METADATA_STORE=local-json only for local/dev'')
         else validate_auth v c)
      else if st_Driver (cf_Storage c) = ''local-json'' then
        (if cf_Mode c = ModeProduction then Some (PlainError ''local-json store is forbidden in APP_MODE=production'')
         else if \<not> getEnvBool v ''ALLOW_LOCAL_JSON_STORE'' False then
           Some (PlainError ''local-json store is only allowed when ALLOW_LOCAL_JSON_STORE=true'')
         else validate_auth v c)
      else Some (PlainError (''unsupported METADATA_STORE: '' @ st_Driver (cf_Storage c))))"

definition Config_Load :: "getenv \<Rightarrow> Config \<times> go_error option" where
  "Config_Load v = (let cfg = Default v in (cfg, Config_Validate v cfg))"

section \<open>What a loaded configuration guarantees\<close>

definition acceptable :: "getenv \<Rightarrow> Config \<Rightarrow> bool" where
  "acceptable v c \<longleftrightarrow>
     (cf_Mode c = ModeProduction \<and> st_Driver (cf_Storage c) = ''postgres'' \<and>
        (ac_AuthMode (cf_Auth c) \<noteq> ''local-token'' \<or> getEnvBool v ''ALLOW_LOCAL_TOKEN_AUTH'' False) \<or>
      cf_Mode c \<in> {ModeDev, ModeTest} \<and> (st_Driver (cf_Storage c) = ''postgres'' \<or>
        st_Driver (cf_Storage c) = ''local-json'' \<and> getEnvBool v ''ALLOW_LOCAL_JSON_STORE'' False)) \<and>
     (st_Driver (cf_Storage c) = ''postgres'' \<longrightarrow>
        st_PostgresDSN (cf_Storage c) \<noteq> [] \<or> getEnvBool v ''ALLOW_UNCONFIGURED_POSTGRES'' False) \<and>
     (ac_AuthMode (cf_Auth c) = ''oidc'' \<longrightarrow> ac_OIDCIssuerURL (cf_Auth c) \<noteq> [] \<and> ac_OIDCClientID (cf_Auth c) \<noteq> [])"

lemma Config_Validate_None: "Config_Validate v c = None \<longleftrightarrow> acceptable v c"
  by (cases "cf_Mode c") (auto simp: Config_Validate_def validate_auth_def acceptable_def)


text \<open>The values that are read: a list is never empty unless its default is, and has no empty or padded item.\<close>

lemma getEnvCSV_items:
  assumes "p \<in> set (getEnvCSV v key def)"
  shows "p \<in> set def \<or> p \<noteq> []"
  using assms by (auto simp: getEnvCSV_def Let_def split: if_splits)

lemma getEnvCSV_ne: "def \<noteq> [] \<Longrightarrow> getEnvCSV v key def \<noteq> []"
  by (auto simp: getEnvCSV_def Let_def)

text \<open>With no variables set the process refuses to start.\<close>

lemma empty_environment_refused: "snd (Config_Load (\<lambda>_. [])) \<noteq> None"
proof -
  have "trim_space [] = []" by code_simp
  then show ?thesis
    by (simp add: Config_Load_def Default_def getEnv_def Mode_of_def Config_Validate_def getEnvBool_def Let_def)
qed

text \<open>
  The name of the authentication mode is not checked, so in production any name other than the two
  known ones is accepted without conditions, although nothing but local tokens is implemented.
\<close>

lemma unknown_auth_mode_accepted:
  assumes "v ''AUTH_MODE'' \<notin> {[], ''local-token'', ''oidc''}" and "v ''APP_MODE'' = []" and "v ''METADATA_STORE'' = []"
    and "v ''POSTGRES_DSN'' \<noteq> []"
  shows "snd (Config_Load v) = None"
  using assms by (simp add: Config_Load_def Let_def Config_Validate_None acceptable_def Default_def getEnv_def Mode_of_def)

end
