(* ===== verification/RegistrySpec.thy ===== *)
theory RegistrySpec
  imports Registry EnterpriseSpec Sample
begin

text \<open>
  What synchronising the plugin store with a directory achieves over the JSON documents. The scan
  is followed on the list of plugins alone: \<open>scan_inv\<close> relates it to the sub-directories read so
  far.
\<close>

section \<open>The plugin of a manifest\<close>

text \<open>Everything of a stored plugin but its identifier, status and times comes from the manifest.\<close>

definition described :: "PluginManifest \<Rightarrow> string \<Rightarrow> Plugin \<Rightarrow> bool" where
  "described m dir p \<longleftrightarrow> p = (BuildPluginFromManifest m dir)\<lparr>pl_ID := pl_ID p, pl_Status := pl_Status p,
     pl_CreatedAt := pl_CreatedAt p, pl_UpdatedAt := pl_UpdatedAt p\<rparr>"

lemma described_names: "described m dir p \<Longrightarrow> pl_Name p = EffectiveName m \<and> pl_Version p = EffectiveVersion m"
  unfolding described_def by (erule ssubst) (simp add: BuildPluginFromManifest_def)

lemma scoped_build: "scoped_plugin ((BuildPluginFromManifest m dir)\<lparr>pl_ID := i, pl_Status := s, pl_CreatedAt := c, pl_UpdatedAt := u\<rparr>)
    = (BuildPluginFromManifest m dir)\<lparr>pl_ID := i, pl_Status := s, pl_CreatedAt := c, pl_UpdatedAt := u\<rparr>"
  by (simp add: scoped_plugin_def BuildPluginFromManifest_def zero_plugin_def Normalize_def mk_scope_def Let_def
      DefaultTenantID_def DefaultProjectID_def)

lemma described_build: "described m dir ((BuildPluginFromManifest m dir)\<lparr>pl_ID := i, pl_Status := s, pl_CreatedAt := c, pl_UpdatedAt := u\<rparr>)"
  by (simp add: described_def)

lemma reloaded_not_removed: "reloaded_status s \<noteq> PluginStatusRemoved"
  by (simp add: reloaded_status_def)

section \<open>One plugin\<close>

abbreviation named :: "string \<Rightarrow> string \<Rightarrow> Plugin \<Rightarrow> bool" where
  "named n v p \<equiv> pl_Name p = n \<and> pl_Version p = v"

definition plugin_ids_ok :: "world \<Rightarrow> bool" where
  "plugin_ids_ok w \<longleftrightarrow> distinct (map pl_ID (plugins w)) \<and>
     (\<forall>p \<in> set (plugins w). \<forall>n \<ge> id_ix w. pl_ID p \<noteq> ''plugin_'' @ id_text (w_env w) n)"

lemma find_upsert_same:
  assumes "find P xs = Some e" and "P q" and "key q = key e" and "distinct (map key xs)"
  shows "find P (upsert key q xs) = Some q"
  using assms
proof (induction xs)
  case (Cons x xs)
  have "e \<in> set xs" if "find P xs = Some e" using that by (auto simp: find_Some_iff)
  with Cons show ?case by (cases "P x") (auto simp: image_iff)
qed simp

lemma find_append_new: "find P xs = None \<Longrightarrow> P q \<Longrightarrow> find P (xs @ [q]) = Some q"
  by (induction xs) (auto split: if_splits)

text \<open>
  The upsert of a manifest's plugin stores one plugin that is described by the manifest and not
  removed; it replaces the row of the same name and version, or is a new row.
\<close>

lemma UpsertFromManifest_json:
  assumes live: "disk_ok w" and ids: "plugin_ids_ok w" and inj: "inj (id_text (w_env w))"
  obtains q t where "UpsertFromManifest json_plugin_store (BuildPluginFromManifest m dir) w = (Inr (), t)"
    and "plugins t = upsert pl_ID q (plugins w)" and "described m dir q" and "pl_Status q \<noteq> PluginStatusRemoved"
    and "find (named (EffectiveName m) (EffectiveVersion m)) (plugins t) = Some q"
    and "\<forall>p \<in> set (plugins w). pl_ID p = pl_ID q \<longrightarrow> named (EffectiveName m) (EffectiveVersion m) p"
    and "plugin_ids_ok t" and "w_env t = w_env w"
proof -
  let ?p = "BuildPluginFromManifest m dir"
  let ?f = "find (named (EffectiveName m) (EffectiveVersion m)) (plugins w)"
  have n: "pl_Name ?p = EffectiveName m" "pl_Version ?p = EffectiveVersion m"
    by (simp_all add: BuildPluginFromManifest_def)
  let ?now = "clock (w_env w) (now_ix w)"
  note run = UpsertFromManifest_def json_plugin_store_def time_now_run newID_run n
    Plugin_GetByNameVersion_def Plugin_Update_def Plugin_Create_def repo_find_ok repo_update_ok repo_append_ok scoped_build
  have lv: "disk_ok (w\<lparr>now_ix := a, io_ix := b, id_ix := c\<rparr>)" "disk_ok (w\<lparr>now_ix := a, io_ix := b\<rparr>)"
    "disk_ok (w\<lparr>now_ix := a\<rparr>)" for a b c
    using live by (simp_all add: disk_ok_def)
  show thesis
  proof (cases ?f)
    case (Some e)
    let ?q = "?p\<lparr>pl_ID := pl_ID e, pl_Status := reloaded_status (pl_Status e), pl_CreatedAt := pl_CreatedAt e, pl_UpdatedAt := ?now\<rparr>"
    have e: "e \<in> set (plugins w)" "named (EffectiveName m) (EffectiveVersion m) e"
      using Some by (auto simp: find_Some_iff)
    have d: "distinct (map pl_ID (plugins w))" using ids by (simp add: plugin_ids_ok_def)
    have u: "UpsertFromManifest json_plugin_store ?p w = (Inr (), w\<lparr>now_ix := Suc (now_ix w), io_ix := Suc (Suc (Suc (io_ix w))),
        plugins := upsert pl_ID ?q (plugins w)\<rparr>)"
      using live lv Some by (simp add: run numeral_2_eq_2)
    show thesis
    proof (rule that [OF u])
      show "find (named (EffectiveName m) (EffectiveVersion m)) (plugins (w\<lparr>now_ix := Suc (now_ix w),
          io_ix := Suc (Suc (Suc (io_ix w))), plugins := upsert pl_ID ?q (plugins w)\<rparr>)) = Some ?q"
        using find_upsert_same [OF Some _ _ d, of ?q] by (simp add: n)
      show "\<forall>x \<in> set (plugins w). pl_ID x = pl_ID ?q \<longrightarrow> named (EffectiveName m) (EffectiveVersion m) x"
        using e d by (auto dest: eq_key_imp_eq_value simp: distinct_map inj_on_def)
      show "plugin_ids_ok (w\<lparr>now_ix := Suc (now_ix w), io_ix := Suc (Suc (Suc (io_ix w))), plugins := upsert pl_ID ?q (plugins w)\<rparr>)"
        using ids e(1) set_upsert_subset [of pl_ID ?q "plugins w"] by (auto simp: plugin_ids_ok_def upsert_distinct)
    qed (simp_all add: described_build reloaded_not_removed)
  next
    case None
    obtain i where i: "''plugin_'' @ id_text (w_env w) (id_ix w) = i" by simp
    let ?q = "?p\<lparr>pl_ID := i, pl_Status := PluginStatusLoaded, pl_CreatedAt := ?now, pl_UpdatedAt := ?now\<rparr>"
    have "pl_ID p \<noteq> i" if "p \<in> set (plugins w)" for p
      using ids that i unfolding plugin_ids_ok_def by (metis order.refl)
    then have fresh: "i \<notin> pl_ID ` set (plugins w)" by blast
    have later: "i \<noteq> ''plugin_'' @ id_text (w_env w) n" if "Suc (id_ix w) \<le> n" for n
      using that inj by (auto simp: i [symmetric] dest!: injD)
    have up: "upsert pl_ID ?q (plugins w) = plugins w @ [?q]"
      using fresh by (intro upsert_absent) (auto simp: lookup_None)
    have u: "UpsertFromManifest json_plugin_store ?p w = (Inr (), w\<lparr>now_ix := Suc (now_ix w), io_ix := Suc (Suc (Suc (io_ix w))),
        id_ix := Suc (id_ix w), plugins := upsert pl_ID ?q (plugins w)\<rparr>)"
      unfolding up using live lv None i by (simp add: run numeral_2_eq_2)
    show thesis
    proof (rule that [OF u])
      show "find (named (EffectiveName m) (EffectiveVersion m)) (plugins (w\<lparr>now_ix := Suc (now_ix w), io_ix := Suc (Suc (Suc (io_ix w))),
          id_ix := Suc (id_ix w), plugins := upsert pl_ID ?q (plugins w)\<rparr>)) = Some ?q"
        unfolding up using find_append_new [OF None, of ?q] by (simp add: n)
      show "\<forall>x \<in> set (plugins w). pl_ID x = pl_ID ?q \<longrightarrow> named (EffectiveName m) (EffectiveVersion m) x"
        using fresh by auto
      show "plugin_ids_ok (w\<lparr>now_ix := Suc (now_ix w), io_ix := Suc (Suc (Suc (io_ix w))), id_ix := Suc (id_ix w),
          plugins := upsert pl_ID ?q (plugins w)\<rparr>)"
        unfolding up using ids fresh later by (auto simp: plugin_ids_ok_def)
    qed (simp_all add: described_build)
  qed
qed

section \<open>The scan\<close>

abbreviation json_service :: "ManifestService \<Rightarrow> RegistryService" where
  "json_service k \<equiv> \<lparr>gy_manifest = k, gy_registry = json_registry, gy_pluginRepo = json_plugin_store\<rparr>"

text \<open>The manifests found: sub-directories, by name, whose manifest loads.\<close>

definition found :: "env \<Rightarrow> ManifestService \<Rightarrow> string \<Rightarrow> (string \<times> bool) list \<Rightarrow> string \<Rightarrow> PluginManifest \<Rightarrow> bool" where
  "found v k root es name m \<longleftrightarrow> (name, True) \<in> set es \<and>
     (\<exists>b. LoadManifest v k (ManifestPath (Join [root, name])) = Inr (m, b))"

fun scan_errors :: "env \<Rightarrow> ManifestService \<Rightarrow> string \<Rightarrow> (string \<times> bool) list \<Rightarrow> string list" where
  "scan_errors v k root [] = []"
| "scan_errors v k root ((name, is_dir) # es) =
     (case LoadManifest v k (ManifestPath (Join [root, name])) of
        Inl err \<Rightarrow> if is_dir then [name @ '': '' @ error_text err] else []
      | Inr _ \<Rightarrow> []) @ scan_errors v k root es"

lemma scan_errors_append: "scan_errors v k root (es @ fs) = scan_errors v k root es @ scan_errors v k root fs"
  by (induction v k root es rule: scan_errors.induct) simp_all

definition scan_inv :: "env \<Rightarrow> ManifestService \<Rightarrow> string \<Rightarrow> (string \<times> bool) list \<Rightarrow> Plugin list
    \<Rightarrow> RegistrySyncResult \<times> string list \<Rightarrow> bool" where
  "scan_inv v k root es ps acc \<longleftrightarrow> sy_Errors (fst acc) = scan_errors v k root es \<and>
     (\<forall>p \<in> set ps. pl_ID p \<in> set (snd acc) \<longrightarrow> pl_Status p \<noteq> PluginStatusRemoved \<and>
       (\<exists>name m. found v k root es name m \<and> described m (Join [root, name]) p)) \<and>
     (\<forall>name m. found v k root es name m \<longrightarrow>
       (\<exists>p \<in> set ps. pl_ID p \<in> set (snd acc) \<and> named (EffectiveName m) (EffectiveVersion m) p))"

lemma scan_inv_start: "scan_inv v k root [] ps (zero_sync, [])"
  by (simp add: scan_inv_def zero_sync_def found_def)

lemma scan_inv_found:
  "scan_inv v k root es ps (res, seen) \<Longrightarrow> found v k root es name m \<Longrightarrow>
   \<exists>p \<in> set ps. pl_ID p \<in> set seen \<and> named (EffectiveName m) (EffectiveVersion m) p"
  by (simp add: scan_inv_def)

lemma scan_inv_seen:
  "scan_inv v k root es ps (res, seen) \<Longrightarrow> p \<in> set ps \<Longrightarrow> pl_ID p \<in> set seen \<Longrightarrow>
   pl_Status p \<noteq> PluginStatusRemoved \<and> (\<exists>name m. found v k root es name m \<and> described m (Join [root, name]) p)"
  by (simp add: scan_inv_def)

lemma scan_inv_skip:
  "scan_inv v k root es ps acc \<Longrightarrow> scan_inv v k root (es @ [(name, False)]) ps acc"
  by (auto simp: scan_inv_def found_def scan_errors_append split: sum.split)

lemma scan_inv_bad:
  assumes "scan_inv v k root es ps (res, seen)" and "LoadManifest v k (ManifestPath (Join [root, name])) = Inl err"
  shows "scan_inv v k root (es @ [(name, True)]) ps
     (res\<lparr>sy_Errors := sy_Errors res @ [name @ '': '' @ error_text err]\<rparr>, seen)"
proof -
  have "found v k root (es @ [(name, True)]) = found v k root es"
    using assms(2) by (auto simp: found_def fun_eq_iff)
  with assms show ?thesis by (simp add: scan_inv_def scan_errors_append)
qed

lemma scan_inv_good:
  assumes inv: "scan_inv v k root es ps (res, seen)" and load: "LoadManifest v k (ManifestPath (Join [root, name])) = Inr (m, b)"
    and q: "described m (Join [root, name]) q" "pl_Status q \<noteq> PluginStatusRemoved"
    and same: "\<forall>p \<in> set ps. pl_ID p = pl_ID q \<longrightarrow> named (EffectiveName m) (EffectiveVersion m) p"
    and d: "distinct (map pl_ID ps)" and errs: "sy_Errors res' = sy_Errors res"
  shows "scan_inv v k root (es @ [(name, True)]) (upsert pl_ID q ps) (res', seen @ [pl_ID q])"
proof -
  let ?ps = "upsert pl_ID q ps" and ?es = "es @ [(name, True)]"
  note s = set_upsert_distinct [OF d, of q]
  have qf: "found v k root ?es name m" using load by (auto simp: found_def)
  have mono: "found v k root es n' m' \<Longrightarrow> found v k root ?es n' m'" for n' m' by (auto simp: found_def)
  have "pl_Status p \<noteq> PluginStatusRemoved \<and> (\<exists>name m. found v k root ?es name m \<and> described m (Join [root, name]) p)"
    if "p \<in> set ?ps" "pl_ID p \<in> set (seen @ [pl_ID q])" for p
  proof (cases "p = q")
    case True with q qf show ?thesis by blast
  next
    case False
    with that have "p \<in> set ps" "pl_ID p \<in> set seen" by (auto simp: s)
    with inv have "pl_Status p \<noteq> PluginStatusRemoved \<and> (\<exists>name m. found v k root es name m \<and> described m (Join [root, name]) p)"
      by (simp add: scan_inv_def)
    with mono show ?thesis by blast
  qed
  moreover have "\<exists>p \<in> set ?ps. pl_ID p \<in> set (seen @ [pl_ID q]) \<and> named (EffectiveName m') (EffectiveVersion m') p"
    if f: "found v k root ?es n' m'" for n' m'
  proof (cases "found v k root es n' m'")
    case True
    with inv obtain p where p: "p \<in> set ps" "pl_ID p \<in> set seen" "named (EffectiveName m') (EffectiveVersion m') p"
      using scan_inv_found by blast
    show ?thesis
    proof (cases "pl_ID p = pl_ID q")
      case True
      with same p described_names [OF q(1)] show ?thesis by (intro bexI [of _ q]) (auto simp: s)
    next
      case False
      with p show ?thesis by (intro bexI [of _ p]) (auto simp: s)
    qed
  next
    case False
    with f load have "m' = m" by (auto simp: found_def)
    with described_names [OF q(1)] show ?thesis by (intro bexI [of _ q]) (auto simp: s)
  qed
  ultimately show ?thesis using inv errs load by (simp add: scan_inv_def scan_errors_append)
qed

lemma find_plugin_json:
  "disk_ok w \<Longrightarrow> find_plugin json_plugin_store n v w = (Inr (case find (named n v) (plugins w) of
     None \<Rightarrow> (zero_plugin, False) | Some p \<Rightarrow> (p, True)), io_skip 1 w)"
  by (simp add: find_plugin_def json_plugin_store_def Plugin_GetByNameVersion_def tryE_run repo_find_ok split: option.split)

text \<open>One sub-directory.\<close>

lemma sync_dir_json:
  assumes live: "disk_ok w" and ids: "plugin_ids_ok w" and inj: "inj (id_text (w_env w))"
    and inv: "scan_inv (w_env w) k root es (plugins w) acc"
  obtains acc' t where "sync_dir (json_service k) root name acc w = (Inr acc', t)"
    and "scan_inv (w_env w) k root (es @ [(name, True)]) (plugins t) acc'"
    and "plugin_ids_ok t" and "w_env t = w_env w" and "pl_ID ` set (plugins w) \<subseteq> pl_ID ` set (plugins t)"
proof -
  obtain res seen where acc: "acc = (res, seen)" by (cases acc)
  let ?dir = "Join [root, name]"
  show thesis
  proof (cases "LoadManifest (w_env w) k (ManifestPath ?dir)")
    case (Inl err)
    let ?acc = "(res\<lparr>sy_Errors := sy_Errors res @ [name @ '': '' @ error_text err]\<rparr>, seen)"
    have "sync_dir (json_service k) root name acc w = (Inr ?acc, w)"
      by (simp add: sync_dir_def acc Inl)
    then show thesis using scan_inv_bad [OF inv [unfolded acc] Inl] ids by (rule that) simp_all
  next
    case (Inr mb)
    then obtain m b where load: "LoadManifest (w_env w) k (ManifestPath ?dir) = Inr (m, b)" by (cases mb) auto
    let ?p = "BuildPluginFromManifest m ?dir" and ?N = "named (EffectiveName m) (EffectiveVersion m)"
    have n: "pl_Name ?p = EffectiveName m" "pl_Version ?p = EffectiveVersion m"
      by (simp_all add: BuildPluginFromManifest_def)
    let ?w1 = "io_skip 1 w"
    have w1: "disk_ok ?w1" "plugin_ids_ok ?w1" "inj (id_text (w_env ?w1))"
      using live ids inj by (simp_all add: disk_ok_def plugin_ids_ok_def)
    from w1 obtain q t where u: "UpsertFromManifest json_plugin_store ?p ?w1 = (Inr (), t)"
      and t: "plugins t = upsert pl_ID q (plugins ?w1)" and q: "described m ?dir q" "pl_Status q \<noteq> PluginStatusRemoved"
      and fq: "find ?N (plugins t) = Some q" and same: "\<forall>p \<in> set (plugins ?w1). pl_ID p = pl_ID q \<longrightarrow> ?N p"
      and tk: "plugin_ids_ok t" "w_env t = w_env ?w1"
      by (rule UpsertFromManifest_json)
    obtain existed ok where ex: "(case find ?N (plugins w) of None \<Rightarrow> (zero_plugin, False) | Some p \<Rightarrow> (p, True)) = (existed, ok)"
      by (cases "case find ?N (plugins w) of None \<Rightarrow> (zero_plugin, False) | Some p \<Rightarrow> (p, True)")
    have lt: "disk_ok t" "disk_ok (io_skip 1 t)" "disk_ok (t\<lparr>io_ix := a, now_ix := c\<rparr>)" for a c
      using live tk(2) by (simp_all add: disk_ok_def)
    let ?acc = "((if ok \<and> pl_ID existed \<noteq> [] then res\<lparr>sy_Updated := sy_Updated res + 1\<rparr>
        else res\<lparr>sy_Created := sy_Created res + 1\<rparr>), seen @ [pl_ID q])"
    obtain t' where run: "sync_dir (json_service k) root name acc w = (Inr ?acc, t')"
      and t': "plugins t' = plugins t" "w_env t' = w_env t" "id_ix t' = id_ix t"
      using live lt fq ex u
      by (simp add: sync_dir_def acc load n find_plugin_json tryE_run Let_def time_now_run json_registry_def
          Registry_Upsert_def repo_update_ok bindE_def)
    show thesis
    proof (rule that [OF run])
      show "scan_inv (w_env w) k root (es @ [(name, True)]) (plugins t') ?acc"
        unfolding t'(1) t using scan_inv_good [OF inv [unfolded acc] load q] same ids by (simp add: plugin_ids_ok_def)
      show "pl_ID ` set (plugins w) \<subseteq> pl_ID ` set (plugins t')"
        using ids by (auto simp: t' t plugin_ids_ok_def set_upsert_distinct image_iff)
    qed (use t' tk in \<open>simp_all add: plugin_ids_ok_def\<close>)
  qed
qed

lemma sync_dirs_json:
  assumes "disk_ok w" and "plugin_ids_ok w" and "inj (id_text (w_env w))"
    and "scan_inv (w_env w) k root done (plugins w) acc"
  shows "\<exists>acc' t. sync_dirs (json_service k) root es acc w = (Inr acc', t) \<and>
    scan_inv (w_env w) k root (done @ es) (plugins t) acc' \<and> plugin_ids_ok t \<and> w_env t = w_env w \<and>
    pl_ID ` set (plugins w) \<subseteq> pl_ID ` set (plugins t)"
  using assms
proof (induction es arbitrary: acc "done" w)
  case Nil
  then show ?case by simp
next
  case (Cons e es)
  obtain name is_dir where e: "e = (name, is_dir)" by (cases e)
  show ?case
  proof (cases is_dir)
    case False
    have "scan_inv (w_env w) k root (done @ [(name, False)]) (plugins w) acc"
      using Cons.prems(4) by (rule scan_inv_skip)
    from Cons.IH [OF Cons.prems(1-3) this] False e show ?thesis by simp
  next
    case True
    obtain acc1 w1 where 1: "sync_dir (json_service k) root name acc w = (Inr acc1, w1)"
      "scan_inv (w_env w) k root (done @ [(name, True)]) (plugins w1) acc1" "plugin_ids_ok w1" "w_env w1 = w_env w"
      "pl_ID ` set (plugins w) \<subseteq> pl_ID ` set (plugins w1)"
      using Cons.prems by (rule sync_dir_json)
    have "disk_ok w1" "inj (id_text (w_env w1))" using Cons.prems 1(4) by (simp_all add: disk_ok_def)
    with Cons.IH [of w1 "done @ [(name, True)]" acc1] 1 obtain acc' t where
      "sync_dirs (json_service k) root es acc1 w1 = (Inr acc', t)"
      "scan_inv (w_env w) k root ((done @ [(name, True)]) @ es) (plugins t) acc'" "plugin_ids_ok t" "w_env t = w_env w"
      "pl_ID ` set (plugins w1) \<subseteq> pl_ID ` set (plugins t)" by auto
    with 1 True e show ?thesis by auto
  qed
qed

text \<open>Marking the rest as removed.\<close>

definition marked :: "string list \<Rightarrow> Plugin \<Rightarrow> bool" where
  "marked seen p \<longleftrightarrow> pl_Status p = PluginStatusRemoved \<or> pl_ID p \<in> set seen"

lemma remove_unseen_json:
  assumes "disk_ok w" and "distinct (map pl_ID (plugins w))" and "set qs \<subseteq> set (plugins w)" and "distinct (map pl_ID qs)"
    and "\<forall>p \<in> set (plugins w). marked seen p \<or> p \<in> set qs"
  shows "\<exists>res' t. remove_unseen json_plugin_store seen qs res w = (Inr res', t) \<and> sy_Errors res' = sy_Errors res \<and>
    (\<forall>p \<in> set (plugins t). marked seen p) \<and> w_env t = w_env w \<and>
    {p \<in> set (plugins t). pl_ID p \<in> set seen} = {p \<in> set (plugins w). pl_ID p \<in> set seen} \<and>
    pl_ID ` set (plugins t) = pl_ID ` set (plugins w)"
  using assms
proof (induction qs arbitrary: w res)
  case Nil
  then show ?case by auto
next
  case (Cons q qs)
  show ?case
  proof (cases "marked seen q")
    case True
    with Cons.prems(5) have "\<forall>p \<in> set (plugins w). marked seen p \<or> p \<in> set qs" by auto
    with Cons.IH [OF Cons.prems(1,2)] Cons.prems(3,4) True show ?thesis by (auto simp: marked_def)
  next
    case False
    let ?q = "scoped_plugin (q\<lparr>pl_Status := PluginStatusRemoved, pl_UpdatedAt := clock (w_env w) (now_ix w)\<rparr>)"
    let ?w = "w\<lparr>now_ix := Suc (now_ix w), io_ix := io_ix w + 2, plugins := upsert pl_ID ?q (plugins w)\<rparr>"
    have k: "pl_ID ?q = pl_ID q" "marked seen ?q" by (simp_all add: scoped_plugin_def Let_def marked_def)
    have lw: "disk_ok (w\<lparr>now_ix := Suc (now_ix w)\<rparr>)" "disk_ok ?w" using Cons.prems(1) by (simp_all add: disk_ok_def)
    have run: "remove_unseen json_plugin_store seen (q # qs) res w =
        remove_unseen json_plugin_store seen qs (res\<lparr>sy_Removed := sy_Removed res + 1\<rparr>) ?w"
      using False lw by (simp add: marked_def time_now_run json_plugin_store_def Plugin_Update_def repo_update_ok tryE_run)
    have s: "set (plugins ?w) = insert ?q {p \<in> set (plugins w). pl_ID p \<noteq> pl_ID q}"
      using set_upsert_distinct [OF Cons.prems(2), of ?q] k by simp
    have qw: "q \<in> set (plugins w)" using Cons.prems(3) by simp
    have d: "distinct (map pl_ID (plugins ?w))" using upsert_distinct [OF Cons.prems(2)] by simp
    have sub: "set qs \<subseteq> set (plugins ?w)" unfolding s using Cons.prems(3,4) by (auto simp: image_iff)
    have rest: "\<forall>p \<in> set (plugins ?w). marked seen p \<or> p \<in> set qs" unfolding s using Cons.prems(5) k by auto
    have "pl_ID ?q \<notin> set seen" using False k by (simp add: marked_def)
    then have keep: "{p \<in> set (plugins ?w). pl_ID p \<in> set seen} = {p \<in> set (plugins w). pl_ID p \<in> set seen}"
      unfolding s using k by auto
    have ids: "pl_ID ` set (plugins ?w) = pl_ID ` set (plugins w)" unfolding s using k qw by (auto simp: image_iff)
    have "distinct (map pl_ID qs)" using Cons.prems(4) by simp
    from Cons.IH [OF lw(2) d sub this rest, of "res\<lparr>sy_Removed := sy_Removed res + 1\<rparr>"]
    show ?thesis unfolding run keep ids by simp
  qed
qed

section \<open>Reloading\<close>

text \<open>
  C11. Over the JSON documents and without disk failures, reloading makes the store agree with the
  directory: a plugin that is not marked as removed is described by a manifest that loads now, every
  manifest that loads has such a plugin of its name and version, no plugin is deleted, and the
  errors reported are those of the sub-directories whose manifest does not load.
\<close>

theorem ReloadPlugins_synchronises:
  assumes "disk_ok w" and "plugin_ids_ok w" and "inj (id_text (w_env w))" and "read_dir (w_env w) root = Inr entries"
  shows "\<exists>res t. ReloadPlugins (json_service k) root w = (Inr res, t) \<and>
    (\<forall>p \<in> set (plugins t). pl_Status p \<noteq> PluginStatusRemoved \<longrightarrow>
       (\<exists>name m. found (w_env w) k root entries name m \<and> described m (Join [root, name]) p)) \<and>
    (\<forall>name m. found (w_env w) k root entries name m \<longrightarrow> (\<exists>p \<in> set (plugins t).
       named (EffectiveName m) (EffectiveVersion m) p \<and> pl_Status p \<noteq> PluginStatusRemoved)) \<and>
    pl_ID ` set (plugins w) \<subseteq> pl_ID ` set (plugins t) \<and>
    sy_Errors res = scan_errors (w_env w) k root entries"
proof -
  from sync_dirs_json [OF assms(1-3) scan_inv_start, of k root entries] obtain acc u where
    1: "sync_dirs (json_service k) root entries (zero_sync, []) w = (Inr acc, u)"
      "scan_inv (w_env w) k root entries (plugins u) acc" "plugin_ids_ok u" "w_env u = w_env w"
      "pl_ID ` set (plugins w) \<subseteq> pl_ID ` set (plugins u)" by auto
  obtain res seen where acc: "acc = (res, seen)" by (cases acc)
  have lu: "disk_ok u" "disk_ok (io_skip 1 u)" using assms(1) 1(4) by (simp_all add: disk_ok_def)
  have d: "distinct (map pl_ID (plugins (io_skip 1 u)))" using 1(3) by (simp add: plugin_ids_ok_def)
  from remove_unseen_json [OF lu(2) d, of "plugins u" seen res] d obtain res' t where
    2: "remove_unseen json_plugin_store seen (plugins u) res (io_skip 1 u) = (Inr res', t)" "sy_Errors res' = sy_Errors res"
      "\<forall>p \<in> set (plugins t). marked seen p" "w_env t = w_env u"
      "{p \<in> set (plugins t). pl_ID p \<in> set seen} = {p \<in> set (plugins u). pl_ID p \<in> set seen}"
      "pl_ID ` set (plugins t) = pl_ID ` set (plugins u)" by auto
  have "ps_List json_plugin_store u = (Inr (plugins u), io_skip 1 u)"
    using lu by (simp add: json_plugin_store_def Plugin_List_def Load_ok)
  then have run: "ReloadPlugins (json_service k) root w = (Inr res', t)"
    using 1(1) 2(1) acc assms(4) by (simp add: ReloadPlugins_def tryE_run)
  note inv = 1(2) [unfolded acc]
  have "\<exists>name m. found (w_env w) k root entries name m \<and> described m (Join [root, name]) p"
    if "p \<in> set (plugins t)" "pl_Status p \<noteq> PluginStatusRemoved" for p
    using that 2(3,5) scan_inv_seen [OF inv, of p] by (auto simp: marked_def)
  moreover have "\<exists>p \<in> set (plugins t). named (EffectiveName m) (EffectiveVersion m) p \<and> pl_Status p \<noteq> PluginStatusRemoved"
    if "found (w_env w) k root entries name m" for name m
    using scan_inv_found [OF inv that] scan_inv_seen [OF inv] 2(5) by blast
  moreover have "sy_Errors res' = scan_errors (w_env w) k root entries" using inv 2(2) by (simp add: scan_inv_def)
  ultimately show ?thesis using run 1(5) 2(6) by blast
qed

section \<open>A directory with one manifest\<close>

definition zero_digest :: string where
  "zero_digest = replicate 64 CHR ''0''"

definition manifest_json :: jval where
  "manifest_json = JObj [(''name'', JStr ''echo''), (''version'', JStr ''2''), (''command'', JStr ''python3''),
     (''args'', JArr [JStr ''main.py'']), (''timeout_seconds'', JNum ''5''),
     (''security'', JObj [(''checksum'', JStr (''sha256:'' @ zero_digest))])]"

definition registry_env :: env where
  "registry_env = sample_env\<lparr>json_parse := (\<lambda>_. Some manifest_json), sha256_hex := (\<lambda>_. zero_digest)\<rparr>"

definition registry_world :: world where
  "registry_world = (sample_world [])\<lparr>w_env := registry_env\<rparr>"

definition loaded_manifest :: PluginManifest where
  "loaded_manifest = zero_manifest\<lparr>pm_Name := ''echo'', pm_Version := ''2'', pm_Command := ''python3'',
     pm_Args := [''main.py''], pm_TimeoutSeconds := 5,
     pm_Security := (pm_Security zero_manifest)\<lparr>ms_Checksum := ''sha256:'' @ zero_digest\<rparr>\<rparr>"

lemma registry_parses: "dec_manifest manifest_json zero_manifest = Some loaded_manifest"
  by (simp add: manifest_json_def dec_manifest_def dec_struct_def to_lower_def lower_char_def into_def dec_string_def dec_int_def
      parse_int_def parse_digits_def digit_value_def has_prefix_def in_int64_def loaded_manifest_def zero_manifest_def
      dec_security_def dec_list_def)

lemma loaded_manifest_facts:
  "valid_manifest loaded_manifest" "trim_space (ms_Signature (pm_Security loaded_manifest)) = []"
  "trim_space (ms_Checksum (pm_Security loaded_manifest)) = ''sha256:'' @ zero_digest"
  "trim_prefix (''sha256:'' @ zero_digest) ''sha256:'' = zero_digest" "length zero_digest = 64" "to_lower zero_digest = zero_digest"
  "checksumTarget registry_env loaded_manifest ''/srv/echo'' = Inr ''/srv/echo/main.py''"
  by code_simp+

lemma registry_loads: "LoadManifest registry_env [] ''/srv/echo/manifest.json'' = Inr (loaded_manifest, ''file'')"
proof -
  have "Dir_name ''/srv/echo/manifest.json'' = ''/srv/echo''" by code_simp
  moreover have e: "read_file registry_env p = Inr ''file''" "sha256_hex registry_env b = zero_digest"
    "json_parse registry_env b = Some manifest_json" for p b
    by (simp_all add: registry_env_def sample_env_def)
  moreover have "ValidateManifest loaded_manifest = None" by (simp add: ValidateManifest_iff loaded_manifest_facts)
  ultimately show ?thesis using loaded_manifest_facts
    by (simp add: LoadManifest_def registry_parses VerifyIntegrity_def VerifyChecksum_def VerifySignature_def Let_def)
qed


theorem ReloadPlugins_synchronises_witness:
  "\<exists>res t. ReloadPlugins (json_service []) ''/srv'' registry_world = (Inr res, t) \<and>
     (\<exists>p \<in> set (plugins t). named ''echo'' ''2'' p \<and> pl_Status p \<noteq> PluginStatusRemoved) \<and>
     (\<forall>p \<in> set (plugins t). named ''echo'' ''1'' p \<longrightarrow> pl_Status p = PluginStatusRemoved)"
proof -
  let ?w = "registry_world"
  have env: "w_env ?w = registry_env" by (simp add: registry_world_def)
  have h: "disk_ok ?w" "plugin_ids_ok ?w" "inj (id_text (w_env ?w))" "read_dir (w_env ?w) ''/srv'' = Inr [(''echo'', True)]"
    by (simp_all add: env disk_ok_def registry_env_def sample_env_def plugin_ids_ok_def inj_def)
      (simp add: registry_world_def sample_plugin_def)
  have path: "ManifestPath (Join [''/srv'', ''echo'']) = ''/srv/echo/manifest.json''" by code_simp
  have found: "found (w_env ?w) [] ''/srv'' [(''echo'', True)] name m \<longleftrightarrow> name = ''echo'' \<and> m = loaded_manifest" for name m
    unfolding env by (auto simp: found_def path registry_loads)
  have n: "EffectiveName loaded_manifest = ''echo''" "EffectiveVersion loaded_manifest = ''2''" by code_simp+
  from ReloadPlugins_synchronises [OF h, of "[]"] obtain res t where
    t: "ReloadPlugins (json_service []) ''/srv'' ?w = (Inr res, t)"
    "\<forall>p \<in> set (plugins t). pl_Status p \<noteq> PluginStatusRemoved \<longrightarrow>
      (\<exists>name m. found (w_env ?w) [] ''/srv'' [(''echo'', True)] name m \<and> described m (Join [''/srv'', name]) p)"
    "\<forall>name m. found (w_env ?w) [] ''/srv'' [(''echo'', True)] name m \<longrightarrow> (\<exists>p \<in> set (plugins t).
      named (EffectiveName m) (EffectiveVersion m) p \<and> pl_Status p \<noteq> PluginStatusRemoved)"
    by blast
  from t(3) have "\<exists>p \<in> set (plugins t). named ''echo'' ''2'' p \<and> pl_Status p \<noteq> PluginStatusRemoved"
    using found n by metis
  moreover have "pl_Status p = PluginStatusRemoved" if "p \<in> set (plugins t)" "named ''echo'' ''1'' p" for p
  proof (rule ccontr)
    assume "pl_Status p \<noteq> PluginStatusRemoved"
    with t(2) that(1) found have "described loaded_manifest (Join [''/srv'', ''echo'']) p" by metis
    from described_names [OF this] that(2) n show False by simp
  qed
  ultimately show ?thesis using t(1) by blast
qed

section \<open>Over Postgres\<close>

text \<open>
  Over the Postgres plugin store the same operation registers nothing, whatever the directory
  holds, because looking a plugin up fails.
\<close>

lemma find_plugin_pg: "\<exists>t. find_plugin pg_plugin_store n v w = (Inr (zero_plugin, False), t) \<and> plugins t = plugins w \<and> w_env t = w_env w"
  using PgPlugin_get_fails [of "named n v" w]
  by (auto simp: find_plugin_def pg_plugin_store_def PgPlugin_GetByNameVersion_def tryE_run)

lemma UpsertFromManifest_pg: "\<exists>err t. UpsertFromManifest pg_plugin_store p w = (Inl err, t) \<and> plugins t = plugins w \<and> w_env t = w_env w"
proof -
  obtain err where "PgPlugin_get (named (pl_Name p) (pl_Version p)) (w\<lparr>now_ix := Suc (now_ix w)\<rparr>)
      = (Inl err, w\<lparr>now_ix := Suc (now_ix w), io_ix := Suc (io_ix w)\<rparr>)"
    using PgPlugin_get_fails [of _ "w\<lparr>now_ix := Suc (now_ix w)\<rparr>"] by auto
  then show ?thesis by (simp add: UpsertFromManifest_def pg_plugin_store_def PgPlugin_GetByNameVersion_def time_now_run)
qed

abbreviation pg_service :: "ManifestService \<Rightarrow> RegistryService" where
  "pg_service k \<equiv> \<lparr>gy_manifest = k, gy_registry = pg_registry, gy_pluginRepo = pg_plugin_store\<rparr>"

lemma sync_dir_pg:
  "\<exists>errs t. sync_dir (pg_service k) root name (zero_sync\<lparr>sy_Errors := es\<rparr>, []) w =
     (Inr (zero_sync\<lparr>sy_Errors := errs\<rparr>, []), t) \<and> plugins t = plugins w"
proof (cases "LoadManifest (w_env w) k (ManifestPath (Join [root, name]))")
  case (Inl err)
  then show ?thesis by (simp add: sync_dir_def zero_sync_def)
next
  case (Inr mb)
  obtain m b where mb: "mb = (m, b)" by (cases mb)
  let ?p = "BuildPluginFromManifest m (Join [root, name])"
  obtain t where f: "find_plugin pg_plugin_store (pl_Name ?p) (pl_Version ?p) w = (Inr (zero_plugin, False), t)" "plugins t = plugins w"
    using find_plugin_pg by blast
  obtain err u where "UpsertFromManifest pg_plugin_store ?p t = (Inl err, u)" "plugins u = plugins t"
    using UpsertFromManifest_pg by blast
  with f Inr mb show ?thesis by (simp add: sync_dir_def zero_sync_def Let_def tryE_run)
qed

lemma sync_dirs_pg:
  "\<exists>errs t. sync_dirs (pg_service k) root entries (zero_sync\<lparr>sy_Errors := es\<rparr>, []) w =
     (Inr (zero_sync\<lparr>sy_Errors := errs\<rparr>, []), t) \<and> plugins t = plugins w"
proof (induction entries arbitrary: es w)
  case Nil
  then show ?case by auto
next
  case (Cons e entries)
  obtain name is_dir where e: "e = (name, is_dir)" by (cases e)
  obtain errs u where 1: "sync_dir (pg_service k) root name (zero_sync\<lparr>sy_Errors := es\<rparr>, []) w =
     (Inr (zero_sync\<lparr>sy_Errors := errs\<rparr>, []), u)" "plugins u = plugins w"
    using sync_dir_pg by blast
  show ?case
  proof (cases is_dir)
    case True
    with Cons.IH [of errs u] 1 e show ?thesis by simp
  qed (use Cons.IH e in simp)
qed

text \<open>
  Over Postgres, reloading never creates, updates or removes a plugin: the plugins table is
  unchanged and the counts are zero.
\<close>

theorem ReloadPlugins_pg_registers_nothing:
  "\<exists>r t. ReloadPlugins (pg_service k) root w = (r, t) \<and> plugins t = plugins w \<and>
     (case r of Inl _ \<Rightarrow> True | Inr res \<Rightarrow> sy_Created res = 0 \<and> sy_Updated res = 0 \<and> sy_Removed res = 0)"
proof (cases "read_dir (w_env w) root")
  case (Inl err)
  then show ?thesis by (simp add: ReloadPlugins_def)
next
  case (Inr entries)
  obtain errs t where 1: "sync_dirs (pg_service k) root entries (zero_sync\<lparr>sy_Errors := []\<rparr>, []) w =
      (Inr (zero_sync\<lparr>sy_Errors := errs\<rparr>, []), t)" "plugins t = plugins w"
    using sync_dirs_pg by blast
  have z: "zero_sync\<lparr>sy_Errors := []\<rparr> = zero_sync" by (simp add: zero_sync_def)
  obtain err u where l: "ps_List pg_plugin_store t = (Inl err, u)" "plugins u = plugins t"
    unfolding pg_plugin_store_def PgPlugin_List_def select_plugins_def plugin_columns_missing
    by (cases "io_fault (w_env t) (io_ix t)") (simp_all add: disk_def)
  from 1(1) z have "ReloadPlugins (pg_service k) root w = (Inr (zero_sync\<lparr>sy_Errors := errs\<rparr>), u)"
    using Inr l by (simp add: ReloadPlugins_def tryE_run)
  with l 1(2) show ?thesis by (simp add: zero_sync_def)
qed

end
