(* ===== verification/Startup.thy ===== *)
theory Startup
  imports ServerPages Config Worker RegistrySpec
begin

text \<open>
  The start of the server on JSON documents (\<^verbatim>\<open>cmd/server/main.go\<close>, \<^verbatim>\<open>internal/storage/migrate.go\<close> and
  \<^verbatim>\<open>seed.go\<close>): the documents are created, two users are stored if there are none, the plugins are
  read, the parts are connected, and the tasks of the last run are recovered. The workers and the scheduler
  of webhooks, which run beside it, are the interleavings of \<open>LocalSystem\<close> and \<open>WebhookSpec\<close>.
\<close>

section \<open>The documents and the first users\<close>

text \<open>A missing document reads as an empty one, so creating it changes no table.\<close>

definition EnsureArrayFiles :: "string list \<Rightarrow> unit prog_w" where
  "EnsureArrayFiles names = eachE (\<lambda>name. disk (retE ())) names"

definition Migrate :: "unit prog_w" where
  "Migrate = EnsureArrayFiles [''users'', ''plugins'', ''plugin_registry'', ''executions'', ''execution_results'',
     ''execution_events'', ''execution_attempts'', ''audit_logs'', ''webhooks'', ''webhook_deliveries'']"

definition default_user :: "string \<Rightarrow> string \<Rightarrow> Role \<Rightarrow> string \<Rightarrow> string \<Rightarrow> time \<Rightarrow> User" where
  "default_user i name role tokenHash passwordHash now = \<lparr>us_TenantID = DefaultTenantID, us_ProjectID = DefaultProjectID, us_ID = i,
     us_Username = name, us_Role = role, us_TokenHash = tokenHash, us_PasswordHash = passwordHash, us_CreatedAt = now, us_UpdatedAt = now\<rparr>"

definition SeedDefaultUsers :: "string \<Rightarrow> string \<Rightarrow> unit prog_w" where
  "SeedDefaultUsers demoToken adminToken = bindE (Load users) (\<lambda>us.
     if length us > 0 then retE ()
     else bindE time_now (\<lambda>now. bindE (getE w_env) (\<lambda>v. Save users_update
       [default_user ''user_demo'' ''demo'' RoleUser (hashSecret v demoToken) (hashSecret v ''demo123'') now,
        default_user ''user_admin'' ''admin'' RoleAdmin (hashSecret v adminToken) (hashSecret v ''admin123'') now])))"

section \<open>The parts connected\<close>

record App =
  ap_server :: server
  ap_worker :: ExecutionWorker
  ap_workers :: int
  ap_addr :: string

definition NewWorkerPool :: "int \<Rightarrow> int" where
  "NewWorkerPool workerCount = (if workerCount \<le> 0 then 1 else workerCount)"

definition NewExecutionWorkerWithEvents :: "getenv \<Rightarrow> ExecutionService \<Rightarrow> RuntimeService \<Rightarrow> ExecutionWorker" where
  "NewExecutionWorkerWithEvents v e r = \<lparr>wk_executions = e, wk_runtime = r, wk_events = True, wk_attempts = True,
     wk_workerID = (if v ''PES_WORKER_ID'' = [] then ''local-worker'' else v ''PES_WORKER_ID'')\<rparr>"

text \<open>
  \<open>rnd\<close> and \<open>panic_text\<close> stand for the random text of the middleware and the text of a panic, \<open>hook\<close> and \<open>stream\<close>
  name the subscribers. \<^verbatim>\<open>make(chan string, n)\<close> panics for a negative \<open>n\<close>, which ends the process like an error.
\<close>

definition local_services :: "Config \<Rightarrow> ExecutionService \<times> RegistryService \<times> RuntimeService" where
  "local_services cfg =
     (\<lparr>es_audit = True, es_queue = True, es_events = True\<rparr>,
      \<lparr>gy_manifest = NewManifestService (cf_TrustedPluginPublicKeys cfg), gy_registry = json_registry, gy_pluginRepo = json_plugin_store\<rparr>,
      \<lparr>rt_runner = NewProcessRunner (xc_AllowedCommands (cf_Execution cfg)),
       rt_container = Some (NewContainerRunner (xc_ContainerRuntimeEnabled (cf_Execution cfg))),
       rt_maxOutputBytes = xc_MaxOutputBytes (cf_Execution cfg), rt_secretProvider = None\<rparr>)"

definition buildLocalJSONApp :: "getenv \<Rightarrow> (nat \<Rightarrow> nat \<Rightarrow> string) \<Rightarrow> string \<Rightarrow> nat \<Rightarrow> nat \<Rightarrow> Config \<Rightarrow> App prog_w" where
  "buildLocalJSONApp v rnd panic_text hook stream cfg =
     (case local_services cfg of (execSvc, registrySvc, runtimeSvc) \<Rightarrow>
      bindE (disk (retE ())) (\<lambda>_. bindE Migrate (\<lambda>_.
      bindE (SeedDefaultUsers (ac_DemoToken (cf_Auth cfg)) (ac_AdminToken (cf_Auth cfg))) (\<lambda>_.
      bindE (modE (\<lambda>w. snd (Bus_Subscribe ''*'' hook w))) (\<lambda>_.
      tryE (ReloadPlugins registrySvc (cf_PluginDir cfg)) (\<lambda>_.
      guardE (xc_QueueSize (cf_Execution cfg) < 0) (PlainError ''makechan: size out of range'')
      (bindE (modE (\<lambda>w. w\<lparr>queue_ch := [], queue_size := nat (xc_QueueSize (cf_Execution cfg))\<rparr>)) (\<lambda>_.
      tryE (RecoverIncompleteExecutions execSvc CtxLive ''startup-recovery'') (\<lambda>_.
      retE \<lparr>ap_server = \<lparr>sv_auth = json_auth, sv_executions = local_use_case execSvc, sv_plugins = json_plugin_store,
              sv_registry = registrySvc, sv_pluginDir = cf_PluginDir cfg, sv_webhooks = NewWebhookService,
              sv_rand = rnd, sv_panic = panic_text, sv_stream = stream\<rparr>,
            ap_worker = NewExecutionWorkerWithEvents v execSvc runtimeSvc,
            ap_workers = NewWorkerPool (xc_WorkerCount (cf_Execution cfg)), ap_addr = cf_Addr cfg\<rparr>)))))))))"

text \<open>The choice of the store; the server on Postgres is not put together here.\<close>

definition buildApp :: "getenv \<Rightarrow> (Config \<Rightarrow> 'a prog_w) \<Rightarrow> (Config \<Rightarrow> 'a prog_w) \<Rightarrow> 'a prog_w" where
  "buildApp v local postgres = (case Config_Load v of (cfg, Some err) \<Rightarrow> failE err
   | (cfg, None) \<Rightarrow>
       if st_Driver (cf_Storage cfg) = ''local-json'' then local cfg
       else if st_Driver (cf_Storage cfg) = ''postgres'' then postgres cfg
       else failE (PlainError (''unsupported metadata store: '' @ st_Driver (cf_Storage cfg))))"

section \<open>Who can use a server that was just set up\<close>

definition same_users :: "world \<Rightarrow> world \<Rightarrow> bool" where
  "same_users w t \<longleftrightarrow> users t = users w \<and> executions t = executions w \<and> w_env t = w_env w"

interpretation kept: state_order always same_users
  by unfold_locales (auto simp: same_users_def)

lemma users_disk: "(\<And>w. same_users w (snd (m w))) \<Longrightarrow> evolves always same_users (disk m)"
  by (simp add: evolves_def disk_def same_users_def split: option.split)

lemma users_run: "(\<And>w. same_users w (snd (m w))) \<Longrightarrow> evolves always same_users m"
  by (simp add: evolves_def)

lemma users_files:
  "evolves always same_users (Load f)"
  "evolves always same_users (Save plugins_update xs)" "evolves always same_users (Save plugin_registry_update rs)"
  unfolding Load_def Save_def by (rule users_disk; simp add: same_users_def)+

lemma users_ids: "evolves always same_users time_now" "evolves always same_users (newID x)"
  by (rule users_run; simp add: time_now_run newID_run same_users_def)+

lemma users_plugins:
  "evolves always same_users (ps_GetByNameVersion json_plugin_store n v)" "evolves always same_users (ps_Update json_plugin_store p)"
  "evolves always same_users (ps_Create json_plugin_store p)" "evolves always same_users (ps_List json_plugin_store)"
  "evolves always same_users (ps_Now json_plugin_store)" "evolves always same_users (ps_NewID json_plugin_store x)"
  "evolves always same_users (gs_UpsertRegistryRecord json_registry r)"
  by (auto simp: json_plugin_store_def json_registry_def Plugin_GetByNameVersion_def Plugin_Update_def Plugin_Create_def Plugin_List_def
      Registry_Upsert_def repo_find_def repo_update_def repo_append_def intro!: kept.intros users_files users_ids)

lemma users_UpsertFromManifest: "evolves always same_users (UpsertFromManifest json_plugin_store p)"
  unfolding UpsertFromManifest_def by (intro kept.intros users_plugins)

lemma users_find_plugin: "evolves always same_users (find_plugin json_plugin_store n v)"
  unfolding find_plugin_def by (intro kept.intros users_plugins)

lemma users_sync_dir: "evolves always same_users (sync_dir (json_service k) root name acc)"
  unfolding sync_dir_def Let_def RegistryService.simps
  by (intro kept.intros users_plugins users_find_plugin users_UpsertFromManifest users_ids)

lemma users_sync_dirs: "evolves always same_users (sync_dirs (json_service k) root es acc)"
  by (induction es arbitrary: acc) (auto intro!: kept.intros users_sync_dir simp del: RegistryService.simps)

lemma users_remove_unseen: "evolves always same_users (remove_unseen json_plugin_store seen ps res)"
  by (induction ps arbitrary: res) (auto intro!: kept.intros users_plugins users_ids)

lemma users_Reload: "evolves always same_users (ReloadPlugins (json_service k) root)"
  unfolding ReloadPlugins_def
  by (intro kept.intros users_sync_dirs) (simp_all add: users_plugins users_remove_unseen)

definition seeded :: "Config \<Rightarrow> world \<Rightarrow> User list" where
  "seeded cfg w = (if users w \<noteq> [] then users w else
     [default_user ''user_demo'' ''demo'' RoleUser (hashSecret (w_env w) (ac_DemoToken (cf_Auth cfg))) (hashSecret (w_env w) ''demo123'')
        (clock (w_env w) (now_ix w)),
      default_user ''user_admin'' ''admin'' RoleAdmin (hashSecret (w_env w) (ac_AdminToken (cf_Auth cfg))) (hashSecret (w_env w) ''admin123'')
        (clock (w_env w) (now_ix w))])"

lemma ensure_ok: "disk_ok w \<Longrightarrow> EnsureArrayFiles names w = (Inr (), w\<lparr>io_ix := io_ix w + length names\<rparr>)"
  unfolding EnsureArrayFiles_def
proof (induction names arbitrary: w)
  case (Cons n names)
  have 1: "disk (retE ()) w = (Inr (), w\<lparr>io_ix := Suc (io_ix w)\<rparr>)" "disk_ok (w\<lparr>io_ix := Suc (io_ix w)\<rparr>)"
    using Cons.prems by (simp_all add: disk_def disk_ok_def)
  show ?case unfolding eachE.simps bindE_Inr [where m = "disk (retE ())", OF 1(1)] unfolding Cons.IH [OF 1(2)] by simp
qed simp

lemma seed_ok:
  assumes "disk_ok w"
  obtains t where "SeedDefaultUsers (ac_DemoToken (cf_Auth cfg)) (ac_AdminToken (cf_Auth cfg)) w = (Inr (), t)"
    and "users t = seeded cfg w" and "executions t = executions w" and "w_env t = w_env w"
proof (cases "users w = []")
  case True
  have "SeedDefaultUsers (ac_DemoToken (cf_Auth cfg)) (ac_AdminToken (cf_Auth cfg)) w =
      (Inr (), w\<lparr>io_ix := Suc (Suc (io_ix w)), now_ix := Suc (now_ix w), users := seeded cfg w\<rparr>)"
    using assms True by (simp add: SeedDefaultUsers_def Load_def Save_def disk_def disk_ok_def bindE_def time_now_run seeded_def)
  then show thesis by (rule that) simp_all
next
  case False
  then have "SeedDefaultUsers (ac_DemoToken (cf_Auth cfg)) (ac_AdminToken (cf_Auth cfg)) w = (Inr (), w\<lparr>io_ix := Suc (io_ix w)\<rparr>)"
    using assms by (simp add: SeedDefaultUsers_def Load_def disk_def disk_ok_def bindE_def)
  then show thesis by (rule that) (simp_all add: seeded_def False)
qed

lemma start_ok:
  assumes w: "disk_ok w" and ids: "distinct (map ex_ID (executions w))" and size: "0 \<le> xc_QueueSize (cf_Execution cfg)"
  obtains app t where "buildLocalJSONApp v rnd pt hook stream cfg w = (Inr app, t)" and "local_mode (ap_server app)"
    and "users t = seeded cfg w" and "w_env t = w_env w"
proof -
  obtain S k R where services: "local_services cfg = (S, json_service k, R)" by (auto simp: local_services_def)
  let ?w1 = "w\<lparr>io_ix := Suc (io_ix w)\<rparr>"
  have 1: "disk (retE ()) w = (Inr (), ?w1)" "disk_ok ?w1" using w by (simp_all add: disk_def disk_ok_def)
  obtain n where 2: "Migrate ?w1 = (Inr (), w\<lparr>io_ix := n\<rparr>)" using ensure_ok [OF 1(2)] by (simp add: Migrate_def)
  let ?w2 = "w\<lparr>io_ix := n\<rparr>"
  have d2: "disk_ok ?w2" using w by (simp add: disk_ok_def)
  obtain w3 where 3: "SeedDefaultUsers (ac_DemoToken (cf_Auth cfg)) (ac_AdminToken (cf_Auth cfg)) ?w2 = (Inr (), w3)"
    and "users w3 = seeded cfg ?w2" "executions w3 = executions ?w2" "w_env w3 = w_env ?w2"
    by (rule seed_ok [OF d2])
  then have w3: "users w3 = seeded cfg w" "executions w3 = executions w" "w_env w3 = w_env w" by (simp_all add: seeded_def)
  let ?w4 = "snd (Bus_Subscribe ''*'' hook w3)"
  obtain r w5 where 5: "ReloadPlugins (json_service k) (cf_PluginDir cfg) ?w4 = (r, w5)"
    by (cases "ReloadPlugins (json_service k) (cf_PluginDir cfg) ?w4")
  from evolvesD [OF users_Reload _ 5] have "same_users ?w4 w5" by simp
  then have w5: "users w5 = seeded cfg w" "executions w5 = executions w" "w_env w5 = w_env w"
    using w3 by (simp_all add: same_users_def Bus_Subscribe_def Let_def)
  let ?w6 = "w5\<lparr>queue_ch := [], queue_size := nat (xc_QueueSize (cf_Execution cfg))\<rparr>"
  have "task_order ?w6 (snd (RecoverIncompleteExecutions S CtxLive ''startup-recovery'' ?w6))"
    by (rule RecoverIncompleteExecutions_order) (simp add: w5 ids)
  then have w7: "users (snd (RecoverIncompleteExecutions S CtxLive ''startup-recovery'' ?w6)) = seeded cfg w"
    "w_env (snd (RecoverIncompleteExecutions S CtxLive ''startup-recovery'' ?w6)) = w_env w"
    using w5 by (simp_all add: task_order_def)
  have size': "(xc_QueueSize (cf_Execution cfg) < 0) = False" using size by simp
  define app where "app = \<lparr>ap_server = \<lparr>sv_auth = json_auth, sv_executions = local_use_case S, sv_plugins = json_plugin_store,
              sv_registry = json_service k, sv_pluginDir = cf_PluginDir cfg, sv_webhooks = NewWebhookService,
              sv_rand = rnd, sv_panic = pt, sv_stream = stream\<rparr>,
            ap_worker = NewExecutionWorkerWithEvents v S R,
            ap_workers = NewWorkerPool (xc_WorkerCount (cf_Execution cfg)), ap_addr = cf_Addr cfg\<rparr>"
  have "buildLocalJSONApp v rnd pt hook stream cfg w =
      (Inr app, snd (RecoverIncompleteExecutions S CtxLive ''startup-recovery'' ?w6))"
    unfolding buildLocalJSONApp_def services prod.case bindE_Inr [where m = "disk (retE ())", OF 1(1)] bindE_Inr [where m = Migrate, OF 2]
      bindE_Inr [where m = "SeedDefaultUsers _ _", OF 3]
      bindE_mod tryE_run 5 fst_conv snd_conv guardE_run size' if_False retE_run app_def ..
  moreover have "local_mode (ap_server app)" by (auto simp: local_mode_def app_def)
  ultimately show thesis using w7 by (rule that)
qed

text \<open>
  C29. The first start on empty documents succeeds, and afterwards exactly two tokens open a session: the
  configured demo token that of an ordinary user, the configured administrator's token that of an
  administrator (tokens are compared by their digest).
\<close>

theorem first_start_sessions:
  assumes "disk_ok w" and "users w = []" and "executions w = []" and "0 \<le> xc_QueueSize (cf_Execution cfg)"
  shows "\<exists>app t. buildLocalJSONApp v rnd pt hook stream cfg w = (Inr app, t) \<and> local_mode (ap_server app) \<and>
    (\<forall>r. map_option cu_Role (session (ap_server app) r t) = (case bearer_token r of None \<Rightarrow> None
       | Some token \<Rightarrow> let H = hashSecret (w_env w) in
           if H token = H (ac_DemoToken (cf_Auth cfg)) then Some RoleUser
           else if H token = H (ac_AdminToken (cf_Auth cfg)) then Some RoleAdmin else None))"
proof -
  have "distinct (map ex_ID (executions w))" using assms(3) by simp
  from start_ok [OF assms(1) this assms(4), of v rnd pt hook stream] obtain app t where
    t: "buildLocalJSONApp v rnd pt hook stream cfg w = (Inr app, t)" "local_mode (ap_server app)" "users t = seeded cfg w" "w_env t = w_env w"
    by metis
  have A: "sv_auth (ap_server app) = json_auth" using t(2) by (simp add: local_mode_def)
  have "map_option cu_Role (session (ap_server app) r t) = (case bearer_token r of None \<Rightarrow> None
       | Some token \<Rightarrow> let H = hashSecret (w_env w) in
           if H token = H (ac_DemoToken (cf_Auth cfg)) then Some RoleUser
           else if H token = H (ac_AdminToken (cf_Auth cfg)) then Some RoleAdmin else None)" for r
    using assms(1,2) t(3,4)
    by (auto simp: session_def A ValidateToken_json disk_ok_def seeded_def default_user_def toCurrentUser_def Let_def split: option.split)
  with t(1,2) show ?thesis by blast
qed

text \<open>A later start keeps the users, so a token changed in the configuration has no effect then.\<close>

lemma later_start_keeps_users:
  assumes "disk_ok w" and "users w \<noteq> []" and "distinct (map ex_ID (executions w))" and "0 \<le> xc_QueueSize (cf_Execution cfg)"
  shows "\<exists>app t. buildLocalJSONApp v rnd pt hook stream cfg w = (Inr app, t) \<and> users t = users w"
  using start_ok [OF assms(1,3,4), of v rnd pt hook stream] assms(2) by (metis seeded_def)

text \<open>A negative size of the queue in the environment ends the start.\<close>

lemma negative_queue_size_stops:
  assumes "xc_QueueSize (cf_Execution cfg) < 0"
  shows "\<exists>err. fst (buildLocalJSONApp v rnd pt hook stream cfg w) = Inl err"
proof -
  obtain S G R where services: "local_services cfg = (S, G, R)" by (cases "local_services cfg")
  show ?thesis using assms
    by (simp add: buildLocalJSONApp_def services bindE_def tryE_run guardE_run split: prod.split sum.split)
qed

theorem first_start_sessions_witness:
  "\<exists>app t. buildLocalJSONApp (\<lambda>_. []) (\<lambda>_ _. []) [] 0 1 (Default (\<lambda>_. [])) (sample_world []) = (Inr app, t) \<and>
     map_option cu_Role (session (ap_server app) (sample_request ''GET'' ''/'' ''Bearer admin-token'') t) = Some RoleAdmin"
proof -
  let ?r = "sample_request ''GET'' ''/'' ''Bearer admin-token''" and ?cfg = "Default (\<lambda>_. [])" and ?w = "sample_world []"
  have w: "users ?w = []" "executions ?w = []" "hashSecret (w_env ?w) = (\<lambda>x. x)"
    by (simp_all add: sample_world_def sample_env_def hashSecret_def fun_eq_iff)
  have cfg: "0 \<le> xc_QueueSize (cf_Execution ?cfg)" "ac_DemoToken (cf_Auth ?cfg) = ''demo-token''"
    "ac_AdminToken (cf_Auth ?cfg) = ''admin-token''" "bearer_token ?r = Some ''admin-token''"
    by code_simp+
  obtain app t where run: "buildLocalJSONApp (\<lambda>_. []) (\<lambda>_ _. []) [] 0 1 ?cfg ?w = (Inr app, t)"
    and role: "\<forall>r. map_option cu_Role (session (ap_server app) r t) = (case bearer_token r of None \<Rightarrow> None
       | Some token \<Rightarrow> let H = hashSecret (w_env ?w) in
           if H token = H (ac_DemoToken (cf_Auth ?cfg)) then Some RoleUser
           else if H token = H (ac_AdminToken (cf_Auth ?cfg)) then Some RoleAdmin else None)"
    using first_start_sessions [OF sample_disk_ok w(1,2) cfg(1), of "\<lambda>_. []" "\<lambda>_ _. []" "[]" 0 1] by blast
  have "map_option cu_Role (session (ap_server app) ?r t) = Some RoleAdmin"
    unfolding role [rule_format] w(3) cfg(2-4) by simp
  with run show ?thesis by blast
qed

end
