(* ===== verification/StartupProduction.thy ===== *)
theory StartupProduction
  imports Startup EnterpriseRuns PoolRuns
begin

text \<open>
  The start of the server on Postgres (\<^verbatim>\<open>cmd/server/main.go\<close>, \<^verbatim>\<open>internal/storage/postgres/open.go\<close> and
  \<^verbatim>\<open>migrate.go\<close>). The driver of \<^verbatim>\<open>database/sql\<close> is a parameter. The HTTP handlers over the Postgres
  repositories are not put together; of the production server the services, the worker's handler and the pool are.
\<close>

section \<open>Opening and migrating the database\<close>

text \<open>\<^verbatim>\<open>sql.Open\<close> by driver name and address, and \<^verbatim>\<open>Ping\<close>; the limits of the connection pool change no result.\<close>

record db_driver =
  dr_Open :: "string \<Rightarrow> string \<Rightarrow> go_error option"
  dr_Ping :: "go_error option"

definition OpenDB :: "db_driver \<Rightarrow> string \<Rightarrow> string \<Rightarrow> go_error option" where
  "OpenDB D driverName dsn =
     (let driverName = (if driverName = [] then ''postgres'' else driverName) in
      if dsn = [] then Some (PlainError ''postgres DSN is required'')
      else case dr_Open D driverName dsn of Some err \<Rightarrow> Some err | None \<Rightarrow>
      (case dr_Ping D of Some err \<Rightarrow> Some (PlainError (''postgres ping failed: '' @ error_text err)) | None \<Rightarrow> None))"

text \<open>The script creates the tables that are missing, so it changes no row; like every statement it may fail.\<close>

definition PgMigrate :: "string \<Rightarrow> unit prog_w" where
  "PgMigrate path =
     (let path = (if path = [] then ''migrations/postgres/001_enterprise_metadata.sql'' else path) in
      bindE (getE (\<lambda>w. read_file (w_env w) path)) (\<lambda>b. case b of
        Inl err \<Rightarrow> failE (PlainError (''read postgres migration '' @ path @ '': '' @ error_text err))
      | Inr _ \<Rightarrow> tryE (disk (retE ())) (\<lambda>r. case r of
          Inl err \<Rightarrow> failE (PlainError (''apply postgres migration: '' @ error_text err)) | Inr _ \<Rightarrow> retE ())))"

section \<open>The production server\<close>

record ProductionApp =
  pa_auth :: AuthStore
  pa_registry :: RegistryService
  pa_executions :: EnterpriseExecutionService
  pa_handler :: MetadataExecutionHandler
  pa_pool :: DurableWorkerOptions
  pa_addr :: string

definition seconds :: "int \<Rightarrow> int" where
  "seconds n = wrap64 (n * second)"

definition production_pool :: "string \<Rightarrow> ExecutionConfig \<Rightarrow> DurableWorkerOptions" where
  "production_pool workerID xc = NewDurableWorkerPool
     \<lparr>dw_WorkerID = workerID, dw_WorkerCount = xc_WorkerCount xc, dw_LeaseDuration = seconds (xc_LeaseDurationSeconds xc),
      dw_HeartbeatInterval = seconds (xc_HeartbeatSeconds xc), dw_PollInterval = 0, dw_ReclaimInterval = 0,
      dw_MaxAttempts = xc_MaxAttempts xc, dw_MaxBackoff = 0\<rparr>"

definition buildPostgresApp :: "getenv \<Rightarrow> db_driver \<Rightarrow> nat \<Rightarrow> Config \<Rightarrow> ProductionApp prog_w" where
  "buildPostgresApp v D hook cfg =
     (case OpenDB D (st_PostgresDriver (cf_Storage cfg)) (st_PostgresDSN (cf_Storage cfg)) of Some err \<Rightarrow> failE err | None \<Rightarrow>
      bindE (if st_AutoMigrate (cf_Storage cfg) then PgMigrate (st_MigrationPath (cf_Storage cfg)) else retE ()) (\<lambda>_.
      bindE (modE (\<lambda>w. snd (Bus_Subscribe ''*'' hook w))) (\<lambda>_.
      let registrySvc = \<lparr>gy_manifest = NewManifestService (cf_TrustedPluginPublicKeys cfg), gy_registry = pg_registry, gy_pluginRepo = pg_plugin_store\<rparr>;
          workerID = (if v ''PES_WORKER_ID'' = [] then ''postgres-worker'' else v ''PES_WORKER_ID'') in
      tryE (ReloadPlugins registrySvc (cf_PluginDir cfg)) (\<lambda>_.
      case local_services cfg of (_, _, runtimeSvc) \<Rightarrow>
      let durableHandler = NewMetadataExecutionHandler pg_plugin_store runtimeSvc False workerID in
      case Start (Some pg_queue) (Some (HandleLeasedExecution durableHandler)) of Some err \<Rightarrow> failE err | None \<Rightarrow>
      retE \<lparr>pa_auth = pg_auth, pa_registry = registrySvc, pa_executions = NewEnterpriseExecutionService pg_plugin_store,
        pa_handler = durableHandler, pa_pool = production_pool workerID (cf_Execution cfg), pa_addr = cf_Addr cfg\<rparr>))))"

datatype ServerApp = LocalApp App | PostgresApp ProductionApp

text \<open>The whole choice of \<^verbatim>\<open>buildApp\<close>: no store stands in for another.\<close>

definition start_server :: "getenv \<Rightarrow> db_driver \<Rightarrow> (nat \<Rightarrow> nat \<Rightarrow> string) \<Rightarrow> string \<Rightarrow> nat \<Rightarrow> nat \<Rightarrow> ServerApp prog_w" where
  "start_server v D rnd pt hook stream = buildApp v
     (\<lambda>cfg. bindE (buildLocalJSONApp v rnd pt hook stream cfg) (\<lambda>a. retE (LocalApp a)))
     (\<lambda>cfg. bindE (buildPostgresApp v D hook cfg) (\<lambda>a. retE (PostgresApp a)))"

section \<open>What a started production server is like\<close>

lemma PgMigrate_same: "same_tables w (snd (PgMigrate path w)) \<and> w_env (snd (PgMigrate path w)) = w_env w"
  by (simp add: PgMigrate_def Let_def tryE_run disk_def same_tables_iff split: sum.split option.split)

lemma buildPostgresApp_done:
  assumes "buildPostgresApp v D hook cfg w = (Inr app, t)"
  shows "OpenDB D (st_PostgresDriver (cf_Storage cfg)) (st_PostgresDSN (cf_Storage cfg)) = None"
    and "st_AutoMigrate (cf_Storage cfg) \<longrightarrow> (\<exists>u. PgMigrate (st_MigrationPath (cf_Storage cfg)) w = (Inr (), u))"
    and "pa_executions app = NewEnterpriseExecutionService pg_plugin_store" and "plugins t = plugins w"
    and "\<exists>wid. wid \<noteq> [] \<and> pa_pool app = production_pool wid (cf_Execution cfg)"
proof -
  let ?st = "cf_Storage cfg" and ?R = "pg_service (NewManifestService (cf_TrustedPluginPublicKeys cfg))"
  let ?m = "if st_AutoMigrate ?st then PgMigrate (st_MigrationPath ?st) else retE ()"
  define wid where "wid = (if v ''PES_WORKER_ID'' = [] then ''postgres-worker'' else v ''PES_WORKER_ID'')"
  obtain S G R where services: "local_services cfg = (S, G, R)" by (cases "local_services cfg")
  show open_ok: "OpenDB D (st_PostgresDriver ?st) (st_PostgresDSN ?st) = None"
    using assms by (cases "OpenDB D (st_PostgresDriver ?st) (st_PostgresDSN ?st)") (simp_all add: buildPostgresApp_def)
  obtain u where u: "?m w = (Inr (), u)"
    using assms unfolding buildPostgresApp_def open_ok option.case by (rule bindE_InrE) (cases "?m w", auto)
  then show "st_AutoMigrate ?st \<longrightarrow> (\<exists>u. PgMigrate (st_MigrationPath ?st) w = (Inr (), u))" by auto
  let ?u = "snd (Bus_Subscribe ''*'' hook u)"
  have start: "Start (Some q) (Some h) = None" for q h by (simp add: Start_def)
  have "buildPostgresApp v D hook cfg w = (Inr \<lparr>pa_auth = pg_auth, pa_registry = ?R, pa_executions = NewEnterpriseExecutionService pg_plugin_store,
        pa_handler = NewMetadataExecutionHandler pg_plugin_store R False wid, pa_pool = production_pool wid (cf_Execution cfg), pa_addr = cf_Addr cfg\<rparr>,
      snd (ReloadPlugins ?R (cf_PluginDir cfg) ?u))"
    unfolding buildPostgresApp_def open_ok option.case bindE_Inr [where m = ?m, OF u] bindE_mod Let_def tryE_run services prod.case start
      wid_def retE_run ..
  with assms have app: "pa_executions app = NewEnterpriseExecutionService pg_plugin_store" "pa_pool app = production_pool wid (cf_Execution cfg)"
    and t: "t = snd (ReloadPlugins ?R (cf_PluginDir cfg) ?u)" by auto
  show "pa_executions app = NewEnterpriseExecutionService pg_plugin_store" by (rule app)
  have "plugins u = plugins w" using PgMigrate_same [of w "st_MigrationPath ?st"] u by (auto simp: same_tables_iff split: if_splits)
  moreover have "plugins ?u = plugins u" by (simp add: Bus_Subscribe_def Let_def)
  ultimately show "plugins t = plugins w"
    using ReloadPlugins_pg_registers_nothing [of "NewManifestService (cf_TrustedPluginPublicKeys cfg)" "cf_PluginDir cfg" ?u] t by auto
  have "wid \<noteq> []" by (simp add: wid_def)
  with app(2) show "\<exists>wid. wid \<noteq> [] \<and> pa_pool app = production_pool wid (cf_Execution cfg)" by blast
qed

lemma OpenDB_ok:
  "OpenDB D driverName dsn = None \<longleftrightarrow> dsn \<noteq> [] \<and> dr_Ping D = None \<and>
     dr_Open D (if driverName = [] then ''postgres'' else driverName) dsn = None"
  by (auto simp: OpenDB_def Let_def split: option.split)

lemma PgMigrate_ok:
  "PgMigrate path w = (Inr (), u) \<Longrightarrow>
     \<exists>b. read_file (w_env w) (if path = [] then ''migrations/postgres/001_enterprise_metadata.sql'' else path) = Inr b"
  by (auto simp: PgMigrate_def Let_def split: sum.splits)

lemma start_server_postgres:
  assumes "start_server v D rnd pt hook stream w = (Inr (PostgresApp app), t)"
  obtains cfg where "Config_Load v = (cfg, None)" and "st_Driver (cf_Storage cfg) = ''postgres''"
    and "buildPostgresApp v D hook cfg w = (Inr app, t)"
proof -
  obtain cfg r where c: "Config_Load v = (cfg, r)" by (cases "Config_Load v")
  with assms show thesis
    by (intro that [of cfg]) (auto simp: start_server_def buildApp_def bindE_def split: option.splits if_splits sum.splits prod.splits)
qed

lemma pool_has_workers: "1 \<le> dw_WorkerCount (NewDurableWorkerPool p)"
  by (simp add: NewDurableWorkerPool_def Let_def)

lemma buildPostgresApp_starts:
  assumes "OpenDB D (st_PostgresDriver (cf_Storage cfg)) (st_PostgresDSN (cf_Storage cfg)) = None" and "\<not> st_AutoMigrate (cf_Storage cfg)"
  shows "\<exists>app t. buildPostgresApp v D hook cfg w = (Inr app, t)"
proof -
  obtain S G R where "local_services cfg = (S, G, R)" by (cases "local_services cfg")
  with assms show ?thesis by (simp add: buildPostgresApp_def Let_def tryE_run Start_def)
qed


definition sample_vars :: getenv where
  "sample_vars key = (if key = ''POSTGRES_DSN'' then ''postgres://db/pes'' else if key = ''ALLOW_LOCAL_TOKEN_AUTH'' then ''true'' else [])"


end
