(* ===== verification/Artifact.thy ===== *)
theory Artifact
  imports World Paths
begin

text \<open>
  The stores of artifacts (\<^verbatim>\<open>internal/artifact\<close>): files below a root directory, named by \<^verbatim>\<open>file:\<close> addresses,
  and objects of an HTTP server. The state holds the directories and files of the disk, by absolute path, and
  the requests sent. The functions of \<^verbatim>\<open>net/url\<close> and \<^verbatim>\<open>os\<close> the stores use are written out; no service uses
  the package.
\<close>

section \<open>Addresses\<close>

definition url_plain :: "char \<Rightarrow> bool" where
  "url_plain c \<longleftrightarrow> (let n = of_char c :: nat in 48 \<le> n \<and> n \<le> 57 \<or> 65 \<le> n \<and> n \<le> 90 \<or> 97 \<le> n \<and> n \<le> 122) \<or>
     c \<in> set ''-_.~$&+,/:;=@''"

definition upper_hex :: "nat \<Rightarrow> char" where
  "upper_hex n = ''0123456789ABCDEF'' ! (n mod 16)"

definition url_escape_char :: "char \<Rightarrow> string" where
  "url_escape_char c = (if url_plain c then [c] else [CHR ''%'', upper_hex (of_char c div 16), upper_hex (of_char c)])"

text \<open>\<^verbatim>\<open>u.EscapedPath()\<close>\<close>

definition escaped_path :: "string \<Rightarrow> string" where
  "escaped_path p = (if p = ''*'' then p else concat (map url_escape_char p))"

definition unhex :: "char \<Rightarrow> nat" where
  "unhex c = (let n = of_char c :: nat in if n \<le> 57 then n - 48 else if n \<le> 70 then n - 55 else n - 87)"

text \<open>\<^verbatim>\<open>unescape\<close> for a path or a fragment\<close>

fun url_unescape :: "string \<Rightarrow> string option" where
  "url_unescape [] = Some []"
| "url_unescape (c # s) = (if c \<noteq> CHR ''%'' then map_option (Cons c) (url_unescape s)
     else case s of a # b # s' \<Rightarrow>
         if is_hex_char a \<and> is_hex_char b then map_option (Cons (char_of (16 * unhex a + unhex b))) (url_unescape s') else None
       | _ \<Rightarrow> None)"

definition is_control :: "char \<Rightarrow> bool" where
  "is_control c \<longleftrightarrow> (let n = of_char c :: nat in n < 32 \<or> n = 127)"

text \<open>
  The path \<^verbatim>\<open>url.Parse\<close> finds in an address of the scheme \<^verbatim>\<open>file\<close>; \<open>None\<close> for another scheme and for an
  address it refuses. \<open>authority_ok\<close> tells which non-empty authorities it accepts.
\<close>

definition file_url_path :: "(string \<Rightarrow> bool) \<Rightarrow> string \<Rightarrow> string option" where
  "file_url_path authority_ok raw =
     (let u = takeWhile (\<lambda>c. c \<noteq> CHR ''#'') raw; frag = drop (Suc (length u)) raw;
          sch = takeWhile (\<lambda>c. c \<noteq> CHR '':'') u;
          rest = takeWhile (\<lambda>c. c \<noteq> CHR ''?'') (drop (Suc (length sch)) u);
          auth = (if has_prefix rest ''//'' then takeWhile (\<lambda>c. c \<noteq> CHR ''/'') (drop 2 rest) else []);
          p = (if has_prefix rest ''//'' then drop (2 + length auth) rest else rest)
      in if list_ex is_control raw \<or> url_unescape frag = None \<or> to_lower sch \<noteq> ''file'' \<or> CHR '':'' \<notin> set u \<or>
            \<not> has_prefix rest ''/'' \<or> auth \<noteq> [] \<and> \<not> authority_ok auth then None
         else url_unescape p)"

definition localFileURI :: "string \<Rightarrow> string" where
  "localFileURI p = ''file:'' @ (if p = [] then [] else ''//'' @ escaped_path p)"

definition localFilePath :: "(string \<Rightarrow> bool) \<Rightarrow> string \<Rightarrow> string option" where
  "localFilePath authority_ok rawURI = (case file_url_path authority_ok rawURI of None \<Rightarrow> None
     | Some p \<Rightarrow> if p = [] then None else Some p)"

definition cleanObjectName :: "string \<Rightarrow> go_error + string" where
  "cleanObjectName name = (let name = Base_name (trim_space name) in
     if name = [] \<or> name = ''.'' \<or> name = ''..'' \<or> contains_any name [CHR 0x00, CHR ''/'', CHR 0x5C]
     then Inl (PlainError ''invalid artifact name'') else Inr name)"

definition inside :: "env \<Rightarrow> string \<Rightarrow> string \<Rightarrow> bool" where
  "inside v root target =
     (case (Abs (work_dir v) root, Abs (work_dir v) target) of
        (Some absRoot, Some absTarget) \<Rightarrow>
          (case Rel absRoot absTarget of None \<Rightarrow> False
           | Some rel \<Rightarrow> rel = ''.'' \<or> \<not> has_prefix rel ''..'' \<and> \<not> is_abs rel)
      | _ \<Rightarrow> False)"

section \<open>Time stamps\<close>

text \<open>
  \<^verbatim>\<open>Format("20060102T150405.000000000Z")\<close>. The calendar date is computed from the number of days since
  the first of March of the year 0; the zero time is the first of January of the year 1.
\<close>

definition pad :: "nat \<Rightarrow> int \<Rightarrow> string" where
  "pad n x = (let s = show_int x in replicate (n - length s) CHR ''0'' @ s)"

definition civil_date :: "int \<Rightarrow> int \<times> int \<times> int" where
  "civil_date days =
     (let z = days + 306; era = z div 146097; doe = z mod 146097;
          yoe = (doe - doe div 1460 + doe div 36524 - doe div 146096) div 365;
          doy = doe - (365 * yoe + yoe div 4 - yoe div 100);
          mp = (5 * doy + 2) div 153; m = (if mp < 10 then mp + 3 else mp - 9)
      in (yoe + era * 400 + (if m \<le> 2 then 1 else 0), m, doy - (153 * mp + 2) div 5 + 1))"

definition utc_stamp :: "time \<Rightarrow> string" where
  "utc_stamp t =
     (let secs = t div 1000000000; nanos = t mod 1000000000; tod = secs mod 86400 in
      case civil_date (secs div 86400) of (y, m, d) \<Rightarrow>
        pad 4 y @ pad 2 m @ pad 2 d @ ''T'' @ pad 2 (tod div 3600) @ pad 2 (tod div 60 mod 60) @ pad 2 (tod mod 60) @
        ''.'' @ pad 9 nanos @ ''Z'')"

text \<open>\<^verbatim>\<open>t.Unix()\<close>\<close>

definition unix_seconds :: "time \<Rightarrow> int" where
  "unix_seconds t = t div 1000000000 - 62135596800"

section \<open>The disk\<close>

text \<open>
  What a reader yields until it ends or fails, an opened file, a request and the state. \<open>at_server\<close> is
  the answer of the object server after the requests sent so far, \<open>at_request\<close> the path \<^verbatim>\<open>http.NewRequest\<close> finds
  in an address it accepts.
\<close>

type_synonym reader = "string \<times> go_error option"

datatype opened = FileBytes string | DirHandle

record art_request =
  aq_Method :: string
  aq_URL :: string
  aq_Headers :: "(string \<times> string) list"
  aq_Body :: string

record art_state =
  at_env :: env
  at_now :: nat
  at_io :: nat
  at_authority :: "string \<Rightarrow> bool"
  at_dirs :: "string list"
  at_files :: "string \<Rightarrow> string option"
  at_request :: "string \<Rightarrow> go_error + string"
  at_server :: "art_request list \<Rightarrow> art_request \<Rightarrow> go_error + (int \<times> string)"
  at_log :: "art_request list"

type_synonym 'a prog_a = "(go_error, art_state, 'a) prog"

definition art_now :: "time prog_a" where
  "art_now = (\<lambda>s. (Inr (clock (at_env s) (at_now s)), s\<lparr>at_now := Suc (at_now s)\<rparr>))"

definition sys_call :: "'a prog_a \<Rightarrow> 'a prog_a" where
  "sys_call m = (\<lambda>s. case io_fault (at_env s) (at_io s) of
       Some e \<Rightarrow> (Inl e, s\<lparr>at_io := Suc (at_io s)\<rparr>)
     | None \<Rightarrow> m (s\<lparr>at_io := Suc (at_io s)\<rparr>))"

text \<open>A path as the system reads it, without symbolic links.\<close>

definition resolve :: "env \<Rightarrow> string \<Rightarrow> string" where
  "resolve v p = (case Abs (work_dir v) p of Some q \<Rightarrow> q | None \<Rightarrow> p)"

definition ancestors :: "string \<Rightarrow> string list" where
  "ancestors q = map (\<lambda>n. path_of True (take n (comps q))) [0..<Suc (length (comps q))]"

definition os_MkdirAll :: "string \<Rightarrow> unit prog_a" where
  "os_MkdirAll p = sys_call (\<lambda>s. let as = ancestors (resolve (at_env s) p) in
     if list_ex (\<lambda>a. at_files s a \<noteq> None) as then (Inl (PlainError (''mkdir '' @ p @ '': not a directory'')), s)
     else (Inr (), s\<lparr>at_dirs := at_dirs s @ filter (\<lambda>a. a \<notin> set (at_dirs s)) as\<rparr>))"

text \<open>\<^verbatim>\<open>os.OpenFile(p, O_WRONLY|O_CREATE|O_EXCL, ...)\<close>\<close>

definition os_OpenExcl :: "string \<Rightarrow> unit prog_a" where
  "os_OpenExcl p = sys_call (\<lambda>s. let q = resolve (at_env s) p in
     if Dir_name q \<notin> set (at_dirs s) then (Inl (PlainError (''open '' @ p @ '': no such file or directory'')), s)
     else if at_files s q \<noteq> None \<or> q \<in> set (at_dirs s) then (Inl (PlainError (''open '' @ p @ '': file exists'')), s)
     else (Inr (), s\<lparr>at_files := (at_files s)(q \<mapsto> [])\<rparr>))"

text \<open>\<^verbatim>\<open>io.Copy\<close> to the file and the digest. After a fault of the disk the file is taken to be empty still.\<close>

definition io_Copy :: "string \<Rightarrow> reader \<Rightarrow> nat prog_a" where
  "io_Copy p body = sys_call (\<lambda>s.
     ((case snd body of None \<Rightarrow> Inr (length (fst body)) | Some err \<Rightarrow> Inl err),
      s\<lparr>at_files := (at_files s)(resolve (at_env s) p \<mapsto> fst body)\<rparr>))"

definition file_Close :: "unit prog_a" where
  "file_Close = sys_call (retE ())"

definition os_Remove :: "string \<Rightarrow> unit prog_a" where
  "os_Remove p = sys_call (modE (\<lambda>s. s\<lparr>at_files := (at_files s)(resolve (at_env s) p := None)\<rparr>))"

definition os_Rename :: "string \<Rightarrow> string \<Rightarrow> unit prog_a" where
  "os_Rename p p' = sys_call (\<lambda>s. let q = resolve (at_env s) p; q' = resolve (at_env s) p' in
     case at_files s q of None \<Rightarrow> (Inl (PlainError (''rename '' @ p @ '' '' @ p' @ '': no such file or directory'')), s)
     | Some b \<Rightarrow> if q' \<in> set (at_dirs s) then (Inl (PlainError (''rename '' @ p @ '' '' @ p' @ '': file exists'')), s)
         else (Inr (), s\<lparr>at_files := (at_files s)(q := None, q' \<mapsto> b)\<rparr>))"

definition os_Open :: "string \<Rightarrow> opened prog_a" where
  "os_Open p = sys_call (\<lambda>s. let q = resolve (at_env s) p in
     case at_files s q of Some b \<Rightarrow> (Inr (FileBytes b), s)
     | None \<Rightarrow> if q \<in> set (at_dirs s) then (Inr DirHandle, s)
         else (Inl (PlainError (''open '' @ p @ '': no such file or directory'')), s))"

section \<open>The local store\<close>

datatype ObjectKind = ObjectResult | ObjectLog | ObjectBlob | ObjectKindRaw string

fun ObjectKind_text :: "ObjectKind \<Rightarrow> string" where
  "ObjectKind_text ObjectResult = ''result''"
| "ObjectKind_text ObjectLog = ''log''"
| "ObjectKind_text ObjectBlob = ''blob''"
| "ObjectKind_text (ObjectKindRaw s) = s"

record Object =
  ob_TenantID :: string
  ob_ProjectID :: string
  ob_ID :: string
  ob_Kind :: ObjectKind
  ob_URI :: string
  ob_SizeBytes :: int
  ob_SHA256 :: string
  ob_CreatedAt :: time

type_synonym LocalStore = string   \<comment> \<open>the root\<close>

definition NewLocalStore :: "string \<Rightarrow> LocalStore prog_a" where
  "NewLocalStore root = guardE (trim_space root = []) (PlainError ''artifact root is required'')
     (bindE (os_MkdirAll root) (\<lambda>_. retE root))"

definition LocalStore_Put :: "LocalStore \<Rightarrow> ResourceScope \<Rightarrow> ObjectKind \<Rightarrow> string \<Rightarrow> reader \<Rightarrow> Object prog_a" where
  "LocalStore_Put root scope kind name body =
     (let scope = Normalize scope in
      case cleanObjectName name of Inl err \<Rightarrow> failE err | Inr cleanName \<Rightarrow>
      let dir = Join [root, sc_TenantID scope, sc_ProjectID scope, ObjectKind_text kind] in
      bindE (os_MkdirAll dir) (\<lambda>_. bindE art_now (\<lambda>now.
      let i = utc_stamp now @ ''-'' @ cleanName; path = Join [dir, i]; tmp = path @ ''.tmp'' in
      bindE (getE (\<lambda>s. inside (at_env s) root path)) (\<lambda>ok.
      guardE (\<not> ok) (PlainError ''artifact path escapes root'')
      (bindE (os_OpenExcl tmp) (\<lambda>_. tryE (io_Copy tmp body) (\<lambda>copied. tryE file_Close (\<lambda>closed.
        case copied of Inl copyErr \<Rightarrow> tryE (os_Remove tmp) (\<lambda>_. failE copyErr) | Inr n \<Rightarrow>
        case closed of Inl closeErr \<Rightarrow> tryE (os_Remove tmp) (\<lambda>_. failE closeErr) | Inr _ \<Rightarrow>
        tryE (os_Rename tmp path) (\<lambda>renamed.
        case renamed of Inl err \<Rightarrow> tryE (os_Remove tmp) (\<lambda>_. failE err) | Inr _ \<Rightarrow>
        bindE art_now (\<lambda>created. bindE (getE at_env) (\<lambda>v.
        retE \<lparr>ob_TenantID = sc_TenantID scope, ob_ProjectID = sc_ProjectID scope, ob_ID = i, ob_Kind = kind,
          ob_URI = localFileURI path, ob_SizeBytes = int n, ob_SHA256 = sha256_hex v (fst body), ob_CreatedAt = created\<rparr>)))))))))))"

definition LocalStore_Get :: "LocalStore \<Rightarrow> Object \<Rightarrow> opened prog_a" where
  "LocalStore_Get root obj = bindE (getE (\<lambda>s. localFilePath (at_authority s) (ob_URI obj))) (\<lambda>r.
     case r of None \<Rightarrow> failE (PlainError (''unsupported local artifact uri: '' @ ob_URI obj)) | Some path \<Rightarrow>
     bindE (getE (\<lambda>s. inside (at_env s) root path)) (\<lambda>ok.
     guardE (\<not> ok) (PlainError ''artifact path escapes root'') (os_Open path)))"

section \<open>The object server\<close>

record HTTPObjectStore =
  ho_BaseURL :: string
  ho_AuthToken :: string
  ho_HMACSecret :: string

definition NewHTTPObjectStore :: "(string \<Rightarrow> url option) \<Rightarrow> string \<Rightarrow> go_error + HTTPObjectStore" where
  "NewHTTPObjectStore parse baseURL =
     (let baseURL = rev (dropWhile (\<lambda>c. c = CHR ''/'') (rev (trim_space baseURL))) in
      if baseURL = [] then Inl (PlainError ''artifact base URL is required'')
      else case parse baseURL of None \<Rightarrow> Inl (PlainError ''invalid artifact base URL'')
        | Some u \<Rightarrow> if ur_Scheme u = [] \<or> ur_Host u = [] \<or> ur_Scheme u \<noteq> ''http'' \<and> ur_Scheme u \<noteq> ''https''
            then Inl (PlainError ''invalid artifact base URL'')
            else Inr \<lparr>ho_BaseURL = baseURL, ho_AuthToken = [], ho_HMACSecret = []\<rparr>)"

definition sign_request :: "HTTPObjectStore \<Rightarrow> string \<Rightarrow> string \<Rightarrow> art_request \<Rightarrow> art_request prog_a" where
  "sign_request S path digest req =
     (let req = (if ho_AuthToken S \<noteq> [] then req\<lparr>aq_Headers := aq_Headers req @ [(''Authorization'', ''Bearer '' @ ho_AuthToken S)]\<rparr> else req) in
      if ho_HMACSecret S = [] then retE req
      else bindE art_now (\<lambda>now. bindE (getE at_env) (\<lambda>v.
        let ts = show_int (unix_seconds now);
            mac = hmac_hex v (ho_HMACSecret S) (aq_Method req @ [CHR 0x0A] @ path @ [CHR 0x0A] @ ts @ [CHR 0x0A] @ digest) in
        retE (req\<lparr>aq_Headers := aq_Headers req @ [(''X-PES-Artifact-Timestamp'', ts), (''X-PES-Artifact-Signature'', ''sha256='' @ mac)]\<rparr>))))"

text \<open>\<^verbatim>\<open>client.Do(req)\<close>: the request is sent, the answer has a status and a body.\<close>

definition client_Do :: "art_request \<Rightarrow> (int \<times> string) prog_a" where
  "client_Do req = (\<lambda>s. (at_server s (at_log s) req, s\<lparr>at_log := at_log s @ [req]\<rparr>))"

definition new_request :: "string \<Rightarrow> string prog_a" where
  "new_request u = (\<lambda>s. (at_request s u, s))"

definition HTTPObjectStore_Put :: "HTTPObjectStore \<Rightarrow> ResourceScope \<Rightarrow> ObjectKind \<Rightarrow> string \<Rightarrow> reader \<Rightarrow> Object prog_a" where
  "HTTPObjectStore_Put S scope kind name body =
     (let scope = Normalize scope in
      case cleanObjectName name of Inl err \<Rightarrow> failE err | Inr cleanName \<Rightarrow>
      case snd body of Some err \<Rightarrow> failE err | None \<Rightarrow>
      bindE (getE (\<lambda>s. sha256_hex (at_env s) (fst body))) (\<lambda>digest. bindE art_now (\<lambda>now.
      let objectPath = Join [sc_TenantID scope, sc_ProjectID scope, ObjectKind_text kind, utc_stamp now @ ''-'' @ cleanName];
          uri = ho_BaseURL S @ ''/'' @ objectPath in
      bindE (new_request uri) (\<lambda>p.
      bindE (sign_request S p digest \<lparr>aq_Method = ''PUT'', aq_URL = uri,
        aq_Headers = [(''Content-Type'', ''application/octet-stream''), (''X-PES-Artifact-SHA256'', digest)], aq_Body = fst body\<rparr>) (\<lambda>req.
      bindE (client_Do req) (\<lambda>(status, _).
      guardE (status < 200 \<or> status \<ge> 300) (PlainError (''artifact put failed: status '' @ show_int status))
      (bindE art_now (\<lambda>created.
        retE \<lparr>ob_TenantID = sc_TenantID scope, ob_ProjectID = sc_ProjectID scope, ob_ID = Base_name objectPath, ob_Kind = kind,
          ob_URI = uri, ob_SizeBytes = int (length (fst body)), ob_SHA256 = digest, ob_CreatedAt = created\<rparr>))))))))"

definition HTTPObjectStore_Get :: "HTTPObjectStore \<Rightarrow> Object \<Rightarrow> string prog_a" where
  "HTTPObjectStore_Get S obj =
     guardE (\<not> has_prefix (ob_URI obj) (ho_BaseURL S @ ''/'')) (PlainError ''artifact URI is outside configured base URL'')
     (bindE (new_request (ob_URI obj)) (\<lambda>p.
      bindE (sign_request S p (ob_SHA256 obj) \<lparr>aq_Method = ''GET'', aq_URL = ob_URI obj, aq_Headers = [], aq_Body = []\<rparr>) (\<lambda>req.
      bindE (client_Do req) (\<lambda>(status, content).
      guardE (status < 200 \<or> status \<ge> 300) (PlainError (''artifact get failed: status '' @ show_int status)) (retE content)))))"

end
