(* ===== verification/ArtifactSpec.thy ===== *)
theory ArtifactSpec
  imports Artifact RuntimeSpec Sample
begin

text \<open>
  The stores of artifacts: addresses come back, what is stored comes back from the disk and from an object server
  that keeps what it accepts, and nothing outside the root or the base address is touched.
\<close>

section \<open>Addresses come back\<close>

lemma unhex_upper:
  assumes "n < 16"
  shows "is_hex_char (upper_hex n)" and "unhex (upper_hex n) = n"
proof -
  have "\<forall>m \<in> set [0..<16]. is_hex_char (upper_hex m) \<and> unhex (upper_hex m) = m" by code_simp
  with assms show "is_hex_char (upper_hex n)" "unhex (upper_hex n) = n" by auto
qed

lemma upper_hex_mod: "upper_hex n = upper_hex (n mod 16)"
  by (simp add: upper_hex_def)

lemma unescape_char: "url_unescape (url_escape_char c @ s) = map_option (Cons c) (url_unescape s)"
proof (cases "url_plain c")
  case True
  moreover have "\<not> url_plain CHR ''%''" by code_simp
  ultimately have "c \<noteq> CHR ''%''" by auto
  with True show ?thesis by (simp add: url_escape_char_def)
next
  case False
  let ?n = "of_char c :: nat"
  have n: "?n div 16 < 16" "?n mod 16 < 16" "16 * (?n div 16) + ?n mod 16 = ?n"
    using nat_of_char_less_256 [of c] by (simp_all add: less_mult_imp_div_less)
  have "char_of (16 * unhex (upper_hex (?n div 16)) + unhex (upper_hex (?n mod 16))) = c"
    unfolding unhex_upper(2) [OF n(1)] unhex_upper(2) [OF n(2)] n(3) by simp
  with False unhex_upper(1) [OF n(1)] unhex_upper(1) [OF n(2)] show ?thesis
    by (simp add: url_escape_char_def upper_hex_mod [of ?n])
qed

lemma unescape_escape: "url_unescape (concat (map url_escape_char p)) = Some p"
  by (induction p) (simp_all add: unescape_char)

lemma escape_chars: "c \<in> set (url_escape_char d) \<Longrightarrow> url_plain c \<or> c = CHR ''%''"
proof -
  have "\<forall>m \<in> set [0..<16]. url_plain (upper_hex m)" by code_simp
  then have "url_plain (upper_hex n)" for n unfolding upper_hex_mod [of n] by auto
  then show "c \<in> set (url_escape_char d) \<Longrightarrow> url_plain c \<or> c = CHR ''%''"
    by (auto simp: url_escape_char_def split: if_splits)
qed

text \<open>An absolute path survives the way through an address.\<close>

lemma localFilePath_URI:
  assumes "is_abs p"
  shows "localFilePath a (localFileURI p) = Some p"
proof -
  obtain q where p: "p = CHR ''/'' # q" using assms by (cases p) (auto simp: is_abs_def has_prefix_def)
  define e where "e = concat (map url_escape_char q)"
  have "url_plain CHR ''/''" by code_simp
  then have esc: "escaped_path p = CHR ''/'' # e" by (simp add: escaped_path_def p e_def url_escape_char_def)
  have "\<not> url_plain CHR ''#''" "\<not> url_plain CHR ''?''" by code_simp+
  then have no: "CHR ''#'' \<notin> set e" "CHR ''?'' \<notin> set e" using escape_chars by (auto simp: e_def)
  have ctl: "url_plain c \<Longrightarrow> \<not> is_control c" for c by (auto simp: url_plain_def is_control_def Let_def)
  have "\<not> is_control CHR ''%''" by code_simp
  with ctl have "\<forall>c \<in> set e. \<not> is_control c" using escape_chars by (force simp: e_def)
  moreover have "list_all (\<lambda>c. \<not> is_control c) ''file:///''" by code_simp
  ultimately have plain: "\<not> list_ex is_control (''file:///'' @ e)" by (auto simp: list_ex_iff list_all_iff)
  have u: "takeWhile (\<lambda>c. c \<noteq> CHR ''#'') (''file:///'' @ e) = ''file:///'' @ e"
    "takeWhile (\<lambda>c. c \<noteq> CHR ''?'') e = e"
    using no by (auto simp: takeWhile_eq_all_conv)
  have "to_lower ''file'' = ''file''" by code_simp
  moreover have "url_unescape (CHR ''/'' # e) = Some p" by (simp add: unescape_escape e_def p)
  ultimately have "file_url_path a (''file:///'' @ e) = Some p"
    using plain unfolding file_url_path_def Let_def u by (simp add: u has_prefix_def)
  then show ?thesis by (simp add: localFilePath_def localFileURI_def p esc [unfolded p])
qed

section \<open>Paths below the root\<close>

lemma split_on_slash: "split_on d (u @ d # v) = split_on d u @ split_on d v"
  by (induction u) (auto split: list.splits)

lemma split_joined: "cs \<noteq> [] \<Longrightarrow> \<forall>c \<in> set cs. plain_comp c \<Longrightarrow> split_on CHR ''/'' (join_with ''/'' cs) = cs"
  by (rule split_join) (simp_all add: plain_comp_def)

lemma Join_abs:
  assumes "is_abs root" and "\<forall>c \<in> set cs. plain_comp c"
  shows "Join (root # cs) = path_of True (comps root @ cs)"
proof -
  have "root \<noteq> []" using assms(1) by (auto simp: is_abs_def has_prefix_def)
  moreover have "\<forall>c \<in> set cs. c \<noteq> []" using assms(2) unfolding plain_comp_def by blast
  ultimately have ne: "filter (\<lambda>p. p \<noteq> []) (root # cs) = root # cs" by (simp add: filter_id_conv)
  let ?q = "join_with ''/'' (root # cs)"
  obtain x where "root = ''/'' @ x" using assms(1) unfolding is_abs_def has_prefix_iff by blast
  then have "is_abs ?q" by (cases cs) (simp_all add: is_abs_def has_prefix_def)
  moreover have "comps ?q = comps root @ cs"
  proof (cases cs)
    case (Cons c cs')
    then have "?q = root @ CHR ''/'' # join_with ''/'' cs" by simp
    then have "split_on CHR ''/'' ?q = split_on CHR ''/'' root @ cs"
      using split_joined [of cs] assms(2) Cons by (simp add: split_on_slash)
    with \<open>is_abs ?q\<close> assms show ?thesis by (simp add: comps_def clean_comps_def fold_push_plain)
  qed simp
  ultimately show ?thesis unfolding Join_def Let_def ne by (simp add: Clean_def)
qed

lemma resolve_path_of:
  assumes "\<forall>c \<in> set cs. plain_comp c"
  shows "resolve v (path_of True cs) = path_of True cs"
  using comps_path_of [OF assms] by (simp add: resolve_def Abs_def is_abs_path_of Clean_def)

lemma join_with_last: "join_with sep (cs @ [c]) @ z = join_with sep (cs @ [c @ z])"
  by (induction cs rule: induct_list012) simp_all

lemma path_of_last: "cs \<noteq> [] \<Longrightarrow> path_of True (cs @ [c]) = path_of True cs @ ''/'' @ c"
  unfolding path_of_def by (induction cs rule: induct_list012) simp_all

lemma Dir_name_path_of:
  assumes "\<forall>c \<in> set cs. plain_comp c" and "cs \<noteq> []" and "CHR ''/'' \<notin> set c"
  shows "Dir_name (path_of True (cs @ [c])) = path_of True cs"
proof -
  have "dropWhile (\<lambda>c. c \<noteq> CHR ''/'') (rev c @ CHR ''/'' # p) = CHR ''/'' # p" for p
    using assms(3) by (subst dropWhile_append2) auto
  then have "rev (dropWhile (\<lambda>c. c \<noteq> CHR ''/'') (rev (p @ ''/'' @ c))) = p @ ''/''" for p by simp
  moreover have "Clean (path_of True cs @ ''/'') = path_of True cs"
  proof -
    have "path_of True cs = ''/'' @ join_with ''/'' cs" by (simp add: path_of_def)
    then have "split_on CHR ''/'' (path_of True cs @ ''/'') = [] # cs @ [[]]"
      using split_joined [OF assms(2,1)] split_on_slash [of "CHR ''/''" "join_with ''/'' cs" "[]"] by simp
    moreover have "is_abs (path_of True cs @ ''/'')" by (simp add: path_of_def is_abs_def has_prefix_def)
    moreover have "push_comp True [] st = st" for st by (simp add: push_comp_def)
    ultimately show ?thesis using assms(1) by (simp add: Clean_def comps_def clean_comps_def fold_push_plain)
  qed
  ultimately show ?thesis by (simp add: Dir_name_def path_of_last [OF assms(2)])
qed

lemma inside_pathInside: "inside v root target = pathInside v root target"
  by (simp add: inside_def pathInside_def)

lemma rel_comps_append: "rel_comps bs (bs @ rs) = Some rs"
  by (induction bs) simp_all

lemma inside_path_of:
  assumes "is_abs root" and "\<forall>c \<in> set (r # rs). plain_comp c" and "\<not> has_prefix r ''..''"
  shows "inside v root (path_of True (comps root @ r # rs))"
proof -
  let ?p = "path_of True (comps root @ r # rs)"
  have plain: "\<forall>c \<in> set (comps root @ r # rs). plain_comp c" using assms(2) comps_abs_plain [OF assms(1)] by auto
  have c: "comps ?p = comps root @ r # rs" by (rule comps_path_of [OF plain])
  obtain a as where r: "r = a # as" "a \<noteq> CHR ''/''" "as = [] \<longrightarrow> a \<noteq> CHR ''.''"
    using assms(2) by (cases r) (auto simp: plain_comp_def)
  define j where "j = join_with ''/'' (r # rs)"
  have "\<exists>z. j = r @ z" unfolding j_def by (cases rs) auto
  then have "\<not> has_prefix j ''..''" "\<not> is_abs j"
    using assms(3) r by (cases as; auto simp: has_prefix_def is_abs_def)+
  moreover have "Rel (Clean root) (Clean ?p) = Some j"
    using Clean_abs [OF assms(1)] Clean_abs [OF is_abs_path_of] path_of_def [of False "r # rs"]
    by (simp add: Rel_def c rel_comps_append j_def)
  ultimately show ?thesis using assms(1) is_abs_path_of by (simp add: inside_def Abs_def)
qed

section \<open>Names of objects\<close>

lemma digit_no_slash: "m < 10 \<Longrightarrow> char_of (48 + m :: nat) \<noteq> CHR ''/''"
proof
  assume "m < 10" and "char_of (48 + m) = CHR ''/''"
  then have "of_char (char_of (48 + m)) = (of_char CHR ''/'' :: nat)" by simp
  with \<open>m < 10\<close> show False by simp
qed

lemma digits_no_slash: "CHR ''/'' \<notin> set (nat_digits f n)"
proof (induction f n rule: nat_digits.induct)
  case (2 f n)
  with digit_no_slash [of n] digit_no_slash [of "n mod 10"] show ?case by (auto dest: sym)
qed simp

lemma stamp_plain: "CHR ''/'' \<notin> set (utc_stamp t)"
proof -
  have "CHR ''/'' \<notin> set (show_int i)" for i using digits_no_slash unfolding show_int_def by (simp del: nat_digits.simps)
  then have pad: "CHR ''/'' \<notin> set (pad n i)" for n i by (simp add: pad_def Let_def)
  have "CHR ''/'' \<notin> set ''T''" "CHR ''/'' \<notin> set ''.''" "CHR ''/'' \<notin> set ''Z''" by simp_all
  with pad show ?thesis unfolding utc_stamp_def Let_def split_beta set_append Un_iff by blast
qed

lemma object_id_plain:
  assumes "cleanObjectName name = Inr n"
  shows "plain_comp (utc_stamp t @ ''-'' @ n)"
proof -
  have "CHR ''/'' \<notin> set n" using assms by (auto simp: cleanObjectName_def Let_def contains_any_iff split: if_splits)
  then have "CHR ''/'' \<notin> set (utc_stamp t @ ''-'' @ n)" using stamp_plain by simp
  moreover have "x \<noteq> [] \<and> x \<noteq> ''.'' \<and> x \<noteq> ''..''" if "CHR ''-'' \<in> set x" for x :: string
    using that by auto
  then have "utc_stamp t @ ''-'' @ n \<noteq> [] \<and> utc_stamp t @ ''-'' @ n \<noteq> ''.'' \<and> utc_stamp t @ ''-'' @ n \<noteq> ''..''" by simp
  ultimately show ?thesis unfolding plain_comp_def by blast
qed

section \<open>What is stored comes back\<close>

definition calm :: "art_state \<Rightarrow> bool" where
  "calm s \<longleftrightarrow> (\<forall>n. io_fault (at_env s) n = None)"

lemma sys_call_ok [exec_simps]: "calm s \<Longrightarrow> sys_call m s = m (s\<lparr>at_io := Suc (at_io s)\<rparr>)"
  by (simp add: calm_def sys_call_def)

lemma calm_updates [simp]:
  "calm (s\<lparr>at_io := n\<rparr>) = calm s" "calm (s\<lparr>at_now := n\<rparr>) = calm s" "calm (s\<lparr>at_dirs := ds\<rparr>) = calm s"
  "calm (s\<lparr>at_files := fs\<rparr>) = calm s"
  by (simp_all add: calm_def)

definition plain_scope :: "ResourceScope \<Rightarrow> bool" where
  "plain_scope scope \<longleftrightarrow> (let sc = Normalize scope in
     plain_comp (sc_TenantID sc) \<and> plain_comp (sc_ProjectID sc) \<and> \<not> has_prefix (sc_TenantID sc) ''..'')"

text \<open>The directory of a kind of object, and that an object \<open>i\<close> can be written there.\<close>

definition object_dir :: "string \<Rightarrow> ResourceScope \<Rightarrow> ObjectKind \<Rightarrow> string list" where
  "object_dir root scope kind = comps root @ [sc_TenantID (Normalize scope), sc_ProjectID (Normalize scope), ObjectKind_text kind]"

definition room_for :: "art_state \<Rightarrow> string list \<Rightarrow> string \<Rightarrow> bool" where
  "room_for s ds i \<longleftrightarrow> (\<forall>n \<le> length ds. at_files s (path_of True (take n ds)) = None) \<and>
     path_of True (ds @ [i]) \<notin> set (at_dirs s) \<and>
     (let tmp = path_of True (ds @ [i @ ''.tmp'']) in at_files s tmp = None \<and> tmp \<notin> set (at_dirs s))"

lemma MkdirAll_ok:
  assumes "calm s" and "\<forall>c \<in> set ds. plain_comp c" and "\<forall>n \<le> length ds. at_files s (path_of True (take n ds)) = None"
  obtains es where "os_MkdirAll (path_of True ds) s = (Inr (), s\<lparr>at_io := Suc (at_io s), at_dirs := at_dirs s @ es\<rparr>)"
    and "path_of True ds \<in> set (at_dirs s @ es)" and "\<forall>e \<in> set es. \<exists>n \<le> length ds. e = path_of True (take n ds)"
proof -
  let ?as = "ancestors (path_of True ds)"
  have as: "set ?as = {path_of True (take n ds) | n. n \<le> length ds}"
    unfolding ancestors_def comps_path_of [OF assms(2)] set_map set_upt atLeast0LessThan lessThan_Suc_atMost by blast
  then have "\<not> list_ex (\<lambda>a. at_files s a \<noteq> None) ?as" using assms(3) by (auto simp: list_ex_iff)
  then have run: "os_MkdirAll (path_of True ds) s =
      (Inr (), s\<lparr>at_io := Suc (at_io s), at_dirs := at_dirs s @ filter (\<lambda>a. a \<notin> set (at_dirs s)) ?as\<rparr>)"
    by (simp add: os_MkdirAll_def sys_call_ok [OF assms(1)] resolve_path_of [OF assms(2)] Let_def)
  have "path_of True ds \<in> set ?as" unfolding as by (intro CollectI exI [of _ "length ds"]) simp
  with run as show thesis by (intro that) auto
qed

lemma path_of_inj:
  assumes "\<forall>c \<in> set cs. plain_comp c" and "\<forall>c \<in> set ds. plain_comp c"
  shows "path_of True cs = path_of True ds \<longleftrightarrow> cs = ds"
  using comps_path_of [OF assms(1)] comps_path_of [OF assms(2)] by metis

text \<open>Where an object of plain scope and its temporary file lie.\<close>

lemma object_paths:
  fixes root i
  assumes root: "is_abs root" and scope: "plain_scope scope" "plain_comp (ObjectKind_text kind)" and i: "plain_comp i"
  defines "ds \<equiv> object_dir root scope kind"
  defines "path \<equiv> path_of True (ds @ [i])" and "tmp \<equiv> path_of True (ds @ [i @ ''.tmp''])"
  shows "\<forall>c \<in> set ds. plain_comp c"
    and "Join [root, sc_TenantID (Normalize scope), sc_ProjectID (Normalize scope), ObjectKind_text kind] = path_of True ds"
    and "Join [path_of True ds, i] = path" and "path @ ''.tmp'' = tmp" and "inside v root path"
    and "resolve v path = path" and "resolve v tmp = tmp" and "Dir_name tmp = path_of True ds" and "path \<noteq> tmp"
    and "m \<le> length ds \<Longrightarrow> path_of True (take m ds) \<noteq> path \<and> path_of True (take m ds) \<noteq> tmp"
proof -
  let ?t = "sc_TenantID (Normalize scope)" and ?p = "sc_ProjectID (Normalize scope)" and ?k = "ObjectKind_text kind"
  have tmp_plain: "plain_comp (i @ ''.tmp'')" using i by (auto simp: plain_comp_def)
  have tpk: "\<forall>c \<in> set [?t, ?p, ?k]. plain_comp c" using scope by (simp add: plain_scope_def Let_def)
  have ds: "ds = comps root @ [?t, ?p, ?k]" "ds \<noteq> []" by (simp_all add: ds_def object_dir_def)
  show *: "\<forall>c \<in> set ds. plain_comp c" using tpk comps_abs_plain [OF root] by (auto simp: ds)
  have plain: "\<forall>c \<in> set (ds @ [i]). plain_comp c" "\<forall>c \<in> set (ds @ [i @ ''.tmp'']). plain_comp c"
    using * i tmp_plain by auto
  show "Join [root, ?t, ?p, ?k] = path_of True ds" using Join_abs [OF root tpk] ds(1) by simp
  show "Join [path_of True ds, i] = path"
    using Join_abs [OF is_abs_path_of, of "[i]" ds] i comps_path_of [OF *] by (simp add: path_def)
  show "path @ ''.tmp'' = tmp" using ds(2) by (simp add: path_def tmp_def path_of_last)
  show "inside v root path"
    using inside_path_of [OF root, of ?t "[?p, ?k, i]"] tpk i scope(1) by (simp add: path_def ds(1) plain_scope_def Let_def)
  show "resolve v path = path" "resolve v tmp = tmp"
    using plain by (simp_all add: path_def tmp_def resolve_path_of)
  show "Dir_name tmp = path_of True ds"
    unfolding tmp_def using Dir_name_path_of [OF * ds(2)] tmp_plain by (simp add: plain_comp_def)
  show "path \<noteq> tmp" using path_of_inj [OF plain] by (simp add: path_def tmp_def)
  assume "m \<le> length ds"
  then have "\<forall>c \<in> set (take m ds). plain_comp c" using * by (meson in_set_takeD)
  moreover have "length (take m ds) < length (ds @ [x])" for x by simp
  ultimately show "path_of True (take m ds) \<noteq> path \<and> path_of True (take m ds) \<noteq> tmp"
    unfolding path_def tmp_def using path_of_inj plain by (metis less_irrefl)
qed


section \<open>Nothing outside the root\<close>

text \<open>\<open>sys_call\<close> fails before anything changes or runs its call.\<close>

lemma sys_call_cases:
  obtains e where "sys_call m s = (Inl e, s\<lparr>at_io := Suc (at_io s)\<rparr>)" | "sys_call m s = m (s\<lparr>at_io := Suc (at_io s)\<rparr>)"
  by (cases "io_fault (at_env s) (at_io s)") (auto simp: sys_call_def)

definition files_change :: "string set \<Rightarrow> art_state \<Rightarrow> art_state \<Rightarrow> bool" where
  "files_change Q s t \<longleftrightarrow> at_env t = at_env s \<and> (\<forall>q. q \<notin> Q \<longrightarrow> at_files t q = at_files s q)"

interpretation changing: state_order "\<lambda>s. at_env s = v" "files_change Q"
  by unfold_locales (auto simp: files_change_def)

lemma changing_calls:
  "evolves (\<lambda>s. at_env s = v) (files_change Q) (os_MkdirAll p)" "evolves (\<lambda>s. at_env s = v) (files_change Q) file_Close"
  "evolves (\<lambda>s. at_env s = v) (files_change Q) art_now"
  "resolve v p \<in> Q \<Longrightarrow> evolves (\<lambda>s. at_env s = v) (files_change Q) (os_OpenExcl p)"
  "resolve v p \<in> Q \<Longrightarrow> evolves (\<lambda>s. at_env s = v) (files_change Q) (io_Copy p body)"
  "resolve v p \<in> Q \<Longrightarrow> evolves (\<lambda>s. at_env s = v) (files_change Q) (os_Remove p)"
  "resolve v p \<in> Q \<Longrightarrow> resolve v p' \<in> Q \<Longrightarrow> evolves (\<lambda>s. at_env s = v) (files_change Q) (os_Rename p p')"
  by (auto simp: evolves_def files_change_def os_MkdirAll_def file_Close_def art_now_def os_OpenExcl_def io_Copy_def os_Remove_def
      os_Rename_def sys_call_def Let_def split: option.split)

text \<open>The files a store may touch: a path inside its root, and the temporary file beside it.\<close>

definition in_store :: "env \<Rightarrow> string \<Rightarrow> string set" where
  "in_store v root = {q. \<exists>p. below v root p \<and> (q = resolve v p \<or> q = resolve v (p @ ''.tmp''))}"

lemma guarded_changes:
  assumes "P v \<Longrightarrow> evolves (\<lambda>s. at_env s = v) (files_change Q) k"
  shows "evolves (\<lambda>s. at_env s = v) (files_change Q) (bindE (getE (\<lambda>s. P (at_env s))) (\<lambda>ok. guardE (\<not> ok) e k))"
  using assms by (auto simp: evolves_def guardE_run files_change_def)

lemma Put_changes:
  "evolves (\<lambda>s. at_env s = v) (files_change (in_store v root)) (LocalStore_Put root scope kind name body)"
proof -
  have "resolve v (p @ ''.tmp'') \<in> in_store v root \<and> resolve v p \<in> in_store v root" if "inside v root p" for p
    using that pathInside_below by (auto simp: in_store_def inside_pathInside)
  then show ?thesis
    unfolding LocalStore_Put_def Let_def
    by (intro changing.sum changing.fail changing.bind changing_calls guarded_changes)
      (auto intro!: changing.intros changing_calls)
qed

text \<open>
  C31. Whatever tenant, project, kind and name a caller gives, storing an object changes no file outside the
  root of the store; and whatever address an object carries, fetching it gives at most the bytes of a file below the root.
\<close>

theorem artifacts_confined:
  "(q \<notin> in_store (at_env s) root \<longrightarrow> at_files (snd (LocalStore_Put root scope kind name body s)) q = at_files s q) \<and>
   (fst (LocalStore_Get root obj s) = Inr (FileBytes b) \<longrightarrow>
      (\<exists>p. below (at_env s) root p \<and> at_files s (resolve (at_env s) p) = Some b))"
proof
  obtain r t where put: "LocalStore_Put root scope kind name body s = (r, t)" by (cases "LocalStore_Put root scope kind name body s")
  from evolvesD [OF Put_changes refl put] show "q \<notin> in_store (at_env s) root \<longrightarrow> at_files (snd (LocalStore_Put root scope kind name body s)) q = at_files s q"
    by (simp add: put files_change_def)
  show "fst (LocalStore_Get root obj s) = Inr (FileBytes b) \<longrightarrow> (\<exists>p. below (at_env s) root p \<and> at_files s (resolve (at_env s) p) = Some b)"
  proof
    assume "fst (LocalStore_Get root obj s) = Inr (FileBytes b)"
    then obtain p where "inside (at_env s) root p" "at_files s (resolve (at_env s) p) = Some b"
      by (auto simp: LocalStore_Get_def guardE_run os_Open_def sys_call_def Let_def split: option.splits if_splits)
    then show "\<exists>p. below (at_env s) root p \<and> at_files s (resolve (at_env s) p) = Some b"
      using pathInside_below by (auto simp: inside_pathInside)
  qed
qed

text \<open>
  A failing reader leaves no trace, whatever the root: the temporary file is removed again.
\<close>

lemma failed_reader_leaves_no_file:
  assumes "calm s"
  shows "at_files (snd (LocalStore_Put root scope kind name (b, Some err) s)) = at_files s"
proof -
  have "(at_files s)(q := Some x, q := None) = at_files s" if "at_files s q = None" for q x using that by (simp add: fun_upd_idem)
  with assms show ?thesis
    by (auto simp: LocalStore_Put_def Let_def art_now_def bindE_def tryE_run guardE_run os_MkdirAll_def os_OpenExcl_def io_Copy_def
        file_Close_def os_Remove_def sys_call_ok split: sum.split)
qed

text \<open>
  With a relative root no stored object can be fetched: the first component of its path becomes the host of
  the address.
\<close>

lemma relative_root_loses_path:
  "localFileURI ''data/artifacts/t/p/log/x'' = ''file://data/artifacts/t/p/log/x''"
  "localFilePath (\<lambda>_. True) ''file://data/artifacts/t/p/log/x'' = Some ''/artifacts/t/p/log/x''"
  by code_simp+

section \<open>The object server\<close>

text \<open>An object server that keeps what it accepts: after an accepted upload the object can be fetched.\<close>

definition keeps_objects :: "(art_request list \<Rightarrow> art_request \<Rightarrow> go_error + (int \<times> string)) \<Rightarrow> bool" where
  "keeps_objects srv \<longleftrightarrow> (\<forall>log p g n c. aq_Method p = ''PUT'' \<and> aq_Method g = ''GET'' \<and> aq_URL g = aq_URL p \<and>
     srv log p = Inr (n, c) \<and> 200 \<le> n \<and> n < 300 \<longrightarrow> (\<exists>m. srv (log @ [p]) g = Inr (m, aq_Body p) \<and> 200 \<le> m \<and> m < 300))"

lemma sign_request_run:
  "\<exists>hs k. sign_request S p d req s = (Inr (req\<lparr>aq_Headers := aq_Headers req @ hs\<rparr>), s\<lparr>at_now := k\<rparr>) \<and>
     (ho_AuthToken S \<noteq> [] \<longrightarrow> (''Authorization'', ''Bearer '' @ ho_AuthToken S) \<in> set hs)"
proof (cases "ho_HMACSecret S = []")
  case True
  then show ?thesis
    by (intro exI [of _ "if ho_AuthToken S \<noteq> [] then [(''Authorization'', ''Bearer '' @ ho_AuthToken S)] else []"] exI [of _ "at_now s"])
      (simp add: sign_request_def Let_def)
next
  case False
  then show ?thesis
    by (cases "ho_AuthToken S = []") (auto simp: sign_request_def Let_def art_now_def bindE_def)
qed

lemma http_put_sent:
  assumes put: "HTTPObjectStore_Put S scope kind name body s = (Inr obj, t)"
  obtains req p n c where "aq_Method req = ''PUT''" and "aq_URL req = ob_URI obj" and "aq_Body req = fst body"
    and "has_prefix (ob_URI obj) (ho_BaseURL S @ ''/'')" and "at_request s (ob_URI obj) = Inr p"
    and "at_server s (at_log s) req = Inr (n, c)" and "200 \<le> n" and "n < 300"
    and "at_log t = at_log s @ [req]" and "at_server t = at_server s" and "at_request t = at_request s"
proof -
  obtain cn where cn: "cleanObjectName name = Inr cn"
    using put by (cases "cleanObjectName name") (simp_all add: HTTPObjectStore_Put_def Let_def)
  have body: "snd body = None" using put by (cases "snd body") (simp_all add: HTTPObjectStore_Put_def Let_def cn)
  define digest where "digest = sha256_hex (at_env s) (fst body)"
  define opath where "opath = Join [sc_TenantID (Normalize scope), sc_ProjectID (Normalize scope), ObjectKind_text kind,
    utc_stamp (clock (at_env s) (at_now s)) @ ''-'' @ cn]"
  define uri where "uri = ho_BaseURL S @ ''/'' @ opath"
  define req0 where "req0 = \<lparr>aq_Method = ''PUT'', aq_URL = uri,
    aq_Headers = [(''Content-Type'', ''application/octet-stream''), (''X-PES-Artifact-SHA256'', digest)], aq_Body = fst body\<rparr>"
  let ?s = "s\<lparr>at_now := Suc (at_now s)\<rparr>"
  have now: "art_now s = (Inr (clock (at_env s) (at_now s)), ?s)" by (simp add: art_now_def)
  define err where "err = (\<lambda>n. PlainError (''artifact put failed: status '' @ show_int n))"
  have eq: "HTTPObjectStore_Put S scope kind name body s = bindE (new_request uri) (\<lambda>p. bindE (sign_request S p digest req0) (\<lambda>req.
      bindE (client_Do req) (\<lambda>(status, _). guardE (status < 200 \<or> status \<ge> 300) (err status) (bindE art_now (\<lambda>created.
        retE \<lparr>ob_TenantID = sc_TenantID (Normalize scope), ob_ProjectID = sc_ProjectID (Normalize scope), ob_ID = Base_name opath, ob_Kind = kind,
          ob_URI = uri, ob_SizeBytes = int (length (fst body)), ob_SHA256 = digest, ob_CreatedAt = created\<rparr>))))) ?s"
    unfolding HTTPObjectStore_Put_def Let_def cn body sum.case option.case bindE_get bindE_Inr [where m = art_now, OF now]
      opath_def uri_def digest_def req0_def err_def ..
  obtain p where p: "at_request s uri = Inr p"
    using put by (cases "at_request s uri") (simp_all add: eq new_request_def bindE_def)
  obtain hs k where sign: "sign_request S p digest req0 ?s = (Inr (req0\<lparr>aq_Headers := aq_Headers req0 @ hs\<rparr>), ?s\<lparr>at_now := k\<rparr>)"
    using sign_request_run [of S p digest req0 ?s] by blast
  let ?req = "req0\<lparr>aq_Headers := aq_Headers req0 @ hs\<rparr>"
  have rest: "(case at_server s (at_log s) ?req of Inl err \<Rightarrow> False
    | Inr (n, c) \<Rightarrow> 200 \<le> n \<and> n < 300 \<and> ob_URI obj = uri \<and> at_log t = at_log s @ [?req] \<and> at_server t = at_server s \<and> at_request t = at_request s)"
    using put sign
    by (auto simp: eq art_now_def bindE_def new_request_def p client_Do_def guardE_def split: sum.splits if_splits)
  then obtain n c where "at_server s (at_log s) ?req = Inr (n, c)" "200 \<le> n" "n < 300" "ob_URI obj = uri"
    "at_log t = at_log s @ [?req]" "at_server t = at_server s" "at_request t = at_request s"
    by (auto split: sum.splits)
  moreover have "has_prefix uri (ho_BaseURL S @ ''/'')" unfolding uri_def append_assoc [symmetric] by (rule has_prefix_append)
  ultimately show thesis using p by (intro that [of ?req p n c]) (simp_all add: req0_def)
qed

text \<open>The round trip through an object server that keeps what it accepts.\<close>

lemma http_artifact_comes_back:
  assumes keeps: "keeps_objects (at_server s)" and put: "HTTPObjectStore_Put S scope kind name body s = (Inr obj, t)"
  shows "\<exists>u. HTTPObjectStore_Get S obj t = (Inr (fst body), u)"
proof -
  obtain req p n c where req: "aq_Method req = ''PUT''" "aq_URL req = ob_URI obj" "aq_Body req = fst body"
    and pre: "has_prefix (ob_URI obj) (ho_BaseURL S @ ''/'')" "at_request s (ob_URI obj) = Inr p"
    and sent: "at_server s (at_log s) req = Inr (n, c)" "200 \<le> n" "n < 300"
    and t: "at_log t = at_log s @ [req]" "at_server t = at_server s" "at_request t = at_request s"
    by (rule http_put_sent [OF put])
  define g where "g = \<lparr>aq_Method = ''GET'', aq_URL = ob_URI obj, aq_Headers = [], aq_Body = []\<rparr>"
  obtain hs k where sign: "sign_request S p (ob_SHA256 obj) g t = (Inr (g\<lparr>aq_Headers := aq_Headers g @ hs\<rparr>), t\<lparr>at_now := k\<rparr>)"
    using sign_request_run [of S p "ob_SHA256 obj" g t] by blast
  have "aq_Method (g\<lparr>aq_Headers := aq_Headers g @ hs\<rparr>) = ''GET''" "aq_URL (g\<lparr>aq_Headers := aq_Headers g @ hs\<rparr>) = aq_URL req"
    by (simp_all add: g_def req(2))
  with keeps [unfolded keeps_objects_def] req sent obtain m
    where "at_server s (at_log s @ [req]) (g\<lparr>aq_Headers := aq_Headers g @ hs\<rparr>) = Inr (m, fst body)" "200 \<le> m" "m < 300" by metis
  with sign show ?thesis
    by (simp add: HTTPObjectStore_Get_def guardE_run pre t bindE_def new_request_def g_def [symmetric] client_Do_def)
qed

text \<open>A store only fetches what lies below its base address, so its token and signatures go nowhere else.\<close>

lemma http_get_stays:
  "at_log (snd (HTTPObjectStore_Get S obj s)) = at_log s \<or>
   (\<exists>req. at_log (snd (HTTPObjectStore_Get S obj s)) = at_log s @ [req] \<and> aq_Method req = ''GET'' \<and>
      has_prefix (aq_URL req) (ho_BaseURL S @ ''/''))"
proof (cases "has_prefix (ob_URI obj) (ho_BaseURL S @ ''/'') \<and> (\<exists>p. at_request s (ob_URI obj) = Inr p)")
  case True
  then obtain p where p: "has_prefix (ob_URI obj) (ho_BaseURL S @ ''/'')" "at_request s (ob_URI obj) = Inr p" by blast
  define g where "g = \<lparr>aq_Method = ''GET'', aq_URL = ob_URI obj, aq_Headers = [], aq_Body = []\<rparr>"
  obtain hs k where sign: "sign_request S p (ob_SHA256 obj) g s = (Inr (g\<lparr>aq_Headers := aq_Headers g @ hs\<rparr>), s\<lparr>at_now := k\<rparr>)"
    using sign_request_run [of S p "ob_SHA256 obj" g s] by blast
  have "at_log (snd (HTTPObjectStore_Get S obj s)) = at_log s @ [g\<lparr>aq_Headers := aq_Headers g @ hs\<rparr>]"
    using sign p by (simp add: HTTPObjectStore_Get_def guardE_run bindE_def new_request_def g_def [symmetric] client_Do_def split: sum.split)
  with p show ?thesis by (auto simp: g_def)
next
  case False
  then show ?thesis
    by (cases "at_request s (ob_URI obj)") (auto simp: HTTPObjectStore_Get_def guardE_run bindE_def new_request_def)
qed

section \<open>Samples\<close>

definition object_server :: "art_request list \<Rightarrow> art_request \<Rightarrow> go_error + (int \<times> string)" where
  "object_server log q = (if aq_Method q = ''PUT'' then Inr (201, [])
     else case find (\<lambda>p. aq_Method p = ''PUT'' \<and> aq_URL p = aq_URL q) (rev log) of Some p \<Rightarrow> Inr (200, aq_Body p) | None \<Rightarrow> Inr (404, []))"

definition sample_store :: art_state where
  "sample_store = \<lparr>at_env = sample_env, at_now = 0, at_io = 0, at_authority = (\<lambda>_. True), at_dirs = [], at_files = (\<lambda>_. None),
     at_request = (\<lambda>_. Inr ''/x''), at_server = object_server, at_log = []\<rparr>"

definition no_object :: Object where
  "no_object = \<lparr>ob_TenantID = [], ob_ProjectID = [], ob_ID = [], ob_Kind = ObjectBlob, ob_URI = [], ob_SizeBytes = 0, ob_SHA256 = [], ob_CreatedAt = 0\<rparr>"

lemma object_server_keeps: "keeps_objects object_server"
  by (auto simp: keeps_objects_def object_server_def)

lemma http_artifact_sample:
  assumes "HTTPObjectStore_Put S scope kind name (''hello'', None) sample_store = (Inr obj, t)"
  shows "\<exists>u. HTTPObjectStore_Get S obj t = (Inr ''hello'', u)"
  using http_artifact_comes_back [OF _ assms] object_server_keeps by (simp add: sample_store_def)


lemma split_on_last: "CHR ''/'' \<notin> set z \<Longrightarrow> split_on CHR ''/'' (u @ z) = butlast (split_on CHR ''/'' u) @ [last (split_on CHR ''/'' u) @ z]"
proof (induction u)
  case Nil
  have "split_on d v = [v]" if "d \<notin> set v" for d and v :: string using that by (induction v) auto
  with Nil show ?case by simp
next
  case (Cons c u)
  then show ?case by (cases "split_on CHR ''/'' u") auto
qed

lemma Clean_tmp: "is_abs r \<Longrightarrow> \<exists>u. Clean (r @ ''.tmp'') = u @ ''.tmp''"
proof -
  assume r: "is_abs r"
  then have "is_abs (r @ ''.tmp'')" by (auto simp: is_abs_def has_prefix_iff)
  moreover define c where "c = last (split_on CHR ''/'' r) @ ''.tmp''"
  moreover have "push_comp True (x @ ''.tmp'') st = (x @ ''.tmp'') # st" for x st
    by (cases x) (auto simp: push_comp_def)
  moreover have "CHR ''/'' \<notin> set ''.tmp''" by simp
  ultimately obtain cs where "Clean (r @ ''.tmp'') = path_of True (cs @ [c])"
    unfolding Clean_def comps_def clean_comps_def using split_on_last [of "''.tmp''" r] by simp
  moreover have "path_of True (cs @ [x @ z]) = (''/'' @ join_with ''/'' (cs @ [x])) @ z" for x z :: string
    using join_with_last [of "''/''" cs x z] by (simp add: path_of_def)
  ultimately show ?thesis unfolding c_def by (simp only:) (rule exI, rule refl)
qed

text \<open>A tenant named \<^verbatim>\<open>..\<close> cannot reach a file beside the root, nor an address one.\<close>

theorem artifacts_confined_witness:
  "at_files (snd (LocalStore_Put ''/data/store'' (mk_scope ''..'' ''x'') ObjectLog ''out.log'' (''hello'', None) sample_store)) ''/data/x/log'' = None \<and>
   (\<exists>b. fst (LocalStore_Get ''/data/store'' (no_object\<lparr>ob_URI := ''file:///data/store/a''\<rparr>) (sample_store\<lparr>at_files := [''/data/store/a'' \<mapsto> ''hello'']\<rparr>)) = Inr (FileBytes b) \<and>
     (\<exists>p. below sample_env ''/data/store'' p \<and> [''/data/store/a'' \<mapsto> ''hello''] (resolve sample_env p) = Some b))"
proof
  have "''/data/x/log'' \<notin> in_store (at_env sample_store) ''/data/store''"
  proof
    assume "''/data/x/log'' \<in> in_store (at_env sample_store) ''/data/store''"
    then obtain p where p: "below sample_env ''/data/store'' p" and q: "''/data/x/log'' = resolve sample_env p \<or> ''/data/x/log'' = resolve sample_env (p @ ''.tmp'')"
      by (auto simp: in_store_def sample_store_def)
    define tmp where "tmp = p @ ''.tmp''"
    have "\<exists>u. resolve sample_env tmp = u @ ''.tmp''"
    proof (cases "is_abs p")
      case True
      then have "is_abs tmp" by (auto simp: is_abs_def has_prefix_iff tmp_def)
      then have "resolve sample_env tmp = Clean tmp" by (simp add: resolve_def Abs_def)
      with Clean_tmp [OF True] show ?thesis by (simp only: tmp_def)
    next
      case False
      then have "\<not> is_abs tmp" "tmp \<noteq> []" by (cases p; simp add: is_abs_def has_prefix_def tmp_def)+
      then have "resolve sample_env tmp = Clean (''/srv/'' @ tmp)" by (simp add: resolve_def Abs_def Join_def sample_env_def)
      moreover have "is_abs (''/srv/'' @ p)" by (simp add: is_abs_def has_prefix_def)
      ultimately show ?thesis using Clean_tmp [of "''/srv/'' @ p"] by (simp only: tmp_def append_assoc)
    qed
    then have "''/data/x/log'' \<noteq> resolve sample_env tmp"
    proof -
      have "last (u @ ''.tmp'') \<noteq> last ''/data/x/log''" for u by simp
      then have "u @ ''.tmp'' \<noteq> ''/data/x/log''" for u by metis
      then show ?thesis using \<open>\<exists>u. resolve sample_env tmp = u @ ''.tmp''\<close> by metis
    qed
    with p q [folded tmp_def] obtain t rs where "Abs (work_dir sample_env) p = Some t" "t = ''/data/x/log''" "comps t = comps (Clean ''/data/store'') @ rs"
      by (auto simp: below_def resolve_def Abs_def is_abs_def has_prefix_def split: if_splits)
    moreover have "comps ''/data/x/log'' = [''data'', ''x'', ''log'']" "comps (Clean ''/data/store'') = [''data'', ''store'']" by code_simp+
    ultimately show False by simp
  qed
  then show "at_files (snd (LocalStore_Put ''/data/store'' (mk_scope ''..'' ''x'') ObjectLog ''out.log'' (''hello'', None) sample_store)) ''/data/x/log'' = None"
    using artifacts_confined [of "''/data/x/log''" sample_store "''/data/store''" "mk_scope ''..'' ''x''" ObjectLog "''out.log''" "(''hello'', None)"]
    by (simp add: sample_store_def)
next
  let ?s = "sample_store\<lparr>at_files := [''/data/store/a'' \<mapsto> ''hello'']\<rparr>" and ?o = "no_object\<lparr>ob_URI := ''file:///data/store/a''\<rparr>"
  have "fst (LocalStore_Get ''/data/store'' ?o ?s) = Inr (FileBytes ''hello'')" by code_simp
  with artifacts_confined [of _ ?s "''/data/store''" undefined undefined undefined undefined ?o "''hello''"]
  show "\<exists>b. fst (LocalStore_Get ''/data/store'' ?o ?s) = Inr (FileBytes b) \<and>
     (\<exists>p. below sample_env ''/data/store'' p \<and> [''/data/store/a'' \<mapsto> ''hello''] (resolve sample_env p) = Some b)"
    by (auto simp: sample_store_def)
qed

text \<open>The directory is made before the path is checked, and a tenant named \<^verbatim>\<open>..\<close> leads out of the root.\<close>

lemma directory_made_before_check:
  fixes scope kind root
  defines "dir \<equiv> Join [root, sc_TenantID (Normalize scope), sc_ProjectID (Normalize scope), ObjectKind_text kind]"
  assumes name: "cleanObjectName name = Inr n" and mk: "os_MkdirAll dir s = (Inr (), u)"
    and out: "\<not> inside (at_env u) root (Join [dir, utc_stamp (clock (at_env u) (at_now u)) @ ''-'' @ n])"
  shows "LocalStore_Put root scope kind name body s = (Inl (PlainError ''artifact path escapes root''), u\<lparr>at_now := Suc (at_now u)\<rparr>)"
proof -
  have now: "art_now u = (Inr (clock (at_env u) (at_now u)), u\<lparr>at_now := Suc (at_now u)\<rparr>)" by (simp add: art_now_def)
  have "inside (at_env (u\<lparr>at_now := Suc (at_now u)\<rparr>)) root (Join [dir, utc_stamp (clock (at_env u) (at_now u)) @ ''-'' @ n]) = False"
    using out by simp
  then show ?thesis
    unfolding LocalStore_Put_def Let_def name sum.case dir_def [symmetric] bindE_Inr [where m = "os_MkdirAll dir", OF mk]
      bindE_Inr [where m = art_now, OF now] bindE_get guardE_run by simp
qed

lemma tenant_leads_out: "Join [''/data/store'', ''..'', ''x'', ''log''] = ''/data/x/log''"
  by code_simp

end
