(* ===== verification/Identity.thy ===== *)
theory Identity
  imports Model
begin

text \<open>
  The boundary to identity providers (\<^verbatim>\<open>internal/identity/provider.go\<close>): the contract of the interface
  \<^verbatim>\<open>Provider\<close> as a locale, and the provider of fixed tokens, which meets it. No service uses the package.
\<close>

record Credential =
  cd_BearerToken :: string
  cd_SAMLAssert :: string
  cd_MTLSSubject :: string

record Principal =
  pp_TenantID :: string
  pp_ProjectID :: string
  pp_ActorID :: string
  pp_Username :: string
  pp_Role :: Role
  pp_Groups :: "string list"
  pp_Provider :: string
  pp_Subject :: string

definition Principal_CurrentUser :: "Principal \<Rightarrow> CurrentUser" where
  "Principal_CurrentUser p = \<lparr>cu_TenantID = pp_TenantID p, cu_ProjectID = pp_ProjectID p, cu_ID = pp_ActorID p,
     cu_Username = pp_Username p, cu_Role = pp_Role p\<rparr>"

type_synonym StaticProvider = "string \<rightharpoonup> Principal"

definition NewStaticProvider :: "(string \<rightharpoonup> Principal) \<Rightarrow> StaticProvider" where
  "NewStaticProvider items = items"

definition StaticProvider_Authenticate :: "StaticProvider \<Rightarrow> Credential \<Rightarrow> go_error + Principal" where
  "StaticProvider_Authenticate p cred =
     (let token = trim_space (cd_BearerToken cred) in
      if token = [] then Inl (PlainError ''missing bearer token'')
      else case p token of None \<Rightarrow> Inl (PlainError ''invalid bearer token'')
        | Some found \<Rightarrow> Inr (if pp_Provider found = [] then found\<lparr>pp_Provider := ''static''\<rparr> else found))"

section \<open>The contract\<close>

text \<open>
  A provider names itself in the principals it vouches for, only vouches for those it knows, and one that reads
  nothing but tokens tells apart no two credentials with the same token.
\<close>

locale token_provider =
  fixes authenticate :: "Credential \<Rightarrow> go_error + Principal" and known :: "CurrentUser set"
  assumes named: "authenticate c = Inr p \<Longrightarrow> pp_Provider p \<noteq> []"
    and vouched: "authenticate c = Inr p \<Longrightarrow> Principal_CurrentUser p \<in> known"
    and by_token: "trim_space (cd_BearerToken c) = trim_space (cd_BearerToken d) \<Longrightarrow> authenticate c = authenticate d"
    and anonymous: "trim_space (cd_BearerToken c) = [] \<Longrightarrow> \<exists>e. authenticate c = Inl e"
begin

lemma unknown_refused: "known = {} \<Longrightarrow> \<exists>e. authenticate c = Inl e"
  using vouched by (cases "authenticate c") auto

lemma other_credentials_ignored: "authenticate (c\<lparr>cd_SAMLAssert := a, cd_MTLSSubject := m\<rparr>) = authenticate c"
  by (rule by_token) simp

end

interpretation static_tokens: token_provider "StaticProvider_Authenticate (NewStaticProvider items)" "Principal_CurrentUser ` ran items" for items
proof
  fix c d :: Credential and p :: Principal
  assume "StaticProvider_Authenticate (NewStaticProvider items) c = Inr p"
  then show "pp_Provider p \<noteq> []" and "Principal_CurrentUser p \<in> Principal_CurrentUser ` ran items"
    by (auto simp: StaticProvider_Authenticate_def NewStaticProvider_def Let_def Principal_CurrentUser_def ran_def image_iff
        split: option.splits if_splits)
qed (simp_all add: StaticProvider_Authenticate_def Let_def)

text \<open>The tenant, project and role of a principal are those its token was registered with.\<close>

lemma static_principal:
  assumes "items (trim_space (cd_BearerToken c)) = Some p" and "trim_space (cd_BearerToken c) \<noteq> []"
  shows "\<exists>q. StaticProvider_Authenticate (NewStaticProvider items) c = Inr q \<and> Principal_CurrentUser q = Principal_CurrentUser p \<and>
    pp_Groups q = pp_Groups p \<and> pp_Subject q = pp_Subject p"
  using assms by (simp add: StaticProvider_Authenticate_def NewStaticProvider_def Let_def Principal_CurrentUser_def)

lemma no_tokens_no_principals: "\<exists>e. StaticProvider_Authenticate (NewStaticProvider (\<lambda>_. None)) c = Inl e"
  by (rule static_tokens.unknown_refused) simp

end
