(* ===== verification/MetricsPage.thy ===== *)
theory MetricsPage
  imports Server
begin

text \<open>
  The page of the metrics (\<^verbatim>\<open>observability.PrometheusText\<close>), which the routes show without a login, and how the
  path of a request gets onto it. \<open>keys\<close> are the labels counted so far, family by family.
\<close>

definition quote_char :: char where "quote_char = CHR 0x22"
definition backslash :: char where "backslash = CHR 0x5C"
definition newline :: char where "newline = CHR 0x0A"

text \<open>\<^verbatim>\<open>strings.ReplaceAll\<close> of one byte\<close>

definition replace_byte :: "char \<Rightarrow> string \<Rightarrow> string \<Rightarrow> string" where
  "replace_byte a r s = concat (map (\<lambda>c. if c = a then r else [c]) s)"

definition escapeLabel :: "string \<Rightarrow> string" where
  "escapeLabel s = replace_byte quote_char [backslash, quote_char] (replace_byte backslash [backslash, backslash] s)"

datatype family = Counter metric | Labelled "string \<Rightarrow> metric"

text \<open>\<^verbatim>\<open>expvar.Do\<close> goes by name.\<close>

definition families :: "(string \<times> family) list" where
  "families =
    [(''pes_http_requests_total'', Labelled HTTPRequestsTotal), (''pes_http_status_total'', Labelled HTTPStatusTotal),
     (''pes_idempotency_conflict_total'', Counter IdempotencyConflictTotal), (''pes_idempotency_hits_total'', Counter IdempotencyHitsTotal),
     (''pes_plugin_completed_total'', Labelled PluginCompletedTotal), (''pes_plugin_started_total'', Labelled PluginStartedTotal),
     (''pes_queue_ack_total'', Counter QueueAckTotal), (''pes_queue_full_total'', Counter QueueFullTotal),
     (''pes_queue_lease_total'', Counter QueueLeaseTotal), (''pes_queue_nack_total'', Counter QueueNackTotal),
     (''pes_queue_reclaimed_total'', Counter QueueReclaimedTotal), (''pes_sandbox_denials_total'', Counter SandboxDenialsTotal),
     (''pes_task_completed_total'', Labelled TaskCompletedTotal), (''pes_task_recovered_total'', Counter TaskRecoveredTotal),
     (''pes_task_submitted_total'', Counter TaskSubmittedTotal), (''pes_webhook_retry_error_total'', Counter WebhookRetryErrorTotal),
     (''pes_webhook_retry_total'', Counter WebhookRetryTotal), (''pes_worker_handler_error_total'', Counter WorkerHandlerErrorTotal),
     (''pes_worker_heartbeat_total'', Counter WorkerHeartbeatTotal)]"

definition label_line :: "world \<Rightarrow> string \<Rightarrow> (string \<Rightarrow> metric) \<Rightarrow> string \<Rightarrow> string" where
  "label_line w name M k = name @ ''{key='' @ [quote_char] @ escapeLabel k @ [quote_char] @ ''} '' @ show_int (metrics w (M k)) @ [newline]"

definition family_text :: "(string \<Rightarrow> string list) \<Rightarrow> world \<Rightarrow> string \<times> family \<Rightarrow> string" where
  "family_text keys w p = (case p of
     (name, Counter m) \<Rightarrow> ''# TYPE '' @ name @ '' counter'' @ [newline] @ name @ '' '' @ show_int (metrics w m) @ [newline]
   | (name, Labelled M) \<Rightarrow> concat (map (label_line w name M) (keys name)))"

definition PrometheusText :: "(string \<Rightarrow> string list) \<Rightarrow> world \<Rightarrow> string" where
  "PrometheusText keys w = concat (map (family_text keys w) families)"

section \<open>Labels are quoted\<close>

fun unescape_label :: "string \<Rightarrow> string" where
  "unescape_label [] = []"
| "unescape_label [c] = [c]"
| "unescape_label (c # d # s) = (if c = backslash then d # unescape_label s else c # unescape_label (d # s))"

definition escape_byte :: "char \<Rightarrow> string" where
  "escape_byte c = (if c = backslash \<or> c = quote_char then [backslash, c] else [c])"

lemma escapeLabel_bytes: "escapeLabel s = concat (map escape_byte s)"
  by (induction s) (simp_all add: escapeLabel_def replace_byte_def escape_byte_def backslash_def quote_char_def)

lemma unescape_byte: "unescape_label (escape_byte c @ s) = c # unescape_label s"
  by (cases s) (simp_all add: escape_byte_def)

lemma escaped_label_comes_back: "unescape_label (escapeLabel s) = s"
  unfolding escapeLabel_bytes by (induction s) (simp_all add: unescape_byte)

text \<open>Different labels stay different lines; and no label ends its quotes early.\<close>

lemma escapeLabel_inj: "escapeLabel s = escapeLabel t \<longleftrightarrow> s = t"
  by (metis escaped_label_comes_back)

text \<open>The text up to the first quote that is not escaped\<close>

fun quoted_part :: "string \<Rightarrow> string" where
  "quoted_part [] = []"
| "quoted_part [c] = (if c = quote_char then [] else [c])"
| "quoted_part (c # d # s) = (if c = quote_char then [] else if c = backslash then c # d # quoted_part s else c # quoted_part (d # s))"

lemma quoted_byte: "s \<noteq> [] \<Longrightarrow> quoted_part (escape_byte c @ s) = escape_byte c @ quoted_part s"
  by (cases s) (auto simp: escape_byte_def backslash_def quote_char_def)

lemma label_stays_quoted: "quoted_part (escapeLabel k @ quote_char # s) = escapeLabel k"
proof -
  have "quoted_part (concat (map escape_byte k) @ quote_char # s) = concat (map escape_byte k)"
  proof (induction k)
    case Nil
    then show ?case by (cases s) simp_all
  next
    case (Cons c k)
    then show ?case using quoted_byte [of "concat (map escape_byte k) @ quote_char # s" c] by simp
  qed
  then show ?thesis by (simp add: escapeLabel_bytes)
qed

section \<open>What a request leaves on the page\<close>

definition counted :: "(string \<Rightarrow> string list) \<Rightarrow> world \<Rightarrow> bool" where
  "counted keys w \<longleftrightarrow> (\<forall>name M k. (name, Labelled M) \<in> set families \<longrightarrow> metrics w (M k) \<noteq> 0 \<longrightarrow> k \<in> set (keys name))"

text \<open>
  The labels are quoted but not stripped of line breaks, and the path is whatever was asked for: after any request
  the page contains its path, so with a line break in it a caller without a login adds lines of the own.
\<close>

lemma request_counted:
  assumes "k r (c\<lparr>rc_Flusher := False\<rparr>) (w\<lparr>now_ix := Suc (now_ix w)\<rparr>) = (Some rep, u)"
  shows "metrics (snd (Logging k r c w)) (HTTPRequestsTotal (hq_Method r @ '' '' @ hq_Path r)) =
    wrap64 (metrics u (HTTPRequestsTotal (hq_Method r @ '' '' @ hq_Path r)) + 1)"
  using assms by (simp add: Logging_def IncHTTP_def Let_def bindE_def add_metric_run)

lemma label_on_page:
  assumes "counted keys t" and "metrics t (HTTPRequestsTotal k) \<noteq> 0"
  shows "\<exists>before after. PrometheusText keys t = before @ label_line t ''pes_http_requests_total'' HTTPRequestsTotal k @ after"
proof -
  define n where "n = ''pes_http_requests_total''"
  define line where "line = label_line t n HTTPRequestsTotal"
  have fams: "families = (n, Labelled HTTPRequestsTotal) # tl families" by (simp add: families_def n_def)
  then have "(n, Labelled HTTPRequestsTotal) \<in> set families" by (metis list.set_intros(1))
  with assms have "k \<in> set (keys n)" unfolding counted_def by blast
  then obtain xs ys where "keys n = xs @ k # ys" by (meson split_list)
  then have "family_text keys t (n, Labelled HTTPRequestsTotal) = concat (map line xs) @ line k @ concat (map line ys)"
    by (simp add: family_text_def line_def)
  moreover have "PrometheusText keys t = family_text keys t (n, Labelled HTTPRequestsTotal) @ concat (map (family_text keys t) (tl families))"
    unfolding PrometheusText_def by (subst fams) (simp only: list.map concat.simps)
  ultimately have "PrometheusText keys t = concat (map line xs) @ line k @ (concat (map line ys) @ concat (map (family_text keys t) (tl families)))"
    by simp
  then show ?thesis unfolding line_def n_def by blast
qed

lemma request_on_page:
  assumes "k r (c\<lparr>rc_Flusher := False\<rparr>) (w\<lparr>now_ix := Suc (now_ix w)\<rparr>) = (Some rep, u)"
    and "0 \<le> metrics u (HTTPRequestsTotal (hq_Method r @ '' '' @ hq_Path r))" "metrics u (HTTPRequestsTotal (hq_Method r @ '' '' @ hq_Path r)) < 2 ^ 63 - 1"
    and "counted keys (snd (Logging k r c w))"
  shows "\<exists>before after. PrometheusText keys (snd (Logging k r c w)) =
    before @ label_line (snd (Logging k r c w)) ''pes_http_requests_total'' HTTPRequestsTotal (hq_Method r @ '' '' @ hq_Path r) @ after"
proof -
  note count = request_counted [where k = k and r = r and c = c and w = w, OF assms(1)]
  have "metrics (snd (Logging k r c w)) (HTTPRequestsTotal (hq_Method r @ '' '' @ hq_Path r)) \<noteq> 0"
    unfolding count using assms(2,3) by (simp add: wrap64_def)
  with assms(4) show ?thesis by (rule label_on_page)
qed

lemma forged_counter:
  "label_line w ''pes_http_requests_total'' HTTPRequestsTotal (''GET /'' @ [newline] @ ''pes_queue_full_total 999'' @ [newline]) =
     ''pes_http_requests_total{key='' @ [quote_char] @ ''GET /'' @ [newline] @ ''pes_queue_full_total 999'' @ [newline] @ [quote_char] @ ''} '' @
     show_int (metrics w (HTTPRequestsTotal (''GET /'' @ [newline] @ ''pes_queue_full_total 999'' @ [newline]))) @ [newline]"
proof -
  have "escapeLabel (''GET /'' @ [newline] @ ''pes_queue_full_total 999'' @ [newline]) = ''GET /'' @ [newline] @ ''pes_queue_full_total 999'' @ [newline]"
    by code_simp
  moreover have "''pes_http_requests_total{key='' @ x = ''pes_http_requests_total'' @ ''{key='' @ x" for x by simp
  ultimately show ?thesis unfolding label_line_def by (simp only: append_assoc)
qed

end
