(* ===== verification/Scheduler.thy ===== *)
theory Scheduler
  imports Webhook
begin

text \<open>
  The life of the webhook retry scheduler (\<^verbatim>\<open>worker/webhook_retry_scheduler.go\<close>): it is started and stopped by any
  number of callers, while its loops make rounds. A loop is named by its context.
\<close>

record retry_state =
  rs_cancel :: "nat option"
  rs_next :: nat                 \<comment> \<open>the next context\<close>
  rs_done :: "nat list"          \<comment> \<open>the canceled contexts\<close>
  rs_loops :: "nat list"         \<comment> \<open>the loops that run, as the wait group counts them\<close>

definition no_loops :: retry_state where
  "no_loops = \<lparr>rs_cancel = None, rs_next = 0, rs_done = [], rs_loops = []\<rparr>"

definition retry_Start :: "retry_state \<Rightarrow> retry_state" where
  "retry_Start s = (if rs_cancel s \<noteq> None then s
     else s\<lparr>rs_cancel := Some (rs_next s), rs_next := Suc (rs_next s), rs_loops := rs_loops s @ [rs_next s]\<rparr>)"

text \<open>\<open>Stop\<close> up to its wait, which ends when no loop runs\<close>

definition retry_Stop :: "retry_state \<Rightarrow> retry_state" where
  "retry_Stop s = s\<lparr>rs_cancel := None, rs_done := (case rs_cancel s of None \<Rightarrow> rs_done s | Some i \<Rightarrow> i # rs_done s)\<rparr>"

definition retry_stopped :: "retry_state \<Rightarrow> bool" where
  "retry_stopped s \<longleftrightarrow> rs_loops s = []"

text \<open>A tick may win over a context that is done; a loop whose context is done can end.\<close>

inductive retry_step :: "WebhookService \<Rightarrow> WebhookRetryOptions \<Rightarrow> retry_state \<times> world \<Rightarrow> retry_state \<times> world \<Rightarrow> bool"
  for S opts where
  Start: "retry_step S opts (s, w) (retry_Start s, w)"
| Stop: "retry_step S opts (s, w) (retry_Stop s, w)"
| Tick: "i \<in> set (rs_loops s) \<Longrightarrow> retryOnce S opts now w = (r, t) \<Longrightarrow> retry_step S opts (s, w) (s, t)"
| Done: "i \<in> set (rs_loops s) \<Longrightarrow> i \<in> set (rs_done s) \<Longrightarrow> retry_step S opts (s, w) (s\<lparr>rs_loops := removeAll i (rs_loops s)\<rparr>, w)"

inductive_cases retry_stepE: "retry_step S opts p q"

section \<open>At most one loop goes on\<close>

definition retry_inv :: "retry_state \<Rightarrow> bool" where
  "retry_inv s \<longleftrightarrow> distinct (rs_loops s) \<and> (\<forall>i \<in> set (rs_loops s) \<union> set (rs_done s). i < rs_next s) \<and>
     set (rs_loops s) - set (rs_done s) = set_option (rs_cancel s)"

lemma retry_inv_no_loops: "retry_inv no_loops"
  by (simp add: retry_inv_def no_loops_def)

lemma retry_inv_Start: "retry_inv s \<Longrightarrow> retry_inv (retry_Start s)"
  by (auto simp: retry_inv_def retry_Start_def intro: less_SucI)

lemma retry_inv_Stop: "retry_inv s \<Longrightarrow> retry_inv (retry_Stop s)"
  by (auto simp: retry_inv_def retry_Stop_def split: option.split)

lemma retry_inv_step: "retry_step S opts p q \<Longrightarrow> retry_inv (fst p) \<Longrightarrow> retry_inv (fst q)"
proof (induction rule: retry_step.induct)
  case (Done i s w)
  then show ?case by (auto simp: retry_inv_def distinct_removeAll)
qed (simp_all add: retry_inv_Start retry_inv_Stop)

lemma retry_inv_run: "(retry_step S opts)\<^sup>*\<^sup>* p q \<Longrightarrow> retry_inv (fst p) \<Longrightarrow> retry_inv (fst q)"
  by (induction rule: rtranclp_induct) (auto intro: retry_inv_step)

text \<open>
  Whoever starts and stops it, at most one loop goes on, and exactly if the scheduler is started; the others end
  at their next choice.
\<close>

theorem one_retry_loop:
  assumes "(retry_step S opts)\<^sup>*\<^sup>* (no_loops, w) (s, t)"
  shows "length (filter (\<lambda>i. i \<notin> set (rs_done s)) (rs_loops s)) = (if rs_cancel s = None then 0 else 1)"
proof -
  have inv: "retry_inv s" using retry_inv_run [OF assms] retry_inv_no_loops by simp
  let ?live = "filter (\<lambda>i. i \<notin> set (rs_done s)) (rs_loops s)"
  have "set ?live = set_option (rs_cancel s)" "distinct ?live" using inv by (auto simp: retry_inv_def)
  then have "length ?live = card (set_option (rs_cancel s))" by (metis distinct_card)
  then show ?thesis by (cases "rs_cancel s") simp_all
qed

text \<open>When a stop has returned, nothing is retried until the next start.\<close>

lemma stopped_is_quiet:
  assumes "retry_step S opts (s, w) (s', t)" and "retry_stopped s" and "rs_cancel s = None"
  shows "t = w \<and> (s' = retry_Start s \<or> s' = s)"
  using assms by (auto simp: retry_stopped_def retry_Stop_def elim: retry_stepE)

text \<open>A stop can always come to its end: every loop that is left is canceled.\<close>

theorem stop_ends:
  assumes "retry_inv s" and "rs_cancel s = None"
  shows "\<exists>s'. (retry_step S opts)\<^sup>*\<^sup>* (s, w) (s', w) \<and> retry_stopped s'"
  using assms
proof (induction "length (rs_loops s)" arbitrary: s rule: less_induct)
  case less
  show ?case
  proof (cases "rs_loops s")
    case Nil
    then show ?thesis unfolding retry_stopped_def by blast
  next
    case (Cons i is1)
    let ?s = "s\<lparr>rs_loops := removeAll i (rs_loops s)\<rparr>"
    have i: "i \<in> set (rs_loops s)" "i \<in> set (rs_done s)" using less.prems Cons by (auto simp: retry_inv_def)
    then have "retry_step S opts (s, w) (?s, w)" by (rule Done)
    moreover from this have "retry_inv ?s" using retry_inv_step less.prems(1) by fastforce
    moreover have "length (rs_loops ?s) < length (rs_loops s)" using i(1) by (simp add: length_removeAll_less)
    ultimately obtain s' where "(retry_step S opts)\<^sup>*\<^sup>* (?s, w) (s', w)" "retry_stopped s'"
      using less.hyps [of ?s] less.prems(2) by auto
    with \<open>retry_step S opts (s, w) (?s, w)\<close> show ?thesis by (meson converse_rtranclp_into_rtranclp)
  qed
qed

end
