(* ===== verification/EndToEnd.thy ===== *)
theory EndToEnd
  imports ServerPages Witnesses
begin

text \<open>
  The parts of the local mode together: a request over HTTP becomes a task, a worker runs it, and the
  user who asked for it is shown how it ended.
\<close>

section \<open>The middleware\<close>

text \<open>
  On the way in the middleware draws identifiers, reads the clock and the users; on the way out it reads the
  clock again and counts.
\<close>

lemma through_middleware:
  assumes S: "sv_auth S = json_auth" and w: "disk_ok w"
  obtains c i n k where "rc_User c = session S r w" and "\<not> rc_Flusher c" and "id_ix w \<le> i"
    and "\<And>rep t. versionAlias (mux S) r c (w\<lparr>id_ix := i, now_ix := n, io_ix := k\<rparr>) = (Some rep, t) \<Longrightarrow>
      \<exists>m mm. NewRouter S r w = (rep, t\<lparr>now_ix := m, metrics := mm\<rparr>)"
proof -
  let ?chain = "Recovery (sv_panic S) (Logging (Auth_middleware (sv_auth S) (versionAlias (mux S))))"
  have "\<exists>c0 i. NewRouter S r w = ?chain r c0 (w\<lparr>id_ix := i\<rparr>) \<and> rc_User c0 = None \<and> id_ix w \<le> i"
  proof -
    have "\<exists>c1 i. NewRouter S r w = TraceContext_middleware (sv_rand S) ?chain r c1 (w\<lparr>id_ix := i\<rparr>) \<and> rc_User c1 = None \<and> id_ix w \<le> i"
    proof (cases "hq_Header r ''X-Request-ID'' = []")
      case True
      then show ?thesis
        by (intro exI [of _ "no_ctx\<lparr>rc_RequestID := sv_rand S 8 (id_ix w)\<rparr>"] exI [of _ "Suc (id_ix w)"])
          (simp add: NewRouter_def RequestID_middleware_def random_hex_def no_ctx_def)
    next
      case False
      then show ?thesis
        by (intro exI [of _ "no_ctx\<lparr>rc_RequestID := hq_Header r ''X-Request-ID''\<rparr>"] exI [of _ "id_ix w"])
          (simp add: NewRouter_def RequestID_middleware_def no_ctx_def)
    qed
    moreover have "\<exists>c0 i. TraceContext_middleware (sv_rand S) ?chain r c1 (w\<lparr>id_ix := i1\<rparr>) = ?chain r c0 (w\<lparr>id_ix := i\<rparr>) \<and>
        rc_User c0 = None \<and> i1 \<le> i" if "rc_User c1 = None" for c1 i1
    proof (cases "TraceIDFromHeaders r = []")
      case True
      with that show ?thesis
        by (intro exI [of _ "c1\<lparr>rc_TraceID := sv_rand S 16 i1\<rparr>"] exI [of _ "Suc i1"])
          (simp add: TraceContext_middleware_def random_hex_def Let_def)
    next
      case False
      with that show ?thesis
        by (intro exI [of _ "c1\<lparr>rc_TraceID := TraceIDFromHeaders r\<rparr>"] exI [of _ i1])
          (simp add: TraceContext_middleware_def Let_def)
    qed
    ultimately show ?thesis by (metis le_trans)
  qed
  then obtain c0 i where core: "NewRouter S r w = ?chain r c0 (w\<lparr>id_ix := i\<rparr>)" and c0: "rc_User c0 = None" and i: "id_ix w \<le> i"
    by blast
  let ?c = "c0\<lparr>rc_Flusher := False\<rparr>" and ?w = "w\<lparr>id_ix := i, now_ix := Suc (now_ix w)\<rparr>"
  have "\<exists>c k. Auth_middleware (sv_auth S) (versionAlias (mux S)) r ?c ?w =
      versionAlias (mux S) r c (?w\<lparr>io_ix := k\<rparr>) \<and> rc_User c = session S r w \<and> \<not> rc_Flusher c"
  proof (cases "bearer_token r")
    case None
    then show ?thesis using c0 by (intro exI [of _ ?c] exI [of _ "io_ix w"]) (simp add: Auth_middleware_def session_def)
  next
    case (Some token)
    let ?u = "find (\<lambda>u. us_TokenHash u = hashSecret (w_env w) token) (users w)"
    have v: "ValidateToken (sv_auth S) token x = ((case find (\<lambda>u. us_TokenHash u = hashSecret (w_env x) token) (users x) of
         None \<Rightarrow> Inl (NewAppError CodeUnauthorized ''invalid token'') | Some u \<Rightarrow> Inr (toCurrentUser u)), x\<lparr>io_ix := Suc (io_ix x)\<rparr>)"
      if "disk_ok x" for x
      using that by (simp add: S ValidateToken_json disk_ok_def)
    have d: "disk_ok ?w" using w by (simp add: disk_ok_def)
    show ?thesis
    proof (cases ?u)
      case None
      with Some c0 show ?thesis
        by (intro exI [of _ ?c] exI [of _ "Suc (io_ix w)"]) (simp add: Auth_middleware_def session_def v [OF d] v [OF w])
    next
      case (Some u)
      with \<open>bearer_token r = Some token\<close> show ?thesis
        by (intro exI [of _ "?c\<lparr>rc_User := Some (toCurrentUser u)\<rparr>"] exI [of _ "Suc (io_ix w)"])
          (simp add: Auth_middleware_def session_def v [OF d] v [OF w])
    qed
  qed
  then obtain c k where a: "Auth_middleware (sv_auth S) (versionAlias (mux S)) r ?c ?w = versionAlias (mux S) r c (?w\<lparr>io_ix := k\<rparr>)"
    and c: "rc_User c = session S r w" "\<not> rc_Flusher c" by blast
  show thesis
  proof (rule that [OF c i, where n = "Suc (now_ix w)" and k = k])
    fix rep t
    assume "versionAlias (mux S) r c (w\<lparr>id_ix := i, now_ix := Suc (now_ix w), io_ix := k\<rparr>) = (Some rep, t)"
    then have "NewRouter S r w = (rep, snd (IncHTTP (hq_Method r) (hq_Path r) (reply_status rep) (t\<lparr>now_ix := Suc (now_ix t)\<rparr>)))"
      using core a by (simp add: Recovery_def Logging_def Let_def)
    moreover have "\<exists>mm. snd (IncHTTP x y n t') = t'\<lparr>metrics := mm\<rparr>" for x y n t'
      by (simp add: IncHTTP_def add_metric_run bindE_def) blast
    ultimately show "\<exists>m mm. NewRouter S r w = (rep, t\<lparr>now_ix := m, metrics := mm\<rparr>)" by metis
  qed
qed

section \<open>The paths of a task\<close>

lemma create_path: "versionAlias (mux S) r = route_executions S r"
  if "hq_Path r = ''/api/executions''" for r
proof -
  have c: "clean_path ''/api/executions'' = ''/api/executions''" "\<not> has_prefix ''/api/executions'' ''/api/v1/''" by code_simp+
  have m: "map_of (exact_routes S) ''/api/executions'' = Some (route_executions S)"
    by (simp add: exact_routes_def RegisterHealthRoutes_def RegisterAuthRoutes_def RegisterPluginRoutes_def)
  from c show ?thesis by (simp add: versionAlias_def mux_def that m)
qed

lemma suffix_component:
  assumes "has_suffix (a @ ''/'' @ i) (b @ ''/'' @ s)" and "CHR ''/'' \<notin> set i" and "CHR ''/'' \<notin> set s"
  shows "i = s"
proof -
  let ?t = "rev (a @ ''/'' @ i)" and ?p = "rev (b @ ''/'' @ s)"
  have "?t = ?p @ drop (length ?p) ?t" using assms(1) unfolding has_suffix_def has_prefix_def by (metis append_take_drop_id)
  then obtain z where z: "rev i @ CHR ''/'' # rev a = rev s @ CHR ''/'' # rev b @ z" by force
  have "takeWhile (\<lambda>c. c \<noteq> CHR ''/'') (rev x @ CHR ''/'' # y) = rev x" if "CHR ''/'' \<notin> set x" for x y
    using that by (subst takeWhile_append2) auto
  from this [OF assms(2), of "rev a"] this [OF assms(3), of "rev b @ z"] z show ?thesis by simp
qed

lemma task_path:
  assumes i: "i = ''exec_'' @ x" and x: "CHR ''/'' \<notin> set x" and p: "hq_Path r = ''/api/executions/'' @ i"
  shows "versionAlias (mux S) r = wants ''GET'' (handle_GetExecution S i) r"
proof -
  have plain: "\<forall>c \<in> set [''api'', ''executions'', i]. plain_comp c" using i x by (simp add: plain_comp_def)
  have path: "hq_Path r = path_of True [''api'', ''executions'', i]" using p by (simp add: path_of_def)
  have "comps (hq_Path r) = [''api'', ''executions'', i]" unfolding path using plain by (rule comps_path_of)
  moreover have "is_abs (hq_Path r)" by (simp add: p is_abs_def has_prefix_def)
  ultimately have clean: "Clean (hq_Path r) = hq_Path r" by (simp add: Clean_def path)
  have last: "i \<noteq> []" "last i \<noteq> CHR ''/''" using i x last_in_set [of i] by auto
  then have slash: "\<not> has_suffix (hq_Path r) ''/''"
    by (cases i rule: rev_cases) (simp_all add: p has_suffix_def has_prefix_def)
  have cp: "clean_path (hq_Path r) = hq_Path r"
    using clean slash by (simp add: clean_path_def Let_def p has_prefix_def)
  have other: "\<not> has_suffix (hq_Path r) (b @ ''/'' @ s)" if "CHR ''/'' \<notin> set s" "i \<noteq> s" for b s
    using suffix_component [of "''/api/executions''" i b s] that i x p by auto
  have "CHR ''/'' \<notin> set i" using i x by simp
  have sfx: "\<not> has_suffix (hq_Path r) ''/cancel''" "\<not> has_suffix (hq_Path r) ''/results''" "\<not> has_suffix (hq_Path r) ''/summary''"
    "\<not> has_suffix (hq_Path r) ''/events/stream''" "\<not> has_suffix (hq_Path r) ''/events''" "\<not> has_suffix (hq_Path r) ''/attempts''"
    using other [of "''cancel''" "[]"] other [of "''results''" "[]"] other [of "''summary''" "[]"]
      other [of "''stream''" "''/events''"] other [of "''events''" "[]"] other [of "''attempts''" "[]"] i by simp_all
  have id: "ExecutionIDFromPath (hq_Path r) = i"
  proof -
    have "trim_char CHR ''/'' (hq_Path r) = join_with ''/'' [''api'', ''executions'', i]"
      using last by (cases i rule: rev_cases) (simp_all add: p trim_char_def)
    moreover have "split_on CHR ''/'' (join_with ''/'' [''api'', ''executions'', i]) = [''api'', ''executions'', i]"
      using plain by (intro split_join) (simp_all add: plain_comp_def)
    ultimately show ?thesis by (simp add: ExecutionIDFromPath_def path_part_def Let_def)
  qed
  have "map_of (exact_routes S) (hq_Path r) = None"
    by (simp add: p i exact_routes_def RegisterHealthRoutes_def RegisterAuthRoutes_def RegisterPluginRoutes_def
        RegisterAuditRoutes_def RegisterWebhookRoutes_def)
  moreover have "map_of (subtree_routes S) (hq_Path r @ ''/'') = None" by (simp add: p i subtree_routes_def)
  moreover have "find (\<lambda>(q, h). has_prefix (hq_Path r) q) (subtree_routes S) = Some (''/api/executions/'', route_execution S)"
    by (simp add: p subtree_routes_def has_prefix_def)
  moreover have "\<not> has_prefix (hq_Path r) ''/api/v1/''" by (simp add: p has_prefix_def)
  ultimately show ?thesis
    using sfx id slash by (simp add: versionAlias_def mux_def cp Let_def route_execution_def)
qed

text \<open>The path the routes see: the version is dropped.\<close>

definition api_path :: "string \<Rightarrow> string" where
  "api_path p = (if has_prefix p ''/api/v1/'' then ''/api/'' @ trim_prefix p ''/api/v1/'' else p)"

lemma versionAlias_api: "versionAlias k r = k (r\<lparr>hq_Path := api_path (hq_Path r)\<rparr>)"
  by (simp add: versionAlias_def api_path_def)

lemma versionAlias_same:
  "api_path (hq_Path r) = p \<Longrightarrow> api_path p = p \<Longrightarrow> versionAlias k r = versionAlias k (r\<lparr>hq_Path := p\<rparr>)"
  by (simp add: versionAlias_api)

section \<open>A request and its answer\<close>

lemma session_same:
  assumes "sv_auth S = json_auth" and "disk_ok w" and "w_env v = w_env w" and "users v = users w"
    and "hq_Header r' ''Authorization'' = hq_Header r ''Authorization''"
  shows "session S r' v = session S r w"
proof -
  have "bearer_token r' = bearer_token r" by (simp add: bearer_token_def assms(5))
  with assms(1-4) show ?thesis by (simp add: session_def ValidateToken_json disk_ok_def split: option.split)
qed

lemma create_task:
  assumes "sv_executions S = local_use_case X" and "rc_User c = Some u" and "hq_Method r = ''POST''" and "hq_Ctx r = CtxLive"
    and "decode_body dec_create_execution \<lparr>cr_PluginIDs = [], cr_Input = None\<rparr> r = Some req" and "ValidateCreateExecutionRequest req"
    and "CreateExecution X CtxLive u (cr_PluginIDs req) (cr_Input req) (hq_Header r ''Idempotency-Key'') (rc_RequestID c) w = (Inr e, t)"
  shows "route_executions S r c w = (Some (Created (rc_RequestID c) (PExecution e)), t)"
  using assms by (simp add: route_executions_def handle_CreateExecution_def withUser_def orFail_def local_use_case_def reply_with_def)

lemma show_task:
  assumes "sv_executions S = local_use_case X" and "rc_User c = Some u" and "hq_Method r = ''GET''"
    and "disk_ok w" and "lookup ex_ID i (executions w) = Some e" and "may_view u e"
  shows "wants ''GET'' (handle_GetExecution S i) r c w = (Some (Success (rc_RequestID c) (PExecution e)), io_skip 1 w)"
  using assms by (simp add: wants_def handle_GetExecution_def withUser_def orFail_def local_use_case_def reply_with_def GetExecution_ok)

lemma accepted_over_http:
  assumes S: "local_mode S" "sv_executions S = local_use_case X" "es_queue X"
    and w: "disk_ok w" "tasks_ok w" "inj (id_text (w_env w))" "\<forall>n. CHR ''/'' \<notin> set (id_text (w_env w) n)"
    and r: "hq_Method r = ''POST''" "api_path (hq_Path r) = ''/api/executions''" "hq_Ctx r = CtxLive" "session S r w = Some u"
    and body: "decode_body dec_create_execution \<lparr>cr_PluginIDs = [], cr_Input = None\<rparr> r = Some req" "ValidateCreateExecutionRequest req"
    and ok: "runnable_plugins w (cr_PluginIDs req)" "input_hash (w_env w) (cr_Input req) = Inr h"
      "request_match u (hq_Header r ''Idempotency-Key'') (executions w) = None" "length (queue_ch w) < queue_size w"
  obtains q e t x where "NewRouter S r w = (Created q (PExecution e), t)"
    and "executions t = executions w @ [e]" and "queue_ch t = queue_ch w @ [ex_ID e]" and "ex_Status e = ExecutionStatusQueued"
    and "ex_UserID e = cu_ID u" and "Execution_Scope e = CurrentUser_Scope u" and "ex_PluginIDs e = cr_PluginIDs req"
    and "ex_InputJSON e = cr_Input req" and "w_env t = w_env w" and "users t = users w"
    and "lookup ex_ID (ex_ID e) (executions t) = Some e" and "ex_ID e = ''exec_'' @ x" and "CHR ''/'' \<notin> set x"
proof -
  have A: "sv_auth S = json_auth" using S(1) by (simp add: local_mode_def)
  obtain c i n k where c: "rc_User c = Some u" "id_ix w \<le> i"
    and run: "\<And>rep t. versionAlias (mux S) r c (w\<lparr>id_ix := i, now_ix := n, io_ix := k\<rparr>) = (Some rep, t) \<Longrightarrow>
      \<exists>m mm. NewRouter S r w = (rep, t\<lparr>now_ix := m, metrics := mm\<rparr>)"
    using through_middleware [OF A w(1), of r] r(4) by metis
  define w1 where "w1 = w\<lparr>id_ix := i, now_ix := n, io_ix := k\<rparr>"
  have w1: "disk_ok w1" "executions w1 = executions w" "queue_ch w1 = queue_ch w" "queue_size w1 = queue_size w"
    "w_env w1 = w_env w" "users w1 = users w" "runnable_plugins w1 (cr_PluginIDs req)" "id_ix w1 = i"
    using w(1) ok(1) by (simp_all add: w1_def disk_ok_def runnable_plugins_def)
  have tok: "tasks_ok w1" using tasks_ok_cong [of w1 w] w1(2,5,8) c(2) w(2) by simp
  then have "ids_minted w1" "inj (id_text (w_env w1))" using w(3) w1(5) by (simp_all add: tasks_ok_def)
  from ids_minted_fresh [OF this] have "\<forall>f \<in> set (executions w1). ex_ID f \<noteq> ''exec_'' @ id_text (w_env w1) (id_ix w1)" by blast
  then have fresh: "fresh_id w1" unfolding fresh_id_def lookup_None by (metis (no_types, lifting) imageE)
  have "cr_PluginIDs req \<noteq> []" "cr_Input req \<noteq> None" using body(2) by (simp_all add: ValidateCreateExecutionRequest_def)
  then obtain e t1 where create: "CreateExecution X CtxLive u (cr_PluginIDs req) (cr_Input req) (hq_Header r ''Idempotency-Key'') (rc_RequestID c) w1 = (Inr e, t1)"
    and e: "executions t1 = executions w @ [e]" "queue_ch t1 = queue_ch w @ [ex_ID e]" "ex_Status e = ExecutionStatusQueued"
      "ex_UserID e = cu_ID u" "Execution_Scope e = CurrentUser_Scope u" "ex_PluginIDs e = cr_PluginIDs req" "ex_InputJSON e = cr_Input req"
    using create_accepted [OF w1(1) _ w1(7) _ _ _ fresh S(3), of "cr_Input req" h u "hq_Header r ''Idempotency-Key''" "rc_RequestID c"] ok(2-4)
    by (auto simp: w1)
  from evolvesD [OF CreateExecution_order _ create] have "task_order w1 t1" by simp
  then have t1: "ids_minted t1" "w_env t1 = w_env w" "users t1 = users w"
    using tok w1(5,6) w(3) by (simp_all add: task_order_def tasks_ok_def)
  let ?r = "r\<lparr>hq_Path := ''/api/executions''\<rparr>"
  have "api_path ''/api/executions'' = ''/api/executions''" by code_simp
  then have path: "versionAlias (mux S) r = route_executions S ?r"
    using versionAlias_same [OF r(2)] create_path [of ?r] by simp
  have "hq_Method ?r = ''POST''" "hq_Ctx ?r = CtxLive" "hq_Header ?r = hq_Header r"
    "decode_body dec_create_execution \<lparr>cr_PluginIDs = [], cr_Input = None\<rparr> ?r = Some req"
    using r(1,3) body(1) by (simp_all add: decode_body_def)
  then have "versionAlias (mux S) r c w1 = (Some (Created (rc_RequestID c) (PExecution e)), t1)"
    unfolding path using create by (intro create_task [OF S(2) c(1) _ _ _ body(2)]) simp_all
  from run [OF this [unfolded w1_def]] obtain m mm
    where done1: "NewRouter S r w = (Created (rc_RequestID c) (PExecution e), t1\<lparr>now_ix := m, metrics := mm\<rparr>)" by blast
  have "lookup ex_ID (ex_ID e) (executions w) = None" using t1(1) e(1) by (auto simp: ids_minted_def lookup_None)
  then have l: "lookup ex_ID (ex_ID e) (executions t1) = Some e" using e(1) by (simp add: lookup_append)
  obtain x where x: "ex_ID e = ''exec_'' @ x" "CHR ''/'' \<notin> set x"
    using t1(1,2) e(1) w(4) by (auto simp: ids_minted_def)
  have "lookup ex_ID (ex_ID e) (executions (t1\<lparr>now_ix := m, metrics := mm\<rparr>)) = Some e" using l by simp
  from that [OF done1 _ _ e(3-7) _ _ this x] show thesis by (simp add: e(1,2) t1)
qed

lemma shown_over_http:
  assumes S: "local_mode S" "sv_executions S = local_use_case X" and v: "disk_ok v" "session S r v = Some u"
    and r: "hq_Method r = ''GET''" "api_path (hq_Path r) = ''/api/executions/'' @ i" "i = ''exec_'' @ x" "CHR ''/'' \<notin> set x"
    and f: "lookup ex_ID i (executions v) = Some f" "may_view u f"
  shows "\<exists>q. fst (NewRouter S r v) = Success q (PExecution f)"
proof -
  have A: "sv_auth S = json_auth" using S(1) by (simp add: local_mode_def)
  obtain c i' n k where c: "rc_User c = Some u"
    and run: "\<And>rep t. versionAlias (mux S) r c (v\<lparr>id_ix := i', now_ix := n, io_ix := k\<rparr>) = (Some rep, t) \<Longrightarrow>
      \<exists>m mm. NewRouter S r v = (rep, t\<lparr>now_ix := m, metrics := mm\<rparr>)"
    using through_middleware [OF A v(1), of r] v(2) by metis
  have "disk_ok (v\<lparr>id_ix := i', now_ix := n, io_ix := k\<rparr>)" "lookup ex_ID i (executions (v\<lparr>id_ix := i', now_ix := n, io_ix := k\<rparr>)) = Some f"
    using v(1) f(1) by (simp_all add: disk_ok_def)
  moreover let ?r = "r\<lparr>hq_Path := ''/api/executions/'' @ i\<rparr>"
  have "api_path (''/api/executions/'' @ i) = ''/api/executions/'' @ i" by (simp add: api_path_def has_prefix_def)
  then have path: "versionAlias (mux S) r = wants ''GET'' (handle_GetExecution S i) ?r"
    using versionAlias_same [OF r(2)] task_path [OF r(3,4), of ?r] by simp
  moreover have m: "hq_Method ?r = ''GET''" using r(1) by simp
  ultimately have "versionAlias (mux S) r c (v\<lparr>id_ix := i', now_ix := n, io_ix := k\<rparr>) =
      (Some (Success (rc_RequestID c) (PExecution f)), io_skip 1 (v\<lparr>id_ix := i', now_ix := n, io_ix := k\<rparr>))"
    unfolding path by (intro show_task [OF S(2) c m _ _ f(2)])
  from run [OF this] show ?thesis by auto
qed

lemma task_served:
  assumes S: "local_mode S" "sv_executions S = local_use_case X" "es_queue X"
    and w: "disk_ok w" "tasks_ok w" "inj (id_text (w_env w))" "\<forall>n. CHR ''/'' \<notin> set (id_text (w_env w) n)"
    and r: "hq_Method r = ''POST''" "api_path (hq_Path r) = ''/api/executions''" "hq_Ctx r = CtxLive" "session S r w = Some u"
    and body: "decode_body dec_create_execution \<lparr>cr_PluginIDs = [], cr_Input = None\<rparr> r = Some req" "ValidateCreateExecutionRequest req"
    and ok: "runnable_plugins w (cr_PluginIDs req)" "input_hash (w_env w) (cr_Input req) = Inr h"
      "request_match u (hq_Header r ''Idempotency-Key'') (executions w) = None" "length (queue_ch w) < queue_size w"
  shows "\<exists>q e t. NewRouter S r w = (Created q (PExecution e), t) \<and>
    executions t = executions w @ [e] \<and> queue_ch t = queue_ch w @ [ex_ID e] \<and>
    ex_Status e = ExecutionStatusQueued \<and> ex_UserID e = cu_ID u \<and> ex_PluginIDs e = cr_PluginIDs req \<and> ex_InputJSON e = cr_Input req \<and>
    (\<exists>v f. HandleExecution W (ex_ID e) t = (Inr (), v) \<and> immut f = immut e \<and> IsFinalExecutionStatus (ex_Status f) \<and>
      (\<forall>r'. hq_Method r' = ''GET'' \<and> api_path (hq_Path r') = ''/api/executions/'' @ ex_ID e \<and>
          hq_Header r' ''Authorization'' = hq_Header r ''Authorization'' \<longrightarrow>
        (\<exists>q'. fst (NewRouter S r' v) = Success q' (PExecution f))))"
proof -
  have A: "sv_auth S = json_auth" using S(1) by (simp add: local_mode_def)
  obtain q e t x where t: "NewRouter S r w = (Created q (PExecution e), t)" "executions t = executions w @ [e]"
      "queue_ch t = queue_ch w @ [ex_ID e]" and e: "ex_Status e = ExecutionStatusQueued" "ex_UserID e = cu_ID u"
      "Execution_Scope e = CurrentUser_Scope u" "ex_PluginIDs e = cr_PluginIDs req" "ex_InputJSON e = cr_Input req"
    and same: "w_env t = w_env w" "users t = users w" and l: "lookup ex_ID (ex_ID e) (executions t) = Some e"
    and x: "ex_ID e = ''exec_'' @ x" "CHR ''/'' \<notin> set x"
    by (rule accepted_over_http [OF assms])
  have d: "disk_ok t" using w(1) same(1) by (simp add: disk_ok_def)
  from worker_ends [OF d l e(1), of W] obtain v f where v: "HandleExecution W (ex_ID e) t = (Inr (), v)"
    "lookup ex_ID (ex_ID e) (executions v) = Some f" "immut f = immut e" "IsFinalExecutionStatus (ex_Status f)" by blast
  from evolvesD [OF HandleExecution_order _ v(1)] have "task_order t v" by simp
  then have vw: "w_env v = w_env w" "users v = users w" using same by (simp_all add: task_order_def)
  have dv: "disk_ok v" using w(1) vw(1) by (simp add: disk_ok_def)
  have view: "may_view u f" using v(3) e(2,3) by (auto simp: may_view_def immut_def Execution_Scope_def)
  have "\<exists>q'. fst (NewRouter S r' v) = Success q' (PExecution f)"
    if r': "hq_Method r' = ''GET''" "api_path (hq_Path r') = ''/api/executions/'' @ ex_ID e"
      "hq_Header r' ''Authorization'' = hq_Header r ''Authorization''" for r'
    using shown_over_http [OF S(1,2) dv _ r'(1,2) x v(2) view] session_same [OF A w(1) vw r'(3)] r(4) by simp
  with t e v show ?thesis by (intro exI [of _ q] exI [of _ e] exI [of _ t]) auto
qed

text \<open>
  C4. A request that is in order becomes one queued task; the worker that takes it brings it to its end;
  and the user who sends the same token is then shown the task as it ended. The version may be part of the paths.
\<close>

theorem request_served:
  assumes S: "local_mode S" "sv_executions S = local_use_case X" "es_queue X"
    and w: "disk_ok w" "tasks_ok w" "inj (id_text (w_env w))" "\<forall>n. CHR ''/'' \<notin> set (id_text (w_env w) n)"
    and r: "hq_Method r = ''POST''" "api_path (hq_Path r) = ''/api/executions''" "hq_Ctx r = CtxLive" "session S r w = Some u"
    and body: "decode_body dec_create_execution \<lparr>cr_PluginIDs = [], cr_Input = None\<rparr> r = Some req" "ValidateCreateExecutionRequest req"
    and ok: "runnable_plugins w (cr_PluginIDs req)" "input_hash (w_env w) (cr_Input req) = Inr h"
      "request_match u (hq_Header r ''Idempotency-Key'') (executions w) = None" "length (queue_ch w) < queue_size w"
  shows "\<exists>q e t. NewRouter S r w = (Created q (PExecution e), t) \<and>
    executions t = executions w @ [e] \<and> queue_ch t = queue_ch w @ [ex_ID e] \<and>
    ex_Status e = ExecutionStatusQueued \<and> ex_UserID e = cu_ID u \<and> ex_PluginIDs e = cr_PluginIDs req \<and> ex_InputJSON e = cr_Input req \<and>
    (\<exists>v f. HandleExecution W (ex_ID e) t = (Inr (), v) \<and> immut f = immut e \<and> IsFinalExecutionStatus (ex_Status f) \<and>
      (\<forall>r'. hq_Method r' = ''GET'' \<and> api_path (hq_Path r') = ''/api/executions/'' @ ex_ID e \<and>
          hq_Header r' ''Authorization'' = hq_Header r ''Authorization'' \<longrightarrow>
        (\<exists>q'. fst (NewRouter S r' v) = Success q' (PExecution f))))"
  by (rule task_served [OF assms])

definition sample_submission :: http_req where
  "sample_submission = (sample_request ''POST'' ''/api/executions'' ''Bearer token'')
     \<lparr>hq_Body := Some (JObj [(''plugin_ids'', JArr [JStr ''p1'']), (''input'', JObj [])])\<rparr>"

theorem request_served_witness:
  "\<exists>q e t v f q'. NewRouter sample_server sample_submission ((sample_world [])\<lparr>users := [sample_member]\<rparr>) = (Created q (PExecution e), t) \<and>
    HandleExecution sample_worker (ex_ID e) t = (Inr (), v) \<and> IsFinalExecutionStatus (ex_Status f) \<and>
    fst (NewRouter sample_server (sample_request ''GET'' (''/api/executions/'' @ ex_ID e) ''Bearer token'') v) = Success q' (PExecution f)"
proof -
  let ?w = "(sample_world [])\<lparr>users := [sample_member]\<rparr>" and ?r = sample_submission
  have w: "disk_ok ?w" "tasks_ok ?w" "inj (id_text (w_env ?w))" "\<forall>n. CHR ''/'' \<notin> set (id_text (w_env ?w) n)"
    using sample_disk_ok [of "[]"] by (simp_all add: disk_ok_def tasks_ok_def keys_unique_def ids_minted_def) (simp add: sample_env_def)
  have "session sample_server (sample_request ''POST'' ''/api/executions'' ''Bearer token'') sample_site = Some (toCurrentUser sample_member)"
    by (rule sample_sessions)
  then have r: "hq_Method ?r = ''POST''" "api_path (hq_Path ?r) = ''/api/executions''" "hq_Ctx ?r = CtxLive"
    "session sample_server ?r ?w = Some (toCurrentUser sample_member)"
    using session_same [of sample_server sample_site ?w ?r "sample_request ''POST'' ''/api/executions'' ''Bearer token''"] w(1)
    by (simp_all add: sample_submission_def sample_request_def sample_server_def sample_site_def disk_ok_def sample_env_def api_path_def has_prefix_def)
  have body: "decode_body dec_create_execution \<lparr>cr_PluginIDs = [], cr_Input = None\<rparr> ?r = Some \<lparr>cr_PluginIDs = [''p1''], cr_Input = Some []\<rparr>"
    "ValidateCreateExecutionRequest \<lparr>cr_PluginIDs = [''p1''], cr_Input = Some []\<rparr>"
    by code_simp+
  have ok: "runnable_plugins ?w [''p1'']" "input_hash (w_env ?w) (Some []) = Inr (trim_space ''text'')"
    "request_match (toCurrentUser sample_member) (hq_Header ?r ''Idempotency-Key'') (executions ?w) = None" "length (queue_ch ?w) < queue_size ?w"
    using sample_runnable [of "[]"] by (simp_all add: runnable_plugins_def input_hash_def sample_env_def request_match_def)
  obtain X where X: "sv_executions sample_server = local_use_case X" "es_queue X" by (auto simp: sample_server_def)
  have h: "hq_Header (sample_request m p a) ''Authorization'' = hq_Header ?r ''Authorization''" if "a = ''Bearer token''" for m p a
    unfolding that by (simp add: sample_submission_def sample_request_def)
  from request_served [OF sample_local X w r body, of "trim_space ''text''" sample_worker] ok
  obtain q e t v f where 1: "NewRouter sample_server ?r ?w = (Created q (PExecution e), t)" "HandleExecution sample_worker (ex_ID e) t = (Inr (), v)"
    "IsFinalExecutionStatus (ex_Status f)" "\<forall>r'. hq_Method r' = ''GET'' \<and> api_path (hq_Path r') = ''/api/executions/'' @ ex_ID e \<and>
          hq_Header r' ''Authorization'' = hq_Header ?r ''Authorization'' \<longrightarrow> (\<exists>q'. fst (NewRouter sample_server r' v) = Success q' (PExecution f))"
    by auto
  define g where "g = sample_request ''GET'' (''/api/executions/'' @ ex_ID e) ''Bearer token''"
  have "hq_Method g = ''GET''" "api_path (hq_Path g) = ''/api/executions/'' @ ex_ID e" "hq_Header g ''Authorization'' = hq_Header ?r ''Authorization''"
    using h by (simp_all add: g_def sample_request_def api_path_def has_prefix_def)
  with 1(4) obtain q' where "fst (NewRouter sample_server g v) = Success q' (PExecution f)" by blast
  with 1(1-3) show ?thesis unfolding g_def by blast
qed

end
