(* ===== verification/Client.thy ===== *)
theory Client
  imports EndToEnd
begin

text \<open>
  The client library (\<^verbatim>\<open>sdk/go/pesclient/client.go\<close>), first over any transport, then connected to the server of this development. An answer carries the first JSON value of
  its body. The library reads only part of what the server sends.
\<close>

section \<open>The client\<close>

record api_request =
  cq_Method :: string
  cq_URL :: string
  cq_Header :: "(string \<times> string) list"
  cq_Body :: "jval option"

text \<open>
  What the client gets from outside itself. \<open>tp_return_late\<close>: Go leaves open whether \<^verbatim>\<open>return out, c.do(..., &out)\<close> reads
  \<open>out\<close> before or after the call.
\<close>

record 's transport =
  tp_Marshal :: "jval \<Rightarrow> go_error option"
  tp_NewRequest :: "string \<Rightarrow> go_error option"
  tp_Do :: "api_request \<Rightarrow> (go_error, 's, int \<times> (go_error + jval)) prog"
  tp_mismatch :: "jval \<Rightarrow> go_error"
  tp_raw :: "jval \<Rightarrow> string"
  tp_return_late :: bool

record Client =
  cl_BaseURL :: string
  cl_Token :: string

definition pes_New :: "string \<Rightarrow> string \<Rightarrow> Client" where
  "pes_New baseURL token = \<lparr>cl_BaseURL = rev (dropWhile (\<lambda>c. c = CHR ''/'') (rev baseURL)), cl_Token = token\<rparr>"

record Envelope =
  ve_Code :: string
  ve_Message :: string
  ve_Data :: "jval option"
  ve_Error :: "jval option"

definition dec_raw :: "jval option decoder" where
  "dec_raw v old = Some (Some v)"

definition dec_envelope :: "Envelope decoder" where
  "dec_envelope = dec_struct [(''code'', into ve_Code ve_Code_update dec_string), (''message'', into ve_Message ve_Message_update dec_string),
     (''data'', into ve_Data ve_Data_update dec_raw), (''error'', into ve_Error ve_Error_update dec_raw)]"

definition client_request :: "Client \<Rightarrow> string \<Rightarrow> string \<Rightarrow> string \<Rightarrow> jval option \<Rightarrow> api_request" where
  "client_request C meth path idem body = \<lparr>cq_Method = meth, cq_URL = cl_BaseURL C @ path,
     cq_Header = (if body \<noteq> None then [(''Content-Type'', ''application/json'')] else []) @
       (if cl_Token C \<noteq> [] then [(''Authorization'', ''Bearer '' @ cl_Token C)] else []) @
       (if idem \<noteq> [] then [(''Idempotency-Key'', idem)] else []), cq_Body = body\<rparr>"

definition api_error :: "'s transport \<Rightarrow> int \<Rightarrow> Envelope \<Rightarrow> go_error" where
  "api_error T status e = PlainError (''pes api error: status='' @ show_int status @ '' code='' @ ve_Code e @
     '' message='' @ ve_Message e @ '' error='' @ (case ve_Error e of None \<Rightarrow> [] | Some v \<Rightarrow> tp_raw T v))"

definition client_do :: "'s transport \<Rightarrow> Client \<Rightarrow> string \<Rightarrow> string \<Rightarrow> string \<Rightarrow> jval option \<Rightarrow> 'a decoder \<Rightarrow> 'a \<Rightarrow> (go_error, 's, 'a) prog" where
  "client_do T C meth path idem body dec out =
     (case Option.bind body (tp_Marshal T) of Some err \<Rightarrow> failE err | None \<Rightarrow>
      case tp_NewRequest T (cl_BaseURL C @ path) of Some err \<Rightarrow> failE err | None \<Rightarrow>
      bindE (tp_Do T (client_request C meth path idem body)) (\<lambda>(status, answer).
      case answer of Inl err \<Rightarrow> failE err | Inr v \<Rightarrow>
      case dec_envelope v \<lparr>ve_Code = [], ve_Message = [], ve_Data = None, ve_Error = None\<rparr> of None \<Rightarrow> failE (tp_mismatch T v) | Some env \<Rightarrow>
      if status \<ge> 400 then failE (api_error T status env)
      else case ve_Data env of None \<Rightarrow> retE out
        | Some d \<Rightarrow> (case dec d out of None \<Rightarrow> failE (tp_mismatch T d) | Some x \<Rightarrow> retE x)))"

text \<open>\<^verbatim>\<open>var out T; return out, c.do(..., &out)\<close>\<close>

definition client_call :: "'s transport \<Rightarrow> Client \<Rightarrow> string \<Rightarrow> string \<Rightarrow> string \<Rightarrow> jval option \<Rightarrow> 'a decoder \<Rightarrow> 'a \<Rightarrow> (go_error, 's, 'a) prog" where
  "client_call T C meth path idem body dec zero =
     bindE (client_do T C meth path idem body dec zero) (\<lambda>x. retE (if tp_return_late T then x else zero))"

section \<open>Its operations\<close>

record SdkPlugin =
  sp_ID :: string
  sp_Name :: string
  sp_Version :: string
  sp_Status :: string
  sp_Capabilities :: "string list"

record SdkExecution =
  sx_ID :: string
  sx_Status :: string

record SdkWebhook =
  sw_ID :: string
  sw_Name :: string
  sw_URL :: string
  sw_Events :: "string list"
  sw_Status :: string

record SdkCreateWebhookRequest =
  sc_Name :: string
  sc_URL :: string
  sc_Secret :: string
  sc_Events :: "string list"

record SdkCreateWebhookResponse =
  sr_Webhook :: SdkWebhook
  sr_Secret :: string

record SdkCreateExecutionRequest =
  se_PluginIDs :: "string list"
  se_Input :: "jobj option"

definition dec_sdk_plugin :: "SdkPlugin decoder" where
  "dec_sdk_plugin = dec_struct [(''id'', into sp_ID sp_ID_update dec_string), (''name'', into sp_Name sp_Name_update dec_string),
     (''version'', into sp_Version sp_Version_update dec_string), (''status'', into sp_Status sp_Status_update dec_string),
     (''capabilities'', into sp_Capabilities sp_Capabilities_update (dec_list [] dec_string))]"

definition dec_sdk_execution :: "SdkExecution decoder" where
  "dec_sdk_execution = dec_struct [(''id'', into sx_ID sx_ID_update dec_string), (''status'', into sx_Status sx_Status_update dec_string)]"

definition dec_sdk_webhook :: "SdkWebhook decoder" where
  "dec_sdk_webhook = dec_struct [(''id'', into sw_ID sw_ID_update dec_string), (''name'', into sw_Name sw_Name_update dec_string),
     (''url'', into sw_URL sw_URL_update dec_string), (''events'', into sw_Events sw_Events_update (dec_list [] dec_string)),
     (''status'', into sw_Status sw_Status_update dec_string)]"

definition no_plugin :: SdkPlugin where
  "no_plugin = \<lparr>sp_ID = [], sp_Name = [], sp_Version = [], sp_Status = [], sp_Capabilities = []\<rparr>"
definition no_execution :: SdkExecution where "no_execution = \<lparr>sx_ID = [], sx_Status = []\<rparr>"
definition no_webhook :: SdkWebhook where
  "no_webhook = \<lparr>sw_ID = [], sw_Name = [], sw_URL = [], sw_Events = [], sw_Status = []\<rparr>"

definition dec_created_webhook :: "SdkCreateWebhookResponse decoder" where
  "dec_created_webhook = dec_struct [(''webhook'', into sr_Webhook sr_Webhook_update dec_sdk_webhook),
     (''secret'', into sr_Secret sr_Secret_update dec_string)]"

text \<open>The JSON of the requests; a nil map is \<open>null\<close>, and \<open>omitempty\<close> leaves out what is empty.\<close>

definition json_strings :: "string list \<Rightarrow> jval" where
  "json_strings xs = JArr (map JStr xs)"

definition execution_request_json :: "SdkCreateExecutionRequest \<Rightarrow> jval" where
  "execution_request_json req = JObj [(''plugin_ids'', json_strings (se_PluginIDs req)),
     (''input'', case se_Input req of None \<Rightarrow> JNull | Some o1 \<Rightarrow> JObj o1)]"

definition webhook_request_json :: "SdkCreateWebhookRequest \<Rightarrow> jval" where
  "webhook_request_json req = JObj ([(''name'', JStr (sc_Name req)), (''url'', JStr (sc_URL req))] @
     (if sc_Secret req = [] then [] else [(''secret'', JStr (sc_Secret req))]) @
     (if sc_Events req = [] then [] else [(''events'', json_strings (sc_Events req))]))"

definition pes_Health :: "'s transport \<Rightarrow> Client \<Rightarrow> (go_error, 's, jobj option) prog" where
  "pes_Health T C = client_call T C ''GET'' ''/api/v1/health'' [] None dec_any_map None"

definition pes_ListPlugins :: "'s transport \<Rightarrow> Client \<Rightarrow> (go_error, 's, SdkPlugin list) prog" where
  "pes_ListPlugins T C = client_call T C ''GET'' ''/api/v1/plugins'' [] None (dec_list no_plugin dec_sdk_plugin) []"

definition pes_CreateExecution :: "'s transport \<Rightarrow> Client \<Rightarrow> SdkCreateExecutionRequest \<Rightarrow> string \<Rightarrow> (go_error, 's, SdkExecution) prog" where
  "pes_CreateExecution T C req idempotencyKey =
     client_call T C ''POST'' ''/api/v1/executions'' idempotencyKey (Some (execution_request_json req)) dec_sdk_execution no_execution"

definition pes_GetExecution :: "'s transport \<Rightarrow> Client \<Rightarrow> string \<Rightarrow> (go_error, 's, SdkExecution) prog" where
  "pes_GetExecution T C i = client_call T C ''GET'' (''/api/v1/executions/'' @ i) [] None dec_sdk_execution no_execution"

definition pes_ListWebhooks :: "'s transport \<Rightarrow> Client \<Rightarrow> (go_error, 's, SdkWebhook list) prog" where
  "pes_ListWebhooks T C = client_call T C ''GET'' ''/api/v1/webhooks'' [] None (dec_list no_webhook dec_sdk_webhook) []"

definition pes_CreateWebhook :: "'s transport \<Rightarrow> Client \<Rightarrow> SdkCreateWebhookRequest \<Rightarrow> (go_error, 's, SdkCreateWebhookResponse) prog" where
  "pes_CreateWebhook T C req = client_call T C ''POST'' ''/api/v1/webhooks'' [] (Some (webhook_request_json req)) dec_created_webhook
     \<lparr>sr_Webhook = no_webhook, sr_Secret = []\<rparr>"

section \<open>What the client makes of an answer\<close>

lemma client_do_refused:
  assumes "Option.bind body (tp_Marshal T) = None" and "tp_NewRequest T (cl_BaseURL C @ path) = None"
    and "tp_Do T (client_request C meth path idem body) s = (Inr (status, Inr v), t)" and "400 \<le> status"
  shows "\<exists>err. client_do T C meth path idem body dec out s = (Inl err, t)"
  using assms by (auto simp: client_do_def split: option.split)

lemma client_do_answer:
  assumes "Option.bind body (tp_Marshal T) = None" and "tp_NewRequest T (cl_BaseURL C @ path) = None"
    and "tp_Do T (client_request C meth path idem body) s = (Inr (status, Inr v), t)" and "status < 400"
    and "dec_envelope v \<lparr>ve_Code = [], ve_Message = [], ve_Data = None, ve_Error = None\<rparr> = Some e" and "ve_Data e = Some d"
    and "dec d out = Some x"
  shows "client_do T C meth path idem body dec out s = (Inr x, t)"
  using assms by (simp add: client_do_def)

section \<open>The client and the server\<close>

fun code_text :: "code \<Rightarrow> string" where
  "code_text CodeOK = ''OK''"
| "code_text CodeInvalidArgument = ''INVALID_ARGUMENT''"
| "code_text CodeUnauthorized = ''UNAUTHORIZED''"
| "code_text CodeForbidden = ''FORBIDDEN''"
| "code_text CodeNotFound = ''NOT_FOUND''"
| "code_text CodePluginNotFound = ''PLUGIN_NOT_FOUND''"
| "code_text CodePluginDisabled = ''PLUGIN_DISABLED''"
| "code_text CodePluginStateInvalid = ''PLUGIN_STATE_INVALID''"
| "code_text CodeManifestInvalid = ''MANIFEST_INVALID''"
| "code_text CodeExecutionNotFound = ''EXECUTION_NOT_FOUND''"
| "code_text CodeExecutionStateInvalid = ''EXECUTION_STATE_INVALID''"
| "code_text CodeIdempotencyConflict = ''IDEMPOTENCY_CONFLICT''"
| "code_text CodeQueueFull = ''QUEUE_FULL''"
| "code_text CodePluginRuntimeError = ''PLUGIN_RUNTIME_ERROR''"
| "code_text CodePluginTimeout = ''PLUGIN_TIMEOUT''"
| "code_text CodePluginInvalidOutput = ''PLUGIN_INVALID_OUTPUT''"
| "code_text CodeStorageError = ''STORAGE_ERROR''"
| "code_text CodeInternalError = ''INTERNAL_ERROR''"

text \<open>
  The JSON of replies that show a task, whose texts are valid UTF-8; \<open>other\<close> stands for the JSON of the other payloads.
\<close>

definition json_time :: "env \<Rightarrow> string \<Rightarrow> time option \<Rightarrow> jobj" where
  "json_time v key t = (case t of None \<Rightarrow> [] | Some at \<Rightarrow> [(key, JStr (rfc3339 v at))])"

definition json_omit :: "string \<Rightarrow> string \<Rightarrow> jobj" where
  "json_omit key s = (if s = [] then [] else [(key, JStr s)])"

definition execution_json :: "env \<Rightarrow> Execution \<Rightarrow> jval" where
  "execution_json v e = JObj ([(''tenant_id'', JStr (ex_TenantID e)), (''project_id'', JStr (ex_ProjectID e)), (''id'', JStr (ex_ID e)),
     (''user_id'', JStr (ex_UserID e)), (''plugin_ids'', json_strings (ex_PluginIDs e)),
     (''input'', case ex_InputJSON e of None \<Rightarrow> JNull | Some o1 \<Rightarrow> JObj o1),
     (''input_hash'', JStr (ex_InputHash e)), (''plugin_ids_hash'', JStr (ex_PluginIDsHash e))] @
     json_omit ''idempotency_key'' (ex_IdempotencyKey e) @ [(''status'', JStr (ExecutionStatus_text (ex_Status e)))] @
     json_omit ''error_message'' (ex_ErrorMessage e) @ [(''created_at'', JStr (rfc3339 v (ex_CreatedAt e)))] @
     json_time v ''queued_at'' (ex_QueuedAt e) @ json_time v ''started_at'' (ex_StartedAt e) @ json_time v ''finished_at'' (ex_FinishedAt e))"

definition data_json :: "(payload \<Rightarrow> jval) \<Rightarrow> env \<Rightarrow> payload \<Rightarrow> jval" where
  "data_json other v p = (case p of PExecution e \<Rightarrow> execution_json v e | _ \<Rightarrow> other p)"

definition envelope_json :: "(payload \<Rightarrow> jval) \<Rightarrow> env \<Rightarrow> envelope \<Rightarrow> jval" where
  "envelope_json other v e = JObj ([(''code'', JStr (code_text (re_Code e))), (''message'', JStr (re_Message e))] @
     (if re_Data e = PNone then [] else [(''data'', data_json other v (re_Data e))]) @
     (case re_Error e of None \<Rightarrow> [] | Some (c, m, d) \<Rightarrow>
        [(''error'', JObj ([(''code'', JStr (code_text c)), (''message'', JStr m)] @ json_omit ''detail'' d))]) @
     json_omit ''request_id'' (re_RequestID e))"

text \<open>The way of a request into the server and back; the path is taken to need no percent escapes.\<close>

definition http_of :: "string \<Rightarrow> api_request \<Rightarrow> http_req" where
  "http_of base q = \<lparr>hq_Method = cq_Method q, hq_Path = trim_prefix (cq_URL q) base,
     hq_Header = (\<lambda>k. case map_of (cq_Header q) k of Some v \<Rightarrow> v | None \<Rightarrow> []), hq_Query = (\<lambda>_. []), hq_Body = cq_Body q, hq_Ctx = CtxLive\<rparr>"

definition served_by :: "(payload \<Rightarrow> jval) \<Rightarrow> server \<Rightarrow> string \<Rightarrow> world transport" where
  "served_by other S base = \<lparr>tp_Marshal = (\<lambda>_. None), tp_NewRequest = (\<lambda>_. None),
     tp_Do = (\<lambda>q w. case NewRouter S (http_of base q) w of (rep, t) \<Rightarrow>
       (Inr (int (reply_status rep), case rep of Reply e \<Rightarrow> Inr (envelope_json other (w_env w) e) | _ \<Rightarrow> Inl (PlainError ''invalid character'')), t)),
     tp_mismatch = (\<lambda>_. PlainError ''json: cannot unmarshal''), tp_raw = (\<lambda>_. []), tp_return_late = True\<rparr>"

text \<open>Decoding an object part by part; keys that are no fields are skipped.\<close>

lemma dec_struct_append:
  "dec_struct tb (JObj (xs @ ys)) r = Option.bind (dec_struct tb (JObj xs) r) (\<lambda>r'. dec_struct tb (JObj ys) r')"
proof -
  have none: "foldl (\<lambda>q (k, x). case q of None \<Rightarrow> None
         | Some r \<Rightarrow> (case map_of tb (to_lower k) of None \<Rightarrow> Some r | Some d \<Rightarrow> d x r)) None ys = None" for ys :: jobj
    by (induction ys) auto
  show ?thesis
    by (cases "foldl (\<lambda>q (k, x). case q of None \<Rightarrow> None
         | Some r \<Rightarrow> (case map_of tb (to_lower k) of None \<Rightarrow> Some r | Some d \<Rightarrow> d x r)) (Some r) xs") (simp_all add: dec_struct_def none)
qed

lemma dec_struct_Cons:
  "dec_struct tb (JObj ((k, x) # kvs)) r = (case map_of tb (to_lower k) of None \<Rightarrow> dec_struct tb (JObj kvs) r
     | Some d \<Rightarrow> Option.bind (d x r) (dec_struct tb (JObj kvs)))"
proof -
  have "dec_struct tb (JObj [(k, x)]) r = (case map_of tb (to_lower k) of None \<Rightarrow> Some r | Some d \<Rightarrow> d x r)"
    by (simp add: dec_struct_def)
  with dec_struct_append [of tb "[(k, x)]" kvs r] show ?thesis by (simp split: option.split)
qed

lemma dec_struct_Nil: "dec_struct tb (JObj []) r = Some r"
  by (simp add: dec_struct_def)

lemma dec_struct_optional:
  "map_of tb (to_lower key) = None \<Longrightarrow> dec_struct tb (JObj (json_omit key s @ kvs)) r = dec_struct tb (JObj kvs) r"
  "map_of tb (to_lower key) = None \<Longrightarrow> dec_struct tb (JObj (json_time v key t @ kvs)) r = dec_struct tb (JObj kvs) r"
  "map_of tb (to_lower key) = None \<Longrightarrow> dec_struct tb (JObj (json_omit key s)) r = Some r"
  "map_of tb (to_lower key) = None \<Longrightarrow> dec_struct tb (JObj (json_time v key t)) r = Some r"
  by (simp_all add: json_omit_def json_time_def dec_struct_Cons dec_struct_Nil split: option.split)

lemma lower_keys:
  "to_lower ''code'' = ''code''" "to_lower ''message'' = ''message''" "to_lower ''data'' = ''data''" "to_lower ''request_id'' = ''request_id''"
  "to_lower ''id'' = ''id''" "to_lower ''status'' = ''status''" "to_lower ''tenant_id'' = ''tenant_id''" "to_lower ''project_id'' = ''project_id''"
  "to_lower ''user_id'' = ''user_id''" "to_lower ''plugin_ids'' = ''plugin_ids''" "to_lower ''input'' = ''input''"
  "to_lower ''input_hash'' = ''input_hash''" "to_lower ''plugin_ids_hash'' = ''plugin_ids_hash''"
  "to_lower ''idempotency_key'' = ''idempotency_key''" "to_lower ''error_message'' = ''error_message''" "to_lower ''created_at'' = ''created_at''"
  "to_lower ''queued_at'' = ''queued_at''" "to_lower ''started_at'' = ''started_at''" "to_lower ''finished_at'' = ''finished_at''"
  by code_simp+

lemma decode_shown_task:
  assumes "re_Data e = PExecution x" and "re_Error e = None"
  shows "\<exists>env. dec_envelope (envelope_json other v e) \<lparr>ve_Code = [], ve_Message = [], ve_Data = None, ve_Error = None\<rparr> = Some env \<and>
    ve_Data env = Some (execution_json v x)"
proof -
  define tb :: "(string \<times> Envelope decoder) list" where "tb = [(''code'', into ve_Code ve_Code_update dec_string), (''message'', into ve_Message ve_Message_update dec_string),
     (''data'', into ve_Data ve_Data_update dec_raw), (''error'', into ve_Error ve_Error_update dec_raw)]"
  have tbs: "map_of tb (to_lower ''code'') = Some (into ve_Code ve_Code_update dec_string)"
    "map_of tb (to_lower ''message'') = Some (into ve_Message ve_Message_update dec_string)"
    "map_of tb (to_lower ''data'') = Some (into ve_Data ve_Data_update dec_raw)" "map_of tb (to_lower ''request_id'') = None"
    by (simp_all add: tb_def lower_keys)
  have json: "envelope_json other v e = JObj ((''code'', JStr (code_text (re_Code e))) # (''message'', JStr (re_Message e)) #
      (''data'', execution_json v x) # json_omit ''request_id'' (re_RequestID e))"
    unfolding envelope_json_def using assms by (simp add: data_json_def)
  show ?thesis
    unfolding dec_envelope_def tb_def [symmetric] json
    by (simp add: dec_struct_Cons tbs dec_struct_optional(3) [OF tbs(4)] into_def dec_string_def dec_raw_def)
qed

lemma decode_task: "dec_sdk_execution (execution_json v e) no_execution = Some \<lparr>sx_ID = ex_ID e, sx_Status = ExecutionStatus_text (ex_Status e)\<rparr>"
proof -
  define tb :: "(string \<times> SdkExecution decoder) list" where "tb = [(''id'', into sx_ID sx_ID_update dec_string), (''status'', into sx_Status sx_Status_update dec_string)]"
  have tbs: "map_of tb (to_lower ''id'') = Some (into sx_ID sx_ID_update dec_string)"
    "map_of tb (to_lower ''status'') = Some (into sx_Status sx_Status_update dec_string)"
    and skip: "map_of tb (to_lower ''tenant_id'') = None" "map_of tb (to_lower ''project_id'') = None" "map_of tb (to_lower ''user_id'') = None"
    "map_of tb (to_lower ''plugin_ids'') = None" "map_of tb (to_lower ''input'') = None" "map_of tb (to_lower ''input_hash'') = None"
    "map_of tb (to_lower ''plugin_ids_hash'') = None" "map_of tb (to_lower ''created_at'') = None"
    and opt: "map_of tb (to_lower ''idempotency_key'') = None" "map_of tb (to_lower ''error_message'') = None"
    "map_of tb (to_lower ''queued_at'') = None" "map_of tb (to_lower ''started_at'') = None" "map_of tb (to_lower ''finished_at'') = None"
    by (simp_all add: tb_def lower_keys)
  show ?thesis
    unfolding dec_sdk_execution_def tb_def [symmetric] execution_json_def
    by (simp add: into_def dec_string_def no_execution_def dec_struct_Cons tbs skip dec_struct_optional [OF opt(1)] dec_struct_optional [OF opt(2)]
      dec_struct_optional [OF opt(3)] dec_struct_optional [OF opt(4)] dec_struct_optional [OF opt(5)])
qed

section \<open>A client follows its task\<close>

lemma http_of_client:
  "hq_Method (http_of (cl_BaseURL C) (client_request C meth path idem body)) = meth"
  "hq_Path (http_of (cl_BaseURL C) (client_request C meth path idem body)) = path"
  "hq_Body (http_of (cl_BaseURL C) (client_request C meth path idem body)) = body"
  "hq_Ctx (http_of (cl_BaseURL C) (client_request C meth path idem body)) = CtxLive"
  "hq_Header (http_of (cl_BaseURL C) (client_request C meth path idem body)) ''Idempotency-Key'' = idem"
  "hq_Header (http_of (cl_BaseURL C) (client_request C meth path idem body)) ''Authorization'' =
     (if cl_Token C = [] then [] else ''Bearer '' @ cl_Token C)"
  by (simp_all add: http_of_def client_request_def)

lemma dec_all_strings: "dec_all [] dec_string (map JStr xs) = Some xs"
  by (induction xs) (simp_all add: dec_string_def)

lemma decode_request:
  "hq_Body r = Some (execution_request_json \<lparr>se_PluginIDs = ids, se_Input = Some input\<rparr>) \<Longrightarrow>
     decode_body dec_create_execution \<lparr>cr_PluginIDs = [], cr_Input = None\<rparr> r = Some \<lparr>cr_PluginIDs = ids, cr_Input = Some input\<rparr>"
proof -
  define tb :: "(string \<times> CreateExecutionRequest decoder) list" where
    "tb = [(''plugin_ids'', into cr_PluginIDs cr_PluginIDs_update (dec_list [] dec_string)), (''input'', into cr_Input cr_Input_update dec_any_map)]"
  have tbs: "map_of tb (to_lower ''plugin_ids'') = Some (into cr_PluginIDs cr_PluginIDs_update (dec_list [] dec_string))"
    "map_of tb (to_lower ''input'') = Some (into cr_Input cr_Input_update dec_any_map)"
    by (simp_all add: tb_def lower_keys)
  assume "hq_Body r = Some (execution_request_json \<lparr>se_PluginIDs = ids, se_Input = Some input\<rparr>)"
  then show ?thesis
    unfolding decode_body_def dec_create_execution_def tb_def [symmetric] execution_request_json_def
    by (simp add: dec_struct_Cons dec_struct_Nil tbs into_def dec_list_def json_strings_def dec_all_strings dec_any_map_def merge_map_def)
qed

lemma client_shown:
  assumes "NewRouter S (http_of (cl_BaseURL C) (client_request C meth path idem body)) w = (Reply e, t)"
    and "re_Data e = PExecution x" and "re_Error e = None" and "re_Status e < 400"
  shows "client_call (served_by other S (cl_BaseURL C)) C meth path idem body dec_sdk_execution no_execution w =
    (Inr \<lparr>sx_ID = ex_ID x, sx_Status = ExecutionStatus_text (ex_Status x)\<rparr>, t)"
proof -
  let ?T = "served_by other S (cl_BaseURL C)"
  have ready: "Option.bind body (tp_Marshal ?T) = None" "tp_NewRequest ?T (cl_BaseURL C @ path) = None"
    and answer: "tp_Do ?T (client_request C meth path idem body) w = (Inr (int (re_Status e), Inr (envelope_json other (w_env w) e)), t)"
    using assms(1) by (cases body; simp add: served_by_def reply_status_def)+
  obtain env where "dec_envelope (envelope_json other (w_env w) e) \<lparr>ve_Code = [], ve_Message = [], ve_Data = None, ve_Error = None\<rparr> = Some env"
    "ve_Data env = Some (execution_json (w_env w) x)"
    using decode_shown_task [OF assms(2,3)] by blast
  with ready answer have "client_do ?T C meth path idem body dec_sdk_execution no_execution w =
      (Inr \<lparr>sx_ID = ex_ID x, sx_Status = ExecutionStatus_text (ex_Status x)\<rparr>, t)"
    by (intro client_do_answer [where status = "int (re_Status e)" and v = "envelope_json other (w_env w) e" and e = env and d = "execution_json (w_env w) x"])
      (simp_all add: assms(4) decode_task)
  then show ?thesis by (simp add: client_call_def) (simp add: served_by_def)
qed



end
