(* ===== verification/Tool.thy ===== *)
theory Tool
  imports Client Config
begin

text \<open>
  The command line tool (\<^verbatim>\<open>cmd/pesctl/main.go\<close>) and the example (\<^verbatim>\<open>examples/go-client/main.go\<close>) on top of the client
  library. \<open>addr\<close> and \<open>token\<close> are the flags if they are given, \<open>args\<close> the arguments the package \<^verbatim>\<open>flag\<close> leaves.
\<close>

definition pesctl_env :: "getenv \<Rightarrow> string \<Rightarrow> string \<Rightarrow> string" where
  "pesctl_env v key fallback = (if v key \<noteq> [] then v key else fallback)"

datatype shown = ShownHealth "jobj option" | ShownPlugins "SdkPlugin list" | ShownExecution SdkExecution | ShownWebhooks "SdkWebhook list"

datatype tool_end = ToolUsage | ToolFailed go_error | ToolPrinted shown

definition exit_code :: "tool_end \<Rightarrow> nat" where
  "exit_code r = (case r of ToolUsage \<Rightarrow> 2 | ToolFailed _ \<Rightarrow> 1 | ToolPrinted _ \<Rightarrow> 0)"

definition tool_show :: "('a \<Rightarrow> shown) \<Rightarrow> (go_error, 's, 'a) prog \<Rightarrow> 's \<Rightarrow> tool_end \<times> 's" where
  "tool_show f m s = (case m s of (Inl err, t) \<Rightarrow> (ToolFailed err, t) | (Inr x, t) \<Rightarrow> (ToolPrinted (f x), t))"

definition pesctl :: "getenv \<Rightarrow> (string \<Rightarrow> 's transport) \<Rightarrow> string option \<Rightarrow> string option \<Rightarrow> string list \<Rightarrow> 's \<Rightarrow> tool_end \<times> 's" where
  "pesctl v net addr token args s =
     (let base = (case addr of Some a \<Rightarrow> a | None \<Rightarrow> pesctl_env v ''PES_ADDR'' ''http://127.0.0.1:8080'');
          token = (case token of Some a \<Rightarrow> a | None \<Rightarrow> pesctl_env v ''PES_TOKEN'' ''demo-token'');
          C = pes_New base token; T = net (cl_BaseURL C)
      in case args of [] \<Rightarrow> (ToolUsage, s) | cmd # rest \<Rightarrow>
         if cmd = ''health'' then tool_show ShownHealth (pes_Health T C) s
         else if cmd = ''plugins'' then tool_show ShownPlugins (pes_ListPlugins T C) s
         else if cmd = ''execution'' then (case rest of [] \<Rightarrow> (ToolUsage, s) | i # _ \<Rightarrow> tool_show ShownExecution (pes_GetExecution T C i) s)
         else if cmd = ''webhooks'' then tool_show ShownWebhooks (pes_ListWebhooks T C) s
         else (ToolUsage, s))"

text \<open>The example prints one line for each plugin.\<close>

definition plugin_line :: "SdkPlugin \<Rightarrow> string" where
  "plugin_line p = sp_ID p @ '' '' @ sp_Name p @ '' '' @ sp_Status p @ [CHR 0x0A]"

definition go_client :: "(string \<Rightarrow> 's transport) \<Rightarrow> (go_error, 's, string) prog" where
  "go_client net = (let C = pes_New ''http://127.0.0.1:8080'' ''demo-token'' in
     bindE (pes_ListPlugins (net (cl_BaseURL C)) C) (\<lambda>ps. retE (concat (map plugin_line ps))))"

section \<open>The tool shows a task and nothing is asked without a command\<close>

lemma pesctl_shows_task:
  assumes "NewRouter S (http_of (cl_BaseURL (pes_New a token))
      (client_request (pes_New a token) ''GET'' (''/api/v1/executions/'' @ i) [] None)) w = (Reply e, t)"
    and "re_Data e = PExecution x" and "re_Error e = None" and "re_Status e < 400"
  shows "pesctl v (served_by other S) (Some a) (Some token) (''execution'' # i # rest) w =
    (ToolPrinted (ShownExecution \<lparr>sx_ID = ex_ID x, sx_Status = ExecutionStatus_text (ex_Status x)\<rparr>), t)"
  using client_shown [OF assms] by (simp add: pesctl_def tool_show_def pes_GetExecution_def)

lemma pesctl_usage_asks_nothing:
  "exit_code (fst (pesctl v net addr token args s)) = 2 \<Longrightarrow> snd (pesctl v net addr token args s) = s"
  by (auto simp: pesctl_def Let_def tool_show_def exit_code_def split: list.splits if_splits prod.splits sum.splits)

text \<open>A refused request ends the tool with an error and prints no task.\<close>

lemma pesctl_refused:
  assumes "tp_Do (net (cl_BaseURL (pes_New a token))) (client_request (pes_New a token) ''GET'' (''/api/v1/executions/'' @ i) [] None) s =
      (Inr (status, Inr j), t)"
    and "tp_NewRequest (net (cl_BaseURL (pes_New a token))) (cl_BaseURL (pes_New a token) @ ''/api/v1/executions/'' @ i) = None" and "400 \<le> status"
  shows "exit_code (fst (pesctl v net (Some a) (Some token) (''execution'' # i # rest) s)) = 1"
proof -
  let ?C = "pes_New a token"
  obtain err where "client_do (net (cl_BaseURL ?C)) ?C ''GET'' (''/api/v1/executions/'' @ i) [] None dec_sdk_execution no_execution s = (Inl err, t)"
    using client_do_refused [where T = "net (cl_BaseURL ?C)" and C = ?C and body = None and dec = dec_sdk_execution and out = no_execution,
      OF _ assms(2,1,3)] by (simp only: Option.bind.simps) blast
  then show ?thesis by (simp add: pesctl_def tool_show_def pes_GetExecution_def client_call_def bindE_def exit_code_def)
qed

end
