(* ===== verification/Spec2Isabelle.thy ===== *)
theory Spec2Isabelle
  imports ProductionWitnesses EncryptedSecrets StartupProduction ArtifactSpec Identity MetricsPage Scheduler Tool
begin

text \<open>
  Verification of the plugin execution system.

  The program. A server accepts requests to run plugins, keeps them as tasks, and lets workers
  run the plugins of a task as child processes or containers. In the local mode the tables are
  JSON files and the queue is a channel of the process; in the production mode the tables are those
  of Postgres, a task and its row in the queue table are written in one transaction, and any number
  of worker processes lease rows. Around this core are plugin manifests and their registry, users
  and roles, policies, secrets, events, audit entries, attempts, webhooks with retries, the
  configuration, and the HTTP interface.

  How it is modelled. The code is translated into functions on a state. The state \<open>world\<close> (\<open>World\<close>)
  has one list per table, the queue channel, the subscribers of the event bus, the counters, and logs
  of the child processes started, the requests sent and the calls of subscribers. What the
  program does not decide is the record \<open>env\<close> of functions: the clock, new identifiers, faults of the
  disk or of the database, JSON as text, SHA-256, HMAC, Ed25519, child processes, files, HTTP
  requests, random text. Time and identifiers are read at the positions \<open>now_ix\<close> and \<open>id_ix\<close>, faults at
  \<open>io_ix\<close>, so two calls can give different answers. An operation is a program \<open>world \<Rightarrow> (error + value) \<times> world\<close>,
  built from the combinators of \<open>Prelude\<close> (\<open>bindE\<close> for the early return on an error, \<open>tryE\<close> where the code looks
  at an error itself, \<open>guardE\<close> for a check); every \<open>return err\<close> of the code is an \<open>Inl\<close>. Machine integers are
  \<open>int\<close> with \<open>wrap64\<close> where they can wrap; strings are lists of bytes.

  The theories and the code (paths below \<^verbatim>\<open>internal\<close>).
    \<^item> \<open>Prelude\<close>: combinators, the locale \<open>state_order\<close> (an operation moves the state only along an order: the
      rules for all combinators are proved once), tables by key.
    \<^item> \<open>GoLib\<close>, \<open>Paths\<close>, \<open>Base64\<close>: what the code uses of \<^verbatim>\<open>strings\<close>, \<^verbatim>\<open>strconv\<close>, \<^verbatim>\<open>time\<close>, \<^verbatim>\<open>path/filepath\<close>, \<^verbatim>\<open>encoding/base64\<close>.
    \<^item> \<open>Model\<close>: \<^verbatim>\<open>model\<close>, \<^verbatim>\<open>response\<close> (errors and codes). \<open>StateMachines\<close>: \<^verbatim>\<open>service/execution_state.go\<close>, \<^verbatim>\<open>plugin_state.go\<close>.
    \<^item> \<open>World\<close>, \<open>Repos\<close>: \<^verbatim>\<open>storage/json_store.go\<close>, \<^verbatim>\<open>worker/queue.go\<close>, \<^verbatim>\<open>observability\<close>, the \<^verbatim>\<open>repository\<close> over JSON files. \<open>Repos\<close> states
      as locales what a service may assume of its store; the stores are their interpretations.
    \<^item> \<open>Observe\<close>: \<^verbatim>\<open>event/bus.go\<close>, \<^verbatim>\<open>service/execution_event.go\<close>, \<^verbatim>\<open>audit.go\<close>, \<^verbatim>\<open>execution_attempt.go\<close>.
    \<^item> \<open>Plugins\<close>, \<open>Results\<close>, \<open>Execution\<close>: \<^verbatim>\<open>service/plugin.go\<close>, \<^verbatim>\<open>result.go\<close>, \<^verbatim>\<open>execution.go\<close>, \<^verbatim>\<open>execution_idempotency.go\<close>.
    \<^item> \<open>Sanitize\<close>, \<open>Secrets\<close>, \<open>EncryptedSecrets\<close>, \<open>Runtime\<close>: \<^verbatim>\<open>security\<close>, \<^verbatim>\<open>secrets\<close>, \<^verbatim>\<open>service/runtime*.go\<close>.
    \<^item> \<open>Worker\<close>: \<^verbatim>\<open>worker/execution_worker.go\<close>. \<open>LocalSystem\<close>: the local mode as a transition system of users, plugin
      changes, any number of workers (\<^verbatim>\<open>worker_pool.go\<close>) and restarts.
    \<^item> \<open>Webhook\<close>, \<open>Scheduler\<close>: \<^verbatim>\<open>service/webhook.go\<close>, \<^verbatim>\<open>worker/webhook_retry_scheduler.go\<close>. \<open>MetricsPage\<close>: \<^verbatim>\<open>observability/metrics.go\<close>.
    \<^item> \<open>Manifest\<close>, \<open>Registry\<close>: \<^verbatim>\<open>model/manifest.go\<close>, \<^verbatim>\<open>service/manifest.go\<close>, \<^verbatim>\<open>registry.go\<close>. \<open>Config\<close>: \<^verbatim>\<open>config\<close>.
    \<^item> \<open>Access\<close>: \<^verbatim>\<open>service/auth.go\<close>, \<^verbatim>\<open>policy\<close>.
    \<^item> \<open>Postgres\<close>, \<open>Metadata\<close>, \<open>PgQueue\<close>: \<^verbatim>\<open>repository/postgres.go\<close>, \<^verbatim>\<open>storage/postgres/metadata_store.go\<close>, \<^verbatim>\<open>queue\<close>.
    \<^item> \<open>DurablePool\<close>, \<open>PoolRuns\<close>, \<open>Enterprise\<close>: \<^verbatim>\<open>worker/durable_pool.go\<close> (its rounds, and the running pool), \<^verbatim>\<open>service/enterprise_execution.go\<close>, \<^verbatim>\<open>worker/metadata_execution_handler.go\<close>.
    \<^item> \<open>Http\<close>, \<open>Server\<close>: \<^verbatim>\<open>response/response.go\<close>, \<^verbatim>\<open>validator\<close>, \<^verbatim>\<open>middleware\<close>, \<^verbatim>\<open>handler\<close>, \<^verbatim>\<open>router\<close>.
    \<^item> \<open>Startup\<close>, \<open>StartupProduction\<close>: \<^verbatim>\<open>storage/migrate.go\<close>, \<^verbatim>\<open>seed.go\<close>, \<^verbatim>\<open>storage/postgres/open.go\<close>, \<^verbatim>\<open>migrate.go\<close>, and the two starts
      of \<^verbatim>\<open>cmd/server/main.go\<close>.
    \<^item> \<open>Artifact\<close>, \<open>ArtifactSpec\<close>: \<^verbatim>\<open>artifact\<close>. \<open>Identity\<close>: \<^verbatim>\<open>identity/provider.go\<close>. No service uses these packages.
    \<^item> \<open>Client\<close>: \<^verbatim>\<open>sdk/go/pesclient/client.go\<close> (outside \<^verbatim>\<open>internal\<close>), over any transport and connected to the server.
      \<open>Tool\<close>: \<^verbatim>\<open>cmd/pesctl\<close> and \<^verbatim>\<open>examples/go-client\<close>.
    \<^item> \<open>Sample\<close>, \<open>Witnesses\<close>, \<open>ProductionWitnesses\<close>: concrete data, and the properties applied to them.

  What is shown.
    \<^item> The local core (\<open>TaskOrder\<close>, \<open>ExecutionSpec\<close>, \<open>Worker\<close>, \<open>LocalSystem\<close>): the branches of creating, canceling, running and
      recovering tasks; in every interleaving tasks follow the state machine, identifiers and
      idempotency keys stay unique, and a queued task that is run ends.
    \<^item> Running plugins (\<open>RuntimeSpec\<close>, \<open>Sanitize\<close>, \<open>Secrets\<close>): what may be started, with which limits, what is kept of
      the output, when a result counts as a success; sealed secrets come back.
    \<^item> Webhooks (\<open>WebhookSpec\<close>): who receives an event, a retry round, and the bound on the requests of a delivery; of the
      scheduler at most one loop goes on, and a stop can come to its end (\<open>Scheduler\<close>). What the metrics page shows of a request (\<open>MetricsPage\<close>).
    \<^item> Manifests and registry (\<open>Manifest\<close>, \<open>RegistrySpec\<close>): what a manifest that loads satisfies; after a reload the
      store agrees with the directory.
    \<^item> The production mode (\<open>PgQueue\<close>, \<open>DurablePool\<close>, \<open>PoolRuns\<close>, \<open>EnterpriseSpec\<close>, \<open>EnterpriseRuns\<close>): leases and attempts, transactions, that a
      leased row has one handler, that a task and its queue row live together, who sees what; and that its worker never finishes a task.
    \<^item> The HTTP interface (\<open>ServerSpec\<close>, \<open>ServerPages\<close>), for every request through the whole chain of middleware and
      routes: what anonymous requests and users without the role of an administrator cannot do,
      what a user is shown, what pages contain, and that streams never open. The parts together (\<open>EndToEnd\<close>, \<open>Client\<close>,
      \<open>Startup\<close>, \<open>StartupProduction\<close>): a request becomes a task, is run, and its end is shown, also through the client
      library; who can use a server just set up; what a start on Postgres has checked, and what it cannot do.
    \<^item> Artifacts (\<open>ArtifactSpec\<close>): what is stored comes back, and nothing outside the root is written or read.

  Fuel and bounds. Four loops carry fuel because their recursion is on a text that shrinks by
  an amount that is computed: the trimming of white space, UTF-8 decoding and base64 decoding have the length of the
  text as fuel and each round consumes at least one byte; the decimal digits of \<open>n\<close> have \<open>Suc n\<close>. Lemmas
  show that the results do not depend on it or that decoding what was encoded succeeds. All
  other loops are structural recursions over lists.

  Assumptions of the model. A call of a repository is one atomic step; a statement of SQL
  and a transaction are atomic, with the constraints of the migration under \<^verbatim>\<open>migrations\<close>. Several processes
  interleave between the steps. Faults of the disk or the database are arbitrary where a
  property does not say otherwise. Cryptographic functions are arbitrary, except for the documented laws
  of AES-GCM in \<open>aead_laws\<close>.

  Not modelled. The HTTP handlers over the Postgres repositories, listening, signals, the log and its
  format, the heartbeat of a worker as a timer (its statement is), the waiting loop of an event stream, the
  page of the variables of \<^verbatim>\<open>expvar\<close>, listings of directories by the file server, percent-escaped paths, the
  Windows lookup of commands, panics other than those of slices, nil values, channels and the cipher named in the
  lemmas, the rounding of times by Postgres, the lost updates between
  repository calls that take no lock, symbolic links in the artifact directory, and headers of the object server's answers. These
  either only perform input and output, or connect parts that are modelled.
\<close>

end
